(* ===== verification/Prelude.thy ===== *)
theory Prelude
  imports Main "HOL-Library.Word"
begin

text \<open>
  What every other theory shares: names for the machine integers and byte strings of the
  Rust sources, the collections of rewrite rules the component proofs use, and generic
  lemmas on lists, options and maps.
\<close>

section \<open>Types of the Rust sources\<close>

type_synonym u8 = "8 word"
type_synonym u16 = "16 word"
type_synonym u32 = "32 word"
type_synonym u64 = "64 word"

text \<open>\<open>Vec<u8>\<close>, \<open>&[u8]\<close> and \<open>Bytes\<close> are byte lists; a \<open>String\<close> is the list of its UTF-8
  code units, one \<open>char\<close> per byte.\<close>

type_synonym bytes = "u8 list"

section \<open>Collections of rules\<close>

named_theorems task_simps \<open>how the task combinators run\<close>
named_theorems codec_simps \<open>decoding what was encoded\<close>
named_theorems room_simps \<open>lookups in the signaling server's maps\<close>

section \<open>Lists\<close>

lemma take_append_exact: "length xs = n \<Longrightarrow> take n (xs @ ys) = xs"
  by simp

lemma drop_append_exact: "length xs = n \<Longrightarrow> drop n (xs @ ys) = ys"
  by simp

lemma concat_snoc [simp]: "concat (xss @ [xs]) = concat xss @ xs"
  by simp

lemma list_all_butlast_snoc: "list_all P (butlast (xs @ [x])) = list_all P xs"
  by simp

lemma in_set_map_of: "map_of kvs k = Some v \<Longrightarrow> (k, v) \<in> set kvs"
  by (rule map_of_SomeD)

section \<open>Maps\<close>

lemma card_dom_upd_le: "finite (dom m) \<Longrightarrow> card (dom (m(k \<mapsto> v))) \<le> Suc (card (dom m))"
  by (simp add: card_insert_if)

lemma card_dom_upd_new:
  "finite (dom m) \<Longrightarrow> k \<notin> dom m \<Longrightarrow> card (dom (m(k \<mapsto> v))) = Suc (card (dom m))"
  by simp

lemma dom_None_upd: "dom (m(k := None)) = dom m - {k}"
  by auto

end
