(* ===== verification/Text.thy ===== *)
theory Text
  imports Prelude
begin

text \<open>
  What the Rust sources use of the standard library on text: \<open>str::split\<close>, \<open>str::trim\<close>,
  \<open>str::contains\<close>, number formatting, \<open>String::from_utf8\<close>, and \<open>std::net::IpAddr\<close> with its
  \<open>Display\<close> and \<open>FromStr\<close>.
\<close>

section \<open>Splitting and joining\<close>

text \<open>\<open>s.split(c)\<close>: always at least one part.\<close>

fun split_on :: "char \<Rightarrow> string \<Rightarrow> string list" where
  "split_on c [] = [[]]"
| "split_on c (x # xs) =
     (if x = c then [] # split_on c xs
      else (case split_on c xs of [] \<Rightarrow> [[x]] | y # ys \<Rightarrow> (x # y) # ys))"

fun join_on :: "char \<Rightarrow> string list \<Rightarrow> string" where
  "join_on c [] = []"
| "join_on c [x] = x"
| "join_on c (x # y # ys) = x @ c # join_on c (y # ys)"

lemma split_on_nonempty [simp]: "split_on c s \<noteq> []"
  by (induction s) (auto split: list.splits)

lemma split_on_none: "c \<notin> set s \<Longrightarrow> split_on c s = [s]"
  by (induction s) auto

lemma split_on_append: "c \<notin> set s \<Longrightarrow> split_on c (s @ c # t) = s # split_on c t"
  by (induction s) (auto split: list.splits)

lemma split_on_append_sep: "split_on c (s @ c # t) = split_on c s @ split_on c t"
  by (induction s) (auto split: list.splits)

lemma split_on_last_append: "c \<notin> set v \<Longrightarrow> last (split_on c (s @ c # v)) = v"
  by (simp add: split_on_append_sep split_on_none)

lemma split_on_join_on:
  "parts \<noteq> [] \<Longrightarrow> (\<And>p. p \<in> set parts \<Longrightarrow> c \<notin> set p) \<Longrightarrow> split_on c (join_on c parts) = parts"
  by (induction c parts rule: join_on.induct) (auto simp: split_on_none split_on_append)

lemma join_on_split_on [simp]: "join_on c (split_on c s) = s"
proof (induction s)
  case (Cons x xs)
  then show ?case
    by (cases "split_on c xs"; cases "tl (split_on c xs)") auto
qed simp

lemma split_on_parts: "p \<in> set (split_on c s) \<Longrightarrow> c \<notin> set p"
proof (induction s arbitrary: p)
  case (Cons x xs)
  then show ?case
    by (cases "split_on c xs") (auto split: if_splits)
qed simp

text \<open>\<open>s.trim()\<close> on a header value, which holds ASCII only.\<close>

definition is_whitespace :: "char \<Rightarrow> bool" where
  "is_whitespace c \<longleftrightarrow> c \<in> set [CHR 0x20, CHR 0x09, CHR 0x0A, CHR 0x0B, CHR 0x0C, CHR 0x0D]"

definition trim :: "string \<Rightarrow> string" where
  "trim s = rev (dropWhile is_whitespace (rev (dropWhile is_whitespace s)))"

section \<open>Numbers\<close>

definition digit :: "nat \<Rightarrow> char" where
  "digit d = (if d < 10 then char_of (48 + d) else char_of (87 + d))"

definition undigit :: "char \<Rightarrow> nat" where
  "undigit c = (let n = of_char c in if n < (58::nat) then n - 48 else n - 87)"

function radix :: "nat \<Rightarrow> nat \<Rightarrow> string" where
  "radix b n = (if b < 2 \<or> n < b then [digit n] else radix b (n div b) @ [digit (n mod b)])"
  by pat_completeness auto
termination
  by (relation "measure snd") auto

declare radix.simps [simp del]

definition unradix :: "nat \<Rightarrow> string \<Rightarrow> nat" where
  "unradix b s = foldl (\<lambda>n c. n * b + undigit c) 0 s"

text \<open>\<open>{}\<close> and \<open>{:x}\<close> of an unsigned integer.\<close>

definition fmt_dec :: "nat \<Rightarrow> string" where
  "fmt_dec n = radix 10 n"

definition fmt_hex :: "nat \<Rightarrow> string" where
  "fmt_hex n = radix 16 n"

lemma of_char_digit: "d < 36 \<Longrightarrow> of_char (digit d) = (if d < 10 then 48 + d else 87 + d)"
  by (simp add: digit_def of_char_of)

lemma undigit_digit [simp]: "d < 36 \<Longrightarrow> undigit (digit d) = d"
  by (auto simp: undigit_def Let_def of_char_digit)

lemma unradix_snoc: "unradix b (s @ [c]) = unradix b s * b + undigit c"
  by (simp add: unradix_def)

lemma unradix_radix:
  assumes "2 \<le> b" and "b \<le> 36"
  shows "unradix b (radix b n) = n"
  using assms
proof (induction b n rule: radix.induct)
  case (1 b n)
  show ?case
  proof (cases "n < b")
    case True
    with "1.prems" show ?thesis
      by (simp add: radix.simps [of b n]) (simp add: unradix_def)
  next
    case False
    with "1.prems" have "n mod b < b" by simp
    with "1.prems" have "n mod b < 36" by linarith
    moreover have "unradix b (radix b (n div b)) = n div b"
      using "1.IH" "1.prems" False by simp
    ultimately show ?thesis
      using False "1.prems" by (subst radix.simps) (simp add: unradix_snoc)
  qed
qed

lemma radix_inj: "2 \<le> b \<Longrightarrow> b \<le> 36 \<Longrightarrow> radix b m = radix b n \<longleftrightarrow> m = n"
  by (metis unradix_radix)

lemma fmt_dec_inj [simp]: "fmt_dec m = fmt_dec n \<longleftrightarrow> m = n"
  by (simp add: fmt_dec_def radix_inj)

lemma fmt_hex_inj [simp]: "fmt_hex m = fmt_hex n \<longleftrightarrow> m = n"
  by (simp add: fmt_hex_def radix_inj)

lemma radix_chars:
  "2 \<le> b \<Longrightarrow> c \<in> set (radix b n) \<Longrightarrow> \<exists>d < b. c = digit d"
proof (induction b n rule: radix.induct)
  case (1 b n)
  show ?case
  proof (cases "n < b")
    case True
    with "1.prems" show ?thesis by (auto simp: radix.simps [of b n])
  next
    case False
    with "1.prems" have "c \<in> set (radix b (n div b)) \<or> c = digit (n mod b)"
      by (auto simp: radix.simps [of b n])
    then show ?thesis
    proof
      assume "c \<in> set (radix b (n div b))"
      with "1.IH" "1.prems"(1) False show ?thesis by simp
    next
      assume "c = digit (n mod b)"
      moreover from "1.prems" have "n mod b < b" by simp
      ultimately show ?thesis by blast
    qed
  qed
qed

lemma digit_neq:
  assumes "d < 36"
  shows "digit d \<noteq> CHR ''.''" and "digit d \<noteq> CHR '':''" and "digit d \<noteq> CHR ''-''"
  using of_char_digit [OF assms] by (auto split: if_splits)

lemma radix_no_mark:
  assumes "2 \<le> b" and "b \<le> 36"
  shows "CHR ''.'' \<notin> set (radix b n)" and "CHR '':'' \<notin> set (radix b n)"
    and "CHR ''-'' \<notin> set (radix b n)"
  using radix_chars [OF assms(1)] digit_neq assms(2) by (metis order_less_le_trans)+

lemma fmt_dec_chars: "CHR ''.'' \<notin> set (fmt_dec n)" "CHR '':'' \<notin> set (fmt_dec n)"
  by (simp_all add: fmt_dec_def radix_no_mark)

lemma fmt_hex_chars: "CHR '':'' \<notin> set (fmt_hex n)" "CHR ''.'' \<notin> set (fmt_hex n)"
  by (simp_all add: fmt_hex_def radix_no_mark)

lemma radix_nonempty [simp]: "radix b n \<noteq> []"
  by (subst radix.simps) simp

lemma fmt_dec_nonempty [simp]: "fmt_dec n \<noteq> []"
  by (simp add: fmt_dec_def)

lemma fmt_hex_nonempty [simp]: "fmt_hex n \<noteq> []"
  by (simp add: fmt_hex_def)

section \<open>UTF-8\<close>

definition utf8_cont :: "u8 \<Rightarrow> bool" where
  "utf8_cont b \<longleftrightarrow> 0x80 \<le> b \<and> b \<le> 0xBF"

text \<open>Well-formed UTF-8: no overlong forms, no surrogates, nothing above U+10FFFF.\<close>

fun utf8_valid :: "bytes \<Rightarrow> bool" where
  "utf8_valid [] = True"
| "utf8_valid (b # bs) =
     (if b \<le> 0x7F then utf8_valid bs
      else if 0xC2 \<le> b \<and> b \<le> 0xDF then
        (case bs of c1 # r \<Rightarrow> utf8_cont c1 \<and> utf8_valid r | _ \<Rightarrow> False)
      else if 0xE0 \<le> b \<and> b \<le> 0xEF then
        (case bs of c1 # c2 # r \<Rightarrow>
           (if b = 0xE0 then 0xA0 \<le> c1 \<and> c1 \<le> 0xBF
            else if b = 0xED then 0x80 \<le> c1 \<and> c1 \<le> 0x9F
            else utf8_cont c1) \<and> utf8_cont c2 \<and> utf8_valid r
         | _ \<Rightarrow> False)
      else if 0xF0 \<le> b \<and> b \<le> 0xF4 then
        (case bs of c1 # c2 # c3 # r \<Rightarrow>
           (if b = 0xF0 then 0x90 \<le> c1 \<and> c1 \<le> 0xBF
            else if b = 0xF4 then 0x80 \<le> c1 \<and> c1 \<le> 0x8F
            else utf8_cont c1) \<and> utf8_cont c2 \<and> utf8_cont c3 \<and> utf8_valid r
         | _ \<Rightarrow> False)
      else False)"

text \<open>\<open>s.as_bytes()\<close> and \<open>String::from_utf8\<close>.\<close>

definition utf8 :: "string \<Rightarrow> bytes" where
  "utf8 s = map of_char s"

definition from_utf8 :: "bytes \<Rightarrow> string option" where
  "from_utf8 bs = (if utf8_valid bs then Some (map (\<lambda>b. char_of (unat b)) bs) else None)"

lemma utf8_Nil_iff [simp]: "utf8 s = [] \<longleftrightarrow> s = []"
  by (simp add: utf8_def)

lemma length_utf8 [simp]: "length (utf8 s) = length s"
  by (simp add: utf8_def)

lemma unat_of_char: "unat (of_char c :: u8) = of_char c"
proof -
  have "(of_char c :: u8) = of_nat (of_char c)" by (rule of_nat_of_char [symmetric])
  then have "unat (of_char c :: u8) = of_char c mod 2 ^ LENGTH(8)" by (simp only: unat_of_nat)
  then show ?thesis by simp
qed

lemma chars_of_utf8 [simp]: "map (\<lambda>b. char_of (unat b)) (utf8 s) = s"
  by (simp add: utf8_def unat_of_char comp_def)

lemma utf8_inject [simp]: "utf8 s = utf8 t \<longleftrightarrow> s = t"
  by (metis chars_of_utf8)

lemma from_utf8_utf8: "utf8_valid (utf8 s) \<Longrightarrow> from_utf8 (utf8 s) = Some s"
  by (simp add: from_utf8_def)

end
