(* ===== verification/Json.thy ===== *)
theory Json
  imports Text "HOL-Library.AList" "HOL-Library.Monad_Syntax"
begin

text \<open>
  JSON values and the mapping between them and Rust types that the \<open>serde\<close> attributes of the
  sources describe. The text of a JSON value and of a UUID is the business of the libraries
  \<open>serde_json\<close> and \<open>uuid\<close>: their functions are the fields of \<open>wire_lib\<close>, an argument of
  every definition that reads or writes text.
\<close>

section \<open>Values and library functions\<close>

datatype json =
    JNull | JBool bool | JInt int | JFloat | JStr string
  | JArr "json list" | JObj "(string \<times> json) list"

type_synonym uuid = "128 word"

record wire_lib =
  json_print :: "json \<Rightarrow> string"
  json_parse :: "string \<Rightarrow> json option"
  uuid_print :: "uuid \<Rightarrow> string"
  uuid_parse :: "string \<Rightarrow> uuid option"

text \<open>What the code relies on: reading back what was written, and that an object is written in
  braces, so that its text has at least two characters.\<close>

definition json_ok :: "wire_lib \<Rightarrow> bool" where
  "json_ok L \<longleftrightarrow>
     (\<forall>j. json_parse L (json_print L j) = Some j) \<and>
     (\<forall>kvs. 2 \<le> length (json_print L (JObj kvs)))"

definition uuid_ok :: "wire_lib \<Rightarrow> bool" where
  "uuid_ok L \<longleftrightarrow> (\<forall>u. uuid_parse L (uuid_print L u) = Some u)"

text \<open>\<open>serde_json::to_string\<close>, \<open>serde_json::from_str\<close> and \<open>serde_json::from_slice\<close>.\<close>

definition to_text :: "wire_lib \<Rightarrow> ('a \<Rightarrow> json) \<Rightarrow> 'a \<Rightarrow> string" where
  "to_text L enc x = json_print L (enc x)"

definition from_text :: "wire_lib \<Rightarrow> (json \<Rightarrow> 'a option) \<Rightarrow> string \<Rightarrow> 'a option" where
  "from_text L dec s = Option.bind (json_parse L s) dec"

definition from_slice :: "wire_lib \<Rightarrow> (json \<Rightarrow> 'a option) \<Rightarrow> bytes \<Rightarrow> 'a option" where
  "from_slice L dec bs = from_text L dec (map (\<lambda>b. char_of (unat b)) bs)"

section \<open>Fields of a struct\<close>

text \<open>A struct is read from an object (unknown fields are ignored, a repeated field is an error)
  or from an array of all its fields in order; \<open>defaults\<close> of the last fields may be missing
  from the array.\<close>

definition struct_fields :: "string list \<Rightarrow> nat \<Rightarrow> json \<Rightarrow> (string \<times> json) list option" where
  "struct_fields names defaults j = (case j of
      JObj kvs \<Rightarrow> if \<forall>n \<in> set names. count_list (map fst kvs) n \<le> 1 then Some kvs else None
    | JArr vs \<Rightarrow> if length names - defaults \<le> length vs \<and> length vs \<le> length names
                then Some (zip names vs) else None
    | _ \<Rightarrow> None)"

text \<open>A required field, an \<open>Option\<close> field (missing or null is \<open>None\<close>), a \<open>#[serde(default)]\<close>
  field.\<close>

definition req_field :: "(json \<Rightarrow> 'a option) \<Rightarrow> string \<Rightarrow> (string \<times> json) list \<Rightarrow> 'a option" where
  "req_field d k kvs = Option.bind (map_of kvs k) d"

definition opt_field ::
  "(json \<Rightarrow> 'a option) \<Rightarrow> string \<Rightarrow> (string \<times> json) list \<Rightarrow> 'a option option" where
  "opt_field d k kvs = (case map_of kvs k of
      None \<Rightarrow> Some None
    | Some JNull \<Rightarrow> Some None
    | Some v \<Rightarrow> map_option Some (d v))"

definition default_field ::
  "'a \<Rightarrow> (json \<Rightarrow> 'a option) \<Rightarrow> string \<Rightarrow> (string \<times> json) list \<Rightarrow> 'a option" where
  "default_field a d k kvs = (case map_of kvs k of None \<Rightarrow> Some a | Some v \<Rightarrow> d v)"

text \<open>\<open>skip_serializing_if = "Option::is_none"\<close>.\<close>

definition skip_none :: "string \<Rightarrow> ('a \<Rightarrow> json) \<Rightarrow> 'a option \<Rightarrow> (string \<times> json) list" where
  "skip_none k e x = (case x of None \<Rightarrow> [] | Some v \<Rightarrow> [(k, e v)])"

section \<open>Tagged enums\<close>

text \<open>The name of a unit variant: a string, or an object with null for its content.\<close>

fun unit_variant :: "json \<Rightarrow> string option" where
  "unit_variant (JStr s) = Some s"
| "unit_variant (JObj [(s, JNull)]) = Some s"
| "unit_variant _ = None"

text \<open>\<open>#[serde(tag = t)]\<close>: the tag and the rest of the fields, or the tag first in an array.\<close>

definition tagged :: "string \<Rightarrow> json \<Rightarrow> (string \<times> json) option" where
  "tagged t j = (case j of
      JObj kvs \<Rightarrow>
        (if count_list (map fst kvs) t = 1
         then (case map_of kvs t of
                 Some (JStr v) \<Rightarrow> Some (v, JObj (filter (\<lambda>kv. fst kv \<noteq> t) kvs))
               | _ \<Rightarrow> None)
         else None)
    | JArr (JStr v # vs) \<Rightarrow> Some (v, JArr vs)
    | _ \<Rightarrow> None)"

definition unit_content :: "json \<Rightarrow> bool" where
  "unit_content j = (case j of JObj _ \<Rightarrow> True | JArr vs \<Rightarrow> vs = [] | _ \<Rightarrow> False)"

section \<open>Scalars, lists and maps\<close>

fun dec_string :: "json \<Rightarrow> string option" where
  "dec_string (JStr s) = Some s"
| "dec_string _ = None"

fun dec_bool :: "json \<Rightarrow> bool option" where
  "dec_bool (JBool b) = Some b"
| "dec_bool _ = None"

definition enc_word :: "'a::len word \<Rightarrow> json" where
  "enc_word w = JInt (uint w)"

fun dec_word :: "json \<Rightarrow> 'a::len word option" where
  "dec_word (JInt n) =
     (if 0 \<le> n \<and> n < 2 ^ LENGTH('a) then Some (word_of_int n) else None)"
| "dec_word _ = None"

definition enc_uuid :: "wire_lib \<Rightarrow> uuid \<Rightarrow> json" where
  "enc_uuid L u = JStr (uuid_print L u)"

fun dec_uuid :: "wire_lib \<Rightarrow> json \<Rightarrow> uuid option" where
  "dec_uuid L (JStr s) = uuid_parse L s"
| "dec_uuid L _ = None"

definition enc_list :: "('a \<Rightarrow> json) \<Rightarrow> 'a list \<Rightarrow> json" where
  "enc_list e xs = JArr (map e xs)"

fun dec_list :: "(json \<Rightarrow> 'a option) \<Rightarrow> json \<Rightarrow> 'a list option" where
  "dec_list d (JArr js) = those (map d js)"
| "dec_list d _ = None"

text \<open>A \<open>HashMap<String, V>\<close> is an association list with distinct keys, in the order in which
  the map happens to be iterated; a later entry for a key replaces an earlier one.\<close>

definition enc_map :: "('a \<Rightarrow> json) \<Rightarrow> (string \<times> 'a) list \<Rightarrow> json" where
  "enc_map e m = JObj (map (\<lambda>(k, v). (k, e v)) m)"

definition insert_all :: "(string \<times> 'a) list \<Rightarrow> (string \<times> 'a) list" where
  "insert_all kvs = foldl (\<lambda>m (k, v). AList.update k v m) [] kvs"

fun dec_map :: "(json \<Rightarrow> 'a option) \<Rightarrow> json \<Rightarrow> (string \<times> 'a) list option" where
  "dec_map d (JObj kvs) =
     map_option (\<lambda>vs. insert_all (zip (map fst kvs) vs)) (those (map (\<lambda>kv. d (snd kv)) kvs))"
| "dec_map d _ = None"

section \<open>The interface of a codec\<close>

text \<open>Every type that crosses a wire provides the two functions and this law; the text level and
  the containers follow once and for all.\<close>

lemma those_map_Some: "(\<And>x. x \<in> set xs \<Longrightarrow> f x = Some (g x)) \<Longrightarrow> those (map f xs) = Some (map g xs)"
  by (induction xs) auto

locale json_codec =
  fixes enc :: "'a \<Rightarrow> json"
    and dec :: "json \<Rightarrow> 'a option"
    and valid :: "'a \<Rightarrow> bool"
  assumes dec_enc: "valid x \<Longrightarrow> dec (enc x) = Some x"
begin

lemma req_enc: "map_of kvs k = Some (enc x) \<Longrightarrow> valid x \<Longrightarrow> req_field dec k kvs = Some x"
  by (simp add: req_field_def dec_enc)

lemma opt_enc:
  "map_of kvs k = Some (enc x) \<Longrightarrow> valid x \<Longrightarrow> enc x \<noteq> JNull \<Longrightarrow>
   opt_field dec k kvs = Some (Some x)"
  using dec_enc [of x] by (cases "enc x") (auto simp: opt_field_def)

lemma list_enc: "list_all valid xs \<Longrightarrow> dec_list dec (enc_list enc xs) = Some xs"
  using those_map_Some [of xs "\<lambda>x. dec (enc x)" "\<lambda>x. x"]
  by (simp add: enc_list_def dec_enc list_all_iff comp_def)

lemma text_enc: "json_ok L \<Longrightarrow> valid x \<Longrightarrow> from_text L dec (to_text L enc x) = Some x"
  by (simp add: from_text_def to_text_def json_ok_def dec_enc)

lemma slice_enc: "json_ok L \<Longrightarrow> valid x \<Longrightarrow> from_slice L dec (utf8 (to_text L enc x)) = Some x"
  by (simp add: from_slice_def text_enc)

end

section \<open>Lemmas\<close>

lemma dec_word_enc_word [codec_simps]: "dec_word (enc_word w) = Some w"
  by (simp add: enc_word_def)

lemma dec_uuid_enc_uuid [codec_simps]: "uuid_ok L \<Longrightarrow> dec_uuid L (enc_uuid L u) = Some u"
  by (simp add: enc_uuid_def uuid_ok_def)

lemma enc_not_null [codec_simps]:
  "enc_word w \<noteq> JNull" "enc_uuid L u \<noteq> JNull" "enc_list e xs \<noteq> JNull" "enc_map e m \<noteq> JNull"
  by (simp_all add: enc_word_def enc_uuid_def enc_list_def enc_map_def)

text \<open>The three kinds of field on a list of fields that is known.\<close>

lemma opt_field_hit:
  "map_of kvs k = Some j \<Longrightarrow> j \<noteq> JNull \<Longrightarrow> opt_field d k kvs = map_option Some (d j)"
  by (cases j) (auto simp: opt_field_def)

lemma opt_field_miss: "map_of kvs k = None \<Longrightarrow> opt_field d k kvs = Some None"
  by (simp add: opt_field_def)

lemmas field_simps' = opt_field_hit opt_field_miss req_field_def default_field_def skip_none_def
  struct_fields_def tagged_def

lemma AList_update_fresh: "k \<notin> fst ` set m \<Longrightarrow> AList.update k v m = m @ [(k, v)]"
  by (induction m) auto

lemma insert_all_distinct: "distinct (map fst m) \<Longrightarrow> insert_all m = m"
proof (induction m rule: rev_induct)
  case (snoc kv m)
  then have "insert_all m = m" by simp
  with snoc.prems show ?case
    by (cases kv) (simp add: insert_all_def AList_update_fresh)
qed (simp add: insert_all_def)

lemma dec_map_enc_map:
  assumes "distinct (map fst m)" and "\<And>v. v \<in> snd ` set m \<Longrightarrow> d (e v) = Some v"
  shows "dec_map d (enc_map e m) = Some m"
proof -
  have "those (map (\<lambda>kv. d (e (snd kv))) m) = Some (map snd m)"
    using assms(2) by (intro those_map_Some) auto
  then have "those (map (\<lambda>kv. d (snd kv)) (map (\<lambda>(k, v). (k, e v)) m)) = Some (map snd m)"
    by (simp add: comp_def split_beta)
  moreover have "map fst (map (\<lambda>(k, v). (k, e v)) m) = map fst m"
    by auto
  ultimately show ?thesis
    using insert_all_distinct [OF assms(1)]
    unfolding enc_map_def dec_map.simps by (simp only: option.map zip_map_fst_snd)
qed

end
