(* ===== verification/Dto.thy ===== *)
theory Dto
  imports Json
begin

text \<open>
  The data of the transfer protocols: devices and files (core/src/model) and the bodies of the
  HTTP requests and responses (core/src/http/dto.rs), with their JSON form.
\<close>

section \<open>model/discovery.rs\<close>

datatype device_type = Mobile | Desktop | Web | Headless | Server

fun enc_device_type :: "device_type \<Rightarrow> json" where
  "enc_device_type Mobile = JStr ''MOBILE''"
| "enc_device_type Desktop = JStr ''DESKTOP''"
| "enc_device_type Web = JStr ''WEB''"
| "enc_device_type Headless = JStr ''HEADLESS''"
| "enc_device_type Server = JStr ''SERVER''"

definition dec_device_type :: "json \<Rightarrow> device_type option" where
  "dec_device_type j = do {
     v \<leftarrow> unit_variant j;
     if v = ''MOBILE'' then Some Mobile
     else if v = ''DESKTOP'' then Some Desktop
     else if v = ''WEB'' then Some Web
     else if v = ''HEADLESS'' then Some Headless
     else if v = ''SERVER'' then Some Server
     else None }"

section \<open>model/transfer.rs\<close>

record file_metadata =
  modified :: "string option"
  accessed :: "string option"

record file_dto =
  fd_id :: string
  fd_file_name :: string
  fd_size :: u64
  fd_file_type :: string
  fd_sha256 :: "string option"
  fd_preview :: "string option"
  fd_metadata :: "file_metadata option"

definition enc_file_metadata :: "file_metadata \<Rightarrow> json" where
  "enc_file_metadata m =
     JObj (skip_none ''modified'' JStr (modified m) @ skip_none ''accessed'' JStr (accessed m))"

definition dec_file_metadata :: "json \<Rightarrow> file_metadata option" where
  "dec_file_metadata j = do {
     kvs \<leftarrow> struct_fields [''modified'', ''accessed''] 0 j;
     mo \<leftarrow> opt_field dec_string ''modified'' kvs;
     ac \<leftarrow> opt_field dec_string ''accessed'' kvs;
     Some \<lparr>modified = mo, accessed = ac\<rparr> }"

definition enc_file_dto :: "file_dto \<Rightarrow> json" where
  "enc_file_dto f = JObj
     ([(''id'', JStr (fd_id f)), (''fileName'', JStr (fd_file_name f)),
       (''size'', enc_word (fd_size f)), (''fileType'', JStr (fd_file_type f))] @
      skip_none ''sha256'' JStr (fd_sha256 f) @
      skip_none ''preview'' JStr (fd_preview f) @
      skip_none ''metadata'' enc_file_metadata (fd_metadata f))"

definition dec_file_dto :: "json \<Rightarrow> file_dto option" where
  "dec_file_dto j = do {
     kvs \<leftarrow> struct_fields
       [''id'', ''fileName'', ''size'', ''fileType'', ''sha256'', ''preview'', ''metadata''] 0 j;
     i \<leftarrow> req_field dec_string ''id'' kvs;
     n \<leftarrow> req_field dec_string ''fileName'' kvs;
     sz \<leftarrow> req_field dec_word ''size'' kvs;
     t \<leftarrow> req_field dec_string ''fileType'' kvs;
     sha \<leftarrow> opt_field dec_string ''sha256'' kvs;
     p \<leftarrow> opt_field dec_string ''preview'' kvs;
     m \<leftarrow> opt_field dec_file_metadata ''metadata'' kvs;
     Some \<lparr>fd_id = i, fd_file_name = n, fd_size = sz, fd_file_type = t, fd_sha256 = sha,
       fd_preview = p, fd_metadata = m\<rparr> }"

section \<open>http/dto.rs\<close>

record nonce_request =
  nq_nonce :: string

record nonce_response =
  nr_nonce :: string

record error_response =
  er_message :: string

datatype protocol_type = Http | Https

fun protocol_as_str :: "protocol_type \<Rightarrow> string" where
  "protocol_as_str Http = ''http''"
| "protocol_as_str Https = ''https''"

record register_dto =
  rd_alias :: string
  rd_version :: string
  rd_device_model :: "string option"
  rd_device_type :: "device_type option"
  rd_token :: string
  rd_port :: u16
  rd_protocol :: protocol_type
  rd_has_web_interface :: bool

record register_response_dto =
  rr_alias :: string
  rr_version :: string
  rr_device_model :: "string option"
  rr_device_type :: "device_type option"
  rr_token :: string
  rr_has_web_interface :: bool

record prepare_upload_request_dto =
  pq_info :: register_dto
  pq_files :: "(string \<times> file_dto) list"

record prepare_upload_response_dto =
  pr_session_id :: string
  pr_files :: "(string \<times> string) list"

definition enc_nonce_request :: "nonce_request \<Rightarrow> json" where
  "enc_nonce_request r = JObj [(''nonce'', JStr (nq_nonce r))]"

definition dec_nonce_request :: "json \<Rightarrow> nonce_request option" where
  "dec_nonce_request j = do {
     kvs \<leftarrow> struct_fields [''nonce''] 0 j;
     n \<leftarrow> req_field dec_string ''nonce'' kvs;
     Some \<lparr>nq_nonce = n\<rparr> }"

definition enc_nonce_response :: "nonce_response \<Rightarrow> json" where
  "enc_nonce_response r = JObj [(''nonce'', JStr (nr_nonce r))]"

definition dec_nonce_response :: "json \<Rightarrow> nonce_response option" where
  "dec_nonce_response j = do {
     kvs \<leftarrow> struct_fields [''nonce''] 0 j;
     n \<leftarrow> req_field dec_string ''nonce'' kvs;
     Some \<lparr>nr_nonce = n\<rparr> }"

definition enc_error_response :: "error_response \<Rightarrow> json" where
  "enc_error_response r = JObj [(''message'', JStr (er_message r))]"

definition dec_error_response :: "json \<Rightarrow> error_response option" where
  "dec_error_response j = do {
     kvs \<leftarrow> struct_fields [''message''] 0 j;
     m \<leftarrow> req_field dec_string ''message'' kvs;
     Some \<lparr>er_message = m\<rparr> }"

fun enc_protocol_type :: "protocol_type \<Rightarrow> json" where
  "enc_protocol_type Http = JStr ''HTTP''"
| "enc_protocol_type Https = JStr ''HTTPS''"

definition dec_protocol_type :: "json \<Rightarrow> protocol_type option" where
  "dec_protocol_type j = do {
     v \<leftarrow> unit_variant j;
     if v = ''HTTP'' then Some Http else if v = ''HTTPS'' then Some Https else None }"

text \<open>\<open>skip_serializing_if = "is_default"\<close> on a flag: written only when it is true.\<close>

definition skip_default :: "string \<Rightarrow> bool \<Rightarrow> (string \<times> json) list" where
  "skip_default k b = (if b then [(k, JBool b)] else [])"

definition enc_register_dto :: "register_dto \<Rightarrow> json" where
  "enc_register_dto r = JObj
     ([(''alias'', JStr (rd_alias r)), (''version'', JStr (rd_version r))] @
      skip_none ''deviceModel'' JStr (rd_device_model r) @
      skip_none ''deviceType'' enc_device_type (rd_device_type r) @
      [(''token'', JStr (rd_token r)), (''port'', enc_word (rd_port r)),
       (''protocol'', enc_protocol_type (rd_protocol r))] @
      skip_default ''hasWebInterface'' (rd_has_web_interface r))"

definition dec_register_dto :: "json \<Rightarrow> register_dto option" where
  "dec_register_dto j = do {
     kvs \<leftarrow> struct_fields [''alias'', ''version'', ''deviceModel'', ''deviceType'', ''token'',
       ''port'', ''protocol'', ''hasWebInterface''] 1 j;
     a \<leftarrow> req_field dec_string ''alias'' kvs;
     v \<leftarrow> req_field dec_string ''version'' kvs;
     dm \<leftarrow> opt_field dec_string ''deviceModel'' kvs;
     dt \<leftarrow> opt_field dec_device_type ''deviceType'' kvs;
     t \<leftarrow> req_field dec_string ''token'' kvs;
     p \<leftarrow> req_field dec_word ''port'' kvs;
     pr \<leftarrow> req_field dec_protocol_type ''protocol'' kvs;
     w \<leftarrow> default_field False dec_bool ''hasWebInterface'' kvs;
     Some \<lparr>rd_alias = a, rd_version = v, rd_device_model = dm, rd_device_type = dt,
       rd_token = t, rd_port = p, rd_protocol = pr, rd_has_web_interface = w\<rparr> }"

definition enc_register_response_dto :: "register_response_dto \<Rightarrow> json" where
  "enc_register_response_dto r = JObj
     ([(''alias'', JStr (rr_alias r)), (''version'', JStr (rr_version r))] @
      skip_none ''deviceModel'' JStr (rr_device_model r) @
      skip_none ''deviceType'' enc_device_type (rr_device_type r) @
      [(''token'', JStr (rr_token r))] @
      skip_default ''hasWebInterface'' (rr_has_web_interface r))"

definition dec_register_response_dto :: "json \<Rightarrow> register_response_dto option" where
  "dec_register_response_dto j = do {
     kvs \<leftarrow> struct_fields
       [''alias'', ''version'', ''deviceModel'', ''deviceType'', ''token'', ''hasWebInterface''] 1 j;
     a \<leftarrow> req_field dec_string ''alias'' kvs;
     v \<leftarrow> req_field dec_string ''version'' kvs;
     dm \<leftarrow> opt_field dec_string ''deviceModel'' kvs;
     dt \<leftarrow> opt_field dec_device_type ''deviceType'' kvs;
     t \<leftarrow> req_field dec_string ''token'' kvs;
     w \<leftarrow> default_field False dec_bool ''hasWebInterface'' kvs;
     Some \<lparr>rr_alias = a, rr_version = v, rr_device_model = dm, rr_device_type = dt,
       rr_token = t, rr_has_web_interface = w\<rparr> }"

definition enc_prepare_upload_request_dto :: "prepare_upload_request_dto \<Rightarrow> json" where
  "enc_prepare_upload_request_dto r = JObj
     [(''info'', enc_register_dto (pq_info r)), (''files'', enc_map enc_file_dto (pq_files r))]"

definition dec_prepare_upload_request_dto :: "json \<Rightarrow> prepare_upload_request_dto option" where
  "dec_prepare_upload_request_dto j = do {
     kvs \<leftarrow> struct_fields [''info'', ''files''] 0 j;
     i \<leftarrow> req_field dec_register_dto ''info'' kvs;
     fs \<leftarrow> req_field (dec_map dec_file_dto) ''files'' kvs;
     Some \<lparr>pq_info = i, pq_files = fs\<rparr> }"

definition enc_prepare_upload_response_dto :: "prepare_upload_response_dto \<Rightarrow> json" where
  "enc_prepare_upload_response_dto r = JObj
     [(''sessionId'', JStr (pr_session_id r)), (''files'', enc_map JStr (pr_files r))]"

definition dec_prepare_upload_response_dto :: "json \<Rightarrow> prepare_upload_response_dto option" where
  "dec_prepare_upload_response_dto j = do {
     kvs \<leftarrow> struct_fields [''sessionId'', ''files''] 0 j;
     i \<leftarrow> req_field dec_string ''sessionId'' kvs;
     fs \<leftarrow> req_field (dec_map dec_string) ''files'' kvs;
     Some \<lparr>pr_session_id = i, pr_files = fs\<rparr> }"

section \<open>Reading back what was written\<close>

lemmas codec_defs = field_simps' skip_default_def

lemma dec_device_type_enc [codec_simps]: "dec_device_type (enc_device_type d) = Some d"
  by (cases d) (simp_all add: dec_device_type_def)

lemma enc_device_type_not_null [codec_simps]: "enc_device_type d \<noteq> JNull"
  by (cases d) simp_all

lemma dec_protocol_type_enc [codec_simps]: "dec_protocol_type (enc_protocol_type p) = Some p"
  by (cases p) (simp_all add: dec_protocol_type_def)

lemma enc_protocol_type_not_null [codec_simps]: "enc_protocol_type p \<noteq> JNull"
  by (cases p) simp_all

lemma dec_file_metadata_enc [codec_simps]: "dec_file_metadata (enc_file_metadata m) = Some m"
  by (cases m; cases "modified m"; cases "accessed m")
    (simp_all add: dec_file_metadata_def enc_file_metadata_def codec_defs)

lemma enc_file_metadata_not_null [codec_simps]: "enc_file_metadata m \<noteq> JNull"
  by (simp add: enc_file_metadata_def)

lemma dec_file_dto_enc [codec_simps]: "dec_file_dto (enc_file_dto f) = Some f"
  by (cases f; cases "fd_sha256 f"; cases "fd_preview f"; cases "fd_metadata f")
    (simp_all add: dec_file_dto_def enc_file_dto_def codec_defs codec_simps)

lemma dec_nonce_request_enc [codec_simps]: "dec_nonce_request (enc_nonce_request r) = Some r"
  by (cases r) (simp add: dec_nonce_request_def enc_nonce_request_def codec_defs)

lemma dec_nonce_response_enc [codec_simps]: "dec_nonce_response (enc_nonce_response r) = Some r"
  by (cases r) (simp add: dec_nonce_response_def enc_nonce_response_def codec_defs)

lemma dec_error_response_enc [codec_simps]: "dec_error_response (enc_error_response r) = Some r"
  by (cases r) (simp add: dec_error_response_def enc_error_response_def codec_defs)

lemma dec_register_dto_enc [codec_simps]: "dec_register_dto (enc_register_dto r) = Some r"
  by (cases r; cases "rd_device_model r"; cases "rd_device_type r"; cases "rd_has_web_interface r")
    (simp_all add: dec_register_dto_def enc_register_dto_def codec_defs codec_simps)

lemma dec_register_response_dto_enc [codec_simps]:
  "dec_register_response_dto (enc_register_response_dto r) = Some r"
  by (cases r; cases "rr_device_model r"; cases "rr_device_type r"; cases "rr_has_web_interface r")
    (simp_all add: dec_register_response_dto_def enc_register_response_dto_def codec_defs codec_simps)

lemma enc_register_dto_not_null [codec_simps]: "enc_register_dto r \<noteq> JNull"
  by (simp add: enc_register_dto_def)

lemma dec_prepare_upload_request_dto_enc [codec_simps]:
  "distinct (map fst (pq_files r)) \<Longrightarrow>
   dec_prepare_upload_request_dto (enc_prepare_upload_request_dto r) = Some r"
  by (cases r) (simp add: dec_prepare_upload_request_dto_def enc_prepare_upload_request_dto_def
      codec_defs codec_simps dec_map_enc_map)

lemma dec_prepare_upload_response_dto_enc [codec_simps]:
  "distinct (map fst (pr_files r)) \<Longrightarrow>
   dec_prepare_upload_response_dto (enc_prepare_upload_response_dto r) = Some r"
  by (cases r) (simp add: dec_prepare_upload_response_dto_def enc_prepare_upload_response_dto_def
      codec_defs codec_simps dec_map_enc_map)

section \<open>The codecs of this theory\<close>

interpretation device_type_codec: json_codec enc_device_type dec_device_type "\<lambda>_. True"
  by unfold_locales (simp add: codec_simps)

interpretation file_dto_codec: json_codec enc_file_dto dec_file_dto "\<lambda>_. True"
  by unfold_locales (simp add: codec_simps)

interpretation nonce_request_codec: json_codec enc_nonce_request dec_nonce_request "\<lambda>_. True"
  by unfold_locales (simp add: codec_simps)

interpretation nonce_response_codec: json_codec enc_nonce_response dec_nonce_response "\<lambda>_. True"
  by unfold_locales (simp add: codec_simps)

interpretation error_response_codec: json_codec enc_error_response dec_error_response "\<lambda>_. True"
  by unfold_locales (simp add: codec_simps)

interpretation register_codec: json_codec enc_register_dto dec_register_dto "\<lambda>_. True"
  by unfold_locales (simp add: codec_simps)

interpretation register_response_codec:
  json_codec enc_register_response_dto dec_register_response_dto "\<lambda>_. True"
  by unfold_locales (simp add: codec_simps)

interpretation prepare_upload_request_codec:
  json_codec enc_prepare_upload_request_dto dec_prepare_upload_request_dto
    "\<lambda>r. distinct (map fst (pq_files r))"
  by unfold_locales (simp add: codec_simps)

interpretation prepare_upload_response_codec:
  json_codec enc_prepare_upload_response_dto dec_prepare_upload_response_dto
    "\<lambda>r. distinct (map fst (pr_files r))"
  by unfold_locales (simp add: codec_simps)

end
