(* ===== verification/Signaling_Msg.thy ===== *)
theory Signaling_Msg
  imports Dto
begin

text \<open>
  The messages between a client and the signaling server (core/src/webrtc/signaling.rs), the
  conversions between the client records, and their JSON form.
\<close>

section \<open>Data\<close>

record client_info =
  ci_id :: uuid
  ci_alias :: string
  ci_version :: string
  ci_device_model :: "string option"
  ci_device_type :: "device_type option"
  ci_token :: string

record client_info_without_id =
  cw_alias :: string
  cw_version :: string
  cw_device_model :: "string option"
  cw_device_type :: "device_type option"
  cw_token :: string

record ws_server_sdp_message =
  sm_peer :: client_info
  sm_session_id :: string
  sm_sdp :: string

record ws_client_sdp_message =
  cm_session_id :: string
  cm_target :: uuid
  cm_sdp :: string

datatype ws_server_message =
    Hello client_info "client_info list"
  | Join client_info
  | Update client_info
  | Left uuid
  | Offer ws_server_sdp_message
  | Answer ws_server_sdp_message
  | ErrorCode u16

datatype ws_client_message =
    ClientUpdate client_info_without_id
  | ClientOffer ws_client_sdp_message
  | ClientAnswer ws_client_sdp_message

section \<open>Conversions\<close>

definition client_info_from :: "client_info_without_id \<Rightarrow> uuid \<Rightarrow> client_info" where
  "client_info_from info i =
     \<lparr>ci_id = i, ci_alias = cw_alias info, ci_version = cw_version info,
      ci_device_model = cw_device_model info, ci_device_type = cw_device_type info,
      ci_token = cw_token info\<rparr>"

definition without_id_from :: "client_info \<Rightarrow> client_info_without_id" where
  "without_id_from info =
     \<lparr>cw_alias = ci_alias info, cw_version = ci_version info,
      cw_device_model = ci_device_model info, cw_device_type = ci_device_type info,
      cw_token = ci_token info\<rparr>"

lemma without_id_from_client_info_from [simp]: "without_id_from (client_info_from w i) = w"
  by (cases w) (simp add: without_id_from_def client_info_from_def)

lemma client_info_from_without_id_from [simp]: "client_info_from (without_id_from c) (ci_id c) = c"
  by (cases c) (simp add: without_id_from_def client_info_from_def)

lemma ci_id_client_info_from [simp]: "ci_id (client_info_from w i) = i"
  by (simp add: client_info_from_def)

section \<open>JSON\<close>

definition client_fields :: "client_info_without_id \<Rightarrow> (string \<times> json) list" where
  "client_fields c =
     [(''alias'', JStr (cw_alias c)), (''version'', JStr (cw_version c))] @
     skip_none ''deviceModel'' JStr (cw_device_model c) @
     skip_none ''deviceType'' enc_device_type (cw_device_type c) @
     [(''token'', JStr (cw_token c))]"

definition enc_client_info :: "wire_lib \<Rightarrow> client_info \<Rightarrow> json" where
  "enc_client_info L c = JObj ((''id'', enc_uuid L (ci_id c)) # client_fields (without_id_from c))"

definition enc_client_info_without_id :: "client_info_without_id \<Rightarrow> json" where
  "enc_client_info_without_id c = JObj (client_fields c)"

definition dec_client_fields :: "(string \<times> json) list \<Rightarrow> client_info_without_id option" where
  "dec_client_fields kvs = do {
     a \<leftarrow> req_field dec_string ''alias'' kvs;
     v \<leftarrow> req_field dec_string ''version'' kvs;
     dm \<leftarrow> opt_field dec_string ''deviceModel'' kvs;
     dt \<leftarrow> opt_field dec_device_type ''deviceType'' kvs;
     t \<leftarrow> req_field dec_string ''token'' kvs;
     Some \<lparr>cw_alias = a, cw_version = v, cw_device_model = dm, cw_device_type = dt,
       cw_token = t\<rparr> }"

definition dec_client_info :: "wire_lib \<Rightarrow> json \<Rightarrow> client_info option" where
  "dec_client_info L j = do {
     kvs \<leftarrow> struct_fields
       [''id'', ''alias'', ''version'', ''deviceModel'', ''deviceType'', ''token''] 0 j;
     i \<leftarrow> req_field (dec_uuid L) ''id'' kvs;
     w \<leftarrow> dec_client_fields kvs;
     Some (client_info_from w i) }"

definition dec_client_info_without_id :: "json \<Rightarrow> client_info_without_id option" where
  "dec_client_info_without_id j = do {
     kvs \<leftarrow> struct_fields [''alias'', ''version'', ''deviceModel'', ''deviceType'', ''token''] 0 j;
     dec_client_fields kvs }"

definition server_sdp_fields :: "wire_lib \<Rightarrow> ws_server_sdp_message \<Rightarrow> (string \<times> json) list" where
  "server_sdp_fields L m =
     [(''peer'', enc_client_info L (sm_peer m)), (''sessionId'', JStr (sm_session_id m)),
      (''sdp'', JStr (sm_sdp m))]"

definition dec_server_sdp :: "wire_lib \<Rightarrow> json \<Rightarrow> ws_server_sdp_message option" where
  "dec_server_sdp L j = do {
     kvs \<leftarrow> struct_fields [''peer'', ''sessionId'', ''sdp''] 0 j;
     p \<leftarrow> req_field (dec_client_info L) ''peer'' kvs;
     s \<leftarrow> req_field dec_string ''sessionId'' kvs;
     d \<leftarrow> req_field dec_string ''sdp'' kvs;
     Some \<lparr>sm_peer = p, sm_session_id = s, sm_sdp = d\<rparr> }"

definition client_sdp_fields :: "wire_lib \<Rightarrow> ws_client_sdp_message \<Rightarrow> (string \<times> json) list" where
  "client_sdp_fields L m =
     [(''sessionId'', JStr (cm_session_id m)), (''target'', enc_uuid L (cm_target m)),
      (''sdp'', JStr (cm_sdp m))]"

definition dec_client_sdp :: "wire_lib \<Rightarrow> json \<Rightarrow> ws_client_sdp_message option" where
  "dec_client_sdp L j = do {
     kvs \<leftarrow> struct_fields [''sessionId'', ''target'', ''sdp''] 0 j;
     s \<leftarrow> req_field dec_string ''sessionId'' kvs;
     t \<leftarrow> req_field (dec_uuid L) ''target'' kvs;
     d \<leftarrow> req_field dec_string ''sdp'' kvs;
     Some \<lparr>cm_session_id = s, cm_target = t, cm_sdp = d\<rparr> }"

definition with_tag :: "string \<Rightarrow> string \<Rightarrow> (string \<times> json) list \<Rightarrow> json" where
  "with_tag t v kvs = JObj ((t, JStr v) # kvs)"

fun enc_ws_server_message :: "wire_lib \<Rightarrow> ws_server_message \<Rightarrow> json" where
  "enc_ws_server_message L (Hello c ps) = with_tag ''type'' ''HELLO''
     [(''client'', enc_client_info L c), (''peers'', enc_list (enc_client_info L) ps)]"
| "enc_ws_server_message L (Join p) = with_tag ''type'' ''JOIN'' [(''peer'', enc_client_info L p)]"
| "enc_ws_server_message L (Update p) =
     with_tag ''type'' ''UPDATE'' [(''peer'', enc_client_info L p)]"
| "enc_ws_server_message L (Left i) = with_tag ''type'' ''LEFT'' [(''peerId'', enc_uuid L i)]"
| "enc_ws_server_message L (Offer m) = with_tag ''type'' ''OFFER'' (server_sdp_fields L m)"
| "enc_ws_server_message L (Answer m) = with_tag ''type'' ''ANSWER'' (server_sdp_fields L m)"
| "enc_ws_server_message L (ErrorCode c) = with_tag ''type'' ''ERROR'' [(''code'', enc_word c)]"

definition dec_ws_server_message :: "wire_lib \<Rightarrow> json \<Rightarrow> ws_server_message option" where
  "dec_ws_server_message L j = do {
     (v, c) \<leftarrow> tagged ''type'' j;
     if v = ''HELLO'' then do {
       kvs \<leftarrow> struct_fields [''client'', ''peers''] 0 c;
       cl \<leftarrow> req_field (dec_client_info L) ''client'' kvs;
       ps \<leftarrow> req_field (dec_list (dec_client_info L)) ''peers'' kvs;
       Some (Hello cl ps) }
     else if v = ''JOIN'' then do {
       kvs \<leftarrow> struct_fields [''peer''] 0 c;
       p \<leftarrow> req_field (dec_client_info L) ''peer'' kvs;
       Some (Join p) }
     else if v = ''UPDATE'' then do {
       kvs \<leftarrow> struct_fields [''peer''] 0 c;
       p \<leftarrow> req_field (dec_client_info L) ''peer'' kvs;
       Some (Update p) }
     else if v = ''LEFT'' then do {
       kvs \<leftarrow> struct_fields [''peerId''] 0 c;
       i \<leftarrow> req_field (dec_uuid L) ''peerId'' kvs;
       Some (Left i) }
     else if v = ''OFFER'' then map_option Offer (dec_server_sdp L c)
     else if v = ''ANSWER'' then map_option Answer (dec_server_sdp L c)
     else if v = ''ERROR'' then do {
       kvs \<leftarrow> struct_fields [''code''] 0 c;
       n \<leftarrow> req_field dec_word ''code'' kvs;
       Some (ErrorCode n) }
     else None }"

fun enc_ws_client_message :: "wire_lib \<Rightarrow> ws_client_message \<Rightarrow> json" where
  "enc_ws_client_message L (ClientUpdate i) =
     with_tag ''type'' ''UPDATE'' [(''info'', enc_client_info_without_id i)]"
| "enc_ws_client_message L (ClientOffer m) = with_tag ''type'' ''OFFER'' (client_sdp_fields L m)"
| "enc_ws_client_message L (ClientAnswer m) = with_tag ''type'' ''ANSWER'' (client_sdp_fields L m)"

definition dec_ws_client_message :: "wire_lib \<Rightarrow> json \<Rightarrow> ws_client_message option" where
  "dec_ws_client_message L j = do {
     (v, c) \<leftarrow> tagged ''type'' j;
     if v = ''UPDATE'' then do {
       kvs \<leftarrow> struct_fields [''info''] 0 c;
       i \<leftarrow> req_field dec_client_info_without_id ''info'' kvs;
       Some (ClientUpdate i) }
     else if v = ''OFFER'' then map_option ClientOffer (dec_client_sdp L c)
     else if v = ''ANSWER'' then map_option ClientAnswer (dec_client_sdp L c)
     else None }"

section \<open>Reading back what was written\<close>

lemma dec_client_fields_enc:
  "map_of kvs ''alias'' = Some (JStr (cw_alias w)) \<Longrightarrow>
   map_of kvs ''version'' = Some (JStr (cw_version w)) \<Longrightarrow>
   opt_field dec_string ''deviceModel'' kvs = Some (cw_device_model w) \<Longrightarrow>
   opt_field dec_device_type ''deviceType'' kvs = Some (cw_device_type w) \<Longrightarrow>
   map_of kvs ''token'' = Some (JStr (cw_token w)) \<Longrightarrow>
   dec_client_fields kvs = Some w"
  by (cases w) (simp add: dec_client_fields_def req_field_def)

lemma dec_client_info_without_id_enc [codec_simps]:
  "dec_client_info_without_id (enc_client_info_without_id w) = Some w"
  by (cases w; cases "cw_device_model w"; cases "cw_device_type w")
    (simp_all add: dec_client_info_without_id_def enc_client_info_without_id_def client_fields_def
      codec_defs codec_simps dec_client_fields_def)

lemma dec_client_info_enc [codec_simps]:
  "uuid_ok L \<Longrightarrow> dec_client_info L (enc_client_info L c) = Some c"
  by (cases c; cases "ci_device_model c"; cases "ci_device_type c")
    (simp_all add: dec_client_info_def enc_client_info_def client_fields_def without_id_from_def
      client_info_from_def codec_defs codec_simps dec_client_fields_def)

lemma enc_client_not_null [codec_simps]:
  "enc_client_info L c \<noteq> JNull" "enc_client_info_without_id w \<noteq> JNull"
  by (simp_all add: enc_client_info_def enc_client_info_without_id_def)

lemma dec_client_info_list_enc [codec_simps]:
  "uuid_ok L \<Longrightarrow> dec_list (dec_client_info L) (enc_list (enc_client_info L) cs) = Some cs"
  using those_map_Some [of cs "\<lambda>c. dec_client_info L (enc_client_info L c)" "\<lambda>c. c"]
  by (simp add: enc_list_def comp_def codec_simps)

lemma dec_ws_server_message_enc [codec_simps]:
  "uuid_ok L \<Longrightarrow> dec_ws_server_message L (enc_ws_server_message L m) = Some m"
  by (cases m)
    (auto simp: dec_ws_server_message_def with_tag_def codec_defs codec_simps
      server_sdp_fields_def dec_server_sdp_def)

lemma dec_ws_client_message_enc [codec_simps]:
  "uuid_ok L \<Longrightarrow> dec_ws_client_message L (enc_ws_client_message L m) = Some m"
  by (cases m)
    (auto simp: dec_ws_client_message_def with_tag_def codec_defs codec_simps
      client_sdp_fields_def dec_client_sdp_def)

interpretation client_info_without_id_codec:
  json_codec enc_client_info_without_id dec_client_info_without_id "\<lambda>_. True"
  by unfold_locales (simp add: codec_simps)

interpretation ws_server_message_codec:
  json_codec "enc_ws_server_message L" "dec_ws_server_message L" "\<lambda>_. uuid_ok L" for L
  by unfold_locales (simp add: codec_simps)

interpretation ws_client_message_codec:
  json_codec "enc_ws_client_message L" "dec_ws_client_message L" "\<lambda>_. uuid_ok L" for L
  by unfold_locales (simp add: codec_simps)

end
