(* ===== verification/Task.thy ===== *)
theory Task
  imports Prelude
begin

text \<open>
  The asynchronous functions of the Rust sources as state-passing tasks. A task takes the
  state of everything it can touch and returns an outcome with the new state:
  \<open>Done x\<close> (the function returned \<open>Ok(x)\<close> or, where it cannot fail, \<open>x\<close>), \<open>Fail e\<close> (it
  returned \<open>Err(e)\<close>), \<open>Panic\<close> (an \<open>unwrap\<close>, a slice index or an arithmetic overflow
  panicked) and \<open>Await\<close> (it is suspended in an \<open>await\<close> on a channel that is empty and not
  closed; the state is the one at the suspension).
\<close>

section \<open>Errors\<close>

text \<open>
  An error of \<open>anyhow\<close> is represented by how its message is formed: \<open>Msg\<close> for a fixed text,
  \<open>MsgOf\<close> for a fixed text followed by the message of a library error, \<open>Ext\<close> for a library
  error passed on by the \<open>?\<close> operator.
\<close>

datatype foreign =
    JsonError | Base64Error | Utf8Error | CompressError | PemError | X509Error | KeyError
  | SignatureError | ChannelSendError | ChannelRecvError | DataChannelError | PeerError
  | WebSocketError | HttpError | TlsError | ClockError | BindError

datatype err = Msg string | MsgOf string foreign | Ext foreign

datatype 'a outcome = Done 'a | Fail err | Panic string | Await

type_synonym ('s, 'a) task = "'s \<Rightarrow> 'a outcome \<times> 's"

section \<open>Combinators\<close>

definition ret :: "'a \<Rightarrow> ('s, 'a) task" where
  "ret x = (\<lambda>s. (Done x, s))"

definition throw :: "err \<Rightarrow> ('s, 'a) task" where
  "throw e = (\<lambda>s. (Fail e, s))"

definition panic :: "string \<Rightarrow> ('s, 'a) task" where
  "panic p = (\<lambda>s. (Panic p, s))"

definition suspend :: "('s, 'a) task" where
  "suspend = (\<lambda>s. (Await, s))"

text \<open>Sequencing: \<open>let x = m?; f(x)\<close>. An error, a panic or a suspension of \<open>m\<close> is one of the
  whole.\<close>

definition tbind :: "('s, 'a) task \<Rightarrow> ('a \<Rightarrow> ('s, 'b) task) \<Rightarrow> ('s, 'b) task" where
  "tbind m f = (\<lambda>s. case m s of
      (Done x, s') \<Rightarrow> f x s'
    | (Fail e, s') \<Rightarrow> (Fail e, s')
    | (Panic p, s') \<Rightarrow> (Panic p, s')
    | (Await, s') \<Rightarrow> (Await, s'))"

definition tseq :: "('s, 'a) task \<Rightarrow> ('s, 'b) task \<Rightarrow> ('s, 'b) task" where
  "tseq m n = tbind m (\<lambda>_. n)"

text \<open>A \<open>Result\<close> value in a task (\<open>r?\<close>), and a task's \<open>Result\<close> as a value, for a \<open>match\<close> or a
  \<open>let _ =\<close> on it.\<close>

definition of_result :: "err + 'a \<Rightarrow> ('s, 'a) task" where
  "of_result r = (case r of Inl e \<Rightarrow> throw e | Inr x \<Rightarrow> ret x)"

definition attempt :: "('s, 'a) task \<Rightarrow> ('s, err + 'a) task" where
  "attempt m = (\<lambda>s. case m s of
      (Done x, s') \<Rightarrow> (Done (Inr x), s')
    | (Fail e, s') \<Rightarrow> (Done (Inl e), s')
    | (Panic p, s') \<Rightarrow> (Panic p, s')
    | (Await, s') \<Rightarrow> (Await, s'))"

definition discard :: "('s, 'a) task \<Rightarrow> ('s, unit) task" where
  "discard m = tseq (attempt m) (ret ())"

text \<open>\<open>map_err\<close>: the error replaced.\<close>

definition map_err :: "(err \<Rightarrow> err) \<Rightarrow> ('s, 'a) task \<Rightarrow> ('s, 'a) task" where
  "map_err g m = (\<lambda>s. case m s of
      (Done x, s') \<Rightarrow> (Done x, s')
    | (Fail e, s') \<Rightarrow> (Fail (g e), s')
    | (Panic p, s') \<Rightarrow> (Panic p, s')
    | (Await, s') \<Rightarrow> (Await, s'))"

definition gets :: "('s \<Rightarrow> 'a) \<Rightarrow> ('s, 'a) task" where
  "gets g = (\<lambda>s. (Done (g s), s))"

definition modify :: "('s \<Rightarrow> 's) \<Rightarrow> ('s, unit) task" where
  "modify g = (\<lambda>s. (Done (), g s))"

text \<open>A \<open>for\<close> loop that threads a value through its body.\<close>

fun foldT :: "('a \<Rightarrow> 'b \<Rightarrow> ('s, 'a) task) \<Rightarrow> 'a \<Rightarrow> 'b list \<Rightarrow> ('s, 'a) task" where
  "foldT f a [] = ret a"
| "foldT f a (x # xs) = tbind (f a x) (\<lambda>a'. foldT f a' xs)"

section \<open>How the combinators run\<close>

lemma ret_run [task_simps]: "ret x s = (Done x, s)"
  by (simp add: ret_def)

lemma throw_run [task_simps]: "throw e s = (Fail e, s)"
  by (simp add: throw_def)

lemma panic_run [task_simps]: "panic p s = (Panic p, s)"
  by (simp add: panic_def)

lemma suspend_run [task_simps]: "suspend s = (Await, s)"
  by (simp add: suspend_def)

lemma gets_run [task_simps]: "gets g s = (Done (g s), s)"
  by (simp add: gets_def)

lemma modify_run [task_simps]: "modify g s = (Done (), g s)"
  by (simp add: modify_def)

lemma of_result_run [task_simps]:
  "of_result (Inl e) s = (Fail e, s)" "of_result (Inr x) s = (Done x, s)"
  by (simp_all add: of_result_def task_simps)

lemma tbind_run:
  "m s = (Done x, s') \<Longrightarrow> tbind m f s = f x s'"
  "m s = (Fail e, s') \<Longrightarrow> tbind m f s = (Fail e, s')"
  "m s = (Panic p, s') \<Longrightarrow> tbind m f s = (Panic p, s')"
  "m s = (Await, s') \<Longrightarrow> tbind m f s = (Await, s')"
  by (simp_all add: tbind_def)

lemma tseq_run:
  "m s = (Done x, s') \<Longrightarrow> tseq m n s = n s'"
  "m s = (Fail e, s') \<Longrightarrow> tseq m n s = (Fail e, s')"
  "m s = (Panic p, s') \<Longrightarrow> tseq m n s = (Panic p, s')"
  "m s = (Await, s') \<Longrightarrow> tseq m n s = (Await, s')"
  by (simp_all add: tseq_def tbind_def)

lemma attempt_run:
  "m s = (Done x, s') \<Longrightarrow> attempt m s = (Done (Inr x), s')"
  "m s = (Fail e, s') \<Longrightarrow> attempt m s = (Done (Inl e), s')"
  "m s = (Panic p, s') \<Longrightarrow> attempt m s = (Panic p, s')"
  "m s = (Await, s') \<Longrightarrow> attempt m s = (Await, s')"
  by (simp_all add: attempt_def)

lemma discard_run:
  "m s = (Done x, s') \<Longrightarrow> discard m s = (Done (), s')"
  "m s = (Fail e, s') \<Longrightarrow> discard m s = (Done (), s')"
  "m s = (Panic p, s') \<Longrightarrow> discard m s = (Panic p, s')"
  "m s = (Await, s') \<Longrightarrow> discard m s = (Await, s')"
  by (simp_all add: discard_def tseq_def tbind_def attempt_def ret_def)

lemma map_err_run:
  "m s = (Done x, s') \<Longrightarrow> map_err g m s = (Done x, s')"
  "m s = (Fail e, s') \<Longrightarrow> map_err g m s = (Fail (g e), s')"
  "m s = (Panic p, s') \<Longrightarrow> map_err g m s = (Panic p, s')"
  "m s = (Await, s') \<Longrightarrow> map_err g m s = (Await, s')"
  by (simp_all add: map_err_def)

lemmas task_run = tbind_run tseq_run attempt_run discard_run map_err_run

section \<open>Laws\<close>

lemma tbind_ret [simp]: "tbind (ret x) f = f x"
  by (simp add: tbind_def ret_def)

lemma tbind_throw [simp]: "tbind (throw e) f = throw e"
  by (simp add: tbind_def throw_def)

lemma tbind_ret_right [simp]: "tbind m ret = m"
  by (rule ext) (simp add: tbind_def ret_def split: prod.split outcome.split)

lemma tbind_assoc: "tbind (tbind m f) g = tbind m (\<lambda>x. tbind (f x) g)"
  by (rule ext) (simp add: tbind_def split: prod.split outcome.split)

lemma foldT_append: "foldT f a (xs @ ys) = tbind (foldT f a xs) (\<lambda>a'. foldT f a' ys)"
  by (induction xs arbitrary: a) (simp_all add: tbind_assoc)

lemma tbind_Done_cases:
  assumes "tbind m f s = (Done y, s'')"
  obtains x s' where "m s = (Done x, s')" and "f x s' = (Done y, s'')"
  using assms by (auto simp: tbind_def split: prod.splits outcome.splits)

section \<open>Relations that every step of a task keeps\<close>

text \<open>A task changes the state only along \<open>Q\<close>, whatever its outcome.\<close>

definition keeps :: "('s \<Rightarrow> 's \<Rightarrow> bool) \<Rightarrow> ('s, 'a) task \<Rightarrow> bool" where
  "keeps Q m \<longleftrightarrow> (\<forall>s. Q s (snd (m s)))"

lemma keeps_run: "keeps Q m \<Longrightarrow> m s = (x, s') \<Longrightarrow> Q s s'"
  by (metis keeps_def snd_conv)

lemma keeps_primI: "(\<And>s. Q s (snd (m s))) \<Longrightarrow> keeps Q m"
  by (simp add: keeps_def)

text \<open>For a preorder, the combinators keep the property, so it only has to be checked on the
  primitive operations.\<close>

locale step_relation =
  fixes Q :: "'s \<Rightarrow> 's \<Rightarrow> bool"
  assumes Q_refl: "Q s s" and Q_trans: "Q s t \<Longrightarrow> Q t u \<Longrightarrow> Q s u"
begin

lemma pure:
  "keeps Q (ret x)" "keeps Q (throw e)" "keeps Q (panic p)" "keeps Q suspend"
  "keeps Q (gets g)" "keeps Q (of_result r)"
  by (simp_all add: keeps_def Q_refl task_simps of_result_def split: sum.split)

lemma bind:
  assumes "keeps Q m" and "\<And>x. keeps Q (f x)"
  shows "keeps Q (tbind m f)"
proof (rule keeps_primI)
  fix s
  obtain r t where m: "m s = (r, t)" by fastforce
  with assms(1) have "Q s t" by (rule keeps_run)
  with m assms(2) Q_trans show "Q s (snd (tbind m f s))"
    by (auto simp: tbind_def keeps_def split: outcome.split)
qed

lemma seq: "keeps Q m \<Longrightarrow> keeps Q n \<Longrightarrow> keeps Q (tseq m n)"
  unfolding tseq_def by (rule bind)

lemma wrapped:
  assumes "keeps Q m"
  shows "keeps Q (attempt m)" and "keeps Q (map_err g m)"
proof -
  have "Q s (snd (attempt m s)) \<and> Q s (snd (map_err g m s))" for s
    using keeps_run [OF assms, of s] unfolding attempt_def map_err_def
    by (cases "m s"; cases "fst (m s)") auto
  then show "keeps Q (attempt m)" and "keeps Q (map_err g m)"
    by (simp_all add: keeps_def)
qed

lemma dropped: "keeps Q m \<Longrightarrow> keeps Q (discard m)"
  unfolding discard_def by (intro seq wrapped pure)

lemma loop: "(\<And>a x. keeps Q (f a x)) \<Longrightarrow> keeps Q (foldT f a xs)"
  by (induction xs arbitrary: a) (simp_all add: pure bind)

lemma branch:
  "(b \<Longrightarrow> keeps Q m) \<Longrightarrow> (\<not> b \<Longrightarrow> keeps Q n) \<Longrightarrow> keeps Q (if b then m else n)"
  by simp

lemmas closed = pure bind seq wrapped dropped loop branch

end

text \<open>The two ways a composed task can have run.\<close>

lemma tbind_split:
  assumes "tbind m f s = (x, s')"
  obtains (stopped) "\<And>y. fst (m s) \<noteq> Done y" and "s' = snd (m s)"
  | (went_on) y t where "m s = (Done y, t)" and "f y t = (x, s')"
  using assms by (cases "m s"; cases "fst (m s)") (auto simp: tbind_def)

end
