(* ===== verification/Rtc_Msg.thy ===== *)
theory Rtc_Msg
  imports Signaling_Msg Task
begin

text \<open>
  The messages the two peers exchange on the WebRTC data channel (core/src/webrtc/webrtc.rs),
  the values the transfer hands to the application, and the JSON form of the messages.
\<close>

section \<open>Data\<close>

record rtc_nonce_message =
  nm_nonce :: string

record rtc_token_request =
  tq_token :: string

datatype rtc_token_response =
    TokenOk string
  | TokenPinRequired string
  | TokenInvalidSignature

record rtc_pin_message =
  pm_pin :: string

datatype rtc_pin_receiving_response =
    PinRecvOk
  | PinRecvPinRequired
  | PinRecvTooManyAttempts

datatype rtc_pin_sending_response =
    PinSendOk "file_dto list"
  | PinSendPinRequired
  | PinSendTooManyAttempts

datatype rtc_file_list_response =
    FileListOk "(string \<times> string) list"
  | FileListPair string
  | FileListDeclined
  | FileListInvalidSignature

datatype rtc_pair_response =
    PairOk string
  | PairDeclined
  | PairInvalidSignature

record rtc_send_file_header_request =
  fh_id :: string
  fh_token :: string

record rtc_send_file_response =
  fr_id :: string
  fr_success :: bool
  fr_error :: "string option"

datatype rtc_status =
    StSdpExchanged
  | StConnected
  | StPinRequired
  | StTooManyAttempts
  | StDeclined
  | StSending
  | StFinished
  | StError err

record rtc_file_error =
  fe_file_id :: string
  fe_error :: err

record pin_config =
  pc_pin :: string
  pc_max_tries :: u8

section \<open>JSON\<close>

definition enc_nonce_message :: "rtc_nonce_message \<Rightarrow> json" where
  "enc_nonce_message m = JObj [(''nonce'', JStr (nm_nonce m))]"

definition dec_nonce_message :: "json \<Rightarrow> rtc_nonce_message option" where
  "dec_nonce_message j = do {
     kvs \<leftarrow> struct_fields [''nonce''] 0 j;
     n \<leftarrow> req_field dec_string ''nonce'' kvs;
     Some \<lparr>nm_nonce = n\<rparr> }"

definition enc_token_request :: "rtc_token_request \<Rightarrow> json" where
  "enc_token_request m = JObj [(''token'', JStr (tq_token m))]"

definition dec_token_request :: "json \<Rightarrow> rtc_token_request option" where
  "dec_token_request j = do {
     kvs \<leftarrow> struct_fields [''token''] 0 j;
     t \<leftarrow> req_field dec_string ''token'' kvs;
     Some \<lparr>tq_token = t\<rparr> }"

fun enc_token_response :: "rtc_token_response \<Rightarrow> json" where
  "enc_token_response (TokenOk t) = with_tag ''status'' ''OK'' [(''token'', JStr t)]"
| "enc_token_response (TokenPinRequired t) =
     with_tag ''status'' ''PIN_REQUIRED'' [(''token'', JStr t)]"
| "enc_token_response TokenInvalidSignature = with_tag ''status'' ''INVALID_SIGNATURE'' []"

definition dec_token_response :: "json \<Rightarrow> rtc_token_response option" where
  "dec_token_response j = do {
     (v, c) \<leftarrow> tagged ''status'' j;
     if v = ''OK'' then do {
       kvs \<leftarrow> struct_fields [''token''] 0 c;
       t \<leftarrow> req_field dec_string ''token'' kvs;
       Some (TokenOk t) }
     else if v = ''PIN_REQUIRED'' then do {
       kvs \<leftarrow> struct_fields [''token''] 0 c;
       t \<leftarrow> req_field dec_string ''token'' kvs;
       Some (TokenPinRequired t) }
     else if v = ''INVALID_SIGNATURE'' \<and> unit_content c then Some TokenInvalidSignature
     else None }"

definition enc_pin_message :: "rtc_pin_message \<Rightarrow> json" where
  "enc_pin_message m = JObj [(''pin'', JStr (pm_pin m))]"

definition dec_pin_message :: "json \<Rightarrow> rtc_pin_message option" where
  "dec_pin_message j = do {
     kvs \<leftarrow> struct_fields [''pin''] 0 j;
     p \<leftarrow> req_field dec_string ''pin'' kvs;
     Some \<lparr>pm_pin = p\<rparr> }"

fun enc_pin_receiving :: "rtc_pin_receiving_response \<Rightarrow> json" where
  "enc_pin_receiving PinRecvOk = with_tag ''status'' ''OK'' []"
| "enc_pin_receiving PinRecvPinRequired = with_tag ''status'' ''PIN_REQUIRED'' []"
| "enc_pin_receiving PinRecvTooManyAttempts = with_tag ''status'' ''TOO_MANY_ATTEMPTS'' []"

definition dec_pin_receiving :: "json \<Rightarrow> rtc_pin_receiving_response option" where
  "dec_pin_receiving j = do {
     (v, c) \<leftarrow> tagged ''status'' j;
     if \<not> unit_content c then None
     else if v = ''OK'' then Some PinRecvOk
     else if v = ''PIN_REQUIRED'' then Some PinRecvPinRequired
     else if v = ''TOO_MANY_ATTEMPTS'' then Some PinRecvTooManyAttempts
     else None }"

fun enc_pin_sending :: "rtc_pin_sending_response \<Rightarrow> json" where
  "enc_pin_sending (PinSendOk fs) =
     with_tag ''status'' ''OK'' [(''files'', enc_list enc_file_dto fs)]"
| "enc_pin_sending PinSendPinRequired = with_tag ''status'' ''PIN_REQUIRED'' []"
| "enc_pin_sending PinSendTooManyAttempts = with_tag ''status'' ''TOO_MANY_ATTEMPTS'' []"

definition dec_pin_sending :: "json \<Rightarrow> rtc_pin_sending_response option" where
  "dec_pin_sending j = do {
     (v, c) \<leftarrow> tagged ''status'' j;
     if v = ''OK'' then do {
       kvs \<leftarrow> struct_fields [''files''] 0 c;
       fs \<leftarrow> req_field (dec_list dec_file_dto) ''files'' kvs;
       Some (PinSendOk fs) }
     else if \<not> unit_content c then None
     else if v = ''PIN_REQUIRED'' then Some PinSendPinRequired
     else if v = ''TOO_MANY_ATTEMPTS'' then Some PinSendTooManyAttempts
     else None }"

fun enc_file_list :: "rtc_file_list_response \<Rightarrow> json" where
  "enc_file_list (FileListOk fs) = with_tag ''status'' ''OK'' [(''files'', enc_map JStr fs)]"
| "enc_file_list (FileListPair k) = with_tag ''status'' ''PAIR'' [(''publicKey'', JStr k)]"
| "enc_file_list FileListDeclined = with_tag ''status'' ''DECLINED'' []"
| "enc_file_list FileListInvalidSignature = with_tag ''status'' ''INVALID_SIGNATURE'' []"

definition dec_file_list :: "json \<Rightarrow> rtc_file_list_response option" where
  "dec_file_list j = do {
     (v, c) \<leftarrow> tagged ''status'' j;
     if v = ''OK'' then do {
       kvs \<leftarrow> struct_fields [''files''] 0 c;
       fs \<leftarrow> req_field (dec_map dec_string) ''files'' kvs;
       Some (FileListOk fs) }
     else if v = ''PAIR'' then do {
       kvs \<leftarrow> struct_fields [''publicKey''] 0 c;
       k \<leftarrow> req_field dec_string ''publicKey'' kvs;
       Some (FileListPair k) }
     else if \<not> unit_content c then None
     else if v = ''DECLINED'' then Some FileListDeclined
     else if v = ''INVALID_SIGNATURE'' then Some FileListInvalidSignature
     else None }"

fun enc_pair_response :: "rtc_pair_response \<Rightarrow> json" where
  "enc_pair_response (PairOk k) = with_tag ''status'' ''OK'' [(''publicKey'', JStr k)]"
| "enc_pair_response PairDeclined = with_tag ''status'' ''PAIR_DECLINED'' []"
| "enc_pair_response PairInvalidSignature = with_tag ''status'' ''INVALID_SIGNATURE'' []"

definition dec_pair_response :: "json \<Rightarrow> rtc_pair_response option" where
  "dec_pair_response j = do {
     (v, c) \<leftarrow> tagged ''status'' j;
     if v = ''OK'' then do {
       kvs \<leftarrow> struct_fields [''publicKey''] 0 c;
       k \<leftarrow> req_field dec_string ''publicKey'' kvs;
       Some (PairOk k) }
     else if \<not> unit_content c then None
     else if v = ''PAIR_DECLINED'' then Some PairDeclined
     else if v = ''INVALID_SIGNATURE'' then Some PairInvalidSignature
     else None }"

definition enc_file_header :: "rtc_send_file_header_request \<Rightarrow> json" where
  "enc_file_header h = JObj [(''id'', JStr (fh_id h)), (''token'', JStr (fh_token h))]"

definition dec_file_header :: "json \<Rightarrow> rtc_send_file_header_request option" where
  "dec_file_header j = do {
     kvs \<leftarrow> struct_fields [''id'', ''token''] 0 j;
     i \<leftarrow> req_field dec_string ''id'' kvs;
     t \<leftarrow> req_field dec_string ''token'' kvs;
     Some \<lparr>fh_id = i, fh_token = t\<rparr> }"

definition enc_file_response :: "rtc_send_file_response \<Rightarrow> json" where
  "enc_file_response r = JObj
     ([(''id'', JStr (fr_id r)), (''success'', JBool (fr_success r))] @
      skip_none ''error'' JStr (fr_error r))"

definition dec_file_response :: "json \<Rightarrow> rtc_send_file_response option" where
  "dec_file_response j = do {
     kvs \<leftarrow> struct_fields [''id'', ''success'', ''error''] 0 j;
     i \<leftarrow> req_field dec_string ''id'' kvs;
     s \<leftarrow> req_field dec_bool ''success'' kvs;
     e \<leftarrow> opt_field dec_string ''error'' kvs;
     Some \<lparr>fr_id = i, fr_success = s, fr_error = e\<rparr> }"

section \<open>Reading back what was written\<close>

lemma dec_nonce_message_enc [codec_simps]: "dec_nonce_message (enc_nonce_message m) = Some m"
  by (cases m) (simp add: dec_nonce_message_def enc_nonce_message_def codec_defs)

lemma dec_token_request_enc [codec_simps]: "dec_token_request (enc_token_request m) = Some m"
  by (cases m) (simp add: dec_token_request_def enc_token_request_def codec_defs)

lemma dec_token_response_enc [codec_simps]: "dec_token_response (enc_token_response m) = Some m"
  by (cases m) (simp_all add: dec_token_response_def with_tag_def codec_defs unit_content_def)

lemma dec_pin_message_enc [codec_simps]: "dec_pin_message (enc_pin_message m) = Some m"
  by (cases m) (simp add: dec_pin_message_def enc_pin_message_def codec_defs)

lemma dec_pin_receiving_enc [codec_simps]: "dec_pin_receiving (enc_pin_receiving m) = Some m"
  by (cases m) (simp_all add: dec_pin_receiving_def with_tag_def codec_defs unit_content_def)

lemma dec_file_dto_list_enc [codec_simps]:
  "dec_list dec_file_dto (enc_list enc_file_dto fs) = Some fs"
  by (rule file_dto_codec.list_enc) (simp add: list_all_iff)

lemma dec_pin_sending_enc [codec_simps]: "dec_pin_sending (enc_pin_sending m) = Some m"
  by (cases m)
    (simp_all add: dec_pin_sending_def with_tag_def codec_defs codec_simps unit_content_def)

fun file_list_valid :: "rtc_file_list_response \<Rightarrow> bool" where
  "file_list_valid (FileListOk fs) = distinct (map fst fs)"
| "file_list_valid _ = True"

lemma dec_file_list_enc [codec_simps]:
  "file_list_valid m \<Longrightarrow> dec_file_list (enc_file_list m) = Some m"
  by (cases m)
    (simp_all add: dec_file_list_def with_tag_def codec_defs codec_simps unit_content_def
      dec_map_enc_map)

lemma dec_pair_response_enc [codec_simps]: "dec_pair_response (enc_pair_response m) = Some m"
  by (cases m) (simp_all add: dec_pair_response_def with_tag_def codec_defs unit_content_def)

lemma dec_file_header_enc [codec_simps]: "dec_file_header (enc_file_header h) = Some h"
  by (cases h) (simp add: dec_file_header_def enc_file_header_def codec_defs)

lemma dec_file_response_enc [codec_simps]: "dec_file_response (enc_file_response r) = Some r"
  by (cases r; cases "fr_error r")
    (simp_all add: dec_file_response_def enc_file_response_def codec_defs)

interpretation nonce_message_codec: json_codec enc_nonce_message dec_nonce_message "\<lambda>_. True"
  by unfold_locales (simp add: codec_simps)

interpretation token_request_codec: json_codec enc_token_request dec_token_request "\<lambda>_. True"
  by unfold_locales (simp add: codec_simps)

interpretation token_response_codec: json_codec enc_token_response dec_token_response "\<lambda>_. True"
  by unfold_locales (simp add: codec_simps)

interpretation pin_message_codec: json_codec enc_pin_message dec_pin_message "\<lambda>_. True"
  by unfold_locales (simp add: codec_simps)

interpretation pin_receiving_codec: json_codec enc_pin_receiving dec_pin_receiving "\<lambda>_. True"
  by unfold_locales (simp add: codec_simps)

interpretation pin_sending_codec: json_codec enc_pin_sending dec_pin_sending "\<lambda>_. True"
  by unfold_locales (simp add: codec_simps)

interpretation file_list_codec: json_codec enc_file_list dec_file_list file_list_valid
  by unfold_locales (simp add: codec_simps)

interpretation pair_response_codec: json_codec enc_pair_response dec_pair_response "\<lambda>_. True"
  by unfold_locales (simp add: codec_simps)

interpretation file_header_codec: json_codec enc_file_header dec_file_header "\<lambda>_. True"
  by unfold_locales (simp add: codec_simps)

interpretation file_response_codec: json_codec enc_file_response dec_file_response "\<lambda>_. True"
  by unfold_locales (simp add: codec_simps)

end
