(* ===== verification/Crypto.thy ===== *)
theory Crypto
  imports Task Text
begin

unbundle bit_operations_syntax

text \<open>
  Nonces and tokens (core/src/crypto/nonce.rs and core/src/crypto/token.rs). The primitives of
  the libraries (SHA-256, Ed25519, RSA-PSS, PEM and DER encodings, URL-safe base64) are the fields
  of \<open>crypto_lib\<close>; a key is represented by its bytes.
\<close>

section \<open>Library functions\<close>

record crypto_lib =
  sha256 :: "bytes \<Rightarrow> bytes"
  b64_encode :: "bytes \<Rightarrow> string"
  b64_decode :: "string \<Rightarrow> bytes option"
  ed_generate :: "(nat \<Rightarrow> u8) \<Rightarrow> bytes"
  ed_verifying_key :: "bytes \<Rightarrow> bytes"
  ed_sign :: "bytes \<Rightarrow> bytes \<Rightarrow> bytes"
  ed_signature_from_slice :: "bytes \<Rightarrow> bytes option"
  ed_verify :: "bytes \<Rightarrow> bytes \<Rightarrow> bytes \<Rightarrow> bool"
  ed_key_der :: "bytes \<Rightarrow> bytes option"
  ed_to_pkcs8_pem :: "bytes \<Rightarrow> string option"
  ed_from_pkcs8_pem :: "string \<Rightarrow> bytes option"
  ed_to_public_key_pem :: "bytes \<Rightarrow> string option"
  ed_from_public_key_pem :: "string \<Rightarrow> bytes option"
  rsa_signature_try_from :: "bytes \<Rightarrow> bytes option"
  rsa_verify :: "bytes \<Rightarrow> bytes \<Rightarrow> bytes \<Rightarrow> bool"
  rsa_key_der :: "bytes \<Rightarrow> bytes option"
  rsa_from_public_key_pem :: "string \<Rightarrow> bytes option"

text \<open>What the code relies on: base64 reads back what it wrote and never writes a dot; the
  signature of a key verifies under its verifying key; a PEM reads back as the key.\<close>

definition b64_ok :: "crypto_lib \<Rightarrow> bool" where
  "b64_ok C \<longleftrightarrow>
     (\<forall>bs. b64_decode C (b64_encode C bs) = Some bs) \<and>
     (\<forall>bs. CHR ''.'' \<notin> set (b64_encode C bs))"

definition sign_ok :: "crypto_lib \<Rightarrow> bool" where
  "sign_ok C \<longleftrightarrow>
     (\<forall>k m. \<exists>sg. ed_signature_from_slice C (ed_sign C k m) = Some sg \<and>
        ed_verify C (ed_verifying_key C k) m sg)"

definition pem_ok :: "crypto_lib \<Rightarrow> bool" where
  "pem_ok C \<longleftrightarrow>
     (\<forall>k p. ed_to_pkcs8_pem C k = Some p \<longrightarrow> ed_from_pkcs8_pem C p = Some k) \<and>
     (\<forall>k p. ed_to_public_key_pem C k = Some p \<longrightarrow> ed_from_public_key_pem C p = Some k)"

section \<open>nonce.rs\<close>

text \<open>\<open>rng\<close> gives the bytes that the random generator fills the buffer with.\<close>

definition generate_nonce :: "(nat \<Rightarrow> u8) \<Rightarrow> bytes" where
  "generate_nonce rng = map rng [0..<32]"

definition validate_nonce :: "bytes \<Rightarrow> bool" where
  "validate_nonce nonce \<longleftrightarrow> 16 \<le> length nonce \<and> length nonce \<le> 128"

section \<open>Keys\<close>

record signing_token_key =
  sk_inner :: bytes

datatype verifying_token_key = Ed25519VerifyingKey bytes | RsaPssVerifyingKey bytes

definition to_verifying_key :: "crypto_lib \<Rightarrow> signing_token_key \<Rightarrow> verifying_token_key" where
  "to_verifying_key C key = Ed25519VerifyingKey (ed_verifying_key C (sk_inner key))"

fun key_verify :: "crypto_lib \<Rightarrow> verifying_token_key \<Rightarrow> bytes \<Rightarrow> bytes \<Rightarrow> err + unit" where
  "key_verify C (Ed25519VerifyingKey k) msg signature =
     (case ed_signature_from_slice C signature of
        None \<Rightarrow> Inl (Ext SignatureError)
      | Some sg \<Rightarrow> if ed_verify C k msg sg then Inr () else Inl (Ext SignatureError))"
| "key_verify C (RsaPssVerifyingKey k) msg signature =
     (case rsa_signature_try_from C signature of
        None \<Rightarrow> Inl (Ext SignatureError)
      | Some sg \<Rightarrow> if rsa_verify C k msg sg then Inr () else Inl (Ext SignatureError))"

fun key_to_der :: "crypto_lib \<Rightarrow> verifying_token_key \<Rightarrow> err + bytes" where
  "key_to_der C (Ed25519VerifyingKey k) =
     (case ed_key_der C k of None \<Rightarrow> Inl (Ext KeyError) | Some d \<Rightarrow> Inr d)"
| "key_to_der C (RsaPssVerifyingKey k) =
     (case rsa_key_der C k of None \<Rightarrow> Inl (Ext KeyError) | Some d \<Rightarrow> Inr d)"

fun signature_method :: "verifying_token_key \<Rightarrow> string" where
  "signature_method (Ed25519VerifyingKey _) = ''ed25519''"
| "signature_method (RsaPssVerifyingKey _) = ''rsa-pss''"

definition generate_key :: "crypto_lib \<Rightarrow> (nat \<Rightarrow> u8) \<Rightarrow> signing_token_key" where
  "generate_key C csprng = \<lparr>sk_inner = ed_generate C csprng\<rparr>"

definition export_private_key :: "crypto_lib \<Rightarrow> signing_token_key \<Rightarrow> err + string" where
  "export_private_key C key =
     (case ed_to_pkcs8_pem C (sk_inner key) of None \<Rightarrow> Inl (Ext KeyError) | Some p \<Rightarrow> Inr p)"

definition parse_private_key :: "crypto_lib \<Rightarrow> string \<Rightarrow> err + signing_token_key" where
  "parse_private_key C private_key =
     (case ed_from_pkcs8_pem C private_key of
        None \<Rightarrow> Inl (Ext KeyError) | Some k \<Rightarrow> Inr \<lparr>sk_inner = k\<rparr>)"

definition export_public_key :: "crypto_lib \<Rightarrow> signing_token_key \<Rightarrow> err + string" where
  "export_public_key C key =
     (case ed_to_public_key_pem C (ed_verifying_key C (sk_inner key)) of
        None \<Rightarrow> Inl (Ext KeyError) | Some p \<Rightarrow> Inr p)"

definition parse_public_key :: "crypto_lib \<Rightarrow> string \<Rightarrow> string \<Rightarrow> err + verifying_token_key" where
  "parse_public_key C public_key identifier =
     (if identifier = ''ed25519'' then
        (case ed_from_public_key_pem C public_key of
           None \<Rightarrow> Inl (Ext KeyError) | Some k \<Rightarrow> Inr (Ed25519VerifyingKey k))
      else if identifier = ''rsa-pss'' then
        (case rsa_from_public_key_pem C public_key of
           None \<Rightarrow> Inl (Ext KeyError) | Some k \<Rightarrow> Inr (RsaPssVerifyingKey k))
      else Inl (Msg ''Unsupported key type''))"

section \<open>Little-endian integers\<close>

definition to_le_bytes :: "u64 \<Rightarrow> bytes" where
  "to_le_bytes w = map (\<lambda>i. ucast (drop_bit (8 * i) w)) [0..<8]"

definition from_le_bytes :: "bytes \<Rightarrow> u64" where
  "from_le_bytes bs = foldr (\<lambda>b w. ucast b OR push_bit 8 w) bs 0"

section \<open>Tokens\<close>

definition generate_token_nonce :: "crypto_lib \<Rightarrow> signing_token_key \<Rightarrow> bytes \<Rightarrow> err + string" where
  "generate_token_nonce C key salt =
     (case ed_key_der C (ed_verifying_key C (sk_inner key)) of
        None \<Rightarrow> Inl (Ext KeyError)
      | Some public_key \<Rightarrow>
          (let digest = sha256 C (public_key @ salt);
               signature = ed_sign C (sk_inner key) digest
           in Inr (join_on CHR ''.''
                [''sha256'', b64_encode C digest, b64_encode C salt, ''ed25519'',
                 b64_encode C signature])))"

text \<open>\<open>now\<close> is \<open>unix_timestamp_u64()\<close> (core/src/util/time.rs): \<open>None\<close> when the clock is before
  1970.\<close>

definition generate_token_timestamp ::
  "crypto_lib \<Rightarrow> u64 option \<Rightarrow> signing_token_key \<Rightarrow> err + string" where
  "generate_token_timestamp C now key =
     (case now of
        None \<Rightarrow> Inl (Ext ClockError)
      | Some t \<Rightarrow> generate_token_nonce C key (to_le_bytes t))"

definition extract_signature_identifier :: "string \<Rightarrow> string option" where
  "extract_signature_identifier token =
     (let parts = split_on CHR ''.'' token in if 3 < length parts then Some (parts ! 3) else None)"

text \<open>The slice \<open>parts[0..5]\<close> panics when there are fewer than five parts; the pattern after it
  always matches.\<close>

definition verify_token_with_result ::
  "crypto_lib \<Rightarrow> verifying_token_key \<Rightarrow> string \<Rightarrow> (bytes \<Rightarrow> unit outcome) \<Rightarrow> unit outcome" where
  "verify_token_with_result C public_key token verify_salt =
     (case split_on CHR ''.'' token of
        hash_method # hash_base64 # salt_base64 # sign_method # signature_base64 # _ \<Rightarrow>
          if hash_method \<noteq> ''sha256'' then Fail (Msg ''Invalid hash method'')
          else if sign_method \<noteq> signature_method public_key then Fail (Msg ''Invalid sign method'')
          else (case b64_decode C salt_base64 of
            None \<Rightarrow> Fail (Ext Base64Error)
          | Some salt \<Rightarrow>
              (case verify_salt salt of
                 Done _ \<Rightarrow>
                   (case key_to_der C public_key of
                      Inl e \<Rightarrow> Fail e
                    | Inr public_key_der \<Rightarrow>
                        (let digest = sha256 C (public_key_der @ salt)
                         in if b64_encode C digest \<noteq> hash_base64 then Fail (Msg ''Hash mismatch'')
                            else (case b64_decode C signature_base64 of
                                None \<Rightarrow> Fail (Msg ''Invalid signature base64 encoding'')
                              | Some signature \<Rightarrow>
                                  (case key_verify C public_key digest signature of
                                     Inl _ \<Rightarrow> Fail (Msg ''Invalid signature'')
                                   | Inr _ \<Rightarrow> Done ()))))
               | Fail e \<Rightarrow> Fail e
               | Panic p \<Rightarrow> Panic p
               | Await \<Rightarrow> Await))
      | _ \<Rightarrow> Panic ''range end index 5 out of range'')"

text \<open>\<open>.is_ok()\<close>\<close>

fun is_ok :: "unit outcome \<Rightarrow> bool outcome" where
  "is_ok (Done _) = Done True"
| "is_ok (Fail _) = Done False"
| "is_ok (Panic p) = Panic p"
| "is_ok Await = Await"

definition verify_salt_nonce :: "bytes \<Rightarrow> bytes \<Rightarrow> unit outcome" where
  "verify_salt_nonce nonce salt = (if salt \<noteq> nonce then Fail (Msg ''Invalid nonce'') else Done ())"

definition verify_token_nonce ::
  "crypto_lib \<Rightarrow> verifying_token_key \<Rightarrow> string \<Rightarrow> bytes \<Rightarrow> bool outcome" where
  "verify_token_nonce C public_key token nonce =
     is_ok (verify_token_with_result C public_key token (verify_salt_nonce nonce))"

text \<open>\<open>now_seconds - salt\<close> on \<open>u64\<close>: with overflow checks (\<open>checks\<close>, a debug build) a salt in
  the future panics, without them the subtraction wraps around.\<close>

definition verify_salt_timestamp :: "bool \<Rightarrow> u64 option \<Rightarrow> bytes \<Rightarrow> unit outcome" where
  "verify_salt_timestamp checks now salt =
     (if length salt \<noteq> 8 then Fail (Msg ''Invalid salt length'')
      else let t = from_le_bytes salt
        in case now of
             None \<Rightarrow> Fail (Ext ClockError)
           | Some now_seconds \<Rightarrow>
               if checks \<and> now_seconds < t then Panic ''attempt to subtract with overflow''
               else if 60 * 60 < now_seconds - t then Fail (Msg ''Fingerprint timestamp expired'')
               else Done ())"

definition verify_token_timestamp ::
  "crypto_lib \<Rightarrow> bool \<Rightarrow> u64 option \<Rightarrow> verifying_token_key \<Rightarrow> string \<Rightarrow> bool outcome" where
  "verify_token_timestamp C checks now public_key token =
     is_ok (verify_token_with_result C public_key token (verify_salt_timestamp checks now))"

section \<open>Lemmas\<close>

lemma length_generate_nonce [simp]: "length (generate_nonce rng) = 32"
  by (simp add: generate_nonce_def)

lemma validate_generate_nonce [simp]: "validate_nonce (generate_nonce rng)"
  by (simp add: validate_nonce_def)

lemma length_to_le_bytes [simp]: "length (to_le_bytes w) = 8"
  by (simp add: to_le_bytes_def)

lemma le_bytes_take_bit:
  "foldr (\<lambda>b w. ucast b OR push_bit 8 w) (map (\<lambda>i. ucast (drop_bit (8 * i) w) :: u8) [j..<j + n]) 0 =
   take_bit (8 * n) (drop_bit (8 * j) (w :: u64))"
proof (induction n arbitrary: j)
  case 0
  then show ?case by simp
next
  case (Suc n)
  have "[j..<j + Suc n] = j # [Suc j..<Suc j + n]"
    by (simp add: upt_rec)
  then have "foldr (\<lambda>b w. ucast b OR push_bit 8 w)
      (map (\<lambda>i. ucast (drop_bit (8 * i) w) :: u8) [j..<j + Suc n]) 0 =
      ucast (ucast (drop_bit (8 * j) w) :: u8) OR push_bit 8 (take_bit (8 * n) (drop_bit (8 * Suc j) w))"
    using Suc.IH [of "Suc j"] by simp
  also have "\<dots> = take_bit (8 * Suc n) (drop_bit (8 * j) w)"
    by (rule bit_word_eqI) (auto simp: bit_simps algebra_simps)
  finally show ?case .
qed

lemma from_to_le_bytes [simp]: "from_le_bytes (to_le_bytes w) = w"
  using le_bytes_take_bit [of w 0 8]
  by (simp add: from_le_bytes_def to_le_bytes_def take_bit_word_eq_self)

lemma is_ok_Done_True [simp]: "is_ok r = Done True \<longleftrightarrow> r = Done ()"
  by (cases r) auto

lemma is_ok_Panic [simp]: "is_ok r = Panic p \<longleftrightarrow> r = Panic p"
  by (cases r) auto

lemma verify_salt_nonce_Done [simp]: "verify_salt_nonce nonce salt = Done () \<longleftrightarrow> salt = nonce"
  by (simp add: verify_salt_nonce_def)

lemma verify_salt_nonce_not_Panic [simp]: "verify_salt_nonce nonce salt \<noteq> Panic p"
  by (simp add: verify_salt_nonce_def)

end
