(* ===== verification/Chunking.thy ===== *)
theory Chunking
  imports Task Text
begin

text \<open>
  Byte streams cut into messages of at most \<open>CHUNK_SIZE\<close> bytes
  (\<open>process_in_chunks\<close> in core/src/webrtc/webrtc.rs) and the buffering of received data before
  it is handed to the application (\<open>buffer_receiver\<close> in app/rust/src/util/bytes.rs). A
  channel that is read until it is closed is the list of what is received from it.
\<close>

section \<open>process\_in\_chunks\<close>

definition CHUNK_SIZE :: nat where
  "CHUNK_SIZE = 16 * 1024"

lemma CHUNK_SIZE_pos [simp]: "0 < CHUNK_SIZE"
  by (simp add: CHUNK_SIZE_def)

text \<open>The inner loop: full chunks are split off the buffer and handed to the callback, which
  returns the data channel; the rest of the buffer is left.\<close>

function split_full_chunks ::
  "('t \<Rightarrow> bytes \<Rightarrow> ('s, 't) task) \<Rightarrow> 't \<Rightarrow> bytes \<Rightarrow> ('s, 't \<times> bytes) task" where
  "split_full_chunks callback data_channel buffer =
     (if CHUNK_SIZE \<le> length buffer
      then tbind (callback data_channel (take CHUNK_SIZE buffer))
             (\<lambda>data_channel'. split_full_chunks callback data_channel' (drop CHUNK_SIZE buffer))
      else ret (data_channel, buffer))"
  by pat_completeness auto
termination
proof (relation "measure (\<lambda>(callback, data_channel, buffer). length buffer)", goal_cases)
  case (2 callback data_channel buffer x)
  have "0 < CHUNK_SIZE" by simp
  with 2 show ?case by (simp del: CHUNK_SIZE_pos)
qed simp

declare split_full_chunks.simps [simp del]

text \<open>The outer loop over the received data, and the leftover after the channel is closed.\<close>

fun process_loop ::
  "('t \<Rightarrow> bytes \<Rightarrow> ('s, 't) task) \<Rightarrow> 't \<Rightarrow> bytes \<Rightarrow> bytes list \<Rightarrow> ('s, unit) task" where
  "process_loop callback data_channel buffer [] =
     (if buffer \<noteq> [] then tbind (callback data_channel buffer) (\<lambda>_. ret ()) else ret ())"
| "process_loop callback data_channel buffer (data # rx) =
     tbind (split_full_chunks callback data_channel (buffer @ data))
       (\<lambda>(data_channel', buffer'). process_loop callback data_channel' buffer' rx)"

definition process_in_chunks ::
  "'t \<Rightarrow> bytes list \<Rightarrow> ('t \<Rightarrow> bytes \<Rightarrow> ('s, 't) task) \<Rightarrow> ('s, unit) task" where
  "process_in_chunks data_channel rx callback = process_loop callback data_channel [] rx"

text \<open>\<open>send_string_in_chunks\<close>: the channel carries the whole string once.\<close>

definition send_string_in_chunks ::
  "'t \<Rightarrow> string \<Rightarrow> ('t \<Rightarrow> bytes \<Rightarrow> ('s, 't) task) \<Rightarrow> ('s, unit) task" where
  "send_string_in_chunks data_channel s callback =
     process_in_chunks data_channel [utf8 s] callback"

section \<open>buffer\_receiver\<close>

definition BUFFER_SIZE :: nat where
  "BUFFER_SIZE = 1024 * 1024"

fun buffer_loop :: "(bytes \<Rightarrow> ('s, unit) task) \<Rightarrow> bytes \<Rightarrow> bytes list \<Rightarrow> ('s, unit) task" where
  "buffer_loop tx_send buffer [] = (if buffer \<noteq> [] then tx_send buffer else ret ())"
| "buffer_loop tx_send buffer (data # rx_input) =
     (let buffer' = buffer @ data
      in if BUFFER_SIZE \<le> length buffer'
         then tbind (tx_send buffer') (\<lambda>_. buffer_loop tx_send [] rx_input)
         else buffer_loop tx_send buffer' rx_input)"

definition buffer_receiver :: "(bytes \<Rightarrow> ('s, unit) task) \<Rightarrow> bytes list \<Rightarrow> ('s, unit) task" where
  "buffer_receiver tx_send rx_input = buffer_loop tx_send [] rx_input"

section \<open>The reference: cutting a byte string\<close>

function chunks_of :: "nat \<Rightarrow> 'a list \<Rightarrow> 'a list list" where
  "chunks_of n xs = (if n = 0 \<or> xs = [] then [] else take n xs # chunks_of n (drop n xs))"
  by pat_completeness auto
termination
  by (relation "measure (\<lambda>(n, xs). length xs)") auto

declare chunks_of.simps [simp del]

lemma chunks_of_Nil [simp]: "chunks_of n [] = []"
  by (simp add: chunks_of.simps)

lemma concat_chunks_of [simp]: "0 < n \<Longrightarrow> concat (chunks_of n xs) = xs"
proof (induction n xs rule: chunks_of.induct)
  case (1 n xs)
  then show ?case by (subst chunks_of.simps) auto
qed

lemma chunks_of_bounds: "c \<in> set (chunks_of n xs) \<Longrightarrow> c \<noteq> [] \<and> length c \<le> n"
proof (induction n xs rule: chunks_of.induct)
  case (1 n xs)
  then show ?case by (subst (asm) chunks_of.simps) (auto split: if_splits)
qed

lemma chunks_of_full: "c \<in> set (butlast (chunks_of n xs)) \<Longrightarrow> length c = n"
proof (induction n xs rule: chunks_of.induct)
  case (1 n xs)
  show ?case
  proof (cases "n = 0 \<or> xs = []")
    case True
    with "1.prems" show ?thesis by (subst (asm) chunks_of.simps) simp
  next
    case False
    then have unf: "chunks_of n xs = take n xs # chunks_of n (drop n xs)"
      by (subst chunks_of.simps) simp
    show ?thesis
    proof (cases "chunks_of n (drop n xs) = []")
      case True
      with "1.prems" unf show ?thesis by simp
    next
      case ne: False
      then have "drop n xs \<noteq> []" by auto
      with unf ne "1.prems" False "1.IH" show ?thesis by auto
    qed
  qed
qed

lemma chunks_of_step:
  "0 < n \<Longrightarrow> n \<le> length xs \<Longrightarrow> chunks_of n xs = take n xs # chunks_of n (drop n xs)"
  by (subst chunks_of.simps) auto

lemma chunks_of_short:
  assumes "xs \<noteq> []" and "length xs \<le> n"
  shows "chunks_of n xs = [xs]"
proof -
  from assms have "n \<noteq> 0" by (cases n) auto
  with assms show ?thesis by (subst chunks_of.simps) auto
qed

section \<open>The loops hand over exactly the reference's chunks\<close>

text \<open>What is left in the buffer after the inner loop is shorter than a chunk.\<close>

lemma split_full_chunks_cong:
  assumes "\<And>dc b. length b < CHUNK_SIZE \<Longrightarrow> f (dc, b) = g (dc, b)"
  shows "tbind (split_full_chunks callback data_channel buffer) f =
         tbind (split_full_chunks callback data_channel buffer) g"
  using assms
proof (induction callback data_channel buffer rule: split_full_chunks.induct)
  case (1 callback data_channel buffer)
  show ?case
  proof (cases "CHUNK_SIZE \<le> length buffer")
    case True
    with "1.IH" "1.prems" show ?thesis
      by (simp add: split_full_chunks.simps [of callback data_channel buffer] tbind_assoc)
  next
    case False
    with "1.prems" show ?thesis
      by (simp add: split_full_chunks.simps [of callback data_channel buffer])
  qed
qed

lemma split_full_chunks_chunks:
  "tbind (split_full_chunks callback data_channel buffer)
     (\<lambda>(dc, b). tbind (foldT callback dc (chunks_of CHUNK_SIZE (b @ rest))) (\<lambda>_. ret ())) =
   tbind (foldT callback data_channel (chunks_of CHUNK_SIZE (buffer @ rest))) (\<lambda>_. ret ())"
proof (induction callback data_channel buffer rule: split_full_chunks.induct)
  case (1 callback data_channel buffer)
  show ?case
  proof (cases "CHUNK_SIZE \<le> length buffer")
    case True
    with "1.IH" show ?thesis
      by (simp add: split_full_chunks.simps [of callback data_channel buffer] tbind_assoc
          chunks_of_step [of CHUNK_SIZE "buffer @ rest"])
  next
    case False
    then show ?thesis
      by (simp add: split_full_chunks.simps [of callback data_channel buffer])
  qed
qed

lemma process_loop_chunks:
  "length buffer < CHUNK_SIZE \<Longrightarrow>
   process_loop callback data_channel buffer rx =
   tbind (foldT callback data_channel (chunks_of CHUNK_SIZE (buffer @ concat rx))) (\<lambda>_. ret ())"
proof (induction rx arbitrary: data_channel buffer)
  case Nil
  then show ?case by (simp add: chunks_of_short)
next
  case (Cons data rx)
  have "process_loop callback data_channel buffer (data # rx) =
    tbind (split_full_chunks callback data_channel (buffer @ data))
      (\<lambda>(dc, b). tbind (foldT callback dc (chunks_of CHUNK_SIZE (b @ concat rx))) (\<lambda>_. ret ()))"
    by (simp, rule split_full_chunks_cong) (simp add: Cons.IH)
  then show ?case by (simp add: split_full_chunks_chunks)
qed

text \<open>However the data arrives, the callback sees the chunks of the concatenated data, in
  order, and nothing after the first one it fails on.\<close>

lemma process_in_chunks_eq:
  "process_in_chunks data_channel rx callback =
   tbind (foldT callback data_channel (chunks_of CHUNK_SIZE (concat rx))) (\<lambda>_. ret ())"
  by (simp add: process_in_chunks_def process_loop_chunks)

lemma send_string_in_chunks_eq:
  "send_string_in_chunks data_channel s callback =
   tbind (foldT callback data_channel (chunks_of CHUNK_SIZE (utf8 s))) (\<lambda>_. ret ())"
  by (simp add: send_string_in_chunks_def process_in_chunks_eq)

end
