(* ===== verification/Rtc_Channel.thy ===== *)
theory Rtc_Channel
  imports Rtc_Msg Crypto Chunking
begin

text \<open>
  What the two tasks of a transfer share (core/src/webrtc/webrtc.rs): the data channel with the
  stream of received messages, the status channel, the user's answers to PIN requests, and the
  helpers that send and receive strings and nonces and that pose or answer a PIN challenge.
\<close>

section \<open>State\<close>

record data_channel_message =
  dm_is_string :: bool
  dm_data :: bytes

text \<open>What the environment of a task will do is part of its state. \<open>io_in\<close> is what
  \<open>receive_rx\<close> will deliver, after which it is closed or not; \<open>io_send_ok n\<close> tells whether the
  \<open>n\<close>-th send on the data channel succeeds, \<open>io_status_ok n\<close> whether the application still
  listens to the status after \<open>n\<close> reports; \<open>io_pins\<close> are the user's answers to PIN requests
  (\<open>None\<close> when the answer channel is dropped), \<open>io_pins_open\<close> tells whether a request can be
  made; \<open>io_drains\<close> tells whether the send buffer ever becomes empty.\<close>

record peer_io =
  io_in :: "data_channel_message list"
  io_in_closed :: bool
  io_out :: "data_channel_message list"
  io_send_ok :: "nat \<Rightarrow> bool"
  io_sends :: nat
  io_drains :: bool
  io_status :: "rtc_status list"
  io_status_ok :: "nat \<Rightarrow> bool"
  io_pins :: "string option list"
  io_pins_open :: bool

text \<open>The libraries a task uses.\<close>

record rtc_lib =
  rl_crypto :: crypto_lib
  rl_wire :: wire_lib

section \<open>Primitive operations\<close>

definition of_outcome :: "'a outcome \<Rightarrow> ('s, 'a) task" where
  "of_outcome r = (\<lambda>s. (r, s))"

definition text_message :: "string \<Rightarrow> data_channel_message" where
  "text_message t = \<lparr>dm_is_string = True, dm_data = utf8 t\<rparr>"

definition binary_message :: "bytes \<Rightarrow> data_channel_message" where
  "binary_message bs = \<lparr>dm_is_string = False, dm_data = bs\<rparr>"

definition dc_send :: "data_channel_message \<Rightarrow> ('a peer_io_scheme, unit) task" where
  "dc_send msg = (\<lambda>s.
     if io_send_ok s (io_sends s)
     then (Done (), s\<lparr>io_out := io_out s @ [msg], io_sends := Suc (io_sends s)\<rparr>)
     else (Fail (Ext DataChannelError), s\<lparr>io_sends := Suc (io_sends s)\<rparr>))"

definition send_text :: "string \<Rightarrow> ('a peer_io_scheme, unit) task" where
  "send_text t = dc_send (text_message t)"

definition send_binary :: "bytes \<Rightarrow> ('a peer_io_scheme, unit) task" where
  "send_binary bs = dc_send (binary_message bs)"

text \<open>\<open>receive_rx.recv()\<close> on the stream of \<open>to_receive_stream\<close>: the messages in the order in which
  the data channel delivers them, then \<open>None\<close> when it is closed.\<close>

definition recv :: "('a peer_io_scheme, data_channel_message option) task" where
  "recv = (\<lambda>s. case io_in s of
      msg # rest \<Rightarrow> (Done (Some msg), s\<lparr>io_in := rest\<rparr>)
    | [] \<Rightarrow> if io_in_closed s then (Done None, s) else (Await, s))"

definition status_send :: "rtc_status \<Rightarrow> ('a peer_io_scheme, unit) task" where
  "status_send st = (\<lambda>s.
     if io_status_ok s (length (io_status s)) then (Done (), s\<lparr>io_status := io_status s @ [st]\<rparr>)
     else (Fail (Ext ChannelSendError), s))"

definition wait_buffer_empty :: "('a peer_io_scheme, unit) task" where
  "wait_buffer_empty = (\<lambda>s. if io_drains s then (Done (), s) else (Await, s))"

definition parse_json :: "rtc_lib \<Rightarrow> (json \<Rightarrow> 'b option) \<Rightarrow> bytes \<Rightarrow> ('s, 'b) task" where
  "parse_json R dec bs =
     (case from_slice (rl_wire R) dec bs of None \<Rightarrow> throw (Ext JsonError) | Some x \<Rightarrow> ret x)"

definition send_json :: "rtc_lib \<Rightarrow> ('b \<Rightarrow> json) \<Rightarrow> 'b \<Rightarrow> ('a peer_io_scheme, unit) task" where
  "send_json R enc x = send_text (to_text (rl_wire R) enc x)"

section \<open>Strings in chunks\<close>

definition send_delimiter :: "('a peer_io_scheme, unit) task" where
  "send_delimiter = send_text ''0''"

definition is_delimiter :: "data_channel_message \<Rightarrow> bool" where
  "is_delimiter msg \<longleftrightarrow> dm_is_string msg \<and> length (dm_data msg) \<le> 1"

text \<open>The callback that every caller of \<open>process_in_chunks\<close> passes.\<close>

definition send_chunk :: "unit \<Rightarrow> bytes \<Rightarrow> ('a peer_io_scheme, unit) task" where
  "send_chunk data_channel chunk = send_binary chunk"

definition send_string :: "string \<Rightarrow> ('a peer_io_scheme, unit) task" where
  "send_string t = send_string_in_chunks () t send_chunk"

function receive_chunks :: "bytes \<Rightarrow> ('a peer_io_scheme, bytes) task" where
  "receive_chunks buffer s =
     (case io_in s of
        [] \<Rightarrow> (if io_in_closed s then Done buffer else Await, s)
      | msg # rest \<Rightarrow>
          if dm_is_string msg then (Done buffer, s\<lparr>io_in := rest\<rparr>)
          else receive_chunks (buffer @ dm_data msg) (s\<lparr>io_in := rest\<rparr>))"
  by pat_completeness auto
termination
  by (relation "measure (\<lambda>(buffer, s). length (io_in s))") auto

declare receive_chunks.simps [simp del]

definition receive_string_from_chunks :: "('a peer_io_scheme, bytes) task" where
  "receive_string_from_chunks = receive_chunks []"

section \<open>The remote nonce\<close>

definition receive_nonce :: "rtc_lib \<Rightarrow> ('a peer_io_scheme, bytes) task" where
  "receive_nonce R =
     tbind recv (\<lambda>received. case received of
       None \<Rightarrow> throw (Msg ''Failed to receive nonce'')
     | Some msg \<Rightarrow>
         if \<not> dm_is_string msg then throw (Msg ''Expected string message'')
         else tbind (parse_json R dec_nonce_message (dm_data msg)) (\<lambda>nonce_msg.
           case b64_decode (rl_crypto R) (nm_nonce nonce_msg) of
             None \<Rightarrow> throw (MsgOf ''Failed to decode remote nonce: '' Base64Error)
           | Some remote_nonce \<Rightarrow>
               if \<not> validate_nonce remote_nonce then throw (Msg ''Invalid remote nonce'')
               else ret remote_nonce))"

section \<open>Answering a PIN challenge\<close>

datatype 'b challenge_pin_result =
    ChallengeOk 'b
  | ChallengePinRequired
  | ChallengeTooManyAttempts
  | ChallengeParseError err

text \<open>One answer to a PIN request: \<open>bytes\<close> is received in chunks or as one string message.\<close>

definition pin_response_bytes :: "bool \<Rightarrow> ('a peer_io_scheme, bytes) task" where
  "pin_response_bytes receive_in_chunks =
     (if receive_in_chunks then receive_string_from_chunks
      else tbind recv (\<lambda>received. case received of
          None \<Rightarrow> throw (Msg ''Failed to receive initial message'')
        | Some init_status \<Rightarrow>
            if \<not> dm_is_string init_status then throw (Msg ''Expected string message'')
            else ret (dm_data init_status)))"

text \<open>The loop, along the answers that the user will give.\<close>

fun handle_pin_loop ::
  "rtc_lib \<Rightarrow> bool \<Rightarrow> (bytes \<Rightarrow> 'b challenge_pin_result) \<Rightarrow> string option list \<Rightarrow>
   ('a peer_io_scheme, 'b) task" where
  "handle_pin_loop R receive_in_chunks parse_response [] =
     tseq (status_send StPinRequired)
       (tbind (gets io_pins_open) (\<lambda>is_open.
          if is_open then suspend else throw (Msg ''Failed to send PIN request'')))"
| "handle_pin_loop R receive_in_chunks parse_response (answer # answers) =
     tseq (status_send StPinRequired)
       (tseq (modify (io_pins_update (\<lambda>_. answers)))
         (case answer of
            None \<Rightarrow> throw (Msg ''PIN required but not provided'')
          | Some pin \<Rightarrow>
              tseq (send_json R enc_pin_message \<lparr>pm_pin = pin\<rparr>)
                (tbind (pin_response_bytes receive_in_chunks) (\<lambda>bs.
                   case parse_response bs of
                     ChallengeOk result \<Rightarrow> ret result
                   | ChallengePinRequired \<Rightarrow>
                       handle_pin_loop R receive_in_chunks parse_response answers
                   | ChallengeTooManyAttempts \<Rightarrow>
                       tseq (status_send StTooManyAttempts) (throw (Msg ''Too many requests''))
                   | ChallengeParseError e \<Rightarrow> throw e))))"

definition handle_pin ::
  "rtc_lib \<Rightarrow> bool \<Rightarrow> (bytes \<Rightarrow> 'b challenge_pin_result) \<Rightarrow> ('a peer_io_scheme, 'b) task" where
  "handle_pin R receive_in_chunks parse_response =
     tbind (gets io_pins) (handle_pin_loop R receive_in_chunks parse_response)"

section \<open>Posing a PIN challenge\<close>

datatype verify_pin_result = VerifyPinRequired | VerifyTooManyAttempts

lemma pin_try_step: "\<not> (m :: u8) \<le> t \<Longrightarrow> unat (t + 1) = unat t + 1"
  using unsigned_less [of m, where ?'a = nat] by (simp add: word_le_nat_alt unat_word_ariths)

function verify_pin_loop ::
  "rtc_lib \<Rightarrow> pin_config \<Rightarrow> (verify_pin_result \<Rightarrow> ('a peer_io_scheme, unit) task) \<Rightarrow> bool \<Rightarrow>
   string \<Rightarrow> u8 \<Rightarrow> ('a peer_io_scheme, unit) task" where
  "verify_pin_loop R config send_result send_initial_notice remote_pin pin_try =
     (if remote_pin = pc_pin config then ret ()
      else if pc_max_tries config \<le> pin_try then
        tseq (discard (send_result VerifyTooManyAttempts))
          (tseq (status_send StTooManyAttempts) (throw (Msg ''Too many requests'')))
      else tseq (if send_initial_notice \<or> 0 < pin_try then send_result VerifyPinRequired else ret ())
        (tbind recv (\<lambda>received. case received of
           None \<Rightarrow> throw (Msg ''Failed to receive pin'')
         | Some msg \<Rightarrow>
             tbind (parse_json R dec_pin_message (dm_data msg)) (\<lambda>pin_req.
               verify_pin_loop R config send_result
                 (send_initial_notice \<and> \<not> (send_initial_notice \<or> 0 < pin_try))
                 (pm_pin pin_req) (pin_try + 1)))))"
  by pat_completeness auto

termination
  by (relation "measure (\<lambda>(R, config, send_result, notice, remote_pin, pin_try).
      unat (pc_max_tries config) - unat pin_try)")
    (auto simp: pin_try_step word_le_nat_alt)

declare verify_pin_loop.simps [simp del]

definition verify_pin ::
  "rtc_lib \<Rightarrow> pin_config \<Rightarrow> bool \<Rightarrow> (verify_pin_result \<Rightarrow> ('a peer_io_scheme, unit) task) \<Rightarrow>
   ('a peer_io_scheme, unit) task" where
  "verify_pin R config send_initial_notice send_result =
     tseq (status_send StPinRequired)
       (verify_pin_loop R config send_result send_initial_notice [] 0)"

end
