(* ===== verification/Rtc_Send.thy ===== *)
theory Rtc_Send
  imports Rtc_Channel
begin

text \<open>
  The task of the sending peer, spawned by \<open>send_offer\<close> (core/src/webrtc/webrtc.rs), from the
  open data channel to the last file.
\<close>

section \<open>State\<close>

text \<open>An answer that is awaited on a oneshot channel: not there yet, the channel dropped, or
  given.\<close>

datatype 'b reply = Pending | Dropped | Reply 'b

text \<open>\<open>so_open\<close>: the data channel opened; \<open>so_pair_open\<close> and \<open>so_pair_answer\<close>: the application
  takes the pair request and answers it; \<open>so_selected\<close>: the published selection, as the list of
  the keys of the received map; \<open>so_files\<close>: the files that the application hands over, each with
  the data it will deliver; \<open>so_errors\<close>: the reported file errors.\<close>

record sender_io = peer_io +
  so_open :: "unit reply"
  so_pair_open :: bool
  so_pair_answer :: "bool reply"
  so_selected :: "string list option"
  so_selected_open :: bool
  so_files :: "(string \<times> bytes list) list"
  so_files_closed :: bool
  so_errors :: "rtc_file_error list"

section \<open>Nonce and token\<close>

text \<open>The final nonce is the sender's nonce followed by the receiver's.\<close>

definition sender_nonce_exchange :: "rtc_lib \<Rightarrow> (nat \<Rightarrow> u8) \<Rightarrow> (sender_io, bytes) task" where
  "sender_nonce_exchange R rng =
     (let local_nonce = generate_nonce rng
      in tseq
           (map_err (\<lambda>_. MsgOf ''Failed to send nonce: '' DataChannelError)
             (send_json R enc_nonce_message
               \<lparr>nm_nonce = b64_encode (rl_crypto R) local_nonce\<rparr>))
           (tbind (receive_nonce R) (\<lambda>remote_nonce. ret (local_nonce @ remote_nonce))))"

definition send_token :: "rtc_lib \<Rightarrow> signing_token_key \<Rightarrow> bytes \<Rightarrow> (sender_io, unit) task" where
  "send_token R signing_key nonce =
     (case generate_token_nonce (rl_crypto R) signing_key nonce of
        Inl e \<Rightarrow> throw (MsgOf ''Failed to generate token: '' KeyError)
      | Inr local_token \<Rightarrow>
          map_err (\<lambda>_. MsgOf ''Failed to send token: '' DataChannelError)
            (send_json R enc_token_request \<lparr>tq_token = local_token\<rparr>))"

definition receive_token_response :: "rtc_lib \<Rightarrow> (sender_io, rtc_token_response) task" where
  "receive_token_response R =
     tbind recv (\<lambda>received. case received of
       None \<Rightarrow> throw (Msg ''Failed to receive token response'')
     | Some msg \<Rightarrow>
         if \<not> dm_is_string msg then throw (Msg ''Expected string message'')
         else parse_json R dec_token_response (dm_data msg))"

text \<open>The receiver's token is verified when a public key is expected.\<close>

definition check_token ::
  "rtc_lib \<Rightarrow> verifying_token_key option \<Rightarrow> string \<Rightarrow> bytes \<Rightarrow> ('s, bool) task" where
  "check_token R expecting_public_key token nonce =
     (case expecting_public_key of
        None \<Rightarrow> ret True
      | Some key \<Rightarrow> of_outcome (verify_token_nonce (rl_crypto R) key token nonce))"

definition sender_token_exchange ::
  "rtc_lib \<Rightarrow> signing_token_key \<Rightarrow> verifying_token_key option \<Rightarrow> bytes \<Rightarrow>
   (sender_io, rtc_token_response \<times> string) task" where
  "sender_token_exchange R signing_key expecting_public_key nonce =
     tseq (send_token R signing_key nonce)
       (tbind (receive_token_response R) (\<lambda>token_response.
          let accept = (\<lambda>token. tbind (check_token R expecting_public_key token nonce) (\<lambda>ok.
                if \<not> ok then throw (Msg ''Invalid token signature or nonce'')
                else ret (token_response, token)))
          in case token_response of
               TokenOk token \<Rightarrow> accept token
             | TokenPinRequired token \<Rightarrow> accept token
             | TokenInvalidSignature \<Rightarrow>
                 throw (Msg ''Invalid token signature from receiving peer'')))"

section \<open>PIN\<close>

definition parse_pin_receiving :: "rtc_lib \<Rightarrow> bytes \<Rightarrow> unit challenge_pin_result" where
  "parse_pin_receiving R bs =
     (case from_slice (rl_wire R) dec_pin_receiving bs of
        None \<Rightarrow> ChallengeParseError (Msg ''Failed to parse pin response'')
      | Some pin_res \<Rightarrow>
          (case pin_res of
             PinRecvOk \<Rightarrow> ChallengeOk ()
           | PinRecvPinRequired \<Rightarrow> ChallengePinRequired
           | PinRecvTooManyAttempts \<Rightarrow> ChallengeTooManyAttempts))"

definition sender_pin_result :: "rtc_lib \<Rightarrow> verify_pin_result \<Rightarrow> ('a peer_io_scheme, unit) task" where
  "sender_pin_result R result =
     tseq (send_string (to_text (rl_wire R) enc_pin_sending
            (case result of
               VerifyPinRequired \<Rightarrow> PinSendPinRequired
             | VerifyTooManyAttempts \<Rightarrow> PinSendTooManyAttempts)))
       send_delimiter"

definition sender_pin_phase ::
  "rtc_lib \<Rightarrow> rtc_token_response \<Rightarrow> pin_config option \<Rightarrow> (sender_io, unit) task" where
  "sender_pin_phase R token_response pin =
     tseq (case token_response of
             TokenPinRequired _ \<Rightarrow> handle_pin R False (parse_pin_receiving R)
           | _ \<Rightarrow> ret ())
       (case pin of
          None \<Rightarrow> ret ()
        | Some config \<Rightarrow> verify_pin R config True (sender_pin_result R))"

section \<open>The file list\<close>

text \<open>A failure is also reported as a status, as far as the status channel takes it.\<close>

definition or_report :: "(sender_io, unit) task \<Rightarrow> (sender_io, unit) task" where
  "or_report m =
     tbind (attempt m) (\<lambda>result. case result of
       Inr _ \<Rightarrow> ret ()
     | Inl e \<Rightarrow>
         tseq (discard (status_send (StError (MsgOf ''Failed to send file list message: '' DataChannelError))))
           (throw e))"

definition send_file_list :: "rtc_lib \<Rightarrow> file_dto list \<Rightarrow> (sender_io, unit) task" where
  "send_file_list R files =
     tseq (or_report (send_string (to_text (rl_wire R) enc_pin_sending (PinSendOk files))))
       (or_report send_delimiter)"

definition receive_file_list_response :: "rtc_lib \<Rightarrow> (sender_io, rtc_file_list_response) task" where
  "receive_file_list_response R =
     tbind receive_string_from_chunks (\<lambda>bs.
       map_err (\<lambda>_. MsgOf ''Failed to deserialize file list response: '' JsonError)
         (parse_json R dec_file_list bs))"

text \<open>\<open>None\<close>: declined, and the task returns.\<close>

definition declined :: "(sender_io, (string \<times> string) list option) task" where
  "declined = tseq (discard (status_send StDeclined)) (ret None)"

definition report_and_fail :: "string \<Rightarrow> (sender_io, 'b) task" where
  "report_and_fail text =
     tseq (discard (status_send (StError (Msg text)))) (throw (Msg text))"

text \<open>A pair request: the announced key has to be the one that made the receiver's token; then the
  user decides, and the receiver answers the file list.\<close>

definition handle_pair_request ::
  "rtc_lib \<Rightarrow> bytes \<Rightarrow> string \<Rightarrow> string \<Rightarrow> (sender_io, (string \<times> string) list option) task" where
  "handle_pair_request R nonce remote_token public_key =
     (case extract_signature_identifier remote_token of
        None \<Rightarrow> throw (Msg ''Failed to extract signature identifier'')
      | Some signature_identifier \<Rightarrow>
          tbind (of_result (parse_public_key (rl_crypto R) public_key signature_identifier)) (\<lambda>parsed_key.
          tbind (of_outcome (verify_token_nonce (rl_crypto R) parsed_key remote_token nonce)) (\<lambda>ok.
          if \<not> ok then
            tseq wait_buffer_empty
              (tseq (send_json R enc_pair_response PairInvalidSignature)
                (throw (Msg ''Invalid token signature or nonce'')))
          else
            tbind (gets so_pair_open) (\<lambda>is_open.
            if \<not> is_open then throw (Msg ''Failed to send pair response'')
            else
              tbind (gets so_pair_answer) (\<lambda>answer. case answer of
                Pending \<Rightarrow> suspend
              | Dropped \<Rightarrow> throw (Ext ChannelRecvError)
              | Reply pair_user_response \<Rightarrow>
                  tseq (send_json R enc_pair_response
                         (if pair_user_response then PairOk public_key else PairDeclined))
                    (tbind (receive_file_list_response R) (\<lambda>file_list_res. case file_list_res of
                       FileListOk files \<Rightarrow> ret (Some files)
                     | FileListDeclined \<Rightarrow> declined
                     | FileListInvalidSignature \<Rightarrow> report_and_fail ''Invalid signature (not expected)''
                     | FileListPair _ \<Rightarrow> report_and_fail ''Unexpected pair response'')))))))"

definition resolve_file_map ::
  "rtc_lib \<Rightarrow> bytes \<Rightarrow> string \<Rightarrow> (sender_io, (string \<times> string) list option) task" where
  "resolve_file_map R nonce remote_token =
     tbind (receive_file_list_response R) (\<lambda>file_list_res. case file_list_res of
       FileListOk files \<Rightarrow> ret (Some files)
     | FileListPair public_key \<Rightarrow> handle_pair_request R nonce remote_token public_key
     | FileListDeclined \<Rightarrow> declined
     | FileListInvalidSignature \<Rightarrow> report_and_fail ''Invalid signature (not expected)'')"

text \<open>Publishing the selection. The status that goes with a failure is built but its future is
  never awaited, so it is not sent.\<close>

definition publish_selection :: "(string \<times> string) list \<Rightarrow> (sender_io, unit) task" where
  "publish_selection file_map =
     tbind (gets so_selected_open) (\<lambda>is_open.
       if is_open then modify (so_selected_update (\<lambda>_. Some (map fst file_map)))
       else throw (Msg ''Could not publish selection''))"

section \<open>The files\<close>

definition report_error :: "string \<Rightarrow> err \<Rightarrow> (sender_io, unit) task" where
  "report_error file_id e =
     modify (so_errors_update (\<lambda>es. es @ [\<lparr>fe_file_id = file_id, fe_error = e\<rparr>]))"

definition send_file ::
  "rtc_lib \<Rightarrow> (string \<times> string) list \<Rightarrow> string \<times> bytes list \<Rightarrow> (sender_io, unit) task" where
  "send_file R file_map file =
     (let (file_id, binary_rx) = file
      in case map_of file_map file_id of
           None \<Rightarrow> report_error file_id (Msg ''Failed to get file token'')
         | Some file_token \<Rightarrow>
             tbind (attempt (send_json R enc_file_header \<lparr>fh_id = file_id, fh_token = file_token\<rparr>))
               (\<lambda>header_sent. case header_sent of
                  Inl e \<Rightarrow> report_error file_id e
                | Inr _ \<Rightarrow>
                    tbind (attempt (process_in_chunks () binary_rx send_chunk)) (\<lambda>result.
                      case result of Inl e \<Rightarrow> report_error file_id e | Inr _ \<Rightarrow> ret ())))"

text \<open>\<open>while let Some(message) = sending_rx.recv().await\<close>, along the files that are handed over.\<close>

fun send_files_loop ::
  "rtc_lib \<Rightarrow> (string \<times> string) list \<Rightarrow> (string \<times> bytes list) list \<Rightarrow> (sender_io, unit) task" where
  "send_files_loop R file_map [] =
     tbind (gets so_files_closed) (\<lambda>closed. if closed then ret () else suspend)"
| "send_files_loop R file_map (file # files) =
     tseq (modify (so_files_update (\<lambda>_. files)))
       (tseq (send_file R file_map file) (send_files_loop R file_map files))"

definition send_files :: "rtc_lib \<Rightarrow> (string \<times> string) list \<Rightarrow> (sender_io, unit) task" where
  "send_files R file_map = tbind (gets so_files) (send_files_loop R file_map)"

section \<open>The task\<close>

definition wait_open :: "(sender_io, unit) task" where
  "wait_open = tbind (gets so_open) (\<lambda>opened. case opened of
      Pending \<Rightarrow> suspend
    | Dropped \<Rightarrow> throw (Msg ''Data channel not opened'')
    | Reply _ \<Rightarrow> ret ())"

definition finish_sending :: "(sender_io, unit) task" where
  "finish_sending =
     tseq wait_buffer_empty (tseq send_delimiter (tbind recv (\<lambda>_. ret ())))"

definition send_task ::
  "rtc_lib \<Rightarrow> (nat \<Rightarrow> u8) \<Rightarrow> signing_token_key \<Rightarrow> verifying_token_key option \<Rightarrow> pin_config option \<Rightarrow>
   file_dto list \<Rightarrow> (sender_io, unit) task" where
  "send_task R rng signing_key expecting_public_key pin files =
     tseq wait_open
    (tseq wait_buffer_empty
    (tbind (sender_nonce_exchange R rng) (\<lambda>nonce.
     tbind (sender_token_exchange R signing_key expecting_public_key nonce) (\<lambda>(token_response, remote_token).
     tseq (sender_pin_phase R token_response pin)
    (tseq (status_send StConnected)
    (tseq (send_file_list R files)
    (tbind (resolve_file_map R nonce remote_token) (\<lambda>resolved. case resolved of
       None \<Rightarrow> ret ()
     | Some file_map \<Rightarrow>
         tseq (publish_selection file_map)
        (tseq (send_files R file_map) finish_sending)))))))))"

end
