(* ===== verification/Rtc_Receive.thy ===== *)
theory Rtc_Receive
  imports Rtc_Send
begin

text \<open>
  The task of the receiving peer, spawned by \<open>accept_offer\<close> (core/src/webrtc/webrtc.rs), from the
  opened data channel to the end of the last file.
\<close>

section \<open>State\<close>

text \<open>\<open>ro_channel\<close>: the opened data channel arrives, or its sender is dropped; \<open>ro_files\<close>: the
  published file list, if the application takes it; \<open>ro_selection\<close>: the user's selection in the
  order in which the set is iterated, \<open>Reply None\<close> when declined; \<open>ro_uuid\<close>: the generated
  identifiers; \<open>ro_received\<close>: the files handed to the application with the chunks each was given,
  \<open>ro_takes n\<close>: whether the application still listens to a file after \<open>n\<close> chunks in total;
  \<open>ro_results\<close>: the application's verdicts on finished files.\<close>

record receiver_io = peer_io +
  ro_channel :: "unit reply"
  ro_files :: "file_dto list option"
  ro_files_open :: bool
  ro_selection :: "string list option reply"
  ro_uuid :: "nat \<Rightarrow> string"
  ro_errors :: "rtc_file_error list"
  ro_received :: "(string \<times> bytes list) list"
  ro_takes :: "nat \<Rightarrow> bool"
  ro_results :: "rtc_send_file_response list"
  ro_results_closed :: bool

section \<open>Nonce and token\<close>

definition receiver_nonce_exchange :: "rtc_lib \<Rightarrow> (nat \<Rightarrow> u8) \<Rightarrow> (receiver_io, bytes) task" where
  "receiver_nonce_exchange R rng =
     tbind (receive_nonce R) (\<lambda>remote_nonce.
       let local_nonce = generate_nonce rng
       in tseq
            (map_err (\<lambda>_. MsgOf ''Failed to send nonce: '' DataChannelError)
              (send_json R enc_nonce_message
                \<lparr>nm_nonce = b64_encode (rl_crypto R) local_nonce\<rparr>))
            (ret (remote_nonce @ local_nonce)))"

definition receive_token :: "rtc_lib \<Rightarrow> (receiver_io, string) task" where
  "receive_token R =
     tbind recv (\<lambda>received. case received of
       None \<Rightarrow> throw (Msg ''Failed to receive token'')
     | Some msg \<Rightarrow>
         if \<not> dm_is_string msg then throw (Msg ''Expected string message'')
         else tbind (parse_json R dec_token_request (dm_data msg)) (\<lambda>request. ret (tq_token request)))"

definition answer_token ::
  "rtc_lib \<Rightarrow> signing_token_key \<Rightarrow> pin_config option \<Rightarrow> bytes \<Rightarrow> (receiver_io, unit) task" where
  "answer_token R signing_key pin nonce =
     (case generate_token_nonce (rl_crypto R) signing_key nonce of
        Inl e \<Rightarrow> throw (MsgOf ''Failed to generate token: '' KeyError)
      | Inr local_token \<Rightarrow>
          map_err (\<lambda>_. MsgOf ''Failed to send token: '' DataChannelError)
            (send_json R enc_token_response
              (case pin of Some _ \<Rightarrow> TokenPinRequired local_token | None \<Rightarrow> TokenOk local_token)))"

definition receiver_token_exchange ::
  "rtc_lib \<Rightarrow> signing_token_key \<Rightarrow> verifying_token_key option \<Rightarrow> pin_config option \<Rightarrow> bytes \<Rightarrow>
   (receiver_io, unit) task" where
  "receiver_token_exchange R signing_key expecting_public_key pin nonce =
     tbind (receive_token R) (\<lambda>remote_token.
     tbind (check_token R expecting_public_key remote_token nonce) (\<lambda>ok.
       if \<not> ok then
         tseq (send_json R enc_token_response TokenInvalidSignature)
           (tseq wait_buffer_empty (throw (Msg ''Invalid token signature or nonce'')))
       else answer_token R signing_key pin nonce))"

section \<open>PIN and file list\<close>

definition receiver_pin_result :: "rtc_lib \<Rightarrow> verify_pin_result \<Rightarrow> ('a peer_io_scheme, unit) task" where
  "receiver_pin_result R result =
     send_json R enc_pin_receiving
       (case result of
          VerifyPinRequired \<Rightarrow> PinRecvPinRequired
        | VerifyTooManyAttempts \<Rightarrow> PinRecvTooManyAttempts)"

definition receiver_pin_phase :: "rtc_lib \<Rightarrow> pin_config option \<Rightarrow> (receiver_io, unit) task" where
  "receiver_pin_phase R pin = (case pin of
      None \<Rightarrow> ret ()
    | Some config \<Rightarrow>
        tseq (verify_pin R config False (receiver_pin_result R))
          (send_json R enc_pin_receiving PinRecvOk))"

definition parse_pin_sending :: "rtc_lib \<Rightarrow> bytes \<Rightarrow> file_dto list challenge_pin_result" where
  "parse_pin_sending R bs =
     (case from_slice (rl_wire R) dec_pin_sending bs of
        None \<Rightarrow> ChallengeParseError (Msg ''Failed to parse pin response'')
      | Some pin_res \<Rightarrow>
          (case pin_res of
             PinSendOk files \<Rightarrow> ChallengeOk files
           | PinSendPinRequired \<Rightarrow> ChallengePinRequired
           | PinSendTooManyAttempts \<Rightarrow> ChallengeTooManyAttempts))"

definition receive_file_list :: "rtc_lib \<Rightarrow> (receiver_io, file_dto list) task" where
  "receive_file_list R =
     tbind receive_string_from_chunks (\<lambda>bs.
     tbind (map_err (\<lambda>_. MsgOf ''Failed to deserialize file list response: '' JsonError)
             (parse_json R dec_pin_sending bs)) (\<lambda>pin_response. case pin_response of
       PinSendOk files \<Rightarrow> ret files
     | PinSendPinRequired \<Rightarrow> handle_pin R True (parse_pin_sending R)
     | PinSendTooManyAttempts \<Rightarrow>
         tseq (discard (status_send (StError (Msg ''Unexpected TooManyAttempts response''))))
           (throw (Msg ''Unexpected TooManyAttempts response''))))"

section \<open>The selection\<close>

definition publish_files :: "file_dto list \<Rightarrow> (receiver_io, unit) task" where
  "publish_files file_list =
     tbind (gets ro_files_open) (\<lambda>is_open.
       if is_open then modify (ro_files_update (\<lambda>_. Some file_list))
       else throw (Msg ''Failed to send file list''))"

definition send_file_response :: "rtc_lib \<Rightarrow> rtc_file_list_response \<Rightarrow> (receiver_io, unit) task" where
  "send_file_response R response =
     tseq (send_string (to_text (rl_wire R) enc_file_list response)) send_delimiter"

text \<open>Each selected file gets a fresh identifier for its token.\<close>

definition generate_file_tokens :: "(nat \<Rightarrow> string) \<Rightarrow> string list \<Rightarrow> (string \<times> string) list" where
  "generate_file_tokens uuid selected = zip selected (map uuid [0..<length selected])"

text \<open>\<open>None\<close>: nothing was selected, and the task returns.\<close>

definition answer_selection :: "rtc_lib \<Rightarrow> (receiver_io, (string \<times> string) list option) task" where
  "answer_selection R =
     tbind (gets ro_selection) (\<lambda>selection. case selection of
       Pending \<Rightarrow> suspend
     | Dropped \<Rightarrow> ret None
     | Reply None \<Rightarrow> tseq (send_file_response R FileListDeclined) (ret None)
     | Reply (Some selected) \<Rightarrow>
         tbind (gets ro_uuid) (\<lambda>uuid.
           let file_tokens = generate_file_tokens uuid selected
           in tseq (send_file_response R (FileListOk file_tokens)) (ret (Some file_tokens))))"

section \<open>The files\<close>

text \<open>The open file: its identifier and announced size. Its data goes to the last entry of
  \<open>ro_received\<close>.\<close>

record rtc_file_state =
  fs_file_id :: string
  fs_size :: u64

datatype loop_step = Continue "rtc_file_state option" | Break

definition receive_error :: "string \<Rightarrow> err \<Rightarrow> (receiver_io, unit) task" where
  "receive_error file_id e =
     modify (ro_errors_update (\<lambda>es. es @ [\<lparr>fe_file_id = file_id, fe_error = e\<rparr>]))"

text \<open>The application's verdict on a finished file, as the error to send.\<close>

definition file_verdict :: "(receiver_io, string option) task" where
  "file_verdict = (\<lambda>s. case ro_results s of
      result # rest \<Rightarrow>
        (Done (if fr_success result then None
               else Some (case fr_error result of Some e \<Rightarrow> e | None \<Rightarrow> ''Unknown error'')),
         s\<lparr>ro_results := rest\<rparr>)
    | [] \<Rightarrow> if ro_results_closed s then (Done (Some ''Failed to receive file result''), s)
            else (Await, s))"

text \<open>A string message ends the open file, if there is one.\<close>

definition end_file :: "rtc_lib \<Rightarrow> string \<Rightarrow> (receiver_io, unit) task" where
  "end_file R last_file_id =
     tbind file_verdict (\<lambda>error.
       send_json R enc_file_response
         \<lparr>fr_id = last_file_id, fr_success = (error = None), fr_error = error\<rparr>)"

text \<open>A header opens the next file, if its token is the one that was generated for it.\<close>

definition open_file ::
  "(string \<times> string) list \<Rightarrow> file_dto list \<Rightarrow> rtc_send_file_header_request \<Rightarrow>
   (receiver_io, loop_step) task" where
  "open_file file_tokens file_list header =
     (case map_of file_tokens (fh_id header) of
        None \<Rightarrow> tseq (receive_error (fh_id header) (Msg ''File not found'')) (ret (Continue None))
      | Some entry \<Rightarrow>
          if fh_token header \<noteq> entry
          then tseq (receive_error (fh_id header) (Msg ''Invalid token'')) (ret (Continue None))
          else (case find (\<lambda>f. fd_id f = fh_id header) file_list of
              None \<Rightarrow>
                tseq (receive_error (fh_id header) (Msg ''Expected size to be available''))
                  (ret (Continue None))
            | Some file \<Rightarrow>
                tseq (modify (ro_received_update (\<lambda>fs. fs @ [(fh_id header, [])])))
                  (ret (Continue (Some \<lparr>fs_file_id = fh_id header, fs_size = fd_size file\<rparr>)))))"

text \<open>Binary data goes to the application as a chunk of the open file.\<close>

definition total_chunks :: "(string \<times> bytes list) list \<Rightarrow> nat" where
  "total_chunks fs = sum_list (map (\<lambda>f. length (snd f)) fs)"

definition add_chunk :: "bytes \<Rightarrow> (string \<times> bytes list) list \<Rightarrow> (string \<times> bytes list) list" where
  "add_chunk data fs = butlast fs @ [(fst (last fs), snd (last fs) @ [data])]"

definition publish_data :: "bytes \<Rightarrow> (receiver_io, unit) task" where
  "publish_data data = (\<lambda>s.
     if ro_takes s (total_chunks (ro_received s))
     then (Done (), ro_received_update (add_chunk data) s)
     else (Fail (Ext ChannelSendError), s))"

definition receive_message ::
  "rtc_lib \<Rightarrow> (string \<times> string) list \<Rightarrow> file_dto list \<Rightarrow> rtc_file_state option \<Rightarrow>
   data_channel_message \<Rightarrow> (receiver_io, loop_step) task" where
  "receive_message R file_tokens file_list file_state msg =
     (if dm_is_string msg then
        tbind
          (case file_state of
             None \<Rightarrow> ret False
           | Some state \<Rightarrow> tseq (end_file R (fs_file_id state)) (ret (is_delimiter msg)))
          (\<lambda>end_of_all_files.
             if end_of_all_files then ret Break
             else tbind (parse_json R dec_file_header (dm_data msg)) (open_file file_tokens file_list))
      else (case file_state of
          Some _ \<Rightarrow> tseq (publish_data (dm_data msg)) (ret (Continue file_state))
        | None \<Rightarrow>
            tseq (receive_error ''unknown'' (Msg ''Received binary data without a header''))
              (ret (Continue None))))"

text \<open>\<open>while let Some(msg) = receive_rx.recv().await\<close>, along the messages that are delivered.\<close>

fun receive_loop ::
  "rtc_lib \<Rightarrow> (string \<times> string) list \<Rightarrow> file_dto list \<Rightarrow> rtc_file_state option \<Rightarrow>
   data_channel_message list \<Rightarrow> (receiver_io, unit) task" where
  "receive_loop R file_tokens file_list file_state [] =
     tbind (gets io_in_closed) (\<lambda>closed. if closed then ret () else suspend)"
| "receive_loop R file_tokens file_list file_state (msg # msgs) =
     tseq (modify (io_in_update (\<lambda>_. msgs)))
       (tbind (receive_message R file_tokens file_list file_state msg) (\<lambda>step. case step of
          Break \<Rightarrow> ret ()
        | Continue file_state' \<Rightarrow> receive_loop R file_tokens file_list file_state' msgs))"

definition receive_files ::
  "rtc_lib \<Rightarrow> (string \<times> string) list \<Rightarrow> file_dto list \<Rightarrow> (receiver_io, unit) task" where
  "receive_files R file_tokens file_list =
     tbind (gets io_in) (receive_loop R file_tokens file_list None)"

section \<open>The task\<close>

definition wait_channel :: "(receiver_io, unit) task" where
  "wait_channel = tbind (gets ro_channel) (\<lambda>channel. case channel of
      Pending \<Rightarrow> suspend
    | Dropped \<Rightarrow> throw (Msg ''Data channel not found'')
    | Reply _ \<Rightarrow> ret ())"

definition receive_task ::
  "rtc_lib \<Rightarrow> (nat \<Rightarrow> u8) \<Rightarrow> signing_token_key \<Rightarrow> verifying_token_key option \<Rightarrow> pin_config option \<Rightarrow>
   (receiver_io, unit) task" where
  "receive_task R rng signing_key expecting_public_key pin =
     tseq wait_channel
    (tbind (receiver_nonce_exchange R rng) (\<lambda>nonce.
     tseq (receiver_token_exchange R signing_key expecting_public_key pin nonce)
    (tseq (receiver_pin_phase R pin)
    (tbind (receive_file_list R) (\<lambda>file_list.
     tseq (status_send StConnected)
    (tseq (publish_files file_list)
    (tbind (answer_selection R) (\<lambda>answered. case answered of
       None \<Rightarrow> ret ()
     | Some file_tokens \<Rightarrow> receive_files R file_tokens file_list))))))))"

end
