(* ===== verification/Rtc_Channel_Props.thy ===== *)
theory Rtc_Channel_Props
  imports Rtc_Channel
begin

text \<open>
  What the helpers of a transfer do: a string arrives as it was sent, a PIN challenge accepts
  exactly a correct PIN among the allowed number of guesses.
\<close>

section \<open>Tasks that only produce output\<close>

definition same_inputs :: "'a peer_io_scheme \<Rightarrow> 'a peer_io_scheme \<Rightarrow> bool" where
  "same_inputs s t \<longleftrightarrow> io_in t = io_in s \<and> io_in_closed t = io_in_closed s \<and>
     io_send_ok t = io_send_ok s \<and> io_drains t = io_drains s \<and> io_status_ok t = io_status_ok s \<and>
     io_pins t = io_pins s \<and> io_pins_open t = io_pins_open s"

interpretation outputs: step_relation same_inputs
  by unfold_locales (simp_all add: same_inputs_def)

definition output_only :: "('a peer_io_scheme, 'b) task \<Rightarrow> bool" where
  "output_only m \<longleftrightarrow> keeps same_inputs m"

lemma output_dc_send: "output_only (dc_send msg)"
  unfolding output_only_def by (rule keeps_primI) (simp add: dc_send_def same_inputs_def)

lemma output_status_send: "output_only (status_send st)"
  unfolding output_only_def by (rule keeps_primI) (simp add: status_send_def same_inputs_def)

lemma output_sends:
  "output_only (send_text t)" "output_only (send_binary bs)" "output_only (send_json R e x)"
  "output_only send_delimiter" "output_only (send_string u)"
  unfolding send_text_def send_binary_def send_json_def send_delimiter_def send_string_def
    send_string_in_chunks_eq send_chunk_def output_only_def
  by (intro outputs.closed output_dc_send [unfolded output_only_def])+

lemma output_tseq: "output_only m \<Longrightarrow> output_only n \<Longrightarrow> output_only (tseq m n)"
  unfolding output_only_def by (rule outputs.seq)

lemmas output_intros = output_tseq output_dc_send output_status_send output_sends

section \<open>A channel that works\<close>

definition works :: "'a peer_io_scheme \<Rightarrow> bool" where
  "works s \<longleftrightarrow> (\<forall>n. io_send_ok s n) \<and> (\<forall>n. io_status_ok s n) \<and> io_drains s"

text \<open>The state after \<open>ms\<close> were sent, and after a status was reported.\<close>

definition sent :: "data_channel_message list \<Rightarrow> 'a peer_io_scheme \<Rightarrow> 'a peer_io_scheme" where
  "sent ms s = s\<lparr>io_out := io_out s @ ms, io_sends := io_sends s + length ms\<rparr>"

definition reported :: "rtc_status \<Rightarrow> 'a peer_io_scheme \<Rightarrow> 'a peer_io_scheme" where
  "reported st s = s\<lparr>io_status := io_status s @ [st]\<rparr>"

lemma sent_simps [simp]:
  "io_in (sent ms s) = io_in s" "io_in_closed (sent ms s) = io_in_closed s"
  "io_out (sent ms s) = io_out s @ ms" "io_send_ok (sent ms s) = io_send_ok s"
  "io_drains (sent ms s) = io_drains s" "io_status (sent ms s) = io_status s"
  "io_status_ok (sent ms s) = io_status_ok s" "io_pins (sent ms s) = io_pins s"
  "io_pins_open (sent ms s) = io_pins_open s" "works (sent ms s) = works s"
  "sent ms (sent ns s) = sent (ns @ ms) s" "sent [] s = s"
  by (simp_all add: sent_def works_def)

lemma reported_simps [simp]:
  "io_in (reported st s) = io_in s" "io_in_closed (reported st s) = io_in_closed s"
  "io_out (reported st s) = io_out s" "io_send_ok (reported st s) = io_send_ok s"
  "io_drains (reported st s) = io_drains s" "io_status (reported st s) = io_status s @ [st]"
  "io_status_ok (reported st s) = io_status_ok s" "io_pins (reported st s) = io_pins s"
  "io_pins_open (reported st s) = io_pins_open s" "works (reported st s) = works s"
  by (simp_all add: reported_def works_def)

lemma works_in [simp]: "works (s\<lparr>io_in := i\<rparr>) = works s" "works (s\<lparr>io_pins := ps\<rparr>) = works s"
  by (simp_all add: works_def)

lemma works_send [task_simps]:
  assumes "works s"
  shows "dc_send msg s = (Done (), sent [msg] s)"
    and "send_text t s = (Done (), sent [text_message t] s)"
    and "send_binary bs s = (Done (), sent [binary_message bs] s)"
    and "send_json R e x s = (Done (), sent [text_message (to_text (rl_wire R) e x)] s)"
    and "send_delimiter s = (Done (), sent [text_message ''0''] s)"
    and "status_send st s = (Done (), reported st s)"
    and "wait_buffer_empty s = (Done (), s)"
  using assms
  by (simp_all add: works_def dc_send_def send_text_def send_binary_def send_json_def
      send_delimiter_def status_send_def wait_buffer_empty_def sent_def reported_def)

lemma works_send_chunks:
  "works s \<Longrightarrow> foldT send_chunk dc cs s = (Done (), sent (map binary_message cs) s)"
  by (induction cs arbitrary: dc s)
    (simp_all add: send_chunk_def tbind_run task_simps)

lemma works_send_string [task_simps]:
  "works s \<Longrightarrow> send_string t s =
   (Done (), sent (map binary_message (chunks_of CHUNK_SIZE (utf8 t))) s)"
  by (simp add: send_string_def send_string_in_chunks_eq tbind_run works_send_chunks task_simps)

section \<open>Strings\<close>

lemma text_message_simps [simp]:
  "dm_is_string (text_message t)" "dm_data (text_message t) = utf8 t"
  "\<not> dm_is_string (binary_message bs)" "dm_data (binary_message bs) = bs"
  by (simp_all add: text_message_def binary_message_def)

lemma receive_chunks_binary:
  "io_in s = map binary_message cs @ msg # rest \<Longrightarrow> dm_is_string msg \<Longrightarrow>
   receive_chunks buffer s = (Done (buffer @ concat cs), s\<lparr>io_in := rest\<rparr>)"
  by (induction cs arbitrary: buffer s) (simp_all add: receive_chunks.simps)

lemma receive_string_chunks:
  "io_in s = map binary_message (chunks_of CHUNK_SIZE bs) @ msg # rest \<Longrightarrow> dm_is_string msg \<Longrightarrow>
   receive_string_from_chunks s = (Done bs, s\<lparr>io_in := rest\<rparr>)"
  by (simp add: receive_string_from_chunks_def receive_chunks_binary)

lemma recv_run [task_simps]:
  "io_in s = msg # rest \<Longrightarrow> recv s = (Done (Some msg), s\<lparr>io_in := rest\<rparr>)"
  "io_in s = [] \<Longrightarrow> recv s = (if io_in_closed s then (Done None, s) else (Await, s))"
  by (simp_all add: recv_def)

lemma parse_json_run [task_simps]:
  "parse_json R dec bs s =
   (case from_slice (rl_wire R) dec bs of None \<Rightarrow> (Fail (Ext JsonError), s) | Some x \<Rightarrow> (Done x, s))"
  by (simp add: parse_json_def throw_def ret_def split: option.split)

section \<open>The interface of a PIN challenge\<close>

text \<open>What \<open>verify_pin\<close> needs of the function that sends its verdicts: it leaves the received
  messages alone, and it succeeds on a channel that works.\<close>

locale pin_challenge =
  fixes send_result :: "verify_pin_result \<Rightarrow> ('a peer_io_scheme, unit) task"
  assumes sends_only: "output_only (send_result r)"
    and sends_ok: "works s \<Longrightarrow> fst (send_result r s) = Done ()"
begin

lemma send_result_in: "send_result r s = (x, s') \<Longrightarrow> io_in s' = io_in s \<and> io_in_closed s' = io_in_closed s"
  using sends_only [of r] unfolding output_only_def keeps_def same_inputs_def by (metis snd_conv)

lemma send_result_works: "works s \<Longrightarrow> \<exists>s'. send_result r s = (Done (), s') \<and> works s' \<and>
    io_in s' = io_in s \<and> io_in_closed s' = io_in_closed s"
  using sends_only [of r] sends_ok [of s r] unfolding output_only_def keeps_def same_inputs_def works_def
  by (metis (no_types) prod.collapse)

end

text \<open>The PINs that the received messages contain, and the verdict on them with \<open>n\<close> tries
  left.\<close>

definition guesses :: "rtc_lib \<Rightarrow> data_channel_message list \<Rightarrow> string option list" where
  "guesses R ms = map (\<lambda>m. map_option pm_pin (from_slice (rl_wire R) dec_pin_message (dm_data m))) ms"

fun pin_verdict :: "string \<Rightarrow> bool \<Rightarrow> nat \<Rightarrow> string option list \<Rightarrow> unit outcome" where
  "pin_verdict pin closed 0 gs = Fail (Msg ''Too many requests'')"
| "pin_verdict pin closed (Suc n) [] =
     (if closed then Fail (Msg ''Failed to receive pin'') else Await)"
| "pin_verdict pin closed (Suc n) (None # gs) = Fail (Ext JsonError)"
| "pin_verdict pin closed (Suc n) (Some g # gs) =
     (if g = pin then Done () else pin_verdict pin closed n gs)"

context pin_challenge
begin

text \<open>One round of the loop: the verdict on the last guess, or the next guess.\<close>

lemma loop_round:
  assumes "remote \<noteq> pc_pin config" and "\<not> pc_max_tries config \<le> t"
  shows "verify_pin_loop R config send_result notice remote t =
    tseq (if notice \<or> 0 < t then send_result VerifyPinRequired else ret ())
      (tbind recv (\<lambda>received. case received of
         None \<Rightarrow> throw (Msg ''Failed to receive pin'')
       | Some msg \<Rightarrow> tbind (parse_json R dec_pin_message (dm_data msg)) (\<lambda>pin_req.
           verify_pin_loop R config send_result False (pm_pin pin_req) (t + 1))))"
  using assms by (subst verify_pin_loop.simps) simp

lemma loop_accepts:
  "verify_pin_loop R config send_result notice (pc_pin config) t s = (Done (), s)"
  by (subst verify_pin_loop.simps) (simp add: ret_def)

lemma loop_sound:
  assumes "verify_pin_loop R config send_result notice remote t s = (Done (), s')"
    and "remote \<noteq> pc_pin config"
  shows "\<exists>n. n < unat (pc_max_tries config) - unat t \<and> n < length (io_in s) \<and>
    guesses R (io_in s) ! n = Some (pc_pin config) \<and> io_in s' = drop (Suc n) (io_in s)"
  using assms
proof (induction "unat (pc_max_tries config) - unat t" arbitrary: t remote notice s)
  case 0
  then have "pc_max_tries config \<le> t" by (simp add: word_le_nat_alt)
  with 0 show ?case
    by (subst (asm) verify_pin_loop.simps)
      (auto simp: tseq_def tbind_def throw_def split: prod.splits outcome.splits)
next
  case (Suc k)
  from Suc.hyps(2) have lt: "\<not> pc_max_tries config \<le> t" by (simp add: word_le_nat_alt)
  have k: "k = unat (pc_max_tries config) - unat (t + 1)"
    using Suc.hyps(2) pin_try_step [OF lt] by simp
  obtain u s1 where first: "(if notice \<or> 0 < t then send_result VerifyPinRequired else ret ()) s = (Done u, s1)"
    and b: "tbind recv (\<lambda>received. case received of
         None \<Rightarrow> throw (Msg ''Failed to receive pin'')
       | Some msg \<Rightarrow> tbind (parse_json R dec_pin_message (dm_data msg)) (\<lambda>pin_req.
           verify_pin_loop R config send_result False (pm_pin pin_req) (t + 1))) s1 = (Done (), s')"
    using Suc.prems(1) unfolding loop_round [OF Suc.prems(2) lt] tseq_def by (rule tbind_Done_cases)
  from first have "io_in s1 = io_in s"
    by (auto simp: task_simps dest: send_result_in split: if_splits)
  with b obtain msg rest req where ms: "io_in s = msg # rest"
    and req: "from_slice (rl_wire R) dec_pin_message (dm_data msg) = Some req"
    and run: "verify_pin_loop R config send_result False (pm_pin req) (t + 1) (s1\<lparr>io_in := rest\<rparr>) = (Done (), s')"
    by (auto elim!: tbind_Done_cases simp: recv_def parse_json_def task_simps
        split: list.splits if_splits option.splits)
  show ?case
  proof (cases "pm_pin req = pc_pin config")
    case True
    with run loop_accepts have "s' = s1\<lparr>io_in := rest\<rparr>" by simp
    with ms req True Suc.hyps(2) show ?thesis by (intro exI [of _ 0]) (simp add: guesses_def)
  next
    case False
    from Suc.hyps(1) [OF k run False] obtain n where
      "n < unat (pc_max_tries config) - unat (t + 1)" "n < length rest"
      "guesses R rest ! n = Some (pc_pin config)" "io_in s' = drop (Suc n) rest"
      by auto
    with ms Suc.hyps(2) k show ?thesis
      by (intro exI [of _ "Suc n"]) (simp add: guesses_def)
  qed
qed

lemma loop_exact:
  assumes "works s" and "remote \<noteq> pc_pin config"
  shows "fst (verify_pin_loop R config send_result notice remote t s) =
    pin_verdict (pc_pin config) (io_in_closed s) (unat (pc_max_tries config) - unat t)
      (guesses R (io_in s))"
  using assms
proof (induction "unat (pc_max_tries config) - unat t" arbitrary: t remote notice s)
  case 0
  then have "pc_max_tries config \<le> t" by (simp add: word_le_nat_alt)
  moreover obtain s1 where "send_result VerifyTooManyAttempts s = (Done (), s1)" "works s1"
    using send_result_works [OF 0(2)] by blast
  ultimately show ?case using 0
    by (subst verify_pin_loop.simps) (simp add: task_run task_simps)
next
  case (Suc k)
  from Suc.hyps(2) have lt: "\<not> pc_max_tries config \<le> t" by (simp add: word_le_nat_alt)
  have k: "k = unat (pc_max_tries config) - unat (t + 1)"
    using Suc.hyps(2) pin_try_step [OF lt] by simp
  obtain s1 where s1: "(if notice \<or> 0 < t then send_result VerifyPinRequired else ret ()) s = (Done (), s1)"
    "works s1" "io_in s1 = io_in s" "io_in_closed s1 = io_in_closed s"
    using send_result_works [OF Suc.prems(1), of VerifyPinRequired] Suc.prems(1)
    by (cases "notice \<or> 0 < t") (auto simp: task_simps)
  show ?case
  proof (cases "io_in s")
    case Nil
    with s1 show ?thesis
      unfolding loop_round [OF Suc.prems(2) lt] Suc.hyps(2) [symmetric]
      by (simp add: task_run task_simps guesses_def tbind_def)
  next
    case (Cons msg rest)
    show ?thesis
    proof (cases "from_slice (rl_wire R) dec_pin_message (dm_data msg)")
      case None
      with s1 Cons show ?thesis
        unfolding loop_round [OF Suc.prems(2) lt] Suc.hyps(2) [symmetric]
        by (simp add: task_run task_simps guesses_def)
    next
      case (Some req)
      with s1 Cons have "verify_pin_loop R config send_result notice remote t s =
          verify_pin_loop R config send_result False (pm_pin req) (t + 1) (s1\<lparr>io_in := rest\<rparr>)"
        unfolding loop_round [OF Suc.prems(2) lt] by (simp add: task_run task_simps)
      with Some s1 Cons Suc.hyps(1) [OF k, of "s1\<lparr>io_in := rest\<rparr>" "pm_pin req" False] loop_accepts
      show ?thesis
        unfolding Suc.hyps(2) [symmetric] by (simp add: guesses_def flip: k)
    qed
  qed
qed

lemma verify_sound:
  assumes "verify_pin R config notice send_result s = (Done (), s')" and "pc_pin config \<noteq> []"
  shows "\<exists>n. n < unat (pc_max_tries config) \<and> n < length (io_in s) \<and>
    guesses R (io_in s) ! n = Some (pc_pin config) \<and> io_in s' = drop (Suc n) (io_in s)"
proof -
  obtain s1 where "status_send StPinRequired s = (Done (), s1)"
    and run: "verify_pin_loop R config send_result notice [] 0 s1 = (Done (), s')"
    using assms(1) by (auto simp: verify_pin_def tseq_def elim: tbind_Done_cases)
  then have "io_in s1 = io_in s" by (auto simp: status_send_def split: if_splits)
  with loop_sound [OF run] assms(2) show ?thesis by auto
qed

lemma verify_exact:
  assumes "works s" and "pc_pin config \<noteq> []"
  shows "fst (verify_pin R config notice send_result s) =
    pin_verdict (pc_pin config) (io_in_closed s) (unat (pc_max_tries config)) (guesses R (io_in s))"
  using loop_exact [of "reported StPinRequired s" "[]" config R notice 0] assms
  by (simp add: verify_pin_def task_run task_simps)

end

end
