(* ===== verification/Rtc_Transfer.thy ===== *)
theory Rtc_Transfer
  imports Rtc_Receive Rtc_Channel_Props
begin

text \<open>
  The transfer of files: what the sending loop puts on the channel, what the receiving loop makes
  of it, and that together they deliver the files unchanged.
\<close>

section \<open>What the sender puts on the channel\<close>

lemma sent_sender [simp]:
  "so_files (sent ms s) = so_files s" "so_files_closed (sent ms s) = so_files_closed s"
  "so_errors (sent ms s) = so_errors s" "so_pair_open (sent ms s) = so_pair_open s"
  "so_pair_answer (sent ms s) = so_pair_answer s" "so_selected_open (sent ms s) = so_selected_open s"
  "so_open (sent ms s) = so_open s" "so_selected (sent ms s) = so_selected s"
  by (simp_all add: sent_def)

definition header_text :: "rtc_lib \<Rightarrow> string \<Rightarrow> string \<Rightarrow> string" where
  "header_text R file_id file_token =
     to_text (rl_wire R) enc_file_header \<lparr>fh_id = file_id, fh_token = file_token\<rparr>"

definition file_messages ::
  "rtc_lib \<Rightarrow> (string \<times> string) list \<Rightarrow> string \<times> bytes list \<Rightarrow> data_channel_message list" where
  "file_messages R file_map fl = (case map_of file_map (fst fl) of
      None \<Rightarrow> []
    | Some file_token \<Rightarrow>
        text_message (header_text R (fst fl) file_token) #
        map binary_message (chunks_of CHUNK_SIZE (concat (snd fl))))"

definition unknown_errors :: "(string \<times> string) list \<Rightarrow> (string \<times> bytes list) list \<Rightarrow> rtc_file_error list" where
  "unknown_errors file_map files =
     map (\<lambda>f. \<lparr>fe_file_id = fst f, fe_error = Msg ''Failed to get file token''\<rparr>)
       (filter (\<lambda>f. map_of file_map (fst f) = None) files)"

lemma send_file_run:
  assumes "works s"
  shows "send_file R file_map fl s =
    (Done (), sent (file_messages R file_map fl)
      (s\<lparr>so_errors := so_errors s @ unknown_errors file_map [fl]\<rparr>))"
proof (cases "map_of file_map (fst fl)")
  case None
  then show ?thesis
    by (cases fl) (simp add: send_file_def file_messages_def unknown_errors_def report_error_def task_simps)
next
  case (Some token)
  let ?h = "text_message (header_text R (fst fl) token)"
  let ?cs = "chunks_of CHUNK_SIZE (concat (snd fl))"
  have head: "attempt (send_json R enc_file_header \<lparr>fh_id = fst fl, fh_token = token\<rparr>) s =
      (Done (Inr ()), sent [?h] s)"
    using assms by (simp add: attempt_def works_send header_text_def)
  have body: "attempt (process_in_chunks () (snd fl) send_chunk) (sent [?h] s) =
      (Done (Inr ()), sent (map binary_message ?cs) (sent [?h] s))"
    using assms
    by (simp only: attempt_def process_in_chunks_eq tbind_def works_send_chunks sent_simps ret_run
        prod.case outcome.case)
  have "s\<lparr>so_errors := so_errors s\<rparr> = s" by simp
  with Some head body show ?thesis
    by (cases fl) (simp add: send_file_def tbind_def file_messages_def unknown_errors_def ret_run)
qed

lemma works_sender [simp]:
  "works (s\<lparr>so_files := fs\<rparr>) = works s" "works (s\<lparr>so_errors := es\<rparr>) = works s"
  by (simp_all add: works_def)

lemma send_files_loop_run:
  "works s \<Longrightarrow> so_files_closed s \<Longrightarrow>
   send_files_loop R file_map files s =
   (Done (), sent (concat (map (file_messages R file_map) files))
     (s\<lparr>so_files := if files = [] then so_files s else [],
        so_errors := so_errors s @ unknown_errors file_map files\<rparr>))"
proof (induction files arbitrary: s)
  case Nil
  then show ?case by (simp add: task_run task_simps unknown_errors_def)
next
  case (Cons fl files)
  then show ?case
    by (simp add: task_run task_simps send_file_run) (simp add: sent_def unknown_errors_def)
qed

lemma send_files_run:
  "works s \<Longrightarrow> so_files_closed s \<Longrightarrow>
   send_files R file_map s =
   (Done (), sent (concat (map (file_messages R file_map) (so_files s)))
     (s\<lparr>so_files := [], so_errors := so_errors s @ unknown_errors file_map (so_files s)\<rparr>))"
  by (simp add: send_files_def task_run task_simps send_files_loop_run)

section \<open>What the receiver makes of it\<close>

lemma sent_receiver [simp]:
  "ro_files (sent ms r) = ro_files r" "ro_received (sent ms r) = ro_received r"
  "ro_takes (sent ms r) = ro_takes r" "ro_results (sent ms r) = ro_results r"
  "ro_errors (sent ms r) = ro_errors r" "ro_results_closed (sent ms r) = ro_results_closed r"
  "ro_selection (sent ms r) = ro_selection r" "ro_uuid (sent ms r) = ro_uuid r"
  "ro_files_open (sent ms r) = ro_files_open r" "ro_channel (sent ms r) = ro_channel r"
  by (simp_all add: sent_def)

lemma works_receiver [simp]:
  "works (r\<lparr>ro_received := fs\<rparr>) = works r" "works (r\<lparr>ro_results := rs\<rparr>) = works r"
  by (simp_all add: works_def)

text \<open>An application that takes everything it is given.\<close>

definition takes_all :: "receiver_io \<Rightarrow> bool" where
  "takes_all r \<longleftrightarrow> (\<forall>n. ro_takes r n)"

lemma takes_all_simps [simp]:
  "takes_all (sent ms r) = takes_all r" "takes_all (r\<lparr>ro_received := fs\<rparr>) = takes_all r"
  "takes_all (r\<lparr>ro_results := rs\<rparr>) = takes_all r" "takes_all (r\<lparr>io_in := i\<rparr>) = takes_all r"
  by (simp_all add: takes_all_def)

lemma receive_loop_binary:
  assumes "takes_all r" and "ro_received r = fs @ [(file_id, got)]"
    and "io_in r = map binary_message cs @ msgs"
  shows "receive_loop R tokens file_list (Some st) (map binary_message cs @ msgs) r =
    receive_loop R tokens file_list (Some st) msgs
      (r\<lparr>io_in := msgs, ro_received := fs @ [(file_id, got @ cs)]\<rparr>)"
  using assms
proof (induction cs arbitrary: r got)
  case Nil
  then have "r\<lparr>io_in := msgs, ro_received := fs @ [(file_id, got @ [])]\<rparr> = r"
    by (cases r) simp
  then show ?case by simp
next
  case (Cons c cs)
  then have "receive_message R tokens file_list (Some st) (binary_message c)
      (r\<lparr>io_in := map binary_message cs @ msgs\<rparr>) =
    (Done (Continue (Some st)), r\<lparr>io_in := map binary_message cs @ msgs,
      ro_received := fs @ [(file_id, got @ [c])]\<rparr>)"
    by (simp add: receive_message_def publish_data_def takes_all_def add_chunk_def task_run task_simps)
  with Cons.IH [of "r\<lparr>io_in := map binary_message cs @ msgs,
      ro_received := fs @ [(file_id, got @ [c])]\<rparr>" "got @ [c]"] Cons.prems
  show ?case by (simp add: task_run task_simps)
qed

text \<open>The response to a finished file, from the application's verdict.\<close>

definition verdict_error :: "rtc_send_file_response \<Rightarrow> string option" where
  "verdict_error result =
     (if fr_success result then None
      else Some (case fr_error result of Some e \<Rightarrow> e | None \<Rightarrow> ''Unknown error''))"

definition response_message :: "rtc_lib \<Rightarrow> string \<Rightarrow> rtc_send_file_response \<Rightarrow> data_channel_message" where
  "response_message R file_id result =
     text_message (to_text (rl_wire R) enc_file_response
       \<lparr>fr_id = file_id, fr_success = (verdict_error result = None), fr_error = verdict_error result\<rparr>)"

lemma end_file_run:
  assumes "works r" and "ro_results r = result # results"
  shows "end_file R file_id r =
    (Done (), sent [response_message R file_id result] (r\<lparr>ro_results := results\<rparr>))"
  using assms
  by (simp add: end_file_def file_verdict_def response_message_def verdict_error_def task_run task_simps)

definition known_file :: "(string \<times> string) list \<Rightarrow> file_dto list \<Rightarrow> string \<times> bytes list \<Rightarrow> bool" where
  "known_file tokens file_list fl \<longleftrightarrow> map_of tokens (fst fl) \<noteq> None \<and>
     fst fl \<in> set (map fd_id file_list)"

lemma known_file_find:
  "known_file tokens file_list fl \<Longrightarrow> \<exists>f. find (\<lambda>f. fd_id f = fst fl) file_list = Some f"
  by (cases "find (\<lambda>f. fd_id f = fst fl) file_list") (auto simp: known_file_def find_None_iff)

lemma header_not_delimiter: "json_ok (rl_wire R) \<Longrightarrow> 2 \<le> length (header_text R i t)"
  by (simp add: header_text_def to_text_def enc_file_header_def json_ok_def)

lemma header_parses [simp]:
  "json_ok (rl_wire R) \<Longrightarrow>
   from_slice (rl_wire R) dec_file_header (utf8 (header_text R i t)) = Some \<lparr>fh_id = i, fh_token = t\<rparr>"
  by (simp add: header_text_def file_header_codec.slice_enc)

text \<open>The states before and after the header of a file: the file that was open, if any, is
  answered.\<close>

definition answered :: "rtc_lib \<Rightarrow> rtc_file_state option \<Rightarrow> receiver_io \<Rightarrow> receiver_io" where
  "answered R file_state r = (case file_state of
      None \<Rightarrow> r
    | Some st \<Rightarrow> sent [response_message R (fs_file_id st) (hd (ro_results r))]
        (r\<lparr>ro_results := tl (ro_results r)\<rparr>))"

lemma receive_loop_file:
  assumes "json_ok (rl_wire R)" and "works r" and "takes_all r" and "known_file tokens file_list fl"
    and "file_state = None \<or> ro_results r \<noteq> []"
    and "io_in r = file_messages R tokens fl @ msgs"
  shows "\<exists>st. fs_file_id st = fst fl \<and>
    receive_loop R tokens file_list file_state (file_messages R tokens fl @ msgs) r =
    receive_loop R tokens file_list (Some st) msgs
      ((answered R file_state r)\<lparr>io_in := msgs,
         ro_received := ro_received r @ [(fst fl, chunks_of CHUNK_SIZE (concat (snd fl)))]\<rparr>)"
proof -
  obtain token where t: "map_of tokens (fst fl) = Some token"
    using assms(4) by (auto simp: known_file_def)
  obtain f where f: "find (\<lambda>f. fd_id f = fst fl) file_list = Some f"
    using known_file_find [OF assms(4)] by blast
  let ?cs = "chunks_of CHUNK_SIZE (concat (snd fl))"
  let ?h = "text_message (header_text R (fst fl) token)"
  let ?st = "\<lparr>fs_file_id = fst fl, fs_size = fd_size f\<rparr>"
  let ?in = "map binary_message ?cs @ msgs"
  let ?r' = "(answered R file_state r)\<lparr>io_in := ?in, ro_received := ro_received r @ [(fst fl, [])]\<rparr>"
  have ms: "file_messages R tokens fl = ?h # map binary_message ?cs"
    by (simp add: file_messages_def t)
  have nd: "\<not> is_delimiter ?h"
    using header_not_delimiter [OF assms(1), of "fst fl" token] by (simp add: is_delimiter_def)
  have step: "receive_message R tokens file_list file_state ?h (r\<lparr>io_in := ?in\<rparr>) =
      (Done (Continue (Some ?st)), ?r')"
  proof (cases file_state)
    case None
    with assms(1) t f show ?thesis
      by (simp add: receive_message_def open_file_def answered_def task_run task_simps)
  next
    case (Some st)
    with assms(5) obtain result results where "ro_results r = result # results"
      by (cases "ro_results r") auto
    with Some assms(1,2) t f nd show ?thesis
      by (simp add: receive_message_def open_file_def answered_def end_file_run task_run task_simps)
        (simp add: sent_def)
  qed
  have "receive_loop R tokens file_list file_state (?h # ?in) r =
      receive_loop R tokens file_list (Some ?st) ?in ?r'"
    using step by (simp add: task_run task_simps)
  also have "\<dots> = receive_loop R tokens file_list (Some ?st) msgs
      (?r'\<lparr>io_in := msgs, ro_received := ro_received r @ [(fst fl, [] @ ?cs)]\<rparr>)"
    by (rule receive_loop_binary) (use assms(3) in \<open>simp_all add: answered_def split: option.split\<close>)
  finally show ?thesis
    by (intro exI [of _ ?st]) (simp add: ms)
qed

text \<open>What was received, and the responses to the files in order.\<close>

definition received_files :: "(string \<times> bytes list) list \<Rightarrow> (string \<times> bytes list) list" where
  "received_files files = map (\<lambda>f. (fst f, chunks_of CHUNK_SIZE (concat (snd f)))) files"

definition responses ::
  "rtc_lib \<Rightarrow> string list \<Rightarrow> rtc_send_file_response list \<Rightarrow> data_channel_message list" where
  "responses R ids results = map (\<lambda>(i, result). response_message R i result) (zip ids results)"

definition delimiter :: data_channel_message where
  "delimiter = text_message ''0''"

lemma is_delimiter_delimiter [simp]: "is_delimiter delimiter" "dm_is_string delimiter"
  by (simp_all add: is_delimiter_def delimiter_def)

lemma receive_loop_open:
  assumes "json_ok (rl_wire R)" and "works r" and "takes_all r"
    and "list_all (known_file tokens file_list) files"
    and "length files < length (ro_results r)"
    and "io_in r = concat (map (file_messages R tokens) files) @ delimiter # rest"
  shows "receive_loop R tokens file_list (Some st) (io_in r) r =
    (Done (), sent (responses R (fs_file_id st # map fst files) (ro_results r))
      (r\<lparr>io_in := rest, ro_received := ro_received r @ received_files files,
         ro_results := drop (Suc (length files)) (ro_results r)\<rparr>))"
  using assms
proof (induction files arbitrary: st r)
  case Nil
  then obtain result results where res: "ro_results r = result # results"
    by (cases "ro_results r") auto
  have "receive_message R tokens file_list (Some st) delimiter (r\<lparr>io_in := rest\<rparr>) =
      (Done Break, sent [response_message R (fs_file_id st) result]
        (r\<lparr>io_in := rest, ro_results := results\<rparr>))"
    using Nil(2) res by (simp add: receive_message_def end_file_run task_run task_simps)
  with Nil res show ?case
    by (simp add: task_run task_simps responses_def received_files_def)
next
  case (Cons fl files)
  let ?msgs = "concat (map (file_messages R tokens) files) @ delimiter # rest"
  from Cons.prems obtain result results where res: "ro_results r = result # results"
    by (cases "ro_results r") auto
  have io: "io_in r = file_messages R tokens fl @ ?msgs"
    using Cons.prems(6) by simp
  obtain st' where st': "fs_file_id st' = fst fl" and
    run: "receive_loop R tokens file_list (Some st) (io_in r) r =
      receive_loop R tokens file_list (Some st') ?msgs
      ((answered R (Some st) r)\<lparr>io_in := ?msgs,
         ro_received := ro_received r @ [(fst fl, chunks_of CHUNK_SIZE (concat (snd fl)))]\<rparr>)"
    using receive_loop_file [OF Cons.prems(1-3) _ _ io, of file_list "Some st"] Cons.prems(4) res io
    by auto
  let ?r' = "(answered R (Some st) r)\<lparr>io_in := ?msgs,
         ro_received := ro_received r @ [(fst fl, chunks_of CHUNK_SIZE (concat (snd fl)))]\<rparr>"
  have "receive_loop R tokens file_list (Some st') (io_in ?r') ?r' =
    (Done (), sent (responses R (fs_file_id st' # map fst files) (ro_results ?r'))
      (?r'\<lparr>io_in := rest, ro_received := ro_received ?r' @ received_files files,
         ro_results := drop (Suc (length files)) (ro_results ?r')\<rparr>))"
    using Cons.prems res by (intro Cons.IH) (simp_all add: answered_def)
  with run res st' show ?case
    by (simp add: answered_def responses_def received_files_def) (simp add: sent_def)
qed

lemma receive_files_run:
  assumes "json_ok (rl_wire R)" and "works r" and "takes_all r"
    and "list_all (known_file tokens file_list) files" and "files \<noteq> []"
    and "length files \<le> length (ro_results r)"
    and "io_in r = concat (map (file_messages R tokens) files) @ delimiter # rest"
  shows "receive_files R tokens file_list r =
    (Done (), sent (responses R (map fst files) (ro_results r))
      (r\<lparr>io_in := rest, ro_received := ro_received r @ received_files files,
         ro_results := drop (length files) (ro_results r)\<rparr>))"
proof -
  obtain fl more where files: "files = fl # more" using assms(5) by (cases files) auto
  let ?msgs = "concat (map (file_messages R tokens) more) @ delimiter # rest"
  have io: "io_in r = file_messages R tokens fl @ ?msgs"
    using assms(7) files by simp
  obtain st where st: "fs_file_id st = fst fl" and
    run: "receive_loop R tokens file_list None (io_in r) r =
      receive_loop R tokens file_list (Some st) ?msgs
      ((answered R None r)\<lparr>io_in := ?msgs,
         ro_received := ro_received r @ [(fst fl, chunks_of CHUNK_SIZE (concat (snd fl)))]\<rparr>)"
    using receive_loop_file [OF assms(1-3) _ _ io, of file_list None] assms(4) files io by auto
  let ?r' = "(answered R None r)\<lparr>io_in := ?msgs,
         ro_received := ro_received r @ [(fst fl, chunks_of CHUNK_SIZE (concat (snd fl)))]\<rparr>"
  have "receive_loop R tokens file_list (Some st) (io_in ?r') ?r' =
    (Done (), sent (responses R (fs_file_id st # map fst more) (ro_results ?r'))
      (?r'\<lparr>io_in := rest, ro_received := ro_received ?r' @ received_files more,
         ro_results := drop (Suc (length more)) (ro_results ?r')\<rparr>))"
    using assms files by (intro receive_loop_open) (simp_all add: answered_def)
  with run st files show ?thesis
    by (simp add: receive_files_def task_run task_simps answered_def received_files_def)
qed

end
