(* ===== verification/Json_Text.thy ===== *)
theory Json_Text
  imports Json
begin

text \<open>
  A concrete text form of JSON values: the compact form that \<open>serde_json\<close> writes, for strings
  that need no escapes but those of the quote and the backslash, and a reader for it. It shows
  that what the code relies on (\<open>json_ok\<close>, \<open>uuid_ok\<close>) can hold, and the theorems about messages
  are applied on it.
\<close>

section \<open>Writing\<close>

fun escape :: "string \<Rightarrow> string" where
  "escape [] = []"
| "escape (c # cs) =
     (if c = CHR 0x22 \<or> c = CHR 0x5C then CHR 0x5C # c # escape cs else c # escape cs)"

definition quote :: "string \<Rightarrow> string" where
  "quote s = CHR 0x22 # escape s @ [CHR 0x22]"

definition print_int :: "int \<Rightarrow> string" where
  "print_int n = (if n < 0 then CHR ''-'' # fmt_dec (nat (- n)) else fmt_dec (nat n))"

fun json_text :: "json \<Rightarrow> string" and json_elems :: "json list \<Rightarrow> string"
  and json_members :: "(string \<times> json) list \<Rightarrow> string" where
  "json_text JNull = ''null''"
| "json_text (JBool b) = (if b then ''true'' else ''false'')"
| "json_text (JInt n) = print_int n"
| "json_text JFloat = ''!''"
| "json_text (JStr s) = quote s"
| "json_text (JArr js) = CHR ''['' # json_elems js"
| "json_text (JObj kvs) = CHR ''{'' # json_members kvs"
| "json_elems [] = '']''"
| "json_elems (j # js) =
     json_text j @ (case js of [] \<Rightarrow> '']'' | _ # _ \<Rightarrow> CHR '','' # json_elems js)"
| "json_members [] = ''}''"
| "json_members (kv # kvs) = quote (fst kv) @ CHR '':'' # json_text (snd kv) @
     (case kvs of [] \<Rightarrow> ''}'' | _ # _ \<Rightarrow> CHR '','' # json_members kvs)"

section \<open>Reading\<close>

definition is_digit :: "char \<Rightarrow> bool" where
  "is_digit c \<longleftrightarrow> (48 :: nat) \<le> of_char c \<and> of_char c \<le> (57 :: nat)"

definition read_nat :: "string \<Rightarrow> (int \<times> string) option" where
  "read_nat s = (case takeWhile is_digit s of
      [] \<Rightarrow> None | ds \<Rightarrow> Some (int (unradix 10 ds), dropWhile is_digit s))"

fun unquote :: "string \<Rightarrow> (string \<times> string) option" where
  "unquote [] = None"
| "unquote (c # cs) =
     (if c = CHR 0x22 then Some ([], cs)
      else if c = CHR 0x5C then
        (case cs of [] \<Rightarrow> None | d # ds \<Rightarrow> map_option (\<lambda>(s, r). (d # s, r)) (unquote ds))
      else map_option (\<lambda>(s, r). (c # s, r)) (unquote cs))"

fun read_string :: "string \<Rightarrow> (string \<times> string) option" where
  "read_string (c # cs) = (if c = CHR 0x22 then unquote cs else None)"
| "read_string [] = None"

definition read_literal :: "string \<Rightarrow> 'a \<Rightarrow> string \<Rightarrow> ('a \<times> string) option" where
  "read_literal l v s = (if take (length l) s = l then Some (v, drop (length l) s) else None)"

text \<open>The first argument bounds the depth and the length of what is read.\<close>

fun read_json :: "nat \<Rightarrow> string \<Rightarrow> (json \<times> string) option"
  and read_elems :: "nat \<Rightarrow> string \<Rightarrow> (json list \<times> string) option"
  and read_members :: "nat \<Rightarrow> string \<Rightarrow> ((string \<times> json) list \<times> string) option" where
  "read_json 0 s = None"
| "read_json (Suc n) s =
     (case s of [] \<Rightarrow> None
      | c # cs \<Rightarrow>
          if c = CHR ''n'' then read_literal ''null'' JNull s
          else if c = CHR ''t'' then read_literal ''true'' (JBool True) s
          else if c = CHR ''f'' then read_literal ''false'' (JBool False) s
          else if c = CHR ''!'' then Some (JFloat, cs)
          else if c = CHR 0x22 then map_option (\<lambda>(t, r). (JStr t, r)) (unquote cs)
          else if c = CHR ''['' then
            (if take 1 cs = '']'' then Some (JArr [], drop 1 cs)
             else map_option (\<lambda>(js, r). (JArr js, r)) (read_elems n cs))
          else if c = CHR ''{'' then
            (if take 1 cs = ''}'' then Some (JObj [], drop 1 cs)
             else map_option (\<lambda>(kvs, r). (JObj kvs, r)) (read_members n cs))
          else if c = CHR ''-'' then map_option (\<lambda>(m, r). (JInt (- m), r)) (read_nat cs)
          else map_option (\<lambda>(m, r). (JInt m, r)) (read_nat s))"
| "read_elems 0 s = None"
| "read_elems (Suc n) s =
     (case read_json n s of None \<Rightarrow> None
      | Some (j, r) \<Rightarrow>
          (case r of [] \<Rightarrow> None
           | c # cs \<Rightarrow>
               if c = CHR '']'' then Some ([j], cs)
               else if c = CHR '','' then map_option (\<lambda>(js, r'). (j # js, r')) (read_elems n cs)
               else None))"
| "read_members 0 s = None"
| "read_members (Suc n) s =
     (case read_string s of None \<Rightarrow> None
      | Some (k, r) \<Rightarrow>
          (if take 1 r \<noteq> '':'' then None
           else case read_json n (drop 1 r) of None \<Rightarrow> None
             | Some (j, r') \<Rightarrow>
                 (case r' of [] \<Rightarrow> None
                  | c # cs \<Rightarrow>
                      if c = CHR ''}'' then Some ([(k, j)], cs)
                      else if c = CHR '','' then
                        map_option (\<lambda>(kvs, r''). ((k, j) # kvs, r'')) (read_members n cs)
                      else None)))"

definition json_untext :: "string \<Rightarrow> json option" where
  "json_untext s = (case read_json (length s) s of
      Some (j, r) \<Rightarrow> if r = [] then Some j else None | None \<Rightarrow> None)"

section \<open>Reading back\<close>

lemma unquote_escape: "unquote (escape s @ CHR 0x22 # r) = Some (s, r)"
  by (induction s) auto

lemma read_string_quote: "read_string (quote s @ r) = Some (s, r)"
  by (simp add: quote_def unquote_escape)

lemma is_digit_digit: "d < 10 \<Longrightarrow> is_digit (digit d)"
  by (simp add: is_digit_def of_char_digit)

lemma fmt_dec_digits: "c \<in> set (fmt_dec n) \<Longrightarrow> is_digit c"
  using radix_chars [of 10 c n] is_digit_digit by (auto simp: fmt_dec_def)

text \<open>What may follow a value in a larger text.\<close>

definition stops :: "string \<Rightarrow> bool" where
  "stops r \<longleftrightarrow> (case r of [] \<Rightarrow> True | c # _ \<Rightarrow> \<not> is_digit c)"

lemma read_nat_fmt_dec: "stops r \<Longrightarrow> read_nat (fmt_dec n @ r) = Some (int n, r)"
proof -
  assume r: "stops r"
  have "takeWhile is_digit (fmt_dec n @ r) = fmt_dec n" "dropWhile is_digit (fmt_dec n @ r) = r"
    using r fmt_dec_digits by (auto simp: takeWhile_append dropWhile_append stops_def split: list.splits)
  moreover have "unradix 10 (fmt_dec n) = n" by (simp add: fmt_dec_def unradix_radix)
  ultimately show ?thesis
    by (cases "fmt_dec n") (auto simp: read_nat_def)
qed

lemma fmt_dec_head: "\<exists>c cs. fmt_dec n = c # cs \<and> is_digit c"
  using fmt_dec_digits [of _ n] by (cases "fmt_dec n") auto

lemma digit_not_mark:
  "is_digit c \<Longrightarrow> c \<notin> {CHR ''n'', CHR ''t'', CHR ''f'', CHR ''!'', CHR 0x22, CHR ''['', CHR ''{'',
    CHR ''-'', CHR '']'', CHR ''}'', CHR '',''}"
  by (auto simp: is_digit_def)

lemma stops_simps [simp]: "stops []" "stops (CHR '','' # r)" "stops (CHR '']'' # r)" "stops (CHR ''}'' # r)"
  by (simp_all add: stops_def is_digit_def)

lemma json_text_head: "\<exists>c cs. json_text j = c # cs \<and> c \<noteq> CHR '']''"
proof (cases j)
  case (JInt n)
  obtain c cs where c: "fmt_dec (nat n) = c # cs" "is_digit c" using fmt_dec_head by blast
  then have "c \<noteq> CHR '']''" using digit_not_mark [of c] by simp
  with c JInt show ?thesis by (cases "n < 0") (simp_all add: print_int_def)
qed (simp_all add: quote_def)

lemma json_text_length: "0 < length (json_text j)"
  using json_text_head [of j] by auto

lemma read_json_text:
  "length (json_text j) \<le> n \<Longrightarrow> stops r \<Longrightarrow> read_json n (json_text j @ r) = Some (j, r)"
  "js \<noteq> [] \<Longrightarrow> length (json_elems js) \<le> n \<Longrightarrow> read_elems n (json_elems js @ r) = Some (js, r)"
  "kvs \<noteq> [] \<Longrightarrow> length (json_members kvs) \<le> n \<Longrightarrow>
   read_members n (json_members kvs @ r) = Some (kvs, r)"
proof (induction j and js and kvs arbitrary: n r and n r and n r
    rule: json_text_json_elems_json_members.induct)
  case (3 i)
  then obtain m where n: "n = Suc m" by (cases n) (auto simp: print_int_def split: if_splits)
  show ?case
  proof (cases "i < 0")
    case True
    with 3 n show ?thesis by (simp add: print_int_def read_nat_fmt_dec)
  next
    case False
    obtain c cs where "fmt_dec (nat i) = c # cs" "is_digit c" using fmt_dec_head by blast
    with False 3 n read_nat_fmt_dec [OF 3(2), of "nat i"] digit_not_mark [of c] show ?thesis
      by (auto simp: print_int_def)
  qed
next
  case (6 js)
  then obtain m where n: "n = Suc m" by (cases n) auto
  show ?case
  proof (cases js)
    case Nil
    with 6 n show ?thesis by simp
  next
    case (Cons j js')
    obtain c cs where "json_text j = c # cs" "c \<noteq> CHR '']''" using json_text_head by blast
    with Cons have "take 1 (json_elems js @ r) \<noteq> '']''" by simp
    with 6 n Cons show ?thesis by simp
  qed
next
  case (7 kvs)
  then obtain m where n: "n = Suc m" by (cases n) auto
  show ?case
  proof (cases kvs)
    case Nil
    with 7 n show ?thesis by simp
  next
    case (Cons kv kvs')
    then have "take 1 (json_members kvs @ r) \<noteq> ''}''" by (simp add: quote_def)
    with 7 n Cons show ?thesis by simp
  qed
next
  case (9 j js)
  then obtain m where n: "n = Suc m" using json_text_length [of j] by (cases n) auto
  then show ?case using 9 by (cases js) auto
next
  case (11 kv kvs)
  then obtain m where n: "n = Suc m" by (cases n) (auto simp: quote_def)
  then show ?case using 11 by (cases kvs; cases kv) (auto simp: read_string_quote)
qed (auto simp: read_literal_def quote_def unquote_escape gr0_conv_Suc Suc_le_eq elim!: Suc_lessE)

lemma json_untext_text [simp]: "json_untext (json_text j) = Some j"
  using read_json_text(1) [of j "length (json_text j)" "[]"] by (simp add: json_untext_def)

definition demo_wire :: wire_lib where
  "demo_wire = \<lparr>json_print = json_text, json_parse = json_untext,
     uuid_print = (\<lambda>u. fmt_hex (unat u)), uuid_parse = (\<lambda>s. Some (of_nat (unradix 16 s)))\<rparr>"

lemma json_members_length: "0 < length (json_members kvs)"
  by (cases kvs) auto

lemma demo_json_ok: "json_ok demo_wire"
  using json_members_length by (auto simp: json_ok_def demo_wire_def Suc_le_eq)

lemma demo_uuid_ok: "uuid_ok demo_wire"
  by (simp add: uuid_ok_def demo_wire_def fmt_hex_def unradix_radix)

end
