(* ===== verification/Instances.thy ===== *)
theory Instances
  imports Crypto
begin

text \<open>
  Concrete library functions, on which the theorems about tokens are applied once: hexadecimal
  for base64, and a signature that is the key followed by the message. They satisfy what the
  code relies on, so those hypotheses can hold.
\<close>

section \<open>Hexadecimal\<close>

definition hex_encode :: "bytes \<Rightarrow> string" where
  "hex_encode bs = concat (map (\<lambda>b. [digit (unat b div 16), digit (unat b mod 16)]) bs)"

fun hex_decode :: "string \<Rightarrow> bytes option" where
  "hex_decode [] = Some []"
| "hex_decode (a # b # cs) =
     map_option (\<lambda>bs. of_nat (undigit a * 16 + undigit b) # bs) (hex_decode cs)"
| "hex_decode _ = None"

lemma unat_byte_less: "unat (b :: u8) < 256"
  using unsigned_less [of b, where ?'a = nat] by simp

lemma hex_decode_encode [simp]: "hex_decode (hex_encode bs) = Some bs"
proof (induction bs)
  case Nil
  then show ?case by (simp add: hex_encode_def)
next
  case (Cons b bs)
  have "unat b div 16 < 36" and "unat b mod 16 < 36"
    using unat_byte_less [of b] by auto
  with Cons show ?case by (simp add: hex_encode_def)
qed

lemma hex_encode_no_dot: "CHR ''.'' \<notin> set (hex_encode bs)"
proof -
  have "digit (unat b div 16) \<noteq> CHR ''.''" and "digit (unat b mod 16) \<noteq> CHR ''.''" for b :: u8
    using unat_byte_less [of b] by (auto intro!: digit_neq)
  then show ?thesis by (auto simp: hex_encode_def dest: sym)
qed

section \<open>A crypto library\<close>

definition demo_crypto :: crypto_lib where
  "demo_crypto =
     \<lparr>sha256 = (\<lambda>bs. bs), b64_encode = hex_encode, b64_decode = hex_decode,
      ed_generate = (\<lambda>rng. map rng [0..<32]), ed_verifying_key = (\<lambda>k. k),
      ed_sign = (\<lambda>k m. k @ m), ed_signature_from_slice = Some,
      ed_verify = (\<lambda>k m sg. sg = k @ m), ed_key_der = Some,
      ed_to_pkcs8_pem = (\<lambda>k. Some (hex_encode k)), ed_from_pkcs8_pem = hex_decode,
      ed_to_public_key_pem = (\<lambda>k. Some (hex_encode k)), ed_from_public_key_pem = hex_decode,
      rsa_signature_try_from = (\<lambda>_. None), rsa_verify = (\<lambda>_ _ _. False),
      rsa_key_der = (\<lambda>_. None), rsa_from_public_key_pem = (\<lambda>_. None)\<rparr>"

lemma demo_b64_ok: "b64_ok demo_crypto"
  by (simp add: b64_ok_def demo_crypto_def hex_encode_no_dot)

lemma demo_sign_ok: "sign_ok demo_crypto"
  by (simp add: sign_ok_def demo_crypto_def)

lemma demo_pem_ok: "pem_ok demo_crypto"
  by (simp add: pem_ok_def demo_crypto_def)

end
