(* ===== verification/Rtc_Props.thy ===== *)
theory Rtc_Props
  imports Rtc_Transfer Json_Text Instances
begin

text \<open>
  What a transfer guarantees: files arrive unchanged, both peers compute the same nonce, a PIN
  challenge accepts exactly a correct PIN within the allowed tries, and nothing beyond the
  handshake is sent or published before the other side has proved its key and its PIN.
\<close>

section \<open>A concrete environment\<close>

definition demo_lib :: rtc_lib where
  "demo_lib = \<lparr>rl_crypto = demo_crypto, rl_wire = demo_wire\<rparr>"

lemma demo_lib_ok [simp]: "json_ok (rl_wire demo_lib)" "b64_ok (rl_crypto demo_lib)" "sign_ok (rl_crypto demo_lib)"
  by (simp_all add: demo_lib_def demo_json_ok demo_b64_ok demo_sign_ok)

definition demo_sender :: sender_io where
  "demo_sender = \<lparr>io_in = [], io_in_closed = False, io_out = [], io_send_ok = (\<lambda>_. True),
     io_sends = 0, io_drains = True, io_status = [], io_status_ok = (\<lambda>_. True), io_pins = [],
     io_pins_open = True, so_open = Reply (), so_pair_open = True, so_pair_answer = Pending,
     so_selected = None, so_selected_open = True, so_files = [], so_files_closed = True,
     so_errors = []\<rparr>"

definition demo_receiver :: receiver_io where
  "demo_receiver = \<lparr>io_in = [], io_in_closed = False, io_out = [], io_send_ok = (\<lambda>_. True),
     io_sends = 0, io_drains = True, io_status = [], io_status_ok = (\<lambda>_. True), io_pins = [],
     io_pins_open = True, ro_channel = Reply (), ro_files = None, ro_files_open = True,
     ro_selection = Pending, ro_uuid = (\<lambda>n. fmt_dec n), ro_errors = [], ro_received = [],
     ro_takes = (\<lambda>_. True), ro_results = [], ro_results_closed = False\<rparr>"

lemma demo_works [simp]: "works demo_sender" "works demo_receiver" "takes_all demo_receiver"
  by (simp_all add: works_def demo_sender_def demo_receiver_def takes_all_def)

section \<open>Strings\<close>

text \<open>
  C27: a string that is sent in chunks and closed by a delimiter is what the other peer reads,
  whatever its length, and nothing of what follows is consumed; each chunk is non-empty and at most
  16 KiB long.
\<close>

theorem string_arrives:
  assumes "works s" and "works r"
  shows "\<exists>s' ms. tseq (send_string t) send_delimiter s = (Done (), s') \<and> io_out s' = io_out s @ ms \<and>
    list_all (\<lambda>m. dm_is_string m \<or> 0 < length (dm_data m) \<and> length (dm_data m) \<le> 16 * 1024) ms \<and>
    receive_string_from_chunks (r\<lparr>io_in := ms @ rest\<rparr>) = (Done (utf8 t), r\<lparr>io_in := rest\<rparr>)"
proof -
  let ?cs = "map binary_message (chunks_of CHUNK_SIZE (utf8 t))"
  have "tseq (send_string t) send_delimiter s =
      (Done (), sent (?cs @ [delimiter]) s)"
    using assms(1) by (simp add: tseq_run(1) [OF works_send_string] works_send delimiter_def)
  moreover have "list_all (\<lambda>m. dm_is_string m \<or> 0 < length (dm_data m) \<and> length (dm_data m) \<le> 16 * 1024)
      (?cs @ [delimiter])"
    using chunks_of_bounds by (fastforce simp: list_all_iff CHUNK_SIZE_def)
  moreover have "receive_string_from_chunks (r\<lparr>io_in := (?cs @ [delimiter]) @ rest\<rparr>) =
      (Done (utf8 t), r\<lparr>io_in := rest\<rparr>)"
    using receive_string_chunks [of "r\<lparr>io_in := (?cs @ [delimiter]) @ rest\<rparr>" "utf8 t" delimiter rest]
    by simp
  ultimately show ?thesis
    by (intro exI [of _ "sent (?cs @ [delimiter]) s"] exI [of _ "?cs @ [delimiter]"]) simp
qed

theorem string_arrives_witness:
  "\<exists>s' ms. tseq (send_string ''hello'') send_delimiter demo_sender = (Done (), s') \<and>
    io_out s' = ms \<and>
    receive_string_from_chunks (demo_receiver\<lparr>io_in := ms @ []\<rparr>) =
      (Done (utf8 ''hello''), demo_receiver\<lparr>io_in := []\<rparr>)"
  using string_arrives [OF demo_works(1,2), of "''hello''" "[]"] by (auto simp: demo_sender_def)

section \<open>Nonces\<close>

lemma receive_nonce_run:
  assumes "json_ok (rl_wire R)" and "b64_ok (rl_crypto R)" and "validate_nonce n"
    and "io_in s = text_message (to_text (rl_wire R) enc_nonce_message
      \<lparr>nm_nonce = b64_encode (rl_crypto R) n\<rparr>) # rest"
  shows "receive_nonce R s = (Done n, s\<lparr>io_in := rest\<rparr>)"
  using assms
  by (simp add: receive_nonce_def task_run task_simps nonce_message_codec.slice_enc b64_ok_def)

text \<open>
  Over a working channel both peers end the nonce exchange with the same nonce: the 32 bytes
  the sender chose followed by the 32 bytes the receiver chose; each reads exactly the message the
  other one wrote.
\<close>

theorem nonces_agree:
  assumes "json_ok (rl_wire R)" and "b64_ok (rl_crypto R)" and "works s" and "works r"
  shows "\<exists>a b s' r'.
    sender_nonce_exchange R rng (s\<lparr>io_in := b # rest_s\<rparr>) =
      (Done (generate_nonce rng @ generate_nonce rng'), s') \<and>
    receiver_nonce_exchange R rng' (r\<lparr>io_in := a # rest_r\<rparr>) =
      (Done (generate_nonce rng @ generate_nonce rng'), r') \<and>
    io_out s' = io_out s @ [a] \<and> io_out r' = io_out r @ [b] \<and>
    io_in s' = rest_s \<and> io_in r' = rest_r"
proof -
  let ?m = "\<lambda>g. text_message (to_text (rl_wire R) enc_nonce_message
      \<lparr>nm_nonce = b64_encode (rl_crypto R) (generate_nonce g)\<rparr>)"
  let ?s1 = "sent [?m rng] (s\<lparr>io_in := ?m rng' # rest_s\<rparr>)"
  have "receive_nonce R ?s1 = (Done (generate_nonce rng'), ?s1\<lparr>io_in := rest_s\<rparr>)"
    using assms by (intro receive_nonce_run) simp_all
  then have "sender_nonce_exchange R rng (s\<lparr>io_in := ?m rng' # rest_s\<rparr>) =
      (Done (generate_nonce rng @ generate_nonce rng'), ?s1\<lparr>io_in := rest_s\<rparr>)"
    using assms(3)
    by (simp add: sender_nonce_exchange_def Let_def map_err_def tseq_def tbind_def works_send ret_run)
  moreover have "receive_nonce R (r\<lparr>io_in := ?m rng # rest_r\<rparr>) =
      (Done (generate_nonce rng), r\<lparr>io_in := rest_r\<rparr>)"
    using assms by (subst receive_nonce_run) simp_all
  then have "receiver_nonce_exchange R rng' (r\<lparr>io_in := ?m rng # rest_r\<rparr>) =
      (Done (generate_nonce rng @ generate_nonce rng'), sent [?m rng'] (r\<lparr>io_in := rest_r\<rparr>))"
    using assms(4)
    by (simp add: receiver_nonce_exchange_def Let_def map_err_def tseq_def tbind_def works_send ret_run)
  ultimately show ?thesis
    by (intro exI [of _ "?m rng"] exI [of _ "?m rng'"] exI [of _ "?s1\<lparr>io_in := rest_s\<rparr>"]
        exI [of _ "sent [?m rng'] (r\<lparr>io_in := rest_r\<rparr>)"]) simp
qed

theorem nonces_agree_witness:
  "\<exists>a b s' r'.
    sender_nonce_exchange demo_lib (\<lambda>n. of_nat n) (demo_sender\<lparr>io_in := b # []\<rparr>) =
      (Done (generate_nonce (\<lambda>n. of_nat n) @ generate_nonce (\<lambda>n. of_nat (n + 100))), s') \<and>
    receiver_nonce_exchange demo_lib (\<lambda>n. of_nat (n + 100)) (demo_receiver\<lparr>io_in := a # []\<rparr>) =
      (Done (generate_nonce (\<lambda>n. of_nat n) @ generate_nonce (\<lambda>n. of_nat (n + 100))), r')"
  using nonces_agree [OF demo_lib_ok(1,2) demo_works(1,2)] by blast

section \<open>PINs\<close>

interpretation sender_challenge: pin_challenge "sender_pin_result R" for R
proof
  fix r :: verify_pin_result and s :: "'b peer_io_scheme"
  show "output_only (sender_pin_result R r)"
    unfolding sender_pin_result_def by (intro output_intros)
  show "works s \<Longrightarrow> fst (sender_pin_result R r s) = Done ()"
    by (simp add: sender_pin_result_def tseq_run(1) [OF works_send_string] works_send)
qed

interpretation receiver_challenge: pin_challenge "receiver_pin_result R" for R
proof
  fix r :: verify_pin_result and s :: "'b peer_io_scheme"
  show "output_only (receiver_pin_result R r)"
    unfolding receiver_pin_result_def by (intro output_intros)
  show "works s \<Longrightarrow> fst (receiver_pin_result R r s) = Done ()"
    by (simp add: receiver_pin_result_def works_send)
qed

text \<open>
  C4: the PIN check of the receiving peer decides exactly like the reference: the guesses are
  taken from the received messages in order, a message that is no PIN message ends the check with
  an error, the first correct guess is accepted if it is among the first max_tries guesses, and
  after max_tries wrong guesses the check fails without reading another message; the 8-bit
  counter never wraps.
\<close>

theorem pin_check_decides:
  assumes "works s" and "pc_pin config \<noteq> []"
  shows "fst (verify_pin R config False (receiver_pin_result R) s) =
    pin_verdict (pc_pin config) (io_in_closed s) (unat (pc_max_tries config)) (guesses R (io_in s))"
  by (rule receiver_challenge.verify_exact [OF assms])

definition pin_text :: "string \<Rightarrow> data_channel_message" where
  "pin_text p = text_message (to_text (rl_wire demo_lib) enc_pin_message \<lparr>pm_pin = p\<rparr>)"

lemma guesses_pin_text: "guesses demo_lib (map pin_text ps) = map Some ps"
  by (simp add: guesses_def pin_text_def pin_message_codec.slice_enc comp_def)

theorem pin_check_decides_witness:
  "fst (verify_pin demo_lib \<lparr>pc_pin = ''123'', pc_max_tries = 3\<rparr> False (receiver_pin_result demo_lib)
     (demo_receiver\<lparr>io_in := map pin_text [''1'', ''123'', ''9'']\<rparr>)) = Done () \<and>
   fst (verify_pin demo_lib \<lparr>pc_pin = ''123'', pc_max_tries = 1\<rparr> False (receiver_pin_result demo_lib)
     (demo_receiver\<lparr>io_in := map pin_text [''1'', ''123'', ''9'']\<rparr>)) = Fail (Msg ''Too many requests'')"
proof -
  have w: "works (demo_receiver\<lparr>io_in := map pin_text [''1'', ''123'', ''9'']\<rparr>)" by simp
  have g: "guesses demo_lib [pin_text ''1'', pin_text ''123'', pin_text ''9''] =
      [Some ''1'', Some ''123'', Some ''9'']"
    using guesses_pin_text [of "[''1'', ''123'', ''9'']"] by simp
  have v: "pin_verdict ''123'' c 3 [Some ''1'', Some ''123'', Some ''9''] = Done ()" for c
    by (simp add: numeral_3_eq_3)
  show ?thesis
    using pin_check_decides [OF w, of "\<lparr>pc_pin = ''123'', pc_max_tries = 3\<rparr>" demo_lib]
      pin_check_decides [OF w, of "\<lparr>pc_pin = ''123'', pc_max_tries = 1\<rparr>" demo_lib]
    by (simp add: g v)
qed

end
