(* ===== verification/Rtc_Auth.thy ===== *)
theory Rtc_Auth
  imports Rtc_Props
begin

text \<open>
  Nothing beyond the handshake before authentication: what the two tasks send or publish before
  the other side's token and PIN are checked.
\<close>

section \<open>How much a task sends\<close>

text \<open>\<open>emits n m\<close>: the task puts at most \<open>n\<close> messages on the data channel, whatever its outcome.\<close>

definition emits :: "nat \<Rightarrow> ('a peer_io_scheme, 'b) task \<Rightarrow> bool" where
  "emits n m \<longleftrightarrow> (\<forall>s. length (io_out (snd (m s))) \<le> length (io_out s) + n)"

lemma emits_run: "emits n m \<Longrightarrow> m s = (x, s') \<Longrightarrow> length (io_out s') \<le> length (io_out s) + n"
  by (metis emits_def snd_conv)

lemma emits_weaken: "emits n m \<Longrightarrow> n \<le> k \<Longrightarrow> emits k m"
  unfolding emits_def by (meson add_left_mono order_trans)

lemma emits_tbind:
  assumes "emits i m" and "\<And>x. emits j (f x)"
  shows "emits (i + j) (tbind m f)"
  unfolding emits_def
proof
  fix s
  obtain r t where m: "m s = (r, t)" by fastforce
  have i: "length (io_out t) \<le> length (io_out s) + i" using emits_run [OF assms(1) m] .
  show "length (io_out (snd (tbind m f s))) \<le> length (io_out s) + (i + j)"
  proof (cases r)
    case (Done x)
    have "length (io_out (snd (f x t))) \<le> length (io_out t) + j"
      using assms(2) [of x] by (simp add: emits_def)
    with i m Done show ?thesis by (simp add: tbind_def)
  qed (use i m in \<open>simp_all add: tbind_def\<close>)
qed

lemma emits_tseq: "emits i m \<Longrightarrow> emits j n \<Longrightarrow> emits (i + j) (tseq m n)"
  unfolding tseq_def by (rule emits_tbind)

lemma emits_map_err:
  assumes "emits n m"
  shows "emits n (map_err g m)"
  unfolding emits_def
proof
  fix s
  show "length (io_out (snd (map_err g m s))) \<le> length (io_out s) + n"
    using emits_run [OF assms, of s] by (cases "m s"; cases "fst (m s)") (simp_all add: map_err_def)
qed

text \<open>Tasks that send nothing.\<close>

definition quiet :: "'a peer_io_scheme \<Rightarrow> 'a peer_io_scheme \<Rightarrow> bool" where
  "quiet s t \<longleftrightarrow> length (io_out t) \<le> length (io_out s)"

interpretation quiet: step_relation quiet
  by unfold_locales (auto simp: quiet_def)

lemma quiet_emits: "keeps quiet m \<Longrightarrow> emits 0 m"
  by (simp add: keeps_def quiet_def emits_def)

lemma quiet_recv: "keeps quiet recv"
  by (rule keeps_primI) (simp add: recv_def quiet_def split: list.split)

lemma quiet_parse_json: "keeps quiet (parse_json R dec bs)"
  unfolding parse_json_def by (cases "from_slice (rl_wire R) dec bs") (simp_all add: quiet.closed)

lemma quiet_wait: "keeps quiet wait_buffer_empty"
  by (rule keeps_primI) (simp add: wait_buffer_empty_def quiet_def)

lemma quiet_status_send: "keeps quiet (status_send st)"
  by (rule keeps_primI) (simp add: status_send_def quiet_def)

lemma quiet_outcome: "keeps quiet (of_outcome r)"
  by (rule keeps_primI) (simp add: of_outcome_def quiet_def)

lemma quiet_receive_nonce: "keeps quiet (receive_nonce R)"
  unfolding receive_nonce_def
  by (intro quiet.bind quiet_recv) (auto intro!: quiet.closed quiet_parse_json split: option.split)

lemma quiet_receive_token_response: "keeps quiet (receive_token_response R)"
  unfolding receive_token_response_def
  by (intro quiet.bind quiet_recv) (auto intro!: quiet.closed quiet_parse_json split: option.split)

lemma quiet_check_token: "keeps quiet (check_token R k token nonce)"
  by (auto simp: check_token_def intro!: quiet.closed quiet_outcome split: option.split)

lemma emits_send_json: "emits 1 (send_json R e x)"
  by (simp add: send_json_def send_text_def emits_def dc_send_def)

section \<open>The sender\<close>

lemma emits_sender_nonce: "emits 1 (sender_nonce_exchange R rng)"
proof -
  have "keeps quiet (tbind (receive_nonce R) (\<lambda>remote. ret (local @ remote)))" for local :: bytes
    by (intro quiet.closed quiet_receive_nonce)
  from emits_tseq [OF emits_map_err [OF emits_send_json] quiet_emits [OF this]] show ?thesis
    by (simp add: sender_nonce_exchange_def Let_def)
qed

lemma emits_send_token: "emits 1 (send_token R key nonce)"
proof (cases "generate_token_nonce (rl_crypto R) key nonce")
  case (Inl e)
  then show ?thesis
    unfolding send_token_def by simp (rule emits_weaken [OF quiet_emits [OF quiet.pure(2)]], simp)
next
  case (Inr token)
  then show ?thesis
    unfolding send_token_def by simp (rule emits_map_err [OF emits_send_json, simplified])
qed

lemma emits_sender_token: "emits 1 (sender_token_exchange R key k nonce)"
proof -
  have "keeps quiet (tbind (receive_token_response R) (\<lambda>token_response.
          let accept = (\<lambda>token. tbind (check_token R k token nonce) (\<lambda>ok.
                if \<not> ok then throw (Msg ''Invalid token signature or nonce'')
                else ret (token_response, token)))
          in case token_response of
               TokenOk token \<Rightarrow> accept token
             | TokenPinRequired token \<Rightarrow> accept token
             | TokenInvalidSignature \<Rightarrow>
                 throw (Msg ''Invalid token signature from receiving peer'')))"
    unfolding Let_def
    by (intro quiet.bind quiet_receive_token_response)
      (auto intro!: quiet.closed quiet_check_token split: rtc_token_response.split)
  from emits_tseq [OF emits_send_token quiet_emits [OF this]] show ?thesis
    by (simp add: sender_token_exchange_def)
qed

text \<open>The task up to the checked token, and the rest.\<close>

definition sender_handshake ::
  "rtc_lib \<Rightarrow> (nat \<Rightarrow> u8) \<Rightarrow> signing_token_key \<Rightarrow> verifying_token_key option \<Rightarrow>
   (sender_io, bytes \<times> rtc_token_response \<times> string) task" where
  "sender_handshake R rng key k =
     tseq wait_open (tseq wait_buffer_empty
       (tbind (sender_nonce_exchange R rng) (\<lambda>nonce.
        tbind (sender_token_exchange R key k nonce) (\<lambda>rt. ret (nonce, rt)))))"

lemma send_task_handshake:
  "send_task R rng key k pin files =
   tbind (sender_handshake R rng key k) (\<lambda>(nonce, token_response, remote_token).
     tseq (sender_pin_phase R token_response pin)
    (tseq (status_send StConnected)
    (tseq (send_file_list R files)
    (tbind (resolve_file_map R nonce remote_token) (\<lambda>resolved. case resolved of
       None \<Rightarrow> ret ()
     | Some file_map \<Rightarrow>
         tseq (publish_selection file_map)
        (tseq (send_files R file_map) finish_sending))))))"
  by (simp add: send_task_def sender_handshake_def tseq_def tbind_assoc case_prod_beta')

lemma emits_sender_handshake: "emits 2 (sender_handshake R rng key k)"
proof -
  have w: "keeps quiet wait_open"
    unfolding wait_open_def
    by (intro quiet.bind) (auto intro!: quiet.closed split: reply.split)
  have "emits (1 + (1 + 0)) (tbind (sender_nonce_exchange R rng) (\<lambda>nonce.
        tbind (sender_token_exchange R key k nonce) (\<lambda>rt. ret (nonce, rt))))"
    by (intro emits_tbind emits_sender_nonce emits_sender_token quiet_emits [OF quiet.pure(1)])
  from emits_tseq [OF quiet_emits [OF w] emits_tseq [OF quiet_emits [OF quiet_wait] this]]
  show ?thesis by (simp add: sender_handshake_def numeral_2_eq_2)
qed

lemma sender_token_verified:
  assumes "sender_token_exchange R key (Some pk) nonce s = (Done (resp, token), s')"
  shows "verify_token_nonce (rl_crypto R) pk token nonce = Done True"
  using assms
  by (auto simp: sender_token_exchange_def check_token_def of_outcome_def tseq_def Let_def task_simps
      elim!: tbind_Done_cases split: rtc_token_response.splits if_splits)

lemma sender_nonce_shape:
  assumes "sender_nonce_exchange R rng s = (Done nonce, s')"
  shows "\<exists>remote. nonce = generate_nonce rng @ remote \<and> validate_nonce remote"
proof -
  obtain t remote where "receive_nonce R t = (Done remote, s')" and n: "nonce = generate_nonce rng @ remote"
    using assms by (auto simp: sender_nonce_exchange_def tseq_def Let_def task_simps elim!: tbind_Done_cases)
  then have "validate_nonce remote"
    by (auto simp: receive_nonce_def task_simps elim!: tbind_Done_cases split: option.splits if_splits)
  with n show ?thesis by blast
qed


section \<open>The receiver\<close>

text \<open>What the tasks before the file list is published do to a receiver: they publish nothing,
  receive no file, and only read what was there.\<close>

definition unpublished :: "receiver_io \<Rightarrow> receiver_io \<Rightarrow> bool" where
  "unpublished r t \<longleftrightarrow> ro_files t = ro_files r \<and> ro_received t = ro_received r \<and>
     set (io_in t) \<subseteq> set (io_in r)"

interpretation unpublished: step_relation unpublished
  by unfold_locales (auto simp: unpublished_def)

lemma unpublished_prims:
  "keeps unpublished recv" "keeps unpublished (parse_json R dec bs)"
  "keeps unpublished wait_buffer_empty" "keeps unpublished (status_send st)"
  "keeps unpublished (of_outcome r)" "keeps unpublished (dc_send msg)"
  "keeps unpublished (modify (io_pins_update g))"
  by (auto simp: keeps_def unpublished_def recv_def parse_json_def wait_buffer_empty_def
      status_send_def of_outcome_def dc_send_def modify_def ret_def throw_def
      split: list.split option.split)

lemma unpublished_sends:
  "keeps unpublished (send_json R e x)" "keeps unpublished send_delimiter"
  by (simp_all add: send_json_def send_text_def send_delimiter_def unpublished_prims)

lemma unpublished_receive_string: "keeps unpublished receive_string_from_chunks"
proof -
  have "unpublished r (snd (receive_chunks buffer r))" for buffer r
  proof (induction buffer r rule: receive_chunks.induct)
    case (1 buffer r)
    show ?case
    proof (cases "io_in r")
      case Nil
      then show ?thesis by (simp add: receive_chunks.simps unpublished_def)
    next
      case (Cons msg rest)
      with "1.IH" [OF Cons] show ?thesis
        by (subst receive_chunks.simps) (auto simp: unpublished_def)
    qed
  qed
  then show ?thesis by (simp add: receive_string_from_chunks_def keeps_def)
qed

lemma unpublished_receive_nonce: "keeps unpublished (receive_nonce R)"
  unfolding receive_nonce_def
  by (intro unpublished.bind unpublished_prims)
    (auto intro!: unpublished.closed unpublished_prims split: option.split)

lemma unpublished_check_token: "keeps unpublished (check_token R k token nonce)"
  by (auto simp: check_token_def intro!: unpublished.closed unpublished_prims split: option.split)

lemma unpublished_answer_token: "keeps unpublished (answer_token R key pin nonce)"
  unfolding answer_token_def
  by (auto intro!: unpublished.closed unpublished_sends split: sum.split)

lemma unpublished_receive_token: "keeps unpublished (receive_token R)"
  unfolding receive_token_def
  by (intro unpublished.bind unpublished_prims)
    (auto intro!: unpublished.closed unpublished_prims split: option.split)

lemma unpublished_verify_pin_loop:
  "keeps unpublished (verify_pin_loop R config (receiver_pin_result R) notice remote t)"
proof (induction "unat (pc_max_tries config) - unat t" arbitrary: t remote notice)
  case 0
  then have "pc_max_tries config \<le> t" by (simp add: word_le_nat_alt)
  then show ?case
    by (subst verify_pin_loop.simps)
      (auto intro!: unpublished.closed unpublished_prims unpublished_sends simp: receiver_pin_result_def)
next
  case (Suc k)
  then have lt: "\<not> pc_max_tries config \<le> t" by (simp add: word_le_nat_alt)
  have "k = unat (pc_max_tries config) - unat (t + 1)"
    using Suc.hyps(2) pin_try_step [OF lt] by simp
  note IH = Suc.hyps(1) [OF this]
  show ?case
    by (subst verify_pin_loop.simps)
      (auto intro!: unpublished.closed unpublished_prims unpublished_sends IH
        simp: receiver_pin_result_def split: option.split)
qed

lemma unpublished_pin_phase: "keeps unpublished (receiver_pin_phase R pin)"
  unfolding receiver_pin_phase_def verify_pin_def
  by (auto intro!: unpublished.closed unpublished_prims unpublished_sends unpublished_verify_pin_loop
      split: option.split)

lemma unpublished_handle_pin: "keeps unpublished (handle_pin R True parse)"
proof -
  have "keeps unpublished (handle_pin_loop R True parse answers)" for answers
    by (induction answers)
      (auto intro!: unpublished.closed unpublished_prims unpublished_sends unpublished_receive_string
        simp: pin_response_bytes_def split: option.split challenge_pin_result.split)
  then show ?thesis
    unfolding handle_pin_def by (intro unpublished.closed)
qed

lemma unpublished_file_list: "keeps unpublished (receive_file_list R)"
  unfolding receive_file_list_def
  by (intro unpublished.bind unpublished_receive_string)
    (auto intro!: unpublished.closed unpublished_prims unpublished_handle_pin
      split: rtc_pin_sending_response.split)

text \<open>The receiver's task up to the checked PIN, and the rest.\<close>

definition receiver_handshake ::
  "rtc_lib \<Rightarrow> (nat \<Rightarrow> u8) \<Rightarrow> signing_token_key \<Rightarrow> verifying_token_key option \<Rightarrow> pin_config option \<Rightarrow>
   (receiver_io, unit) task" where
  "receiver_handshake R rng key k pin =
     tseq wait_channel
    (tbind (receiver_nonce_exchange R rng) (\<lambda>nonce.
     tseq (receiver_token_exchange R key k pin nonce) (receiver_pin_phase R pin)))"

definition receiver_transfer :: "rtc_lib \<Rightarrow> (receiver_io, unit) task" where
  "receiver_transfer R =
     tbind (receive_file_list R) (\<lambda>file_list.
     tseq (status_send StConnected)
    (tseq (publish_files file_list)
    (tbind (answer_selection R) (\<lambda>answered. case answered of
       None \<Rightarrow> ret ()
     | Some file_tokens \<Rightarrow> receive_files R file_tokens file_list))))"

lemma receive_task_handshake:
  "receive_task R rng key k pin = tseq (receiver_handshake R rng key k pin) (receiver_transfer R)"
  by (simp add: receive_task_def receiver_handshake_def receiver_transfer_def tseq_def tbind_assoc)

lemma unpublished_wait_channel: "keeps unpublished wait_channel"
  unfolding wait_channel_def
  by (intro unpublished.bind) (auto intro!: unpublished.closed split: reply.split)

lemma unpublished_nonce: "keeps unpublished (receiver_nonce_exchange R rng)"
  unfolding receiver_nonce_exchange_def Let_def
  by (intro unpublished.closed unpublished_receive_nonce unpublished_sends)

lemma unpublished_token: "keeps unpublished (receiver_token_exchange R key k pin nonce)"
  unfolding receiver_token_exchange_def
  by (intro unpublished.closed unpublished_receive_token unpublished_check_token unpublished_sends
      unpublished_prims unpublished_answer_token)

lemma unpublished_handshake: "keeps unpublished (receiver_handshake R rng key k pin)"
  unfolding receiver_handshake_def
  by (intro unpublished.closed unpublished_wait_channel unpublished_nonce unpublished_token
      unpublished_pin_phase)

lemma receiver_token_verified:
  assumes "receiver_token_exchange R key (Some pk) pin nonce r = (Done u, r')"
  shows "\<exists>token. verify_token_nonce (rl_crypto R) pk token nonce = Done True"
  using assms
  by (auto simp: receiver_token_exchange_def check_token_def of_outcome_def tseq_def task_simps
      elim!: tbind_Done_cases split: if_splits)

lemma receiver_nonce_shape:
  assumes "receiver_nonce_exchange R rng r = (Done nonce, r')"
  shows "\<exists>remote. nonce = remote @ generate_nonce rng"
  using assms by (auto simp: receiver_nonce_exchange_def tseq_def Let_def task_simps elim!: tbind_Done_cases)

lemma receiver_pin_checked:
  assumes "receiver_pin_phase R (Some config) r = (Done u, r')" and "pc_pin config \<noteq> []"
  shows "Some (pc_pin config) \<in> set (guesses R (io_in r))"
proof -
  obtain t where "verify_pin R config False (receiver_pin_result R) r = (Done (), t)"
    using assms(1) by (auto simp: receiver_pin_phase_def tseq_def elim: tbind_Done_cases)
  from receiver_challenge.verify_sound [OF this assms(2)] obtain n where
    "n < length (io_in r)" "guesses R (io_in r) ! n = Some (pc_pin config)"
    by blast
  then show ?thesis by (metis guesses_def length_map nth_mem)
qed


end
