(* ===== verification/Rtc_Pin_Dialogue.thy ===== *)
theory Rtc_Pin_Dialogue
  imports Rtc_Auth
begin

text \<open>
  The PIN challenges of a session, both sides of them: what the peer that asks and the peer that
  guesses write when the user's PINs end with the right one in time
  (core/src/webrtc/webrtc.rs, \<open>handle_pin\<close> and \<open>verify_pin\<close>).
\<close>

section \<open>Exchanges\<close>

text \<open>\<open>exchanges m x ins outs pins sts\<close>: over a working channel, given the messages \<open>ins\<close> and the user's
  PINs \<open>pins\<close>, the task returns \<open>x\<close>, sends \<open>outs\<close> and reports \<open>sts\<close>, and does nothing else.\<close>

definition exchanges ::
  "('a peer_io_scheme, 'b) task \<Rightarrow> 'b \<Rightarrow> data_channel_message list \<Rightarrow> data_channel_message list \<Rightarrow>
   string list \<Rightarrow> rtc_status list \<Rightarrow> bool" where
  "exchanges m x ins outs pins sts \<longleftrightarrow> (\<forall>s rest later.
     works s \<longrightarrow> io_in s = ins @ rest \<longrightarrow> io_pins s = map Some pins @ later \<longrightarrow>
     m s = (Done x, sent outs (s\<lparr>io_in := rest, io_pins := later, io_status := io_status s @ sts\<rparr>)))"

lemma exchangesD:
  "exchanges m x ins outs pins sts \<Longrightarrow> works s \<Longrightarrow> io_in s = ins @ rest \<Longrightarrow> io_pins s = map Some pins @ later \<Longrightarrow>
   m s = (Done x, sent outs (s\<lparr>io_in := rest, io_pins := later, io_status := io_status s @ sts\<rparr>))"
  by (simp add: exchanges_def)

lemma exchangesI:
  assumes "\<And>s rest later. works s \<Longrightarrow> io_in s = ins @ rest \<Longrightarrow> io_pins s = map Some pins @ later \<Longrightarrow>
    m s = (Done x, sent outs (s\<lparr>io_in := rest, io_pins := later, io_status := io_status s @ sts\<rparr>))"
  shows "exchanges m x ins outs pins sts"
  using assms by (simp add: exchanges_def)

lemma exchanges_sendsI:
  assumes "\<And>s. works s \<Longrightarrow> m s = (Done x, sent outs s)"
  shows "exchanges m x [] outs [] []"
proof (rule exchangesI)
  fix s :: "'a peer_io_scheme" and rest later
  assume s: "works s" "io_in s = [] @ rest" "io_pins s = map Some [] @ later"
  then have "s\<lparr>io_in := rest, io_pins := later, io_status := io_status s @ []\<rparr> = s" by (cases s) simp
  with assms [OF s(1)] show "m s = (Done x, sent outs
      (s\<lparr>io_in := rest, io_pins := later, io_status := io_status s @ []\<rparr>))" by simp
qed

lemma unchanged: "io_pins s = later \<Longrightarrow> s\<lparr>io_in := rest, io_pins := later\<rparr> = s\<lparr>io_in := rest\<rparr>"
  by (cases s) simp

lemma works_fields [simp]:
  "works (s\<lparr>io_status := sts\<rparr>) = works s"
  "works (s\<lparr>io_out := ms\<rparr>) = works s"
  by (simp_all add: works_def)

lemma exchanges_tbind:
  assumes "exchanges m x ins outs pins sts" and "exchanges (f x) y ins' outs' pins' sts'"
  shows "exchanges (tbind m f) y (ins @ ins') (outs @ outs') (pins @ pins') (sts @ sts')"
proof (rule exchangesI)
  fix s :: "'a peer_io_scheme" and rest later
  assume s: "works s" "io_in s = (ins @ ins') @ rest" "io_pins s = map Some (pins @ pins') @ later"
  let ?s = "sent outs (s\<lparr>io_in := ins' @ rest, io_pins := map Some pins' @ later, io_status := io_status s @ sts\<rparr>)"
  have "m s = (Done x, ?s)" using s by (intro exchangesD [OF assms(1)]) simp_all
  moreover have "f x ?s = (Done y, sent outs' (?s\<lparr>io_in := rest, io_pins := later, io_status := io_status ?s @ sts'\<rparr>))"
    using s by (intro exchangesD [OF assms(2)]) simp_all
  ultimately show "tbind m f s = (Done y, sent (outs @ outs')
      (s\<lparr>io_in := rest, io_pins := later, io_status := io_status s @ sts @ sts'\<rparr>))"
    by (simp add: tbind_def) (simp add: sent_def)
qed

lemma exchanges_tseq:
  "exchanges m x ins outs pins sts \<Longrightarrow> exchanges n y ins' outs' pins' sts' \<Longrightarrow>
   exchanges (tseq m n) y (ins @ ins') (outs @ outs') (pins @ pins') (sts @ sts')"
  unfolding tseq_def by (rule exchanges_tbind)

lemma exchanges_prims:
  "exchanges (ret x) x [] [] [] []"
  "exchanges (send_text t) () [] [text_message t] [] []"
  "exchanges (send_json R e v) () [] [text_message (to_text (rl_wire R) e v)] [] []"
  "exchanges (status_send st) () [] [] [] [st]"
  "exchanges recv (Some msg) [msg] [] [] []"
  by (rule exchangesI; simp add: works_send recv_run ret_run)
    (rule exchangesI; simp add: works_send recv_run ret_run reported_def sent_def)+

lemma exchanges_ret_bind: "exchanges (tbind (ret v) f) x ins outs pins sts = exchanges (f v) x ins outs pins sts"
  by (simp add: exchanges_def tbind_def ret_run)

section \<open>Strings in chunks\<close>

definition chunked :: "string \<Rightarrow> data_channel_message list" where
  "chunked t = map binary_message (chunks_of CHUNK_SIZE (utf8 t)) @ [delimiter]"

lemma send_chunked: "works s \<Longrightarrow> tseq (send_string t) send_delimiter s = (Done (), sent (chunked t) s)"
  by (simp add: tseq_run(1) [OF works_send_string] works_send delimiter_def chunked_def)

lemma receive_chunked:
  "io_in r = chunked t @ rest \<Longrightarrow> receive_string_from_chunks r = (Done (utf8 t), r\<lparr>io_in := rest\<rparr>)"
  by (intro receive_string_chunks [of _ _ delimiter]) (simp_all add: chunked_def)

lemma exchanges_chunked:
  "exchanges (tseq (send_string t) send_delimiter) () [] (chunked t) [] []"
  "exchanges receive_string_from_chunks (utf8 t) (chunked t) [] [] []"
  by (rule exchanges_sendsI, erule send_chunked)
    (rule exchangesI, simp add: receive_chunked unchanged)

section \<open>Guessing\<close>

definition pin_guess :: "rtc_lib \<Rightarrow> string \<Rightarrow> data_channel_message" where
  "pin_guess R pin = text_message (to_text (rl_wire R) enc_pin_message \<lparr>pm_pin = pin\<rparr>)"

text \<open>A verdict comes in chunks from the sending peer, and as one message from the receiving peer.\<close>

definition verdict_messages :: "bool \<Rightarrow> string \<Rightarrow> data_channel_message list" where
  "verdict_messages in_chunks t = (if in_chunks then chunked t else [text_message t])"

lemma exchanges_verdict: "exchanges (pin_response_bytes in_chunks) (utf8 t) (verdict_messages in_chunks t) [] [] []"
proof (cases in_chunks)
  case True
  then show ?thesis by (simp add: pin_response_bytes_def verdict_messages_def exchanges_chunked(2))
next
  case False
  have "exchanges (tbind recv (\<lambda>received. case received of
          None \<Rightarrow> throw (Msg ''Failed to receive initial message'')
        | Some init_status \<Rightarrow> if \<not> dm_is_string init_status then throw (Msg ''Expected string message'')
            else ret (dm_data init_status))) (utf8 t) ([text_message t] @ []) ([] @ []) ([] @ []) ([] @ [])"
    by (rule exchanges_tbind [OF exchanges_prims(5)]) (simp add: exchanges_prims(1))
  with False show ?thesis by (simp add: pin_response_bytes_def verdict_messages_def)
qed

text \<open>What \<open>handle_pin\<close> does with a verdict.\<close>

definition on_verdict ::
  "rtc_lib \<Rightarrow> bool \<Rightarrow> (bytes \<Rightarrow> 'b challenge_pin_result) \<Rightarrow> 'b challenge_pin_result \<Rightarrow>
   ('a peer_io_scheme, 'b) task" where
  "on_verdict R in_chunks parse response = (case response of
       ChallengeOk result \<Rightarrow> ret result
     | ChallengePinRequired \<Rightarrow> handle_pin R in_chunks parse
     | ChallengeTooManyAttempts \<Rightarrow> tseq (status_send StTooManyAttempts) (throw (Msg ''Too many requests''))
     | ChallengeParseError e \<Rightarrow> throw e)"

lemma guess_step:
  fixes parse :: "bytes \<Rightarrow> 'b challenge_pin_result"
  assumes "exchanges (on_verdict R in_chunks parse (parse (utf8 t)) :: ('a peer_io_scheme, 'b) task) x ins outs pins sts"
  shows "exchanges (handle_pin R in_chunks parse :: ('a peer_io_scheme, 'b) task) x
    (verdict_messages in_chunks t @ ins) (pin_guess R pin # outs) (pin # pins) (StPinRequired # sts)"
proof (rule exchangesI)
  fix s :: "'a peer_io_scheme" and rest later
  assume s: "works s" "io_in s = (verdict_messages in_chunks t @ ins) @ rest"
    "io_pins s = map Some (pin # pins) @ later"
  let ?s1 = "sent [pin_guess R pin] ((reported StPinRequired s)\<lparr>io_pins := map Some pins @ later\<rparr>)"
  let ?s2 = "?s1\<lparr>io_in := ins @ rest\<rparr>"
  let ?next = "case parse (utf8 t) of
       ChallengeOk result \<Rightarrow> ret result
     | ChallengePinRequired \<Rightarrow> handle_pin_loop R in_chunks parse (map Some pins @ later)
     | ChallengeTooManyAttempts \<Rightarrow> tseq (status_send StTooManyAttempts) (throw (Msg ''Too many requests''))
     | ChallengeParseError e \<Rightarrow> throw e"
  have "?s1\<lparr>io_in := ins @ rest, io_pins := map Some pins @ later, io_status := io_status ?s1 @ []\<rparr> = ?s2"
    by (cases s) (simp add: sent_def reported_def)
  then have "pin_response_bytes in_chunks ?s1 = (Done (utf8 t), ?s2)"
    using exchangesD [OF exchanges_verdict, of ?s1 in_chunks t "ins @ rest" "map Some pins @ later"] s
    by simp
  then have "handle_pin R in_chunks parse s = ?next ?s2"
    using s
    by (simp add: handle_pin_def tbind_def gets_run tseq_def works_send modify_run pin_guess_def)
  also have "\<dots> = on_verdict R in_chunks parse (parse (utf8 t)) ?s2"
    by (cases "parse (utf8 t)") (simp_all add: on_verdict_def handle_pin_def tbind_def gets_run)
  also have "\<dots> = (Done x, sent outs (?s2\<lparr>io_in := rest, io_pins := later, io_status := io_status ?s2 @ sts\<rparr>))"
    using s by (intro exchangesD [OF assms]) simp_all
  finally show "handle_pin R in_chunks parse s = (Done x, sent (pin_guess R pin # outs)
      (s\<lparr>io_in := rest, io_pins := later, io_status := io_status s @ StPinRequired # sts\<rparr>))"
    by (cases s) (simp add: sent_def reported_def)
qed

text \<open>All wrong guesses are answered with \<open>required\<close>, the last one with \<open>granted\<close>.\<close>

lemma exchanges_guesses:
  assumes "parse (utf8 required) = ChallengePinRequired" and "parse (utf8 granted) = ChallengeOk x"
  shows "exchanges (handle_pin R in_chunks parse) x
    (concat (replicate (length wrong) (verdict_messages in_chunks required)) @ verdict_messages in_chunks granted)
    (map (pin_guess R) (wrong @ [pin])) (wrong @ [pin]) (replicate (Suc (length wrong)) StPinRequired)"
proof (induction wrong)
  case Nil
  show ?case
    using guess_step [where parse = parse and t = granted and x = x and ins = "[]" and outs = "[]" and pins = "[]" and
      sts = "[]" and pin = pin] assms(2)
    by (simp add: on_verdict_def exchanges_prims(1))
next
  case (Cons w wrong)
  then show ?case
    using guess_step [where parse = parse and t = required and pin = w] assms(1) by (simp add: on_verdict_def)
qed

section \<open>Asking\<close>

context pin_challenge
begin

lemma exchanges_round:
  assumes "json_ok (rl_wire R)"
    and required: "\<And>s. works s \<Longrightarrow> send_result VerifyPinRequired s = (Done (), sent required s)"
    and "remote \<noteq> pc_pin config" and "\<not> pc_max_tries config \<le> t"
    and next_round: "exchanges (verify_pin_loop R config send_result False g (t + 1)) () ins outs [] []"
  shows "exchanges (verify_pin_loop R config send_result notice remote t) () (pin_guess R g # ins)
    ((if notice \<or> 0 < t then required else []) @ outs) [] []"
proof -
  let ?f = "\<lambda>received. case received of
       None \<Rightarrow> throw (Msg ''Failed to receive pin'')
     | Some msg \<Rightarrow> tbind (parse_json R dec_pin_message (dm_data msg)) (\<lambda>pin_req.
         verify_pin_loop R config send_result False (pm_pin pin_req) (t + 1))"
  have prefix: "exchanges (if notice \<or> 0 < t then send_result VerifyPinRequired else ret ()) ()
      [] (if notice \<or> 0 < t then required else []) [] []"
    by (rule exchanges_sendsI) (simp add: required ret_run)
  have "exchanges (?f (Some (pin_guess R g))) () ins outs [] []"
    using next_round assms(1)
    by (simp add: exchanges_def pin_guess_def tbind_def parse_json_run pin_message_codec.slice_enc)
  from exchanges_tseq [OF prefix exchanges_tbind [where f = ?f, OF exchanges_prims(5) this]]
  show ?thesis
    unfolding loop_round [OF assms(3,4)] by simp
qed

text \<open>Every wrong guess costs a try; \<open>required\<close> is what is sent when another guess is needed.\<close>

lemma exchanges_loop:
  assumes "json_ok (rl_wire R)"
    and required: "\<And>s. works s \<Longrightarrow> send_result VerifyPinRequired s = (Done (), sent required s)"
    and "pc_pin config \<notin> set wrong" and "remote \<noteq> pc_pin config"
    and "unat t + length wrong < unat (pc_max_tries config)"
  shows "exchanges (verify_pin_loop R config send_result notice remote t) ()
    (map (pin_guess R) (wrong @ [pc_pin config]))
    ((if notice \<or> 0 < t then required else []) @ concat (replicate (length wrong) required)) [] []"
  using assms(3-5)
proof (induction wrong arbitrary: t remote notice)
  case Nil
  have "exchanges (verify_pin_loop R config send_result False (pc_pin config) (t + 1)) () [] [] [] []"
    by (rule exchangesI) (simp add: loop_accepts)
  from exchanges_round [OF assms(1) required Nil(2) _ this, where notice = notice] Nil(3) show ?case
    by (simp add: word_le_nat_alt)
next
  case (Cons w wrong)
  then have lt: "\<not> pc_max_tries config \<le> t" by (simp add: word_le_nat_alt)
  then have t: "0 < t + 1" "unat (t + 1) + length wrong < unat (pc_max_tries config)"
    using Cons.prems(3) pin_try_step [OF lt] by (simp_all add: word_greater_zero_iff unat_eq_0 flip: unat_gt_0)
  from Cons.prems(1) have w: "pc_pin config \<notin> set wrong" "w \<noteq> pc_pin config" by auto
  from exchanges_round [OF assms(1) required Cons.prems(2) lt Cons.IH [OF w t(2)], where notice = notice]
    t(1) show ?case
    by simp
qed

lemma exchanges_verify:
  assumes "json_ok (rl_wire R)"
    and "\<And>s. works s \<Longrightarrow> send_result VerifyPinRequired s = (Done (), sent required s)"
    and "pc_pin config \<notin> set wrong" and "pc_pin config \<noteq> []"
    and "length wrong < unat (pc_max_tries config)"
  shows "exchanges (verify_pin R config notice send_result) ()
    (map (pin_guess R) (wrong @ [pc_pin config]))
    ((if notice then required else []) @ concat (replicate (length wrong) required)) [] [StPinRequired]"
  using exchanges_tseq [OF exchanges_prims(4) exchanges_loop [OF assms(1-3), of "[]" 0 notice]] assms(4,5)
  by (simp add: verify_pin_def)

end

section \<open>The PIN phases of a session\<close>

text \<open>The user's guesses open a PIN: wrong ones, fewer than the tries, then the right one.\<close>

definition opens :: "pin_config option \<Rightarrow> string list \<Rightarrow> bool" where
  "opens pin pins \<longleftrightarrow> (case pin of
      None \<Rightarrow> pins = []
    | Some config \<Rightarrow> pc_pin config \<noteq> [] \<and> pins \<noteq> [] \<and> last pins = pc_pin config \<and>
        pc_pin config \<notin> set (butlast pins) \<and> length pins \<le> unat (pc_max_tries config))"

lemma opens_Some:
  assumes "opens (Some config) pins"
  obtains wrong where "pins = wrong @ [pc_pin config]" "pc_pin config \<notin> set wrong" "pc_pin config \<noteq> []"
    "length wrong < unat (pc_max_tries config)"
proof
  show "pins = butlast pins @ [pc_pin config]"
    using assms append_butlast_last_id [of pins] by (simp add: opens_def)
  show "length (butlast pins) < unat (pc_max_tries config)"
    using assms by (cases pins rule: rev_cases) (auto simp: opens_def)
qed (use assms in \<open>auto simp: opens_def\<close>)

text \<open>The verdicts that the receiving peer sends, and those of the sending peer.\<close>

definition receiver_verdicts :: "rtc_lib \<Rightarrow> string list \<Rightarrow> data_channel_message list" where
  "receiver_verdicts R pins = (if pins = [] then []
     else replicate (length pins - 1) (text_message (to_text (rl_wire R) enc_pin_receiving PinRecvPinRequired)) @
       [text_message (to_text (rl_wire R) enc_pin_receiving PinRecvOk)])"

definition sender_verdicts :: "rtc_lib \<Rightarrow> string list \<Rightarrow> data_channel_message list" where
  "sender_verdicts R pins =
     concat (replicate (length pins) (chunked (to_text (rl_wire R) enc_pin_sending PinSendPinRequired)))"

definition asked :: "pin_config option \<Rightarrow> rtc_status list" where
  "asked pin = (case pin of None \<Rightarrow> [] | Some _ \<Rightarrow> [StPinRequired])"

definition token_reply :: "pin_config option \<Rightarrow> string \<Rightarrow> rtc_token_response" where
  "token_reply pin token = (case pin of Some _ \<Rightarrow> TokenPinRequired token | None \<Rightarrow> TokenOk token)"

lemma exchanges_sender_guesses:
  assumes "json_ok (rl_wire R)"
  shows "exchanges (handle_pin R False (parse_pin_receiving R)) () (receiver_verdicts R (wrong @ [pin]))
    (map (pin_guess R) (wrong @ [pin])) (wrong @ [pin]) (replicate (Suc (length wrong)) StPinRequired)"
proof -
  have "concat (replicate n [m]) = replicate n m" for n and m :: data_channel_message
    by (induction n) simp_all
  with exchanges_guesses [of "parse_pin_receiving R" "to_text (rl_wire R) enc_pin_receiving PinRecvPinRequired"
      "to_text (rl_wire R) enc_pin_receiving PinRecvOk" "()" R False wrong pin] assms
  show ?thesis
    by (simp add: parse_pin_receiving_def pin_receiving_codec.slice_enc receiver_verdicts_def verdict_messages_def)
qed

lemma exchanges_sender_pin:
  assumes "json_ok (rl_wire R)" and "opens pin_r ps" and "opens pin_s pr"
  shows "exchanges (sender_pin_phase R (token_reply pin_r token) pin_s) ()
    (receiver_verdicts R ps @ map (pin_guess R) pr) (map (pin_guess R) ps @ sender_verdicts R pr)
    ps (replicate (length ps) StPinRequired @ asked pin_s)"
proof -
  have guess: "exchanges (case token_reply pin_r token of
       TokenPinRequired _ \<Rightarrow> handle_pin R False (parse_pin_receiving R) | _ \<Rightarrow> ret ()) ()
     (receiver_verdicts R ps) (map (pin_guess R) ps) ps (replicate (length ps) StPinRequired)"
  proof (cases pin_r)
    case None
    with assms(2) show ?thesis
      by (simp add: token_reply_def opens_def receiver_verdicts_def exchanges_prims(1))
  next
    case (Some config)
    with assms(2) obtain wrong where "ps = wrong @ [pc_pin config]" by (auto elim: opens_Some)
    with Some exchanges_sender_guesses [OF assms(1)] show ?thesis by (simp add: token_reply_def)
  qed
  have "exchanges (case pin_s of None \<Rightarrow> ret () | Some config \<Rightarrow> verify_pin R config True (sender_pin_result R)) ()
     (map (pin_guess R) pr) (sender_verdicts R pr) [] (asked pin_s)"
  proof (cases pin_s)
    case None
    with assms(3) show ?thesis by (simp add: opens_def sender_verdicts_def asked_def exchanges_prims(1))
  next
    case (Some config)
    with assms(3) obtain wrong where w: "pr = wrong @ [pc_pin config]" "pc_pin config \<notin> set wrong"
      "pc_pin config \<noteq> []" "length wrong < unat (pc_max_tries config)" by (auto elim: opens_Some)
    have "sender_pin_result R VerifyPinRequired s =
        (Done (), sent (chunked (to_text (rl_wire R) enc_pin_sending PinSendPinRequired)) s)"
      if "works s" for s :: "'a peer_io_scheme"
      using send_chunked [OF that] by (simp add: sender_pin_result_def)
    from sender_challenge.exchanges_verify [OF assms(1) this w(2-4), where notice = True] Some w(1)
    show ?thesis by (simp add: sender_verdicts_def asked_def)
  qed
  from exchanges_tseq [OF guess this] show ?thesis
    by (simp add: sender_pin_phase_def)
qed

lemma exchanges_receiver_pin:
  assumes "json_ok (rl_wire R)" and "opens pin_r ps"
  shows "exchanges (receiver_pin_phase R pin_r) () (map (pin_guess R) ps) (receiver_verdicts R ps) [] (asked pin_r)"
proof (cases pin_r)
  case None
  with assms(2) show ?thesis
    by (simp add: receiver_pin_phase_def opens_def receiver_verdicts_def asked_def exchanges_prims(1))
next
  case (Some config)
  with assms(2) obtain wrong where w: "ps = wrong @ [pc_pin config]" "pc_pin config \<notin> set wrong"
    "pc_pin config \<noteq> []" "length wrong < unat (pc_max_tries config)" by (auto elim: opens_Some)
  have "receiver_pin_result R VerifyPinRequired s =
      (Done (), sent [text_message (to_text (rl_wire R) enc_pin_receiving PinRecvPinRequired)] s)"
    if "works s" for s :: "'a peer_io_scheme"
    using that by (simp add: receiver_pin_result_def works_send)
  from exchanges_tseq [OF receiver_challenge.exchanges_verify [OF assms(1) this w(2-4), where notice = False]
      exchanges_prims(3)] Some w(1)
  show ?thesis
    by (simp add: receiver_pin_phase_def receiver_verdicts_def asked_def)
qed

definition file_list_text :: "rtc_lib \<Rightarrow> file_dto list \<Rightarrow> string" where
  "file_list_text R files = to_text (rl_wire R) enc_pin_sending (PinSendOk files)"

lemma exchanges_parse:
  "from_slice (rl_wire R) dec bs = Some v \<Longrightarrow> exchanges (f v) x ins outs pins sts \<Longrightarrow>
   exchanges (tbind (map_err g (parse_json R dec bs)) f) x ins outs pins sts"
  by (simp add: exchanges_def tbind_def map_err_def parse_json_run)

text \<open>What \<open>receive_file_list\<close> does with its first message.\<close>

definition on_list_message :: "rtc_lib \<Rightarrow> rtc_pin_sending_response \<Rightarrow> (receiver_io, file_dto list) task" where
  "on_list_message R pin_response = (case pin_response of
       PinSendOk files \<Rightarrow> ret files
     | PinSendPinRequired \<Rightarrow> handle_pin R True (parse_pin_sending R)
     | PinSendTooManyAttempts \<Rightarrow>
         tseq (discard (status_send (StError (Msg ''Unexpected TooManyAttempts response''))))
           (throw (Msg ''Unexpected TooManyAttempts response'')))"

lemma exchanges_list_message:
  assumes "json_ok (rl_wire R)" and "exchanges (on_list_message R v) files ins outs pins sts"
  shows "exchanges (receive_file_list R) files (chunked (to_text (rl_wire R) enc_pin_sending v) @ ins) outs pins sts"
proof -
  have "exchanges (tbind receive_string_from_chunks (\<lambda>bs.
      tbind (map_err (\<lambda>_. MsgOf ''Failed to deserialize file list response: '' JsonError)
             (parse_json R dec_pin_sending bs)) (on_list_message R))) files
      (chunked (to_text (rl_wire R) enc_pin_sending v) @ ins) ([] @ outs) ([] @ pins) ([] @ sts)"
    using assms
    by (intro exchanges_tbind [OF exchanges_chunked(2)] exchanges_parse [where v = v])
      (simp_all add: pin_sending_codec.slice_enc)
  moreover have "receive_file_list R = tbind receive_string_from_chunks (\<lambda>bs.
      tbind (map_err (\<lambda>_. MsgOf ''Failed to deserialize file list response: '' JsonError)
             (parse_json R dec_pin_sending bs)) (on_list_message R))"
    unfolding receive_file_list_def on_list_message_def ..
  ultimately show ?thesis by simp
qed

text \<open>The file list comes once the sending peer's PIN was guessed.\<close>

lemma exchanges_file_list:
  assumes "json_ok (rl_wire R)"
  shows "exchanges (receive_file_list R) files (sender_verdicts R pr @ chunked (file_list_text R files))
    (map (pin_guess R) pr) pr (replicate (length pr) StPinRequired)"
proof (cases pr rule: rev_cases)
  case Nil
  have "exchanges (on_list_message R (PinSendOk files)) files [] [] [] []"
    by (simp add: on_list_message_def exchanges_prims(1))
  from exchanges_list_message [OF assms this] Nil show ?thesis
    by (simp add: sender_verdicts_def file_list_text_def)
next
  case (snoc wrong pin)
  let ?required = "to_text (rl_wire R) enc_pin_sending PinSendPinRequired"
  have "exchanges (on_list_message R PinSendPinRequired) files
      (concat (replicate (length wrong) (chunked ?required)) @ chunked (file_list_text R files))
      (map (pin_guess R) pr) pr (replicate (length pr) StPinRequired)"
    using exchanges_guesses [where parse = "parse_pin_sending R" and required = ?required and x = files and
        granted = "file_list_text R files" and R = R and in_chunks = True and wrong = wrong and pin = pin] assms snoc
    by (simp add: on_list_message_def parse_pin_sending_def pin_sending_codec.slice_enc file_list_text_def
        verdict_messages_def)
  from exchanges_list_message [OF assms this] show ?thesis
    by (simp add: sender_verdicts_def snoc)
qed

end
