(* ===== verification/Token_Props.thy ===== *)
theory Token_Props
  imports Instances
begin

text \<open>
  What the tokens guarantee: exactly which tokens are accepted for a nonce, that a generated
  token is accepted for its nonce and for no other, the window of a timestamp token, and where
  verification panics.
\<close>

section \<open>The general verifier\<close>

lemma verify_token_with_result_Done:
  "verify_token_with_result C pk token vs = Done () \<longleftrightarrow>
   (\<exists>h s sg rest salt der signature.
      split_on CHR ''.'' token = ''sha256'' # h # s # signature_method pk # sg # rest \<and>
      b64_decode C s = Some salt \<and> vs salt = Done () \<and> key_to_der C pk = Inr der \<and>
      h = b64_encode C (sha256 C (der @ salt)) \<and> b64_decode C sg = Some signature \<and>
      key_verify C pk (sha256 C (der @ salt)) signature = Inr ())"
  unfolding verify_token_with_result_def
  by (auto simp: Let_def split: list.splits option.splits sum.splits outcome.splits if_splits)

lemma verify_token_with_result_Panic:
  assumes "\<And>salt p. vs salt \<noteq> Panic p"
  shows "verify_token_with_result C pk token vs = Panic p \<longleftrightarrow>
    length (split_on CHR ''.'' token) < 5 \<and> p = ''range end index 5 out of range''"
  using assms unfolding verify_token_with_result_def
  by (auto simp: Let_def split: list.splits option.splits sum.splits outcome.splits if_splits)

lemma split_token:
  assumes "b64_ok C"
  shows "split_on CHR ''.'' (join_on CHR ''.''
      [''sha256'', b64_encode C d, b64_encode C s, ''ed25519'', b64_encode C g]) =
    [''sha256'', b64_encode C d, b64_encode C s, ''ed25519'', b64_encode C g]"
  using assms by (intro split_on_join_on) (auto simp: b64_ok_def)

lemma generate_token_nonce_split:
  assumes "b64_ok C" and "generate_token_nonce C key salt = Inr token"
  obtains der where "ed_key_der C (ed_verifying_key C (sk_inner key)) = Some der"
    and "split_on CHR ''.'' token =
      [''sha256'', b64_encode C (sha256 C (der @ salt)), b64_encode C salt, ''ed25519'',
       b64_encode C (ed_sign C (sk_inner key) (sha256 C (der @ salt)))]"
  using assms(2) split_token [OF assms(1)]
  by (auto simp: generate_token_nonce_def Let_def simp del: join_on.simps split: option.splits)

lemma verify_generated:
  assumes "b64_ok C" and "sign_ok C" and "generate_token_nonce C key salt = Inr token"
  shows "verify_token_with_result C (to_verifying_key C key) token vs = vs salt"
proof -
  obtain der where der: "ed_key_der C (ed_verifying_key C (sk_inner key)) = Some der"
    and parts: "split_on CHR ''.'' token =
      [''sha256'', b64_encode C (sha256 C (der @ salt)), b64_encode C salt, ''ed25519'',
       b64_encode C (ed_sign C (sk_inner key) (sha256 C (der @ salt)))]"
    using generate_token_nonce_split assms(1,3) by blast
  obtain sg where sg: "ed_signature_from_slice C (ed_sign C (sk_inner key) (sha256 C (der @ salt))) = Some sg"
    "ed_verify C (ed_verifying_key C (sk_inner key)) (sha256 C (der @ salt)) sg"
    using assms(2) unfolding sign_ok_def by blast
  from assms(1) have "b64_decode C (b64_encode C bs) = Some bs" for bs
    by (simp add: b64_ok_def)
  with der parts sg show ?thesis
    by (cases "vs salt") (simp_all add: verify_token_with_result_def to_verifying_key_def)
qed

section \<open>Properties\<close>

text \<open>
  C29: a token is accepted for a nonce exactly when its first five dot-separated parts are the
  hash method sha256, the base64 of the hash of the key's DER form followed by the nonce, a part
  that decodes to the nonce, the key's own signature method, and a part that decodes to a
  signature of that hash which verifies under the key; further parts are ignored.
\<close>

theorem verify_token_nonce_iff:
  "verify_token_nonce C pk token nonce = Done True \<longleftrightarrow>
   (\<exists>h s sg rest der signature.
      split_on CHR ''.'' token = ''sha256'' # h # s # signature_method pk # sg # rest \<and>
      b64_decode C s = Some nonce \<and> key_to_der C pk = Inr der \<and>
      h = b64_encode C (sha256 C (der @ nonce)) \<and> b64_decode C sg = Some signature \<and>
      key_verify C pk (sha256 C (der @ nonce)) signature = Inr ())"
  by (auto simp: verify_token_nonce_def verify_token_with_result_Done)

text \<open>
  C15: a token generated by a key for a nonce is accepted by the key's verifying half for that
  nonce, and is rejected (an ordinary rejection, no panic) for every other nonce, so a token
  cannot be replayed in an exchange with a fresh nonce.
\<close>

theorem token_nonce_binding:
  assumes "b64_ok C" and "sign_ok C" and "generate_token_nonce C key nonce = Inr token"
  shows "verify_token_nonce C (to_verifying_key C key) token nonce' = Done (nonce' = nonce)"
  using verify_generated [OF assms]
  by (simp add: verify_token_nonce_def verify_salt_nonce_def)

theorem token_nonce_binding_witness:
  "\<exists>token. generate_token_nonce demo_crypto \<lparr>sk_inner = [7]\<rparr> [1, 2] = Inr token \<and>
     verify_token_nonce demo_crypto (to_verifying_key demo_crypto \<lparr>sk_inner = [7]\<rparr>) token [1, 2] = Done True \<and>
     verify_token_nonce demo_crypto (to_verifying_key demo_crypto \<lparr>sk_inner = [7]\<rparr>) token [1, 3] = Done False"
proof -
  obtain token where t: "generate_token_nonce demo_crypto \<lparr>sk_inner = [7]\<rparr> [1, 2] = Inr token"
    by (simp add: generate_token_nonce_def demo_crypto_def Let_def)
  show ?thesis
    using t token_nonce_binding [OF demo_b64_ok demo_sign_ok t, of "[1, 2]"]
      token_nonce_binding [OF demo_b64_ok demo_sign_ok t, of "[1, 3]"]
    by auto
qed

text \<open>
  Verification of a token against a nonce panics exactly when the token has fewer than five
  dot-separated parts, whatever the key and the nonce; the error value for a wrong structure is
  never returned.
\<close>

theorem verify_token_nonce_panics_iff:
  "(\<exists>p. verify_token_nonce C pk token nonce = Panic p) \<longleftrightarrow>
   length (split_on CHR ''.'' token) < 5"
  by (simp add: verify_token_nonce_def verify_token_with_result_Panic)

text \<open>
  C30: without overflow checks, a timestamp token made at time t is accepted at time now exactly
  when t is at most one hour before now; in particular a token from the future is rejected, as
  long as now is at least one hour after 1970. With overflow checks a token from the future
  panics instead.
\<close>

theorem token_timestamp_window:
  assumes "b64_ok C" and "sign_ok C" and "generate_token_timestamp C (Some t) key = Inr token"
    and "3600 \<le> now"
  shows "verify_token_timestamp C checks (Some now) (to_verifying_key C key) token =
    (if checks \<and> now < t then Panic ''attempt to subtract with overflow''
     else Done (t \<le> now \<and> uint now - uint t \<le> 3600))"
proof -
  from assms(3) have "generate_token_nonce C key (to_le_bytes t) = Inr token"
    by (simp add: generate_token_timestamp_def)
  from verify_generated [OF assms(1,2) this]
  have v: "verify_token_timestamp C checks (Some now) (to_verifying_key C key) token =
      is_ok (verify_salt_timestamp checks (Some now) (to_le_bytes t))"
    by (simp add: verify_token_timestamp_def)
  show ?thesis
  proof (cases "t \<le> now")
    case True
    then have "uint (now - t) = uint now - uint t"
      by (simp add: uint_minus_simple_alt)
    then have "60 * 60 < now - t \<longleftrightarrow> 3600 < uint now - uint t"
      by (simp add: word_less_def)
    with True v show ?thesis by (simp add: verify_salt_timestamp_def not_less)
  next
    case False
    have "uint (now - t) = (uint now - uint t) mod 2 ^ 64"
      by (simp add: uint_word_ariths)
    also have "\<dots> = uint now - uint t + 2 ^ 64"
    proof -
      have "uint t < 2 ^ 64" and "0 \<le> uint now" and "uint now < uint t"
        using False uint_lt2p [of t] uint_ge_0 [of now] by (simp_all add: word_le_def)
      then have "(uint now - uint t + 2 ^ 64) mod 2 ^ 64 = uint now - uint t + 2 ^ 64"
        by (intro mod_pos_pos_trivial) linarith+
      then show ?thesis by simp
    qed
    finally have "3600 < uint (now - t)"
      using uint_lt2p [of t] assms(4) by (simp add: word_le_def)
    then have "60 * 60 < now - t"
      by (simp add: word_less_def)
    with False v show ?thesis by (simp add: verify_salt_timestamp_def not_le)
  qed
qed

theorem token_timestamp_window_witness:
  "\<exists>token. generate_token_timestamp demo_crypto (Some 4000) \<lparr>sk_inner = [7]\<rparr> = Inr token \<and>
     verify_token_timestamp demo_crypto True (Some 5000)
       (to_verifying_key demo_crypto \<lparr>sk_inner = [7]\<rparr>) token = Done True \<and>
     verify_token_timestamp demo_crypto True (Some 9000)
       (to_verifying_key demo_crypto \<lparr>sk_inner = [7]\<rparr>) token = Done False \<and>
     verify_token_timestamp demo_crypto False (Some 3700)
       (to_verifying_key demo_crypto \<lparr>sk_inner = [7]\<rparr>) token = Done False"
proof -
  obtain token where
    t: "generate_token_timestamp demo_crypto (Some 4000) \<lparr>sk_inner = [7]\<rparr> = Inr token"
    by (simp add: generate_token_timestamp_def generate_token_nonce_def demo_crypto_def Let_def)
  show ?thesis
    using t token_timestamp_window [OF demo_b64_ok demo_sign_ok t, of 5000 True]
      token_timestamp_window [OF demo_b64_ok demo_sign_ok t, of 9000 True]
      token_timestamp_window [OF demo_b64_ok demo_sign_ok t, of 3700 False]
    by auto
qed

end
