(* ===== verification/Rtc_Session.thy ===== *)
theory Rtc_Session
  imports Rtc_Pin_Dialogue Token_Props
begin

text \<open>
  A whole transfer between two honest peers: the two tasks of \<open>send_offer\<close> and \<open>accept_offer\<close> run
  against each other over a working channel, each reading what the other one writes, and both
  complete.
\<close>

section \<open>The phases on the messages of the other side\<close>

lemma token_run:
  assumes "b64_ok C" and "sign_ok C" and "generate_token_nonce C key nonce = Inr token"
  shows "verify_token_nonce C (to_verifying_key C key) token nonce = Done True"
  using verify_generated [OF assms] by (simp add: verify_token_nonce_def verify_salt_nonce_def)

text \<open>A token is accepted when no key is expected, or when it verifies under the expected key.\<close>

definition accepts :: "rtc_lib \<Rightarrow> verifying_token_key option \<Rightarrow> string \<Rightarrow> bytes \<Rightarrow> bool" where
  "accepts R expected token nonce \<longleftrightarrow> (case expected of
      None \<Rightarrow> True
    | Some pk \<Rightarrow> verify_token_nonce (rl_crypto R) pk token nonce = Done True)"

lemma check_token_run: "accepts R expected token nonce \<Longrightarrow> check_token R expected token nonce s = (Done True, s)"
  by (simp add: check_token_def accepts_def of_outcome_def ret_run split: option.splits)

lemma token_accepted:
  assumes "b64_ok (rl_crypto R)" and "sign_ok (rl_crypto R)"
    and "generate_token_nonce (rl_crypto R) key nonce = Inr token"
    and "expected \<in> {None, Some (to_verifying_key (rl_crypto R) key)}"
  shows "accepts R expected token nonce"
  using token_run [OF assms(1-3)] assms(4) by (auto simp: accepts_def)

definition token_message :: "rtc_lib \<Rightarrow> string \<Rightarrow> data_channel_message" where
  "token_message R token = text_message (to_text (rl_wire R) enc_token_request \<lparr>tq_token = token\<rparr>)"

definition token_answer :: "rtc_lib \<Rightarrow> pin_config option \<Rightarrow> string \<Rightarrow> data_channel_message" where
  "token_answer R pin token = text_message (to_text (rl_wire R) enc_token_response (token_reply pin token))"

lemma sender_token_run:
  assumes "json_ok (rl_wire R)" and "works s" and "io_in s = token_answer R pin tr # rest"
    and "generate_token_nonce (rl_crypto R) key nonce = Inr ts"
    and "accepts R es tr nonce"
  shows "sender_token_exchange R key es nonce s =
    (Done (token_reply pin tr, tr), sent [token_message R ts] (s\<lparr>io_in := rest\<rparr>))"
  using assms
  by (cases pin; simp add: token_reply_def sender_token_exchange_def send_token_def receive_token_response_def check_token_run
      token_answer_def token_message_def Let_def map_err_def tseq_def tbind_def
      works_send recv_run parse_json_run token_response_codec.slice_enc ret_run)
    (simp_all add: sent_def)

lemma receiver_token_run:
  assumes "json_ok (rl_wire R)" and "works r" and "io_in r = token_message R ts # rest"
    and "generate_token_nonce (rl_crypto R) key nonce = Inr tr"
    and "accepts R er ts nonce"
  shows "receiver_token_exchange R key er pin nonce r =
    (Done (), sent [token_answer R pin tr] (r\<lparr>io_in := rest\<rparr>))"
  using assms
  by (cases pin; simp add: token_reply_def receiver_token_exchange_def answer_token_def receive_token_def check_token_run
      token_answer_def token_message_def Let_def map_err_def tseq_def tbind_def
      works_send recv_run parse_json_run token_request_codec.slice_enc ret_run)

definition file_tokens_text :: "rtc_lib \<Rightarrow> (string \<times> string) list \<Rightarrow> string" where
  "file_tokens_text R tokens = to_text (rl_wire R) enc_file_list (FileListOk tokens)"

lemma send_file_list_run:
  "works s \<Longrightarrow> send_file_list R files s = (Done (), sent (chunked (file_list_text R files)) s)"
  by (simp add: send_file_list_def or_report_def attempt_def tseq_def tbind_def works_send
      works_send_string ret_run chunked_def file_list_text_def delimiter_def)

lemma answer_selection_run:
  assumes "works r" and "ro_selection r = Reply (Some selected)"
  shows "answer_selection R r =
    (Done (Some (generate_file_tokens (ro_uuid r) selected)),
     sent (chunked (file_tokens_text R (generate_file_tokens (ro_uuid r) selected))) r)"
  using assms
  by (simp add: answer_selection_def send_file_response_def Let_def tbind_run tseq_run gets_run ret_run
      send_chunked file_tokens_text_def)

lemma resolve_file_map_run:
  assumes "json_ok (rl_wire R)" and "distinct (map fst tokens)"
    and "io_in s = chunked (file_tokens_text R tokens) @ rest"
  shows "resolve_file_map R nonce token s = (Done (Some tokens), s\<lparr>io_in := rest\<rparr>)"
  using assms(1,2)
  by (simp add: resolve_file_map_def receive_file_list_response_def tbind_def
      receive_chunked [OF assms(3)] map_err_def parse_json_run file_tokens_text_def
      file_list_codec.slice_enc ret_run)

section \<open>The two tasks\<close>

definition nonce_message :: "rtc_lib \<Rightarrow> (nat \<Rightarrow> u8) \<Rightarrow> data_channel_message" where
  "nonce_message R rng = text_message (to_text (rl_wire R) enc_nonce_message
     \<lparr>nm_nonce = b64_encode (rl_crypto R) (generate_nonce rng)\<rparr>)"

lemma sender_nonce_run:
  assumes "json_ok (rl_wire R)" and "b64_ok (rl_crypto R)" and "works s"
    and "io_in s = nonce_message R rng' # rest"
  shows "sender_nonce_exchange R rng s = (Done (generate_nonce rng @ generate_nonce rng'),
    (sent [nonce_message R rng] s)\<lparr>io_in := rest\<rparr>)"
proof -
  have "receive_nonce R (sent [nonce_message R rng] s) =
      (Done (generate_nonce rng'), (sent [nonce_message R rng] s)\<lparr>io_in := rest\<rparr>)"
    using assms by (intro receive_nonce_run) (simp_all add: nonce_message_def)
  with assms(3) show ?thesis
    by (simp add: sender_nonce_exchange_def Let_def map_err_def tseq_def tbind_def works_send ret_run
        nonce_message_def)
qed

lemma receiver_nonce_run:
  assumes "json_ok (rl_wire R)" and "b64_ok (rl_crypto R)" and "works r"
    and "io_in r = nonce_message R rng # rest"
  shows "receiver_nonce_exchange R rng' r = (Done (generate_nonce rng @ generate_nonce rng'),
    sent [nonce_message R rng'] (r\<lparr>io_in := rest\<rparr>))"
proof -
  have "receive_nonce R r = (Done (generate_nonce rng), r\<lparr>io_in := rest\<rparr>)"
    using assms by (intro receive_nonce_run) (simp_all add: nonce_message_def)
  with assms(3) show ?thesis
    by (simp add: receiver_nonce_exchange_def Let_def map_err_def tseq_def tbind_def works_send ret_run
        nonce_message_def)
qed

text \<open>\<open>pins\<close>: what a peer writes in the PIN challenges.\<close>

definition sender_messages ::
  "rtc_lib \<Rightarrow> (nat \<Rightarrow> u8) \<Rightarrow> string \<Rightarrow> data_channel_message list \<Rightarrow> file_dto list \<Rightarrow> (string \<times> string) list \<Rightarrow>
   (string \<times> bytes list) list \<Rightarrow> data_channel_message list" where
  "sender_messages R rng ts pins files tokens fs =
     nonce_message R rng # token_message R ts # pins @ chunked (file_list_text R files) @
     concat (map (file_messages R tokens) fs) @ [delimiter]"

definition receiver_messages ::
  "rtc_lib \<Rightarrow> (nat \<Rightarrow> u8) \<Rightarrow> pin_config option \<Rightarrow> string \<Rightarrow> data_channel_message list \<Rightarrow>
   (string \<times> string) list \<Rightarrow> data_channel_message list \<Rightarrow> data_channel_message list" where
  "receiver_messages R rng pin tr pins tokens answers =
     nonce_message R rng # token_answer R pin tr # pins @ chunked (file_tokens_text R tokens) @ answers"

lemma sender_session:
  assumes lib: "json_ok (rl_wire R)" "b64_ok (rl_crypto R)"
    and s: "works s" "so_open s = Reply ()" "so_selected_open s" "so_files_closed s"
    and io: "io_in s = receiver_messages R rng' pin_r tr ins tokens (answer # answers)"
      "io_pins s = map Some ps @ later"
    and ts: "generate_token_nonce (rl_crypto R) key (generate_nonce rng @ generate_nonce rng') = Inr ts"
    and tr: "accepts R es tr (generate_nonce rng @ generate_nonce rng')"
    and pin: "exchanges (sender_pin_phase R (token_reply pin_r tr) pin_s) () ins outs ps sts"
    and d: "distinct (map fst tokens)"
  shows "\<exists>s'. send_task R rng key es pin_s files s = (Done (), s') \<and>
    io_out s' = io_out s @ sender_messages R rng ts outs files tokens (so_files s) \<and>
    so_selected s' = Some (map fst tokens) \<and>
    so_errors s' = so_errors s @ unknown_errors tokens (so_files s) \<and>
    io_status s' = io_status s @ sts @ [StConnected] \<and> io_pins s' = later"
proof -
  let ?in2 = "chunked (file_tokens_text R tokens) @ answer # answers"
  let ?s1 = "(sent [nonce_message R rng] s)\<lparr>io_in := token_answer R pin_r tr # ins @ ?in2\<rparr>"
  let ?s2 = "sent [token_message R ts] (?s1\<lparr>io_in := ins @ ?in2\<rparr>)"
  let ?p = "sent outs (?s2\<lparr>io_in := ?in2, io_pins := later, io_status := io_status ?s2 @ sts\<rparr>)"
  let ?s3 = "sent (chunked (file_list_text R files)) (reported StConnected ?p)"
  let ?s4 = "?s3\<lparr>io_in := answer # answers\<rparr>"
  let ?s5 = "?s4\<lparr>so_selected := Some (map fst tokens)\<rparr>"
  let ?s6 = "sent (concat (map (file_messages R tokens) (so_files s)))
     (?s5\<lparr>so_files := [], so_errors := so_errors s @ unknown_errors tokens (so_files s)\<rparr>)"
  have 1: "sender_nonce_exchange R rng s = (Done (generate_nonce rng @ generate_nonce rng'), ?s1)"
    using lib s(1) io by (intro sender_nonce_run) (simp_all add: receiver_messages_def)
  have 2: "sender_token_exchange R key es (generate_nonce rng @ generate_nonce rng') ?s1 =
      (Done (token_reply pin_r tr, tr), ?s2)"
    using lib s(1) ts tr by (intro sender_token_run) simp_all
  have p: "sender_pin_phase R (token_reply pin_r tr) pin_s ?s2 = (Done (), ?p)"
    using s(1) io(2) by (intro exchangesD [OF pin]) simp_all
  have 3: "send_file_list R files (reported StConnected ?p) = (Done (), ?s3)"
    using s(1) by (intro send_file_list_run) simp
  have 4: "resolve_file_map R n tr ?s3 = (Done (Some tokens), ?s4)" for n
    using lib d by (intro resolve_file_map_run) simp_all
  have 5: "publish_selection tokens ?s4 = (Done (), ?s5)"
    using s(3) by (simp add: publish_selection_def tbind_def gets_run modify_run reported_def)
  have "works ?s5" using s(1) by (simp add: works_def reported_def sent_def)
  then have 6: "send_files R tokens ?s5 = (Done (), ?s6)"
    using s(4) by (subst send_files_run) (simp_all add: reported_def sent_def)
  have "works ?s6" using s(1) by (simp add: works_def reported_def sent_def)
  moreover have "io_in ?s6 = answer # answers" by simp
  ultimately have 7: "finish_sending ?s6 = (Done (), (sent [delimiter] ?s6)\<lparr>io_in := answers\<rparr>)"
    by (simp add: finish_sending_def tseq_def tbind_def works_send recv_run ret_run delimiter_def)
  have "wait_open s = (Done (), s)" using s(2) by (simp add: wait_open_def tbind_def gets_run ret_run)
  moreover have "wait_buffer_empty s = (Done (), s)" "status_send StConnected ?p = (Done (), reported StConnected ?p)"
    using s(1) by (simp_all add: works_send)
  ultimately have "send_task R rng key es pin_s files s =
      (Done (), (sent [delimiter] ?s6)\<lparr>io_in := answers\<rparr>)"
    unfolding send_task_def tseq_def tbind_def
    by (simp only: 1 2 p 3 4 5 6 7 prod.case outcome.case option.case)
  then show ?thesis
    by (simp add: sender_messages_def reported_def)
qed

lemma file_messages_accepted:
  "concat (map (file_messages R tokens) fs) =
   concat (map (file_messages R tokens) (filter (\<lambda>f. map_of tokens (fst f) \<noteq> None) fs))"
  by (induction fs) (auto simp: file_messages_def)

lemma receiver_session:
  assumes lib: "json_ok (rl_wire R)" "b64_ok (rl_crypto R)"
    and r: "works r" "takes_all r" "ro_channel r = Reply ()" "ro_files_open r"
      "ro_selection r = Reply (Some selected)"
    and tokens: "tokens = generate_file_tokens (ro_uuid r) selected"
    and accepted: "accepted = filter (\<lambda>f. map_of tokens (fst f) \<noteq> None) fs" "accepted \<noteq> []"
      "list_all (known_file tokens files) accepted" "length accepted \<le> length (ro_results r)"
    and io: "io_in r = sender_messages R rng ts (ins @ ins') files tokens fs"
      "io_pins r = map Some ps @ later"
    and tr: "generate_token_nonce (rl_crypto R) key (generate_nonce rng @ generate_nonce rng') = Inr tr"
    and ts: "accepts R er ts (generate_nonce rng @ generate_nonce rng')"
    and pin: "exchanges (receiver_pin_phase R pin_r) () ins outs [] sts"
      "exchanges (receive_file_list R) files (ins' @ chunked (file_list_text R files)) outs' ps sts'"
  shows "\<exists>r'. receive_task R rng' key er pin_r r = (Done (), r') \<and>
    io_out r' = io_out r @
      receiver_messages R rng' pin_r tr (outs @ outs') tokens (responses R (map fst accepted) (ro_results r)) \<and>
    ro_files r' = Some files \<and> ro_received r' = ro_received r @ received_files accepted \<and>
    io_status r' = io_status r @ sts @ sts' @ [StConnected] \<and> io_pins r' = later"
proof -
  let ?in4 = "concat (map (file_messages R tokens) accepted) @ [delimiter]"
  let ?in3 = "(ins' @ chunked (file_list_text R files)) @ ?in4"
  let ?in2 = "ins @ ?in3"
  let ?in1 = "token_message R ts # ?in2"
  let ?r1 = "sent [nonce_message R rng'] (r\<lparr>io_in := ?in1\<rparr>)"
  let ?r2 = "sent [token_answer R pin_r tr] (?r1\<lparr>io_in := ?in2\<rparr>)"
  let ?p = "sent outs (?r2\<lparr>io_in := ?in3, io_pins := io_pins r, io_status := io_status ?r2 @ sts\<rparr>)"
  let ?p' = "sent outs' (?p\<lparr>io_in := ?in4, io_pins := later, io_status := io_status ?p @ sts'\<rparr>)"
  let ?r3 = "reported StConnected ?p'"
  let ?r4 = "?r3\<lparr>ro_files := Some files\<rparr>"
  let ?r5 = "sent (chunked (file_tokens_text R tokens)) ?r4"
  let ?r6 = "sent (responses R (map fst accepted) (ro_results ?r5)) (?r5\<lparr>io_in := [],
    ro_received := ro_received ?r5 @ received_files accepted,
    ro_results := drop (length accepted) (ro_results ?r5)\<rparr>)"
  have 1: "receiver_nonce_exchange R rng' r = (Done (generate_nonce rng @ generate_nonce rng'), ?r1)"
    using lib r(1) io file_messages_accepted [of R tokens fs] accepted(1)
    by (intro receiver_nonce_run) (simp_all add: sender_messages_def)
  have 2: "receiver_token_exchange R key er pin_r (generate_nonce rng @ generate_nonce rng') ?r1 =
      (Done (), ?r2)"
    using lib r(1) ts tr by (intro receiver_token_run) simp_all
  have p: "receiver_pin_phase R pin_r ?r2 = (Done (), ?p)"
    using r(1) by (intro exchangesD [OF pin(1)]) simp_all
  have 3: "receive_file_list R ?p = (Done files, ?p')"
    using r(1) io(2) by (intro exchangesD [OF pin(2)]) simp_all
  have 4: "publish_files files ?r3 = (Done (), ?r4)"
    using r(4) by (simp add: publish_files_def tbind_def gets_run modify_run reported_def)
  have "works ?r4" "ro_selection ?r4 = Reply (Some selected)" "ro_uuid ?r4 = ro_uuid r"
    using r(1,5) by (simp_all add: works_def reported_def sent_def)
  then have 5: "answer_selection R ?r4 = (Done (Some tokens), ?r5)"
    using answer_selection_run [of ?r4 selected R] tokens by simp
  have 6: "receive_files R tokens files ?r5 = (Done (), ?r6)"
    using lib r(1,2) accepted
    by (intro receive_files_run) (simp_all add: works_def takes_all_def reported_def sent_def)
  have "wait_channel r = (Done (), r)" using r(3) by (simp add: wait_channel_def tbind_def gets_run ret_run)
  moreover have "status_send StConnected ?p' = (Done (), ?r3)"
    using r(1) by (simp add: works_send)
  ultimately have "receive_task R rng' key er pin_r r = (Done (), ?r6)"
    unfolding receive_task_def tseq_def tbind_def
    by (simp only: 1 2 p 3 4 5 6 prod.case outcome.case option.case)
  then show ?thesis
    by (simp add: receiver_messages_def reported_def)
qed

section \<open>The session\<close>

text \<open>The contents of files: each with all of its data.\<close>

definition contents :: "(string \<times> bytes list) list \<Rightarrow> (string \<times> bytes) list" where
  "contents fs = map (\<lambda>f. (fst f, concat (snd f))) fs"

lemma contents_received [simp]: "contents (received_files fs) = contents fs"
  by (simp add: contents_def received_files_def CHUNK_SIZE_def)

lemma contents_append [simp]: "contents (fs @ gs) = contents fs @ contents gs"
  by (simp add: contents_def)

lemma map_of_file_tokens:
  assumes "distinct selected"
  shows "map_of (generate_file_tokens uuid selected) i \<noteq> None \<longleftrightarrow> i \<in> set selected"
    and "map fst (generate_file_tokens uuid selected) = selected"
proof -
  show 1: "map fst (generate_file_tokens uuid selected) = selected"
    by (simp add: generate_file_tokens_def)
  show "map_of (generate_file_tokens uuid selected) i \<noteq> None \<longleftrightarrow> i \<in> set selected"
    using map_of_eq_None_iff [of "generate_file_tokens uuid selected" i] 1 by (metis list.set_map)
qed

lemma honest_session_pins:
  assumes lib: "json_ok (rl_wire R)" "b64_ok (rl_crypto R)" "sign_ok (rl_crypto R)"
    and s: "works s" "so_open s = Reply ()" "so_selected_open s" "so_files_closed s"
    and r: "works r" "takes_all r" "ro_channel r = Reply ()" "ro_files_open r"
      "ro_selection r = Reply (Some selected)"
    and keys: "generate_token_nonce (rl_crypto R) ks (generate_nonce rng @ generate_nonce rng') = Inr ts"
      "generate_token_nonce (rl_crypto R) kr (generate_nonce rng @ generate_nonce rng') = Inr tr"
      "es \<in> {None, Some (to_verifying_key (rl_crypto R) kr)}"
      "er \<in> {None, Some (to_verifying_key (rl_crypto R) ks)}"
    and files: "distinct selected" "set selected \<subseteq> set (map fd_id files)"
    and accepted: "accepted = filter (\<lambda>f. fst f \<in> set selected) (so_files s)" "accepted \<noteq> []"
      "length accepted \<le> length (ro_results r)"
    and pins: "opens pin_r ps" "io_pins s = map Some ps @ later_s"
      "opens pin_s pr" "io_pins r = map Some pr @ later_r"
  shows "\<exists>A B s' r'.
    send_task R rng ks es pin_s files (s\<lparr>io_in := B\<rparr>) =
      (Done (), s') \<and> io_out s' = io_out s @ A \<and>
    receive_task R rng' kr er pin_r (r\<lparr>io_in := A\<rparr>) =
      (Done (), r') \<and> io_out r' = io_out r @ B \<and>
    ro_files r' = Some files \<and>
    contents (ro_received r') = contents (ro_received r) @ contents accepted \<and>
    so_selected s' = Some selected \<and>
    map fe_file_id (so_errors s') =
      map fe_file_id (so_errors s) @ filter (\<lambda>i. i \<notin> set selected) (map fst (so_files s)) \<and>
    io_status s' = io_status s @ replicate (length ps) StPinRequired @ asked pin_s @ [StConnected] \<and>
    io_status r' = io_status r @ asked pin_r @ replicate (length pr) StPinRequired @ [StConnected] \<and>
    io_pins s' = later_s \<and> io_pins r' = later_r"
proof -
  let ?tokens = "generate_file_tokens (ro_uuid r) selected"
  let ?answers = "responses R (map fst accepted) (ro_results r)"
  let ?guess = "map (pin_guess R)"
  let ?A = "sender_messages R rng ts (?guess ps @ sender_verdicts R pr) files ?tokens (so_files s)"
  let ?B = "receiver_messages R rng' pin_r tr (receiver_verdicts R ps @ ?guess pr) ?tokens ?answers"
  note sel = map_of_file_tokens [OF files(1), of "ro_uuid r"]
  have acc: "accepted = filter (\<lambda>f. map_of ?tokens (fst f) \<noteq> None) (so_files s)"
    unfolding sel(1) accepted(1) ..
  have known: "list_all (known_file ?tokens files) accepted"
    unfolding list_all_iff known_file_def sel(1) accepted(1) using files(2) by auto
  obtain answer answers where ans: "?answers = answer # answers"
    using accepted(2,3) by (cases accepted; cases "ro_results r") (auto simp: responses_def)
  have d: "distinct (map fst ?tokens)" using files(1) sel(2) by simp
  obtain s' where s': "send_task R rng ks es pin_s files
      (s\<lparr>io_in := ?B\<rparr>) = (Done (), s')" "io_out s' = io_out s @ ?A"
    "so_selected s' = Some (map fst ?tokens)" "so_errors s' = so_errors s @ unknown_errors ?tokens (so_files s)"
    "io_status s' = io_status s @ (replicate (length ps) StPinRequired @ asked pin_s) @ [StConnected]"
    "io_pins s' = later_s"
    using sender_session [where s = "s\<lparr>io_in := ?B\<rparr>" and answer = answer and answers = answers and later = later_s
        and files = files, OF lib(1,2) _ _ _ _ _ _ keys(1) token_accepted [OF lib(2,3) keys(2,3)]
        exchanges_sender_pin [OF lib(1) pins(1,3)] d] s pins(2) ans
    by auto
  obtain r' where r': "receive_task R rng' kr er pin_r
      (r\<lparr>io_in := ?A\<rparr>) = (Done (), r')" "io_out r' = io_out r @ ?B" "ro_files r' = Some files"
    "ro_received r' = ro_received r @ received_files accepted"
    "io_status r' = io_status r @ asked pin_r @ replicate (length pr) StPinRequired @ [StConnected]"
    "io_pins r' = later_r"
    using receiver_session [where r = "r\<lparr>io_in := ?A\<rparr>" and selected = selected and ps = pr and later = later_r,
        OF lib(1,2) _ _ _ _ _ _ acc accepted(2) known _ _ _ keys(2) token_accepted [OF lib(2,3) keys(1,4)]
        exchanges_receiver_pin [OF lib(1) pins(1)] exchanges_file_list [OF lib(1)]] r accepted(3) pins(4)
    by (auto simp: takes_all_def)
  have unsel: "map_of ?tokens i = None \<longleftrightarrow> i \<notin> set selected" for i
    using sel(1) [of i] by auto
  have "map fe_file_id (unknown_errors ?tokens (so_files s)) =
      filter (\<lambda>i. i \<notin> set selected) (map fst (so_files s))"
    by (simp add: unknown_errors_def filter_map comp_def unsel)
  then have "map fe_file_id (so_errors s') =
      map fe_file_id (so_errors s) @ filter (\<lambda>i. i \<notin> set selected) (map fst (so_files s))"
    unfolding s'(4) by simp
  moreover have "contents (ro_received r') = contents (ro_received r) @ contents accepted"
    unfolding r'(4) by simp
  moreover have "so_selected s' = Some selected" unfolding s'(3) sel(2) ..
  ultimately show ?thesis using s'(1,2,5,6) r'(1,2,3,5,6) by auto
qed

text \<open>Without PINs.\<close>

lemma no_pins:
  "exchanges (sender_pin_phase R (token_reply None tr) None) () [] [] [] []"
  "exchanges (receiver_pin_phase R None) () [] [] [] []"
  "json_ok (rl_wire R) \<Longrightarrow> exchanges (receive_file_list R) files ([] @ chunked (file_list_text R files)) [] [] []"
  using exchanges_file_list [of R files "[]"]
  by (simp_all add: sender_pin_phase_def token_reply_def receiver_pin_phase_def tseq_def
      exchanges_prims(1) sender_verdicts_def exchanges_ret_bind)

lemma honest_session:
  assumes lib: "json_ok (rl_wire R)" "b64_ok (rl_crypto R)" "sign_ok (rl_crypto R)"
    and s: "works s" "so_open s = Reply ()" "so_selected_open s" "so_files_closed s"
    and r: "works r" "takes_all r" "ro_channel r = Reply ()" "ro_files_open r"
      "ro_selection r = Reply (Some selected)"
    and keys: "generate_token_nonce (rl_crypto R) ks (generate_nonce rng @ generate_nonce rng') = Inr ts"
      "generate_token_nonce (rl_crypto R) kr (generate_nonce rng @ generate_nonce rng') = Inr tr"
    and files: "distinct selected" "set selected \<subseteq> set (map fd_id files)"
    and accepted: "accepted = filter (\<lambda>f. fst f \<in> set selected) (so_files s)" "accepted \<noteq> []"
      "length accepted \<le> length (ro_results r)"
  shows "\<exists>A B s' r'.
    send_task R rng ks (Some (to_verifying_key (rl_crypto R) kr)) None files (s\<lparr>io_in := B\<rparr>) =
      (Done (), s') \<and> io_out s' = io_out s @ A \<and>
    receive_task R rng' kr (Some (to_verifying_key (rl_crypto R) ks)) None (r\<lparr>io_in := A\<rparr>) =
      (Done (), r') \<and> io_out r' = io_out r @ B \<and>
    ro_files r' = Some files \<and>
    contents (ro_received r') = contents (ro_received r) @ contents accepted \<and>
    so_selected s' = Some selected \<and>
    map fe_file_id (so_errors s') =
      map fe_file_id (so_errors s) @ filter (\<lambda>i. i \<notin> set selected) (map fst (so_files s))"
  using honest_session_pins [OF lib s r keys _ _ files accepted, of "Some (to_verifying_key (rl_crypto R) kr)"
      "Some (to_verifying_key (rl_crypto R) ks)" None "[]" "io_pins s" None "[]" "io_pins r"]
  by (simp add: opens_def) blast


text \<open>
  C26: a receiving peer whose PIN is empty cannot receive anything: it asks for a PIN with its
  token, but does not wait for one; the PIN that the sending peer's user then enters is read as the
  end of the file list, which does not parse, and the task fails.
\<close>

theorem empty_pin_fails:
  assumes lib: "json_ok (rl_wire R)" "b64_ok (rl_crypto R)" "from_slice (rl_wire R) dec_pin_sending [] = None"
    and r: "works r" "ro_channel r = Reply ()"
      "io_in r = nonce_message R rng # token_message R ts # pin_guess R guess # rest"
    and keys: "generate_token_nonce (rl_crypto R) kr (generate_nonce rng @ generate_nonce rng') = Inr tr"
      "accepts R er ts (generate_nonce rng @ generate_nonce rng')"
    and "pc_pin config = []"
  shows "\<exists>r'. receive_task R rng' kr er (Some config) r =
      (Fail (MsgOf ''Failed to deserialize file list response: '' JsonError), r') \<and>
    io_out r' = io_out r @ [nonce_message R rng', token_answer R (Some config) tr,
      text_message (to_text (rl_wire R) enc_pin_receiving PinRecvOk)] \<and> ro_files r' = ro_files r"
proof -
  let ?r1 = "sent [nonce_message R rng'] (r\<lparr>io_in := token_message R ts # pin_guess R guess # rest\<rparr>)"
  let ?r2 = "sent [token_answer R (Some config) tr] (?r1\<lparr>io_in := pin_guess R guess # rest\<rparr>)"
  let ?r3 = "sent [text_message (to_text (rl_wire R) enc_pin_receiving PinRecvOk)] (reported StPinRequired ?r2)"
  have 0: "wait_channel r = (Done (), r)" using r(2) by (simp add: wait_channel_def tbind_def gets_run ret_run)
  have 1: "receiver_nonce_exchange R rng' r = (Done (generate_nonce rng @ generate_nonce rng'), ?r1)"
    using lib r by (intro receiver_nonce_run) simp_all
  have 2: "receiver_token_exchange R kr er (Some config) (generate_nonce rng @ generate_nonce rng') ?r1 = (Done (), ?r2)"
    using lib r(1) keys by (intro receiver_token_run) simp_all
  have 3: "receiver_pin_phase R (Some config) ?r2 = (Done (), ?r3)"
    using r(1) assms(9)
    by (simp add: receiver_pin_phase_def verify_pin_def tseq_def tbind_def works_send ret_run
        verify_pin_loop.simps [of R config])
  have "receive_string_from_chunks ?r3 = (Done [], ?r3\<lparr>io_in := rest\<rparr>)"
    by (simp add: receive_string_from_chunks_def receive_chunks.simps pin_guess_def)
  then have 4: "receive_file_list R ?r3 =
      (Fail (MsgOf ''Failed to deserialize file list response: '' JsonError), ?r3\<lparr>io_in := rest\<rparr>)"
    by (simp add: receive_file_list_def tbind_def map_err_def parse_json_run lib(3))
  show ?thesis
    unfolding receive_task_def tseq_def tbind_def
    by (simp only: 0 1 2 3 4 prod.case outcome.case) (simp add: reported_def sent_def)
qed

section \<open>A concrete session\<close>

definition demo_key :: "u8 \<Rightarrow> signing_token_key" where
  "demo_key b = \<lparr>sk_inner = [b]\<rparr>"

lemma demo_token: "\<exists>token. generate_token_nonce (rl_crypto demo_lib) (demo_key b) nonce = Inr token"
  by (simp add: demo_lib_def demo_crypto_def generate_token_nonce_def Let_def)

definition demo_file :: "string \<Rightarrow> file_dto" where
  "demo_file i = \<lparr>fd_id = i, fd_file_name = i, fd_size = 3, fd_file_type = ''t'', fd_sha256 = None,
     fd_preview = None, fd_metadata = None\<rparr>"

definition sending_peer :: sender_io where
  "sending_peer = demo_sender\<lparr>so_files := [(''a'', [[1, 2], [3]]), (''b'', [[4]])]\<rparr>"

definition receiving_peer :: receiver_io where
  "receiving_peer = demo_receiver\<lparr>ro_selection := Reply (Some [''a'']),
     ro_results := [\<lparr>fr_id = ''a'', fr_success = True, fr_error = None\<rparr>]\<rparr>"

lemma sending_peer_simps [simp]:
  "works sending_peer" "so_open sending_peer = Reply ()" "so_selected_open sending_peer"
  "so_files_closed sending_peer" "so_files sending_peer = [(''a'', [[1, 2], [3]]), (''b'', [[4]])]"
  "so_errors sending_peer = []" "io_out sending_peer = []"
  by (simp_all add: sending_peer_def demo_sender_def works_def)

lemma receiving_peer_simps [simp]:
  "works receiving_peer" "takes_all receiving_peer" "ro_channel receiving_peer = Reply ()"
  "ro_files_open receiving_peer" "ro_selection receiving_peer = Reply (Some [''a''])"
  "ro_files receiving_peer = None" "ro_received receiving_peer = []" "io_out receiving_peer = []"
  "ro_results receiving_peer = [\<lparr>fr_id = ''a'', fr_success = True, fr_error = None\<rparr>]"
  by (simp_all add: receiving_peer_def demo_receiver_def works_def takes_all_def)

definition demo_pin :: "string \<Rightarrow> pin_config" where
  "demo_pin pin = \<lparr>pc_pin = pin, pc_max_tries = 3\<rparr>"

lemma demo_pin_opens:
  "opens (Some (demo_pin ''123'')) [''1'', ''2'', ''123'']" "opens (Some (demo_pin ''456'')) [''456'']"
  by (simp_all add: opens_def demo_pin_def)


theorem empty_pin_fails_witness:
  "\<exists>ts r'. receive_task demo_lib (\<lambda>_. 2) (demo_key 2) None (Some \<lparr>pc_pin = [], pc_max_tries = 3\<rparr>)
     (demo_receiver\<lparr>io_in := [nonce_message demo_lib (\<lambda>_. 1), token_message demo_lib ts, pin_guess demo_lib ''1'']\<rparr>) =
   (Fail (MsgOf ''Failed to deserialize file list response: '' JsonError), r') \<and> ro_files r' = None"
proof -
  obtain tr where t: "generate_token_nonce (rl_crypto demo_lib) (demo_key 2)
      (generate_nonce (\<lambda>_. 1) @ generate_nonce (\<lambda>_. 2)) = Inr tr"
    using demo_token by blast
  let ?r = "demo_receiver\<lparr>io_in := [nonce_message demo_lib (\<lambda>_. 1), token_message demo_lib ''t'', pin_guess demo_lib ''1'']\<rparr>"
  have "works ?r" "ro_channel ?r = Reply ()" "ro_files ?r = None"
    "io_in ?r = nonce_message demo_lib (\<lambda>_. 1) # token_message demo_lib ''t'' # pin_guess demo_lib ''1'' # []"
    using demo_works(2) by (simp_all add: demo_receiver_def works_def)
  moreover have "from_slice (rl_wire demo_lib) dec_pin_sending [] = None"
    by code_simp
  moreover have "accepts demo_lib None ''t'' (generate_nonce (\<lambda>_. 1) @ generate_nonce (\<lambda>_. 2))"
    by (simp add: accepts_def)
  ultimately show ?thesis
    using empty_pin_fails [where r = ?r and ts = "''t''" and guess = "''1''" and rest = "[]" and er = None and
        config = "\<lparr>pc_pin = [], pc_max_tries = 3\<rparr>", OF demo_lib_ok(1,2) _ _ _ _ t]
    by auto
qed



end
