(* ===== verification/Rtc_Returns.thy ===== *)
theory Rtc_Returns
  imports Rtc_Session
begin

text \<open>
  What both transfer tasks keep at every step, whatever their peer does: a calculus for claims of
  the form \<open>from a state with P the task stops, and leaves a state with P\<close>, proved once for the
  helpers and the two tasks. Two instances give the properties: the tasks return when nothing they
  wait for is withheld, and every binary message they send has between 1 and \<open>CHUNK_SIZE\<close> bytes.
\<close>

section \<open>The calculus\<close>

text \<open>\<open>runs P b m\<close>: \<open>m\<close> keeps \<open>P\<close>, and if \<open>b\<close> it does not stay suspended.\<close>

definition runs :: "('s \<Rightarrow> bool) \<Rightarrow> bool \<Rightarrow> ('s, 'a) task \<Rightarrow> bool" where
  "runs P b m \<longleftrightarrow> (\<forall>s. P s \<longrightarrow> P (snd (m s)) \<and> (b \<longrightarrow> fst (m s) \<noteq> Await))"

lemma runsI: "(\<And>s. P s \<Longrightarrow> P (snd (m s)) \<and> (b \<longrightarrow> fst (m s) \<noteq> Await)) \<Longrightarrow> runs P b m"
  by (simp add: runs_def)

lemma runs_pure:
  "runs P b (ret x)" "runs P b (throw e)" "runs P b (panic p)" "runs P b (gets g)" "runs P b (of_result r)"
  by (simp_all add: runs_def task_simps of_result_def split: sum.split)

lemma runs_suspend: "\<not> b \<Longrightarrow> runs P b suspend"
  by (simp add: runs_def task_simps)

lemma runs_modify: "(\<And>s. P s \<Longrightarrow> P (g s)) \<Longrightarrow> runs P b (modify g)"
  by (simp add: runs_def task_simps)

lemma runs_bind_at:
  assumes "runs P b m" and "\<And>s x. P s \<Longrightarrow> P (snd (m s)) \<Longrightarrow> fst (m s) = Done x \<Longrightarrow> runs P b (f x)"
  shows "runs P b (tbind m f)"
proof (rule runsI)
  fix s assume s: "P s"
  obtain r t where m: "m s = (r, t)" by fastforce
  with assms(1) s have t: "P t" "b \<longrightarrow> r \<noteq> Await" by (auto simp: runs_def)
  show "P (snd (tbind m f s)) \<and> (b \<longrightarrow> fst (tbind m f s) \<noteq> Await)"
  proof (cases r)
    case (Done x)
    with assms(2) [OF s] m t have "runs P b (f x)" by simp
    with m t Done show ?thesis by (simp add: tbind_def runs_def)
  qed (use m t in \<open>simp_all add: tbind_def\<close>)
qed

lemma runs_bind: "runs P b m \<Longrightarrow> (\<And>x. runs P b (f x)) \<Longrightarrow> runs P b (tbind m f)"
  by (rule runs_bind_at)

lemma runs_seq: "runs P b m \<Longrightarrow> runs P b n \<Longrightarrow> runs P b (tseq m n)"
  unfolding tseq_def by (rule runs_bind)

text \<open>A value that is read from the state has what \<open>P\<close> says about it.\<close>

lemma runs_gets: "(\<And>s. P s \<Longrightarrow> runs P b (f (g s))) \<Longrightarrow> runs P b (tbind (gets g) f)"
  by (rule runs_bind_at [OF runs_pure(4)]) (auto simp: task_simps)

lemma runs_wrapped:
  assumes "runs P b m"
  shows "runs P b (attempt m)" and "runs P b (map_err g m)"
proof -
  have "P s \<Longrightarrow> P (snd (attempt m s)) \<and> (b \<longrightarrow> fst (attempt m s) \<noteq> Await) \<and>
      P (snd (map_err g m s)) \<and> (b \<longrightarrow> fst (map_err g m s) \<noteq> Await)" for s
    using assms unfolding runs_def attempt_def map_err_def
    by (cases "m s"; cases "fst (m s)") force+
  then show "runs P b (attempt m)" and "runs P b (map_err g m)"
    by (simp_all add: runs_def)
qed

lemma runs_discard: "runs P b m \<Longrightarrow> runs P b (discard m)"
  unfolding discard_def by (intro runs_seq runs_wrapped runs_pure)

lemma runs_foldT: "(\<And>a x. x \<in> set xs \<Longrightarrow> runs P b (f a x)) \<Longrightarrow> runs P b (foldT f a xs)"
  by (induction xs arbitrary: a) (simp_all add: runs_pure runs_bind)

lemma runs_parse_json: "runs P b (parse_json R dec bs)"
  unfolding parse_json_def by (cases "from_slice (rl_wire R) dec bs") (simp_all add: runs_pure)

lemma verify_token_nonce_returns: "verify_token_nonce C key token nonce \<noteq> Await"
proof -
  have "verify_token_with_result C key token (verify_salt_nonce nonce) \<noteq> Await"
    unfolding verify_token_with_result_def verify_salt_nonce_def Let_def
    by (simp split: list.split option.split sum.split)
  then show ?thesis
    unfolding verify_token_nonce_def
    by (cases "verify_token_with_result C key token (verify_salt_nonce nonce)") auto
qed

lemma runs_verify: "runs P b (of_outcome (verify_token_nonce C key token nonce))"
  by (simp add: runs_def of_outcome_def verify_token_nonce_returns)

lemma runs_check_token: "runs P b (check_token R key token nonce)"
  unfolding check_token_def by (cases key) (simp_all add: runs_pure runs_verify)

lemmas runs_intros = runs_pure runs_bind runs_seq runs_wrapped runs_discard runs_parse_json
  runs_verify runs_check_token

section \<open>The helpers\<close>

text \<open>A message that the data channel carries in one piece.\<close>

definition sendable :: "data_channel_message \<Rightarrow> bool" where
  "sendable msg \<longleftrightarrow> dm_is_string msg \<or> 0 < length (dm_data msg) \<and> length (dm_data msg) \<le> CHUNK_SIZE"

locale peer_contract =
  fixes P :: "'a peer_io_scheme \<Rightarrow> bool" and b :: bool
  assumes in_closed: "b \<Longrightarrow> P s \<Longrightarrow> io_in_closed s"
    and drains: "b \<Longrightarrow> P s \<Longrightarrow> io_drains s"
    and pins_closed: "b \<Longrightarrow> P s \<Longrightarrow> \<not> io_pins_open s"
    and P_in: "P s \<Longrightarrow> P (s\<lparr>io_in := msgs\<rparr>)"
    and P_pins: "P s \<Longrightarrow> P (s\<lparr>io_pins := answers\<rparr>)"
    and P_status: "P s \<Longrightarrow> P (s\<lparr>io_status := sts\<rparr>)"
    and P_sends: "P s \<Longrightarrow> P (s\<lparr>io_sends := n\<rparr>)"
    and P_out: "P s \<Longrightarrow> sendable msg \<Longrightarrow> P (s\<lparr>io_out := io_out s @ [msg]\<rparr>)"
begin

lemma send: "sendable msg \<Longrightarrow> runs P b (dc_send msg)"
  by (rule runsI) (simp add: dc_send_def P_sends P_out)

lemma send_text_runs: "runs P b (send_text t)"
  unfolding send_text_def by (rule send) (simp add: sendable_def text_message_def)

lemma send_json_runs: "runs P b (send_json R enc x)"
  unfolding send_json_def by (rule send_text_runs)

lemma send_delimiter_runs: "runs P b send_delimiter"
  unfolding send_delimiter_def by (rule send_text_runs)

lemma chunks_run: "runs P b (process_in_chunks () rx send_chunk)"
  unfolding process_in_chunks_eq
proof (intro runs_bind runs_pure runs_foldT)
  fix c assume "c \<in> set (chunks_of CHUNK_SIZE (concat rx))"
  then have "sendable (binary_message c)"
    using chunks_of_bounds by (fastforce simp: sendable_def binary_message_def)
  then show "runs P b (send_chunk a c)" for a
    unfolding send_chunk_def send_binary_def by (rule send)
qed

lemma send_string_runs: "runs P b (send_string t)"
  unfolding send_string_def send_string_in_chunks_def by (rule chunks_run)

lemma recv_runs: "runs P b recv"
  by (rule runsI) (auto simp: recv_def P_in in_closed split: list.split)

lemma status_runs: "runs P b (status_send st)"
  by (rule runsI) (simp add: status_send_def P_status)

lemma wait_runs: "runs P b wait_buffer_empty"
  by (rule runsI) (use drains in \<open>auto simp: wait_buffer_empty_def\<close>)

lemma receive_chunks_run: "runs P b (receive_chunks buffer)"
proof (rule runsI)
  fix s assume "P s"
  then show "P (snd (receive_chunks buffer s)) \<and> (b \<longrightarrow> fst (receive_chunks buffer s) \<noteq> Await)"
  proof (induction buffer s rule: receive_chunks.induct)
    case (1 buffer s)
    then show ?case
      by (subst (1 2) receive_chunks.simps) (auto simp: P_in in_closed split: list.split)
  qed
qed

lemma receive_string_runs: "runs P b receive_string_from_chunks"
  unfolding receive_string_from_chunks_def by (rule receive_chunks_run)

lemmas steps = send_text_runs send_json_runs send_delimiter_runs chunks_run send_string_runs recv_runs
  status_runs wait_runs receive_string_runs

lemma receive_nonce_runs: "runs P b (receive_nonce R)"
  unfolding receive_nonce_def
  by (intro runs_intros steps) (auto intro!: runs_intros split: option.split)

lemma set_pins_runs: "runs P b (modify (io_pins_update (\<lambda>_. answers)))"
  by (rule runs_modify) (rule P_pins)

lemma pin_response_runs: "runs P b (pin_response_bytes in_chunks)"
  unfolding pin_response_bytes_def
  by (auto intro!: runs_intros steps split: option.split)

lemma handle_pin_loop_runs: "runs P b (handle_pin_loop R in_chunks parse answers)"
proof (induction answers)
  case Nil
  have "runs P b (if io_pins_open s then suspend else throw (Msg m))" if "P s" for s m
    using that pins_closed by (auto simp: runs_def task_simps)
  then show ?case by (auto intro!: runs_seq steps runs_gets)
next
  case (Cons answer answers)
  then show ?case
    by (auto intro!: runs_intros steps set_pins_runs pin_response_runs
        split: option.split challenge_pin_result.split)
qed

lemma handle_pin_runs: "runs P b (handle_pin R in_chunks parse)"
  unfolding handle_pin_def by (intro runs_intros handle_pin_loop_runs)

lemma verify_pin_loop_runs:
  assumes "\<And>r. runs P b (send_result r)"
  shows "runs P b (verify_pin_loop R config send_result notice remote t)"
  using assms
proof (induction R config send_result notice remote t rule: verify_pin_loop.induct)
  case (1 R config send_result notice remote t)
  show ?case
  proof (cases "remote = pc_pin config \<or> pc_max_tries config \<le> t")
    case True
    then show ?thesis
      by (subst verify_pin_loop.simps) (auto intro!: runs_intros steps "1.prems")
  next
    case False
    then show ?thesis
      using "1.IH" "1.prems"
      by (subst verify_pin_loop.simps) (auto intro!: runs_intros steps split: option.split)
  qed
qed

lemma verify_pin_runs: "(\<And>r. runs P b (send_result r)) \<Longrightarrow> runs P b (verify_pin R config notice send_result)"
  unfolding verify_pin_def by (intro runs_seq steps verify_pin_loop_runs)

lemmas helpers = steps receive_nonce_runs handle_pin_runs verify_pin_runs

end


section \<open>The sender\<close>

locale sender_contract = peer_contract P b for P :: "sender_io \<Rightarrow> bool" and b :: bool +
  assumes opened: "b \<Longrightarrow> P s \<Longrightarrow> so_open s \<noteq> Pending"
    and pair_answered: "b \<Longrightarrow> P s \<Longrightarrow> so_pair_answer s \<noteq> Pending"
    and files_end: "b \<Longrightarrow> P s \<Longrightarrow> so_files_closed s"
    and P_selected: "P s \<Longrightarrow> P (s\<lparr>so_selected := sel\<rparr>)"
    and P_files: "P s \<Longrightarrow> P (s\<lparr>so_files := files\<rparr>)"
    and P_errors: "P s \<Longrightarrow> P (so_errors_update f s)"
begin

lemma report_runs: "runs P b (report_error file_id e)"
  unfolding report_error_def by (rule runs_modify) (rule P_errors)

lemma send_file_runs: "runs P b (send_file R file_map entry)"
  unfolding send_file_def
  by (auto simp: Let_def intro!: runs_intros report_runs helpers split: option.split sum.split prod.split)

lemma send_files_loop_runs: "runs P b (send_files_loop R file_map files)"
proof (induction files)
  case Nil
  have "runs P b (if so_files_closed s then ret () else suspend)" if "P s" for s
    using that files_end by (auto simp: runs_def task_simps)
  then show ?case by (auto intro!: runs_gets)
next
  case (Cons entry files)
  have "runs P b (modify (so_files_update (\<lambda>_. files)))" by (rule runs_modify) (rule P_files)
  with Cons show ?case by (auto intro!: runs_seq send_file_runs)
qed

lemma file_list_runs: "runs P b (send_file_list R files)"
  unfolding send_file_list_def or_report_def by (auto intro!: runs_intros helpers split: sum.split)

lemma list_response_runs: "runs P b (receive_file_list_response R)"
  unfolding receive_file_list_response_def by (intro runs_intros helpers)

lemma ends_run: "runs P b declined" "runs P b (report_and_fail m)"
  unfolding declined_def report_and_fail_def by (intro runs_intros helpers)+

lemma pair_answer_runs:
  assumes "runs P b m" and "\<And>x. runs P b (f x)"
  shows "runs P b (tbind (gets so_pair_answer)
    (\<lambda>answer. case answer of Pending \<Rightarrow> suspend | Dropped \<Rightarrow> m | Reply x \<Rightarrow> f x))"
proof (rule runs_gets)
  fix s assume "P s"
  then show "runs P b (case so_pair_answer s of Pending \<Rightarrow> suspend | Dropped \<Rightarrow> m | Reply x \<Rightarrow> f x)"
    using assms pair_answered by (cases "so_pair_answer s") (auto simp: runs_def task_simps)
qed

lemma pair_request_runs: "runs P b (handle_pair_request R nonce token key)"
  unfolding handle_pair_request_def
  by (auto intro!: runs_intros helpers pair_answer_runs list_response_runs ends_run
      split: option.split rtc_file_list_response.split)

lemma resolve_runs: "runs P b (resolve_file_map R nonce token)"
  unfolding resolve_file_map_def
  by (auto intro!: runs_intros list_response_runs pair_request_runs ends_run split: rtc_file_list_response.split)

lemma token_exchange_runs: "runs P b (sender_token_exchange R key expecting nonce)"
  unfolding sender_token_exchange_def send_token_def receive_token_response_def
  by (auto simp: Let_def intro!: runs_intros helpers split: sum.split option.split rtc_token_response.split)

lemma pin_phase_runs: "runs P b (sender_pin_phase R response pin)"
  unfolding sender_pin_phase_def sender_pin_result_def
  by (auto intro!: runs_intros helpers split: rtc_token_response.split option.split)

lemma publish_runs: "runs P b (publish_selection file_map)"
  unfolding publish_selection_def by (auto intro!: runs_intros runs_modify P_selected)

lemma wait_open_runs: "runs P b wait_open"
  unfolding wait_open_def
proof (rule runs_gets)
  fix s assume "P s"
  then show "runs P b (case so_open s of Pending \<Rightarrow> suspend
      | Dropped \<Rightarrow> throw (Msg ''Data channel not opened'') | Reply _ \<Rightarrow> ret ())"
    using opened by (cases "so_open s") (auto simp: runs_def task_simps)
qed

lemma task: "runs P b (send_task R rng key expecting pin files)"
  unfolding send_task_def sender_nonce_exchange_def finish_sending_def send_files_def Let_def
  by (auto intro!: runs_intros helpers wait_open_runs token_exchange_runs pin_phase_runs
      file_list_runs resolve_runs publish_runs send_files_loop_runs split: option.split)

end

section \<open>The receiver\<close>

locale receiver_contract = peer_contract P b for P :: "receiver_io \<Rightarrow> bool" and b :: bool +
  assumes channel: "b \<Longrightarrow> P s \<Longrightarrow> ro_channel s \<noteq> Pending"
    and selected: "b \<Longrightarrow> P s \<Longrightarrow> ro_selection s \<noteq> Pending"
    and results_end: "b \<Longrightarrow> P s \<Longrightarrow> ro_results_closed s"
    and P_published: "P s \<Longrightarrow> P (s\<lparr>ro_files := fs\<rparr>)"
    and P_failures: "P s \<Longrightarrow> P (ro_errors_update f s)"
    and P_received: "P s \<Longrightarrow> P (ro_received_update g s)"
    and P_results: "P s \<Longrightarrow> P (s\<lparr>ro_results := rs\<rparr>)"
begin

lemma failure_runs: "runs P b (receive_error file_id e)"
  unfolding receive_error_def by (rule runs_modify) (rule P_failures)

lemma received_runs: "runs P b (modify (ro_received_update g))"
  by (rule runs_modify) (rule P_received)

lemma verdict_runs: "runs P b file_verdict"
  by (rule runsI) (use results_end P_results in \<open>auto simp: file_verdict_def split: list.split\<close>)

lemma end_file_runs: "runs P b (end_file R file_id)"
  unfolding end_file_def by (intro runs_intros helpers verdict_runs)

lemma open_file_runs: "runs P b (open_file tokens files header)"
  unfolding open_file_def
  by (auto intro!: runs_intros failure_runs received_runs split: option.split)

lemma publish_data_runs: "runs P b (publish_data data)"
  by (rule runsI) (simp add: publish_data_def P_received)

lemma message_runs: "runs P b (receive_message R tokens files st msg)"
  unfolding receive_message_def
  by (auto intro!: runs_intros end_file_runs open_file_runs publish_data_runs failure_runs split: option.split)

lemma receive_loop_runs: "runs P b (receive_loop R tokens files st msgs)"
proof (induction msgs arbitrary: st)
  case Nil
  have "runs P b (if io_in_closed s then ret () else suspend)" if "P s" for s
    using that in_closed by (auto simp: runs_def task_simps)
  then show ?case by (auto intro!: runs_gets)
next
  case (Cons msg msgs)
  have "runs P b (modify (io_in_update (\<lambda>_. msgs)))" by (rule runs_modify) (rule P_in)
  with Cons show ?case by (auto intro!: runs_intros message_runs split: loop_step.split)
qed

lemma file_list_runs: "runs P b (receive_file_list R)"
  unfolding receive_file_list_def
  by (auto intro!: runs_intros helpers split: rtc_pin_sending_response.split)

lemma publish_runs: "runs P b (publish_files files)"
  unfolding publish_files_def by (auto intro!: runs_intros runs_modify P_published)

lemma file_response_runs: "runs P b (send_file_response R response)"
  unfolding send_file_response_def by (intro runs_intros helpers)

lemma selection_runs: "runs P b (answer_selection R)"
  unfolding answer_selection_def
proof (rule runs_gets)
  fix s assume "P s"
  then show "runs P b (case ro_selection s of Pending \<Rightarrow> suspend | Dropped \<Rightarrow> ret None
      | Reply None \<Rightarrow> tseq (send_file_response R FileListDeclined) (ret None)
      | Reply (Some selected) \<Rightarrow>
          tbind (gets ro_uuid) (\<lambda>uuid.
            let file_tokens = generate_file_tokens uuid selected
            in tseq (send_file_response R (FileListOk file_tokens)) (ret (Some file_tokens))))"
    using selected
    by (cases "ro_selection s")
      (auto simp: Let_def intro!: runs_intros runs_suspend file_response_runs split: option.split)
qed

lemma token_exchange_runs: "runs P b (receiver_token_exchange R key expecting pin nonce)"
  unfolding receiver_token_exchange_def receive_token_def answer_token_def
  by (auto intro!: runs_intros helpers split: option.split sum.split)

lemma pin_phase_runs: "runs P b (receiver_pin_phase R pin)"
  unfolding receiver_pin_phase_def receiver_pin_result_def
  by (auto intro!: runs_intros helpers split: option.split)

lemma wait_channel_runs: "runs P b wait_channel"
  unfolding wait_channel_def
proof (rule runs_gets)
  fix s assume "P s"
  then show "runs P b (case ro_channel s of Pending \<Rightarrow> suspend
      | Dropped \<Rightarrow> throw (Msg ''Data channel not found'') | Reply _ \<Rightarrow> ret ())"
    using channel by (cases "ro_channel s") (auto simp: runs_def task_simps)
qed

lemma task: "runs P b (receive_task R rng key expecting pin)"
  unfolding receive_task_def receiver_nonce_exchange_def receive_files_def Let_def
  by (auto intro!: runs_intros helpers wait_channel_runs token_exchange_runs pin_phase_runs
      file_list_runs publish_runs selection_runs receive_loop_runs split: option.split)

end

section \<open>The instances\<close>

text \<open>Nothing the task waits for is withheld: the data channel is closed after what it delivers,
  its buffer drains, the other ends of the application's channels answer or are dropped.\<close>

definition sender_settled :: "sender_io \<Rightarrow> bool" where
  "sender_settled s \<longleftrightarrow> io_in_closed s \<and> io_drains s \<and> \<not> io_pins_open s \<and>
     so_open s \<noteq> Pending \<and> so_pair_answer s \<noteq> Pending \<and> so_files_closed s"

definition receiver_settled :: "receiver_io \<Rightarrow> bool" where
  "receiver_settled s \<longleftrightarrow> io_in_closed s \<and> io_drains s \<and> \<not> io_pins_open s \<and>
     ro_channel s \<noteq> Pending \<and> ro_selection s \<noteq> Pending \<and> ro_results_closed s"

definition sends_sendable :: "'a peer_io_scheme \<Rightarrow> bool" where
  "sends_sendable s \<longleftrightarrow> list_all sendable (io_out s)"

interpretation sender_returns: sender_contract sender_settled True
  by unfold_locales (simp_all add: sender_settled_def)

interpretation receiver_returns: receiver_contract receiver_settled True
  by unfold_locales (simp_all add: receiver_settled_def)

interpretation sender_chunks: sender_contract sends_sendable False
  by unfold_locales (simp_all add: sends_sendable_def)

interpretation receiver_chunks: receiver_contract sends_sendable False
  by unfold_locales (simp_all add: sends_sendable_def)

section \<open>Properties\<close>



text \<open>
  C39: every binary message that a task puts on the data channel has at least one byte and at most
  \<open>CHUNK_SIZE\<close> bytes (empty messages do not arrive, larger ones are not allowed), whatever it sends
  and in whatever pieces the application hands it a file.
\<close>

theorem binary_messages_bounded:
  assumes "io_out s = []" and "io_out r = []"
  shows "list_all sendable (io_out (snd (send_task R rng key expecting pin files s))) \<and>
    list_all sendable (io_out (snd (receive_task R rng' key' expecting' pin' r)))"
proof -
  have "sends_sendable s" and "sends_sendable r"
    using assms by (simp_all add: sends_sendable_def)
  then show ?thesis
    using sender_chunks.task receiver_chunks.task unfolding runs_def sends_sendable_def by blast
qed

theorem binary_messages_bounded_witness:
  "list_all sendable (io_out (snd (send_task demo_lib (\<lambda>n. of_nat n) (demo_key 1) None None [] demo_sender))) \<and>
   list_all sendable (io_out (snd (receive_task demo_lib (\<lambda>n. of_nat n) (demo_key 2) None None demo_receiver)))"
  by (rule binary_messages_bounded) (simp_all add: demo_sender_def demo_receiver_def)

end
