(* ===== verification/Net.thy ===== *)
theory Net
  imports Text
begin

text \<open>
  Client addresses of the signaling server: \<open>std::net::IpAddr\<close> with \<open>Display\<close> and
  \<open>FromStr\<close>, the grouping of addresses into rooms (\<open>get_ip_group\<close> in
  server/src/util/ip.rs) and the choice of the client's address from the headers
  (\<open>ws_handler\<close> in server/src/controller/ws_controller.rs).
\<close>

section \<open>IpAddr\<close>

datatype ip_addr = V4 u8 u8 u8 u8 | V6 u16 u16 u16 u16 u16 u16 u16 u16

definition fmt_ipv4 :: "u8 \<Rightarrow> u8 \<Rightarrow> u8 \<Rightarrow> u8 \<Rightarrow> string" where
  "fmt_ipv4 a b c d = join_on CHR ''.'' (map (\<lambda>x. fmt_dec (unat x)) [a, b, c, d])"

text \<open>\<open>Display\<close> of an IPv6 address: the first longest run of zero segments, if longer than
  one, is written as two colons; an IPv4-mapped address keeps its dotted form.\<close>

fun longest_zeroes :: "nat \<Rightarrow> nat \<times> nat \<Rightarrow> nat \<times> nat \<Rightarrow> u16 list \<Rightarrow> nat \<times> nat" where
  "longest_zeroes i longest current [] = longest"
| "longest_zeroes i longest current (s # ss) =
     (if s = 0
      then (let current' = (if snd current = 0 then (i, 1) else (fst current, Suc (snd current)))
            in longest_zeroes (Suc i) (if snd longest < snd current' then current' else longest)
                 current' ss)
      else longest_zeroes (Suc i) longest (0, 0) ss)"

definition fmt_segments :: "u16 list \<Rightarrow> string" where
  "fmt_segments ss = join_on CHR '':'' (map (\<lambda>x. fmt_hex (unat x)) ss)"

definition low_byte :: "u16 \<Rightarrow> u8" where
  "low_byte w = ucast w"

definition high_byte :: "u16 \<Rightarrow> u8" where
  "high_byte w = ucast (drop_bit 8 w)"

fun ip_to_string :: "ip_addr \<Rightarrow> string" where
  "ip_to_string (V4 a b c d) = fmt_ipv4 a b c d"
| "ip_to_string (V6 s0 s1 s2 s3 s4 s5 s6 s7) =
     (if [s0, s1, s2, s3, s4, s5] = [0, 0, 0, 0, 0, 0xFFFF]
      then ''::ffff:'' @ fmt_ipv4 (high_byte s6) (low_byte s6) (high_byte s7) (low_byte s7)
      else let ss = [s0, s1, s2, s3, s4, s5, s6, s7]; (start, len) = longest_zeroes 0 (0, 0) (0, 0) ss
        in if 1 < len
           then fmt_segments (take start ss) @ ''::'' @ fmt_segments (drop (start + len) ss)
           else fmt_segments ss)"

text \<open>\<open>FromStr\<close>: a parser returns what it read and the rest, or \<open>None\<close> with nothing
  consumed.\<close>

definition digit_value :: "nat \<Rightarrow> char \<Rightarrow> nat option" where
  "digit_value b c =
     (let n = of_char c;
          v = (if 48 \<le> n \<and> n \<le> 57 then n - 48
               else if 97 \<le> n \<and> n \<le> 122 then n - 87
               else if 65 \<le> n \<and> n \<le> 90 then n - 55 else 36 :: nat)
      in if v < b then Some v else None)"

fun read_digits :: "nat \<Rightarrow> nat \<Rightarrow> nat \<Rightarrow> nat \<Rightarrow> nat \<Rightarrow> string \<Rightarrow> (nat \<times> nat \<times> string) option" where
  "read_digits b max_digits bound result count [] = Some (result, count, [])"
| "read_digits b max_digits bound result count (c # cs) =
     (case digit_value b c of
        None \<Rightarrow> Some (result, count, c # cs)
      | Some d \<Rightarrow>
          if bound \<le> result * b + d \<or> max_digits < Suc count then None
          else read_digits b max_digits bound (result * b + d) (Suc count) cs)"

definition read_number :: "nat \<Rightarrow> nat \<Rightarrow> nat \<Rightarrow> bool \<Rightarrow> string \<Rightarrow> (nat \<times> string) option" where
  "read_number b max_digits bound allow_zero_prefix s =
     (case read_digits b max_digits bound 0 0 s of
        None \<Rightarrow> None
      | Some (result, count, rest) \<Rightarrow>
          if count = 0 then None
          else if \<not> allow_zero_prefix \<and> take 1 s = ''0'' \<and> 1 < count then None
          else Some (result, rest))"

definition read_char :: "char \<Rightarrow> string \<Rightarrow> string option" where
  "read_char c s = (case s of x # xs \<Rightarrow> if x = c then Some xs else None | [] \<Rightarrow> None)"

definition read_separator ::
  "char \<Rightarrow> nat \<Rightarrow> (string \<Rightarrow> ('a \<times> string) option) \<Rightarrow> string \<Rightarrow> ('a \<times> string) option" where
  "read_separator c i p s = (if i = 0 then p s else Option.bind (read_char c s) p)"

definition read_octet :: "nat \<Rightarrow> string \<Rightarrow> (nat \<times> string) option" where
  "read_octet i s = read_separator CHR ''.'' i (read_number 10 3 256 False) s"

definition read_ipv4_addr :: "string \<Rightarrow> ((u8 \<times> u8 \<times> u8 \<times> u8) \<times> string) option" where
  "read_ipv4_addr s =
     Option.bind (read_octet 0 s) (\<lambda>(a, s1).
     Option.bind (read_octet 1 s1) (\<lambda>(b, s2).
     Option.bind (read_octet 2 s2) (\<lambda>(c, s3).
     Option.bind (read_octet 3 s3) (\<lambda>(d, s4).
       Some ((of_nat a, of_nat b, of_nat c, of_nat d), s4)))))"

definition join_octets :: "u8 \<Rightarrow> u8 \<Rightarrow> u16" where
  "join_octets hi lo = push_bit 8 (ucast hi) + ucast lo"

text \<open>\<open>read_groups\<close> with \<open>limit - i = n\<close> groups left: the groups read, whether they end in an
  embedded IPv4 address, and the rest.\<close>

fun read_groups :: "nat \<Rightarrow> nat \<Rightarrow> string \<Rightarrow> u16 list \<times> bool \<times> string" where
  "read_groups i 0 s = ([], False, s)"
| "read_groups i (Suc n) s =
     (case (if 0 < n then read_separator CHR '':'' i read_ipv4_addr s else None) of
        Some ((a, b, c, d), rest) \<Rightarrow> ([join_octets a b, join_octets c d], True, rest)
      | None \<Rightarrow>
          (case read_separator CHR '':'' i (read_number 16 4 65536 True) s of
             None \<Rightarrow> ([], False, s)
           | Some (g, rest) \<Rightarrow>
               (let (gs, v4, rest') = read_groups (Suc i) n rest in (of_nat g # gs, v4, rest'))))"

definition ipv6_of_segments :: "u16 list \<Rightarrow> ip_addr" where
  "ipv6_of_segments ss =
     V6 (ss ! 0) (ss ! 1) (ss ! 2) (ss ! 3) (ss ! 4) (ss ! 5) (ss ! 6) (ss ! 7)"

definition read_ipv6_addr :: "string \<Rightarrow> (ip_addr \<times> string) option" where
  "read_ipv6_addr s =
     (let (head, head_ipv4, rest) = read_groups 0 8 s
      in if length head = 8 then Some (ipv6_of_segments head, rest)
         else if head_ipv4 then None
         else Option.bind (read_char CHR '':'' rest) (\<lambda>rest1.
              Option.bind (read_char CHR '':'' rest1) (\<lambda>rest2.
                (let (tail, _, rest3) = read_groups 0 (8 - (length head + 1)) rest2
                 in Some (ipv6_of_segments
                      (head @ replicate (8 - length head - length tail) 0 @ tail), rest3)))))"

definition ip_from_str :: "string \<Rightarrow> ip_addr option" where
  "ip_from_str s =
     (case read_ipv4_addr s of
        Some ((a, b, c, d), rest) \<Rightarrow> if rest = [] then Some (V4 a b c d) else None
      | None \<Rightarrow>
          (case read_ipv6_addr s of
             Some (ip, rest) \<Rightarrow> if rest = [] then Some ip else None
           | None \<Rightarrow> None))"

section \<open>Grouping of addresses (server/src/util/ip.rs)\<close>

fun get_ip_group :: "ip_addr \<Rightarrow> string" where
  "get_ip_group (V4 a b c d) = ip_to_string (V4 a b c d)"
| "get_ip_group (V6 s0 s1 s2 s3 s4 s5 s6 s7) =
     fmt_hex (unat s0) @ '':'' @ fmt_hex (unat s1) @ '':'' @ fmt_hex (unat s2) @ '':'' @
     fmt_hex (unat s3)"

text \<open>What the grouping promises: an IPv4 address is its own group, IPv6 addresses are grouped
  by their /64 prefix.\<close>

fun same_group :: "ip_addr \<Rightarrow> ip_addr \<Rightarrow> bool" where
  "same_group (V4 a b c d) (V4 a' b' c' d') \<longleftrightarrow> [a, b, c, d] = [a', b', c', d']"
| "same_group (V6 s0 s1 s2 s3 _ _ _ _) (V6 t0 t1 t2 t3 _ _ _ _) \<longleftrightarrow>
     [s0, s1, s2, s3] = [t0, t1, t2, t3]"
| "same_group _ _ \<longleftrightarrow> False"

section \<open>The client's address (ws\_handler)\<close>

text \<open>\<open>forwarded\<close> is the \<open>x-forwarded-for\<close> header, if present and made of visible ASCII.\<close>

definition client_ip :: "string option \<Rightarrow> ip_addr \<Rightarrow> ip_addr" where
  "client_ip forwarded addr =
     (let raw_forwarded =
        Option.bind forwarded (\<lambda>v. ip_from_str (trim (last (split_on CHR '','' v))))
      in case raw_forwarded of Some ip \<Rightarrow> ip | None \<Rightarrow> addr)"

section \<open>Lemmas\<close>

lemma get_ip_group_V4:
  "split_on CHR ''.'' (get_ip_group (V4 a b c d)) = map (\<lambda>x. fmt_dec (unat x)) [a, b, c, d]"
  unfolding get_ip_group.simps ip_to_string.simps fmt_ipv4_def
  by (rule split_on_join_on) (auto simp: fmt_dec_chars)

lemma get_ip_group_V6:
  "split_on CHR '':'' (get_ip_group (V6 s0 s1 s2 s3 s4 s5 s6 s7)) =
   map (\<lambda>x. fmt_hex (unat x)) [s0, s1, s2, s3]"
  by (simp add: split_on_append split_on_none fmt_hex_chars)

lemma get_ip_group_colon:
  "CHR '':'' \<in> set (get_ip_group ip) \<longleftrightarrow> (\<exists>s0 s1 s2 s3 s4 s5 s6 s7. ip = V6 s0 s1 s2 s3 s4 s5 s6 s7)"
  by (cases ip) (simp_all add: fmt_ipv4_def fmt_dec_chars)

lemma unat_inj [simp]: "unat (x :: 'a::len word) = unat y \<longleftrightarrow> x = y"
  by (simp add: word_unat_eq_iff)

section \<open>Properties\<close>

text \<open>
  Two clients are in the same group exactly when they have the same IPv4 address or IPv6
  addresses with the same /64 prefix; no IPv4 address shares a group with an IPv6 address, and
  different prefixes never collide in the text of the group.
\<close>

theorem get_ip_group_iff: "get_ip_group a = get_ip_group b \<longleftrightarrow> same_group a b"
proof (cases a; cases b)
  fix a0 a1 a2 a3 b0 b1 b2 b3
  assume ab: "a = V4 a0 a1 a2 a3" "b = V4 b0 b1 b2 b3"
  have "get_ip_group a = get_ip_group b \<Longrightarrow>
      map (\<lambda>x. fmt_dec (unat x)) [a0, a1, a2, a3] = map (\<lambda>x. fmt_dec (unat x)) [b0, b1, b2, b3]"
    unfolding ab by (metis get_ip_group_V4)
  then show ?thesis unfolding ab by (auto simp del: get_ip_group.simps)
next
  fix s0 s1 s2 s3 s4 s5 s6 s7 t0 t1 t2 t3 t4 t5 t6 t7
  assume ab: "a = V6 s0 s1 s2 s3 s4 s5 s6 s7" "b = V6 t0 t1 t2 t3 t4 t5 t6 t7"
  have "get_ip_group a = get_ip_group b \<Longrightarrow>
      map (\<lambda>x. fmt_hex (unat x)) [s0, s1, s2, s3] = map (\<lambda>x. fmt_hex (unat x)) [t0, t1, t2, t3]"
    unfolding ab by (metis get_ip_group_V6)
  then show ?thesis unfolding ab by auto
next
  fix a0 a1 a2 a3 t0 t1 t2 t3 t4 t5 t6 t7
  assume ab: "a = V4 a0 a1 a2 a3" "b = V6 t0 t1 t2 t3 t4 t5 t6 t7"
  have "CHR '':'' \<notin> set (get_ip_group a)" and "CHR '':'' \<in> set (get_ip_group b)"
    unfolding get_ip_group_colon ab by simp_all
  then have "get_ip_group a \<noteq> get_ip_group b" by metis
  then show ?thesis unfolding ab by simp
next
  fix s0 s1 s2 s3 s4 s5 s6 s7 b0 b1 b2 b3
  assume ab: "a = V6 s0 s1 s2 s3 s4 s5 s6 s7" "b = V4 b0 b1 b2 b3"
  have "CHR '':'' \<in> set (get_ip_group a)" and "CHR '':'' \<notin> set (get_ip_group b)"
    unfolding get_ip_group_colon ab by simp_all
  then have "get_ip_group a \<noteq> get_ip_group b" by metis
  then show ?thesis unfolding ab by simp
qed

text \<open>
  The address a client is grouped by is decided by the part of the x-forwarded-for header
  after its last comma alone, so a client cannot choose its group by what it puts in front of the
  address its proxy appends; without a readable address there, the peer address of the socket
  counts.
\<close>

theorem client_ip_last_forwarded:
  "client_ip (Some (v @ CHR '','' # w)) addr =
   (if CHR '','' \<in> set w then client_ip (Some w) addr
    else case ip_from_str (trim w) of Some ip \<Rightarrow> ip | None \<Rightarrow> addr)"
  by (simp add: client_ip_def split_on_append_sep split_on_none)

end
