(* ===== verification/Room.thy ===== *)
theory Room
  imports Signaling_Msg Net Crypto
begin

text \<open>
  The signaling server's shared maps and what its handlers do with them while they hold the
  locks (server/src/config/state.rs, server/src/config/scheduler.rs, server/src/config/error.rs
  and server/src/controller/ws_controller.rs). A \<open>HashMap\<close> is an association list with distinct
  keys; the sender half of a connection's channel is the number of the connection.
\<close>

section \<open>State\<close>

type_synonym conn_id = nat

record client_state =
  cs_client :: client_info_without_id
  cs_tx :: conn_id

type_synonym local_map = "(uuid \<times> client_state) list"

type_synonym count_map = "(string \<times> u32) list"

record app_maps =
  tx_map :: "(string \<times> local_map) list"
  request_count_map :: count_map

definition app_maps_new :: app_maps where
  "app_maps_new = \<lparr>tx_map = [], request_count_map = []\<rparr>"

text \<open>The two limits, read once from the environment.\<close>

record limits =
  max_connections :: nat
  max_requests :: u32

text \<open>The hourly job of the scheduler.\<close>

definition clear_request_counts :: "app_maps \<Rightarrow> app_maps" where
  "clear_request_counts m = m\<lparr>request_count_map := []\<rparr>"

section \<open>Errors (config/error.rs)\<close>

record app_error =
  ae_status :: nat
  ae_message :: "string option"
  ae_error :: "err option"

definition app_error_status :: "nat \<Rightarrow> string option \<Rightarrow> app_error" where
  "app_error_status status message =
     \<lparr>ae_status = status, ae_message = message, ae_error = None\<rparr>"

definition app_error_from :: "err \<Rightarrow> app_error" where
  "app_error_from e = \<lparr>ae_status = 500, ae_message = None, ae_error = Some e\<rparr>"

text \<open>\<open>into_response\<close>: the status with the message for a body, if there is one.\<close>

definition app_error_into_response :: "app_error \<Rightarrow> nat \<times> string option" where
  "app_error_into_response e = (ae_status e, ae_message e)"

section \<open>The upgrade request (ws\_handler)\<close>

text \<open>\<open>d\<close> is the query parameter; \<open>new_id\<close> is the generated UUID. The result is the group and
  the peer with which the socket is handled.\<close>

definition ws_handler ::
  "crypto_lib \<Rightarrow> wire_lib \<Rightarrow> string \<Rightarrow> string option \<Rightarrow> ip_addr \<Rightarrow> uuid \<Rightarrow>
   app_error + (string \<times> client_info)" where
  "ws_handler C L d forwarded addr new_id =
     (case b64_decode C d of
        None \<Rightarrow> Inl (app_error_status 400 None)
      | Some base64_decoded \<Rightarrow>
          (case from_utf8 base64_decoded of
             None \<Rightarrow> Inl (app_error_status 400 None)
           | Some text \<Rightarrow>
               (case from_text L dec_client_info_without_id text of
                  None \<Rightarrow> Inl (app_error_status 400 None)
                | Some register_dto \<Rightarrow>
                    Inr (get_ip_group (client_ip forwarded addr),
                         client_info_from register_dto new_id))))"

section \<open>Rate limiting\<close>

definition entry_or_insert :: "'k \<Rightarrow> 'v \<Rightarrow> ('k \<times> 'v) list \<Rightarrow> ('k \<times> 'v) list" where
  "entry_or_insert k v m = (case map_of m k of None \<Rightarrow> AList.update k v m | Some _ \<Rightarrow> m)"

definition protect_ddos_request_count ::
  "limits \<Rightarrow> count_map \<Rightarrow> string \<Rightarrow> (app_error + unit) \<times> count_map" where
  "protect_ddos_request_count lim m ip_group =
     (let m' = entry_or_insert ip_group 0 m;
          count = (case map_of m' ip_group of Some c \<Rightarrow> c | None \<Rightarrow> 0)
      in if max_requests lim \<le> count then (Inl (app_error_status 429 None), m')
         else (Inr (), AList.update ip_group (count + 1) m'))"

section \<open>Sections under the lock\<close>

text \<open>Connecting: \<open>None\<close> when a limit is reached, otherwise the senders of the other peers and
  the peers themselves.\<close>

definition connect_section ::
  "limits \<Rightarrow> app_maps \<Rightarrow> string \<Rightarrow> client_info \<Rightarrow> conn_id \<Rightarrow>
   (conn_id list \<times> client_info list) option \<times> app_maps" where
  "connect_section lim m ip_group peer tx =
     (let tx_map1 = entry_or_insert ip_group [] (tx_map m);
          tx_local_map = (case map_of tx_map1 ip_group of Some l \<Rightarrow> l | None \<Rightarrow> [])
      in if max_connections lim \<le> length tx_local_map then (None, m\<lparr>tx_map := tx_map1\<rparr>)
         else (case protect_ddos_request_count lim (request_count_map m) ip_group of
             (Inl _, counts) \<Rightarrow> (None, m\<lparr>tx_map := tx_map1, request_count_map := counts\<rparr>)
           | (Inr _, counts) \<Rightarrow>
               (Some (map (\<lambda>(k, v). cs_tx v) tx_local_map,
                      map (\<lambda>(k, v). client_info_from (cs_client v) k) tx_local_map),
                m\<lparr>tx_map := AList.update ip_group
                     (AList.update (ci_id peer)
                        \<lparr>cs_client = without_id_from peer, cs_tx = tx\<rparr> tx_local_map) tx_map1,
                  request_count_map := counts\<rparr>)))"

text \<open>Disconnecting: the peer leaves its group, an empty group is removed; the senders that are
  left.\<close>

definition disconnect_section :: "app_maps \<Rightarrow> string \<Rightarrow> uuid \<Rightarrow> conn_id list \<times> app_maps" where
  "disconnect_section m ip_group peer_id =
     (case map_of (tx_map m) ip_group of
        Some tx_local_map \<Rightarrow>
          (let local' = AList.delete peer_id tx_local_map
           in if local' = [] then ([], m\<lparr>tx_map := AList.delete ip_group (tx_map m)\<rparr>)
              else (map (\<lambda>(k, v). cs_tx v) local',
                    m\<lparr>tx_map := AList.update ip_group local' (tx_map m)\<rparr>))
      | None \<Rightarrow> ([], m))"

text \<open>\<open>send_update_to_other_peers_with_lock\<close>: the new information is stored and the senders of
  the other peers are collected.\<close>

definition update_section ::
  "app_maps \<Rightarrow> string \<Rightarrow> uuid \<Rightarrow> client_info_without_id \<Rightarrow> conn_id list \<times> app_maps" where
  "update_section m ip_group peer_id info =
     (case map_of (tx_map m) ip_group of
        Some tx_local_map \<Rightarrow>
          (case map_of tx_local_map peer_id of
             Some peer_state \<Rightarrow>
               (let local' = AList.update peer_id (peer_state\<lparr>cs_client := info\<rparr>) tx_local_map
                in (map (\<lambda>(k, v). cs_tx v) (filter (\<lambda>(k, v). k \<noteq> peer_id) local'),
                    m\<lparr>tx_map := AList.update ip_group local' (tx_map m)\<rparr>))
           | None \<Rightarrow> ([], m))
      | None \<Rightarrow> ([], m))"

text \<open>\<open>send_to_peer_with_lock\<close>: the sender of the target, and the message it is sent.\<close>

definition target_section :: "app_maps \<Rightarrow> string \<Rightarrow> uuid \<Rightarrow> conn_id option" where
  "target_section m ip_group target =
     (case map_of (tx_map m) ip_group of
        Some tx_local_map \<Rightarrow>
          (case map_of tx_local_map target of Some peer_state \<Rightarrow> Some (cs_tx peer_state) | None \<Rightarrow> None)
      | None \<Rightarrow> None)"

definition server_sdp :: "client_info \<Rightarrow> ws_client_sdp_message \<Rightarrow> ws_server_sdp_message" where
  "server_sdp origin_peer inner =
     \<lparr>sm_peer = origin_peer, sm_session_id = cm_session_id inner, sm_sdp = cm_sdp inner\<rparr>"

text \<open>One parsed client message: the maps after the locked section and the messages to send, in
  the order of the loop that sends them.\<close>

definition handle_client_message ::
  "app_maps \<Rightarrow> string \<Rightarrow> client_info \<Rightarrow> ws_client_message \<Rightarrow>
   (conn_id \<times> ws_server_message) list \<times> app_maps" where
  "handle_client_message m ip_group peer msg = (case msg of
      ClientUpdate info \<Rightarrow>
        (let (peers_tx, m') = update_section m ip_group (ci_id peer) info
         in (map (\<lambda>t. (t, Update (client_info_from info (ci_id peer)))) peers_tx, m'))
    | ClientOffer sdp \<Rightarrow>
        (case target_section m ip_group (cm_target sdp) of
           Some t \<Rightarrow> ([(t, Offer (server_sdp peer sdp))], m) | None \<Rightarrow> ([], m))
    | ClientAnswer sdp \<Rightarrow>
        (case target_section m ip_group (cm_target sdp) of
           Some t \<Rightarrow> ([(t, Answer (server_sdp peer sdp))], m) | None \<Rightarrow> ([], m)))"

section \<open>Lookups\<close>

text \<open>The members of a group, as a map from peer identifiers.\<close>

definition members :: "app_maps \<Rightarrow> string \<Rightarrow> uuid \<rightharpoonup> client_state" where
  "members m g = (case map_of (tx_map m) g of Some l \<Rightarrow> map_of l | None \<Rightarrow> Map.empty)"

definition room_size :: "app_maps \<Rightarrow> string \<Rightarrow> nat" where
  "room_size m g = (case map_of (tx_map m) g of Some l \<Rightarrow> length l | None \<Rightarrow> 0)"

definition request_count :: "count_map \<Rightarrow> string \<Rightarrow> u32" where
  "request_count m g = (case map_of m g of Some c \<Rightarrow> c | None \<Rightarrow> 0)"

definition maps_wf :: "app_maps \<Rightarrow> bool" where
  "maps_wf m \<longleftrightarrow> distinct (map fst (tx_map m)) \<and>
     (\<forall>g l. map_of (tx_map m) g = Some l \<longrightarrow> distinct (map fst l))"

section \<open>What the sections do to the members of the groups\<close>

lemma map_of_entry_or_insert:
  "map_of (entry_or_insert k v m) = (case map_of m k of None \<Rightarrow> (map_of m)(k \<mapsto> v) | Some _ \<Rightarrow> map_of m)"
  by (simp add: entry_or_insert_def update_conv' split: option.split)

lemma distinct_entry_or_insert:
  "distinct (map fst m) \<Longrightarrow> distinct (map fst (entry_or_insert k v m))"
  by (simp add: entry_or_insert_def distinct_update split: option.split)

lemma map_of_entry_self [simp]: "\<exists>v'. map_of (entry_or_insert k v m) k = Some v'"
  by (simp add: map_of_entry_or_insert split: option.split)

lemma map_of_delete: "map_of (AList.delete k m) = (map_of m)(k := None)"
  by (simp add: delete_conv')

lemma card_dom_map_of: "distinct (map fst m) \<Longrightarrow> card (dom (map_of m)) = length m"
  by (metis distinct_card dom_map_of_conv_image_fst length_map list.set_map)

lemma room_size_card: "maps_wf m \<Longrightarrow> room_size m g = card (dom (members m g))"
  by (auto simp: room_size_def members_def maps_wf_def card_dom_map_of split: option.split)

text \<open>The local map of a group, and what connecting does to it.\<close>

definition local_of :: "app_maps \<Rightarrow> string \<Rightarrow> local_map" where
  "local_of m g = (case map_of (tx_map m) g of Some l \<Rightarrow> l | None \<Rightarrow> [])"

lemma members_local_of: "members m g = map_of (local_of m g)"
  by (simp add: members_def local_of_def split: option.split)

lemma room_size_local_of: "room_size m g = length (local_of m g)"
  by (simp add: room_size_def local_of_def split: option.split)

lemma connect_None:
  "connect_section lim m g p tx = (None, m') \<Longrightarrow>
   tx_map m' = entry_or_insert g [] (tx_map m)"
  by (auto simp: connect_section_def Let_def split: if_splits prod.splits sum.splits)

lemma connect_Some:
  assumes "connect_section lim m g p tx = (Some (ts, ps), m')"
  shows "room_size m g < max_connections lim"
    and "ts = map (\<lambda>(k, v). cs_tx v) (local_of m g)"
    and "ps = map (\<lambda>(k, v). client_info_from (cs_client v) k) (local_of m g)"
    and "tx_map m' = AList.update g
      (AList.update (ci_id p) \<lparr>cs_client = without_id_from p, cs_tx = tx\<rparr> (local_of m g))
      (entry_or_insert g [] (tx_map m))"
  using assms
  by (auto simp: connect_section_def Let_def local_of_def room_size_def map_of_entry_or_insert
      split: if_splits option.splits prod.splits sum.splits)

lemma connect_counts:
  "connect_section lim m g p tx = (r, m') \<Longrightarrow>
   request_count_map m' = request_count_map m \<or>
   request_count_map m' = snd (protect_ddos_request_count lim (request_count_map m) g)"
  by (auto simp: connect_section_def Let_def split: if_splits prod.splits sum.splits)

lemma members_connect:
  assumes "connect_section lim m g p tx = (r, m')"
  shows "members m' = (case r of None \<Rightarrow> members m
     | Some _ \<Rightarrow> (members m)(g := (members m g)(ci_id p \<mapsto>
         \<lparr>cs_client = without_id_from p, cs_tx = tx\<rparr>)))"
proof (cases r)
  case None
  with assms connect_None [of lim m g p tx m'] show ?thesis
    by (simp add: fun_eq_iff members_def map_of_entry_or_insert split: option.split)
next
  case (Some q)
  with assms connect_Some(4) [of lim m g p tx "fst q" "snd q" m'] show ?thesis
    by (auto simp: fun_eq_iff members_def local_of_def map_of_entry_or_insert update_conv'
        split: option.split)
qed

lemma members_disconnect:
  "members (snd (disconnect_section m g i)) = (members m)(g := (members m g)(i := None))"
proof (cases "map_of (tx_map m) g")
  case None
  then show ?thesis by (simp add: disconnect_section_def members_def fun_eq_iff)
next
  case (Some l)
  have "(map_of l)(i := None) = Map.empty" if "AList.delete i l = []"
    using map_of_delete [of i l] that by simp
  with Some show ?thesis
    by (auto simp: disconnect_section_def Let_def members_def map_of_delete update_conv' fun_eq_iff)
qed

lemma members_update:
  "members (snd (update_section m g i info)) =
   (members m)(g := (members m g)(i := map_option (cs_client_update (\<lambda>_. info)) (members m g i)))"
  by (auto simp: update_section_def Let_def members_def update_conv' fun_eq_iff split: option.splits)

text \<open>Whom the sections send to: the connections of the other members of the group.\<close>

lemma set_map_of: "distinct (map fst l) \<Longrightarrow> (k, v) \<in> set l \<longleftrightarrow> map_of l k = Some v"
  by simp

lemma local_of_distinct: "maps_wf m \<Longrightarrow> distinct (map fst (local_of m g))"
  by (simp add: maps_wf_def local_of_def split: option.split del: map_of_eq_Some_iff)

lemma connect_targets:
  assumes "connect_section lim m g p tx = (Some (ts, ps), m')" and "maps_wf m"
  shows "set ts = {cs_tx v | k v. members m g k = Some v}"
    and "set ps = {client_info_from (cs_client v) k | k v. members m g k = Some v}"
  using connect_Some(2,3) [OF assms(1)] local_of_distinct [OF assms(2), of g]
  by (force simp: members_local_of)+

lemma disconnect_targets:
  assumes "maps_wf m"
  shows "set (fst (disconnect_section m g i)) = {cs_tx v | k v. members m g k = Some v \<and> k \<noteq> i}"
proof (cases "map_of (tx_map m) g")
  case None
  then show ?thesis by (simp add: disconnect_section_def members_def)
next
  case (Some l)
  with assms have d: "distinct (map fst (AList.delete i l))"
    by (simp add: maps_wf_def distinct_delete)
  have "(\<lambda>(k, v). cs_tx v) ` set (AList.delete i l) = {cs_tx v | k v. map_of l k = Some v \<and> k \<noteq> i}"
    using set_map_of [OF d] by (force simp: map_of_delete split: if_splits)
  with Some show ?thesis
    by (auto simp: disconnect_section_def Let_def members_def)
qed

lemma update_targets:
  assumes "maps_wf m"
  shows "set (fst (update_section m g i info)) =
    (if members m g i = None then {} else {cs_tx v | k v. members m g k = Some v \<and> k \<noteq> i})"
proof (cases "map_of (tx_map m) g")
  case None
  then show ?thesis by (simp add: update_section_def members_def)
next
  case (Some l)
  with assms have d: "distinct (map fst (AList.update i v l))" for v
    by (simp add: maps_wf_def distinct_update)
  have "(\<lambda>(k, v). cs_tx v) ` {kv \<in> set (AList.update i w l). fst kv \<noteq> i} =
      {cs_tx v | k v. map_of l k = Some v \<and> k \<noteq> i}" for w
    using set_map_of [OF d] by (force simp: update_conv' split: if_splits)
  with Some show ?thesis
    by (auto simp: update_section_def Let_def members_def case_prod_beta' split: option.split)
qed

lemma target_section_members:
  "target_section m g u = map_option cs_tx (members m g u)"
  by (simp add: target_section_def members_def split: option.split)

section \<open>Well-formedness\<close>

lemma maps_wf_new: "maps_wf app_maps_new"
  by (simp add: maps_wf_def app_maps_new_def)

lemma maps_wf_connect:
  assumes "maps_wf m" and "connect_section lim m g p tx = (r, m')"
  shows "maps_wf m'"
proof (cases r)
  case None
  with assms connect_None [of lim m g p tx m'] show ?thesis
    by (auto simp: maps_wf_def distinct_entry_or_insert map_of_entry_or_insert
        simp del: map_of_eq_Some_iff split: option.splits if_splits)
next
  case (Some q)
  with assms connect_Some(4) [of lim m g p tx "fst q" "snd q" m'] local_of_distinct [OF assms(1), of g]
  show ?thesis
    by (auto simp: maps_wf_def distinct_entry_or_insert map_of_entry_or_insert distinct_update
        update_conv' simp del: map_of_eq_Some_iff split: option.splits if_splits)
qed

lemma maps_wf_disconnect: "maps_wf m \<Longrightarrow> maps_wf (snd (disconnect_section m g i))"
  by (auto simp: disconnect_section_def Let_def maps_wf_def distinct_update distinct_delete
      update_conv' map_of_delete simp del: map_of_eq_Some_iff split: option.splits if_splits)

lemma maps_wf_update: "maps_wf m \<Longrightarrow> maps_wf (snd (update_section m g i info))"
  by (auto simp: update_section_def Let_def maps_wf_def distinct_update update_conv'
      simp del: map_of_eq_Some_iff split: option.splits if_splits)

section \<open>Sizes\<close>

lemma room_size_disconnect: 
  "room_size (snd (disconnect_section m g i)) h \<le> room_size m h"
  by (auto simp: disconnect_section_def Let_def room_size_def update_conv' map_of_delete
      length_delete_le split: option.splits)

lemma length_update: "map_of l k = Some v \<Longrightarrow> length (AList.update k w l) = length l"
  by (induction l) (auto split: if_splits)

lemma length_update_le: "length (AList.update k w l) \<le> Suc (length l)"
  by (induction l) auto

lemma room_size_update: "room_size (snd (update_section m g i info)) h = room_size m h"
  by (auto simp: update_section_def Let_def room_size_def update_conv' length_update
      split: option.splits)

lemma room_size_connect:
  assumes "connect_section lim m g p tx = (r, m')" and "room_size m h \<le> max_connections lim"
  shows "room_size m' h \<le> max_connections lim"
proof (cases r)
  case None
  with assms connect_None [of lim m g p tx m'] show ?thesis
    by (auto simp: room_size_def map_of_entry_or_insert split: option.splits if_splits)
next
  case (Some q)
  then have q: "connect_section lim m g p tx = (Some (fst q, snd q), m')"
    using assms by simp
  let ?w = "\<lparr>cs_client = without_id_from p, cs_tx = tx\<rparr>"
  have "length (AList.update (ci_id p) ?w (local_of m g)) \<le> Suc (room_size m g)"
    by (simp add: room_size_local_of length_update_le)
  then have le: "length (AList.update (ci_id p) ?w (local_of m g)) \<le> max_connections lim"
    using connect_Some(1) [OF q] by simp
  have "room_size m' h =
      (if h = g then length (AList.update (ci_id p) ?w (local_of m g)) else room_size m h)"
    unfolding room_size_def connect_Some(4) [OF q]
    by (simp add: update_conv' map_of_entry_or_insert split: option.split)
  with le assms(2) show ?thesis by simp
qed

section \<open>The interface of a rate limiter\<close>

text \<open>What the handlers rely on when they ask for admission: a request of a client is admitted
  exactly while fewer than \<open>bound\<close> were admitted since the last reset, and no client spends what
  another one has left. From this the number of admitted requests in any sequence follows.\<close>

fun admissions :: "('m \<Rightarrow> 'k \<Rightarrow> bool \<times> 'm) \<Rightarrow> 'm \<Rightarrow> 'k list \<Rightarrow> ('k \<times> bool) list" where
  "admissions admit m [] = []"
| "admissions admit m (k # ks) =
     (let (ok, m') = admit m k in (k, ok) # admissions admit m' ks)"

locale rate_limiter =
  fixes admit :: "'m \<Rightarrow> 'k \<Rightarrow> bool \<times> 'm"
    and used :: "'m \<Rightarrow> 'k \<Rightarrow> nat"
    and reset :: "'m \<Rightarrow> 'm"
    and bound :: nat
  assumes admit_ok: "fst (admit m k) \<longleftrightarrow> used m k < bound"
    and admit_used: "used (snd (admit m k)) k' = used m k' + (if k' = k \<and> fst (admit m k) then 1 else 0)"
    and reset_used: "used (reset m) k = 0"
begin

lemma used_bounded: "used m k' \<le> bound \<Longrightarrow> used (snd (admit m k)) k' \<le> bound"
  by (auto simp: admit_used admit_ok)

lemma admitted_count:
  "length (filter (\<lambda>(k', ok). k' = k \<and> ok) (admissions admit m ks)) =
   min (count_list ks k) (bound - used m k)"
proof (induction ks arbitrary: m)
  case (Cons k1 ks)
  then show ?case
    using admit_ok [of m k1] admit_used [of m k1 k] by (auto simp: case_prod_beta')
qed simp

lemma admitted_after_reset:
  "length (filter (\<lambda>(k', ok). k' = k \<and> ok) (admissions admit (reset m) ks)) =
   min (count_list ks k) bound"
  by (simp add: admitted_count reset_used)

lemma admitted_independent:
  "filter (\<lambda>(k', ok). k' = k) (admissions admit m ks) =
   filter (\<lambda>(k', ok). k' = k) (admissions admit m (filter (\<lambda>k'. k' = k) ks))"
proof -
  have "used m k = used n k \<Longrightarrow>
     filter (\<lambda>(k', ok). k' = k) (admissions admit m ks) =
     filter (\<lambda>(k', ok). k' = k) (admissions admit n (filter (\<lambda>k'. k' = k) ks))" for n
  proof (induction ks arbitrary: m n)
    case (Cons k1 ks)
    then show ?case
      using admit_ok [of m k1] admit_used [of m k1 k] admit_ok [of n k1] admit_used [of n k1 k]
        Cons.IH [of "snd (admit m k)" "snd (admit n k)"] Cons.IH [of "snd (admit m k1)" n]
      by (cases "k1 = k"; cases "fst (admit m k)"; cases "fst (admit n k)")
        (simp_all add: case_prod_beta')
  qed simp
  then show ?thesis by simp
qed

end

definition admit_request :: "limits \<Rightarrow> count_map \<Rightarrow> string \<Rightarrow> bool \<times> count_map" where
  "admit_request lim m g = (let (r, m') = protect_ddos_request_count lim m g in (\<not> isl r, m'))"

lemma request_count_protect:
  "request_count (snd (protect_ddos_request_count lim m g)) h =
   (if h = g \<and> request_count m g < max_requests lim then request_count m g + 1
    else request_count m h)"
  by (auto simp: protect_ddos_request_count_def request_count_def Let_def map_of_entry_or_insert
      update_conv' not_le split: option.split)

lemma protect_ok:
  "fst (protect_ddos_request_count lim m g) =
   (if request_count m g < max_requests lim then Inr () else Inl (app_error_status 429 None))"
  by (auto simp: protect_ddos_request_count_def request_count_def Let_def map_of_entry_or_insert
      not_le split: option.split)

lemma unat_inc:
  assumes "x < (y :: u32)"
  shows "unat (x + 1) = unat x + 1"
proof -
  have "unat x + 1 < 2 ^ 32"
    using assms unsigned_less [of y, where ?'a = nat] by (simp add: word_less_nat_alt)
  then show ?thesis by (simp add: unat_word_ariths)
qed

interpretation request_limiter:
  rate_limiter "admit_request lim" "\<lambda>m g. unat (request_count m g)" "\<lambda>_. []"
    "unat (max_requests lim)" for lim
proof
  fix m k k'
  show "fst (admit_request lim m k) \<longleftrightarrow> unat (request_count m k) < unat (max_requests lim)"
    using protect_ok [of lim m k] by (simp add: admit_request_def case_prod_beta' word_less_nat_alt)
  show "unat (request_count (snd (admit_request lim m k)) k') =
    unat (request_count m k') + (if k' = k \<and> fst (admit_request lim m k) then 1 else 0)"
    using protect_ok [of lim m k] request_count_protect [of lim m k k']
    by (auto simp: admit_request_def case_prod_beta' unat_inc)
  show "unat (request_count [] k) = 0"
    by (simp add: request_count_def)
qed

section \<open>Properties\<close>

text \<open>
  Of the requests that a group of addresses makes between two runs of the hourly job, exactly
  the first max_requests are admitted, however the requests of other groups are interleaved.
\<close>

theorem rate_limit_admits:
  "length (filter (\<lambda>(g', ok). g' = g \<and> ok) (admissions (admit_request lim) [] gs)) =
   min (count_list gs g) (unat (max_requests lim))"
  by (rule request_limiter.admitted_after_reset)

end
