(* ===== verification/Transition.thy ===== *)
theory Transition
  imports Main
begin

text \<open>
  Reachable states of a transition system, and the interface of an inductive invariant: a
  component that has initial states, steps and a predicate that both respect gets the predicate
  for every reachable state.
\<close>

inductive reach :: "('s \<Rightarrow> bool) \<Rightarrow> ('s \<Rightarrow> 's \<Rightarrow> bool) \<Rightarrow> 's \<Rightarrow> bool"
  for init :: "'s \<Rightarrow> bool" and step :: "'s \<Rightarrow> 's \<Rightarrow> bool" where
  reach_init: "init s \<Longrightarrow> reach init step s"
| reach_step: "reach init step s \<Longrightarrow> step s t \<Longrightarrow> reach init step t"

lemma reach_trans:
  assumes "reach (\<lambda>u. u = t) step v" and "reach init step t"
  shows "reach init step v"
  using assms by induction (auto intro: reach_step)

locale inductive_invariant =
  fixes init :: "'s \<Rightarrow> bool"
    and step :: "'s \<Rightarrow> 's \<Rightarrow> bool"
    and inv :: "'s \<Rightarrow> bool"
  assumes base: "init s \<Longrightarrow> inv s"
    and preserved: "inv s \<Longrightarrow> step s t \<Longrightarrow> inv t"
begin

lemma holds: "reach init step s \<Longrightarrow> inv s"
  by (induction rule: reach.induct) (auto intro: base preserved)

lemma holds_from:
  assumes "reach (\<lambda>u. u = s) step t" and "inv s"
  shows "inv t"
  using assms by (induction rule: reach.induct) (auto intro: preserved)

end

text \<open>A predicate that only needs another invariant to be preserved.\<close>

locale relative_invariant = inductive_invariant +
  fixes inv2 :: "'s \<Rightarrow> bool"
  assumes base2: "init s \<Longrightarrow> inv2 s"
    and preserved2: "inv s \<Longrightarrow> inv2 s \<Longrightarrow> step s t \<Longrightarrow> inv2 t"
begin

sublocale both: inductive_invariant init step "\<lambda>s. inv s \<and> inv2 s"
  by unfold_locales (auto intro: base base2 preserved preserved2)

lemma holds2: "reach init step s \<Longrightarrow> inv2 s"
  using both.holds by blast

end

end
