(* ===== verification/Ws_Server.thy ===== *)
theory Ws_Server
  imports Room Transition "HOL-Library.Multiset"
begin

text \<open>
  The signaling server as a whole: every connected websocket has its handler, whose tasks take
  steps that interleave with those of all others (\<open>handle_socket\<close> in
  server/src/controller/ws_controller.rs). The sections under a lock are one step each, so is
  every send into a channel; a send into a full channel is not enabled, one into a channel whose
  receiver is gone does nothing.
\<close>

section \<open>State\<close>

text \<open>Where the function \<open>handle_socket\<close> is: sending Join to the other peers and then Hello to
  its own channel, waiting for one of its two tasks, before the disconnect section, sending Left
  to the remaining peers, or refused. \<open>Leaving []\<close> is a handler that has returned.\<close>

datatype main_phase =
    Joining "conn_id list" "client_info list"
  | Selecting
  | Disconnecting
  | Leaving "conn_id list"
  | Refused

text \<open>Where its receiving task is: not spawned, waiting for a frame, past the rate limiter with a
  message, sending what the message causes, telling its client about the limit, or ended.\<close>

datatype recv_phase =
    NotSpawned
  | Receiving
  | Admitted ws_client_message
  | Sending "(conn_id \<times> ws_server_message) list"
  | Limiting
  | Ended

text \<open>\<open>cn_rx\<close>: the receiver of the channel exists. \<open>cn_queue\<close>: what the channel holds.
  \<open>cn_sent\<close>: what was written to the websocket.\<close>

record conn =
  cn_group :: string
  cn_peer :: client_info
  cn_main :: main_phase
  cn_recv :: recv_phase
  cn_rx :: bool
  cn_queue :: "ws_server_message list"
  cn_sent :: "ws_server_message list"

record server =
  sv_maps :: app_maps
  sv_conns :: "conn list"

definition server_new :: server where
  "server_new = \<lparr>sv_maps = app_maps_new, sv_conns = []\<rparr>"

definition new_conn :: "string \<Rightarrow> client_info \<Rightarrow> main_phase \<Rightarrow> conn" where
  "new_conn g p phase =
     \<lparr>cn_group = g, cn_peer = p, cn_main = phase, cn_recv = NotSpawned, cn_rx = (phase \<noteq> Refused),
      cn_queue = [], cn_sent = []\<rparr>"

definition CHANNEL_CAPACITY :: nat where
  "CHANNEL_CAPACITY = 4"

definition upd_conn :: "conn_id \<Rightarrow> (conn \<Rightarrow> conn) \<Rightarrow> server \<Rightarrow> server" where
  "upd_conn c f s = s\<lparr>sv_conns := (sv_conns s)[c := f (sv_conns s ! c)]\<rparr>"

text \<open>\<open>let _ = tx.send(msg).await\<close>.\<close>

definition channel_send :: "conn_id \<Rightarrow> ws_server_message \<Rightarrow> server \<Rightarrow> server option" where
  "channel_send t msg s =
     (if t < length (sv_conns s) \<and> cn_rx (sv_conns s ! t)
      then (if length (cn_queue (sv_conns s ! t)) < CHANNEL_CAPACITY
            then Some (upd_conn t (cn_queue_update (\<lambda>q. q @ [msg])) s) else None)
      else Some s)"

section \<open>Steps of handle\_socket\<close>

text \<open>The order in which the maps are iterated is any: \<open>ts\<close> and \<open>ps\<close> are the collected senders
  and peers in some order.\<close>

definition do_connect ::
  "limits \<Rightarrow> string \<Rightarrow> client_info \<Rightarrow> conn_id list \<Rightarrow> client_info list \<Rightarrow> server \<Rightarrow> server option" where
  "do_connect lim g p ts ps s =
     (case connect_section lim (sv_maps s) g p (length (sv_conns s)) of
        (None, m) \<Rightarrow> Some \<lparr>sv_maps = m, sv_conns = sv_conns s @ [new_conn g p Refused]\<rparr>
      | (Some (peers_tx, peers), m) \<Rightarrow>
          if mset ts = mset peers_tx \<and> mset ps = mset peers
          then Some \<lparr>sv_maps = m, sv_conns = sv_conns s @ [new_conn g p (Joining ts ps)]\<rparr>
          else None)"

definition do_send_join :: "conn_id \<Rightarrow> server \<Rightarrow> server option" where
  "do_send_join c s =
     (if c < length (sv_conns s) then
        (case cn_main (sv_conns s ! c) of
           Joining (t # ts) ps \<Rightarrow>
             map_option (upd_conn c (cn_main_update (\<lambda>_. Joining ts ps)))
               (channel_send t (Join (cn_peer (sv_conns s ! c))) s)
         | _ \<Rightarrow> None)
      else None)"

text \<open>Hello goes into the handler's own channel; only after it are the two tasks spawned.\<close>

definition do_send_hello :: "conn_id \<Rightarrow> server \<Rightarrow> server option" where
  "do_send_hello c s =
     (if c < length (sv_conns s) then
        (case cn_main (sv_conns s ! c) of
           Joining [] ps \<Rightarrow>
             map_option
               (upd_conn c (cn_main_update (\<lambda>_. Selecting) \<circ> cn_recv_update (\<lambda>_. Receiving)))
               (channel_send c (Hello (cn_peer (sv_conns s ! c)) ps) s)
         | _ \<Rightarrow> None)
      else None)"

fun tasks_spawned :: "main_phase \<Rightarrow> bool" where
  "tasks_spawned (Joining _ _) = False"
| "tasks_spawned Refused = False"
| "tasks_spawned _ = True"

text \<open>The sending task: the next message is written; when the write fails the task ends, and the
  receiver goes with it.\<close>

definition do_write :: "conn_id \<Rightarrow> bool \<Rightarrow> server \<Rightarrow> server option" where
  "do_write c ok s =
     (if c < length (sv_conns s) \<and> tasks_spawned (cn_main (sv_conns s ! c)) \<and>
         cn_rx (sv_conns s ! c) then
        (case cn_queue (sv_conns s ! c) of
           msg # rest \<Rightarrow>
             Some (upd_conn c
               (if ok then cn_queue_update (\<lambda>_. rest) \<circ> cn_sent_update (\<lambda>ms. ms @ [msg])
                else cn_queue_update (\<lambda>_. []) \<circ> cn_rx_update (\<lambda>_. False)) s)
         | [] \<Rightarrow> None)
      else None)"

text \<open>The receiving task: a parsed frame passes the rate limiter or not; the stream ends.\<close>

definition do_receive :: "limits \<Rightarrow> conn_id \<Rightarrow> ws_client_message \<Rightarrow> server \<Rightarrow> server option" where
  "do_receive lim c msg s =
     (if c < length (sv_conns s) \<and> cn_recv (sv_conns s ! c) = Receiving then
        (case protect_ddos_request_count lim (request_count_map (sv_maps s))
                (cn_group (sv_conns s ! c)) of
           (r, counts) \<Rightarrow>
             Some (upd_conn c
               (cn_recv_update (\<lambda>_. case r of Inl _ \<Rightarrow> Limiting | Inr _ \<Rightarrow> Admitted msg))
               (s\<lparr>sv_maps := (sv_maps s)\<lparr>request_count_map := counts\<rparr>\<rparr>)))
      else None)"

definition do_receive_end :: "conn_id \<Rightarrow> server \<Rightarrow> server option" where
  "do_receive_end c s =
     (if c < length (sv_conns s) \<and> cn_recv (sv_conns s ! c) = Receiving
      then Some (upd_conn c (cn_recv_update (\<lambda>_. Ended)) s) else None)"

definition sending :: "(conn_id \<times> ws_server_message) list \<Rightarrow> recv_phase" where
  "sending outs = (if outs = [] then Receiving else Sending outs)"

definition do_handle ::
  "conn_id \<Rightarrow> (conn_id \<times> ws_server_message) list \<Rightarrow> server \<Rightarrow> server option" where
  "do_handle c outs s =
     (if c < length (sv_conns s) then
        (case cn_recv (sv_conns s ! c) of
           Admitted msg \<Rightarrow>
             (case handle_client_message (sv_maps s) (cn_group (sv_conns s ! c))
                     (cn_peer (sv_conns s ! c)) msg of
                (outs', m) \<Rightarrow>
                  if mset outs = mset outs'
                  then Some (upd_conn c (cn_recv_update (\<lambda>_. sending outs)) (s\<lparr>sv_maps := m\<rparr>))
                  else None)
         | _ \<Rightarrow> None)
      else None)"

definition do_forward :: "conn_id \<Rightarrow> server \<Rightarrow> server option" where
  "do_forward c s =
     (if c < length (sv_conns s) then
        (case cn_recv (sv_conns s ! c) of
           Sending ((t, msg) # outs) \<Rightarrow>
             map_option (upd_conn c (cn_recv_update (\<lambda>_. sending outs))) (channel_send t msg s)
         | _ \<Rightarrow> None)
      else None)"

definition do_send_limit :: "conn_id \<Rightarrow> server \<Rightarrow> server option" where
  "do_send_limit c s =
     (if c < length (sv_conns s) \<and> cn_recv (sv_conns s ! c) = Limiting
      then map_option (upd_conn c (cn_recv_update (\<lambda>_. Ended))) (channel_send c (ErrorCode 429) s)
      else None)"

text \<open>\<open>select!\<close> returns when one of the tasks has ended; the other is aborted, which takes effect
  at some later time.\<close>

definition do_select :: "conn_id \<Rightarrow> server \<Rightarrow> server option" where
  "do_select c s =
     (if c < length (sv_conns s) \<and> cn_main (sv_conns s ! c) = Selecting \<and>
         (cn_recv (sv_conns s ! c) = Ended \<or> \<not> cn_rx (sv_conns s ! c))
      then Some (upd_conn c (cn_main_update (\<lambda>_. Disconnecting)) s) else None)"

fun selected :: "main_phase \<Rightarrow> bool" where
  "selected Disconnecting = True"
| "selected (Leaving _) = True"
| "selected _ = False"

definition do_abort_recv :: "conn_id \<Rightarrow> server \<Rightarrow> server option" where
  "do_abort_recv c s =
     (if c < length (sv_conns s) \<and> selected (cn_main (sv_conns s ! c))
      then Some (upd_conn c (cn_recv_update (\<lambda>_. Ended)) s) else None)"

definition do_abort_send :: "conn_id \<Rightarrow> server \<Rightarrow> server option" where
  "do_abort_send c s =
     (if c < length (sv_conns s) \<and> selected (cn_main (sv_conns s ! c))
      then Some (upd_conn c (cn_queue_update (\<lambda>_. []) \<circ> cn_rx_update (\<lambda>_. False)) s) else None)"

definition do_disconnect :: "conn_id \<Rightarrow> conn_id list \<Rightarrow> server \<Rightarrow> server option" where
  "do_disconnect c ts s =
     (if c < length (sv_conns s) \<and> cn_main (sv_conns s ! c) = Disconnecting then
        (case disconnect_section (sv_maps s) (cn_group (sv_conns s ! c))
                (ci_id (cn_peer (sv_conns s ! c))) of
           (remaining_tx, m) \<Rightarrow>
             if mset ts = mset remaining_tx
             then Some (upd_conn c (cn_main_update (\<lambda>_. Leaving ts)) (s\<lparr>sv_maps := m\<rparr>))
             else None)
      else None)"

definition do_send_left :: "conn_id \<Rightarrow> server \<Rightarrow> server option" where
  "do_send_left c s =
     (if c < length (sv_conns s) then
        (case cn_main (sv_conns s ! c) of
           Leaving (t # ts) \<Rightarrow>
             map_option (upd_conn c (cn_main_update (\<lambda>_. Leaving ts)))
               (channel_send t (Left (ci_id (cn_peer (sv_conns s ! c)))) s)
         | _ \<Rightarrow> None)
      else None)"

definition do_hourly :: "server \<Rightarrow> server option" where
  "do_hourly s = Some (s\<lparr>sv_maps := clear_request_counts (sv_maps s)\<rparr>)"

section \<open>The step relation\<close>

datatype srv_action =
    Connect string client_info "conn_id list" "client_info list"
  | SendJoin conn_id
  | SendHello conn_id
  | Write conn_id bool
  | Receive conn_id ws_client_message
  | ReceiveEnd conn_id
  | Handle conn_id "(conn_id \<times> ws_server_message) list"
  | Forward conn_id
  | SendLimit conn_id
  | Select conn_id
  | AbortRecv conn_id
  | AbortSend conn_id
  | Disconnect conn_id "conn_id list"
  | SendLeft conn_id
  | Hourly

fun srv_next :: "limits \<Rightarrow> srv_action \<Rightarrow> server \<Rightarrow> server option" where
  "srv_next lim (Connect g p ts ps) s = do_connect lim g p ts ps s"
| "srv_next lim (SendJoin c) s = do_send_join c s"
| "srv_next lim (SendHello c) s = do_send_hello c s"
| "srv_next lim (Write c ok) s = do_write c ok s"
| "srv_next lim (Receive c msg) s = do_receive lim c msg s"
| "srv_next lim (ReceiveEnd c) s = do_receive_end c s"
| "srv_next lim (Handle c outs) s = do_handle c outs s"
| "srv_next lim (Forward c) s = do_forward c s"
| "srv_next lim (SendLimit c) s = do_send_limit c s"
| "srv_next lim (Select c) s = do_select c s"
| "srv_next lim (AbortRecv c) s = do_abort_recv c s"
| "srv_next lim (AbortSend c) s = do_abort_send c s"
| "srv_next lim (Disconnect c ts) s = do_disconnect c ts s"
| "srv_next lim (SendLeft c) s = do_send_left c s"
| "srv_next lim Hourly s = do_hourly s"

text \<open>What is assumed of \<open>Uuid::new_v4\<close>: the identifier of a new connection is not the one of an
  earlier connection.\<close>

fun fresh_id :: "srv_action \<Rightarrow> server \<Rightarrow> bool" where
  "fresh_id (Connect g p ts ps) s \<longleftrightarrow> list_all (\<lambda>k. ci_id (cn_peer k) \<noteq> ci_id p) (sv_conns s)"
| "fresh_id _ _ \<longleftrightarrow> True"

inductive srv_step :: "limits \<Rightarrow> server \<Rightarrow> srv_action \<Rightarrow> server \<Rightarrow> bool" for lim :: limits where
  srv_stepI: "srv_next lim a s = Some s' \<Longrightarrow> fresh_id a s \<Longrightarrow> srv_step lim s a s'"

inductive_simps srv_step_iff: "srv_step lim s a s'"

definition srv_reachable :: "limits \<Rightarrow> server \<Rightarrow> bool" where
  "srv_reachable lim = reach (\<lambda>s. s = server_new) (\<lambda>s s'. \<exists>a. srv_step lim s a s')"

fun srv_run :: "limits \<Rightarrow> srv_action list \<Rightarrow> server \<Rightarrow> server option" where
  "srv_run lim [] s = Some s"
| "srv_run lim (a # as) s =
     (if fresh_id a s then
        (case srv_next lim a s of Some s' \<Rightarrow> srv_run lim as s' | None \<Rightarrow> None)
      else None)"

lemma srv_run_reachable:
  "srv_run lim as s = Some s' \<Longrightarrow> srv_reachable lim s \<Longrightarrow> srv_reachable lim s'"
proof (induction as arbitrary: s)
  case (Cons a as)
  then obtain t where "srv_next lim a s = Some t" and "fresh_id a s" and t: "srv_run lim as t = Some s'"
    by (auto split: if_splits option.splits)
  then have "srv_step lim s a t" by (simp add: srv_step_iff)
  then have "srv_reachable lim t"
    using Cons.prems(2) unfolding srv_reachable_def by (blast intro: reach_step)
  with Cons.IH t show ?case by blast
qed simp

lemma srv_reachable_new [simp]: "srv_reachable lim server_new"
  by (simp add: srv_reachable_def reach_init)

end
