(* ===== verification/Ws_Invariants.thy ===== *)
theory Ws_Invariants
  imports Ws_Server
begin

text \<open>
  Invariants of the signaling server: the maps hold exactly the connections that have connected
  and not yet disconnected, every limit is kept, and everything a client is sent comes from its
  own group and names its true sender.
\<close>

section \<open>How the helpers change the state\<close>

lemma upd_conn_simps [simp]:
  "sv_maps (upd_conn c f s) = sv_maps s"
  "length (sv_conns (upd_conn c f s)) = length (sv_conns s)"
  "d < length (sv_conns s) \<Longrightarrow>
   sv_conns (upd_conn c f s) ! d = (if c = d then f (sv_conns s ! d) else sv_conns s ! d)"
  by (auto simp: upd_conn_def nth_list_update)

lemma channel_send_cases:
  assumes "channel_send t msg s = Some s'"
  obtains (dropped) "s' = s"
  | (queued) "t < length (sv_conns s)" and "cn_rx (sv_conns s ! t)"
      and "length (cn_queue (sv_conns s ! t)) < CHANNEL_CAPACITY"
      and "s' = upd_conn t (cn_queue_update (\<lambda>q. q @ [msg])) s"
proof (cases "t < length (sv_conns s) \<and> cn_rx (sv_conns s ! t)")
  case True
  with assms show ?thesis by (intro queued) (simp_all add: channel_send_def split: if_splits)
next
  case False
  with assms show ?thesis by (intro dropped) (simp add: channel_send_def)
qed

lemma channel_send_maps: "channel_send t msg s = Some s' \<Longrightarrow> sv_maps s' = sv_maps s"
  by (erule channel_send_cases) auto

lemma channel_send_length:
  "channel_send t msg s = Some s' \<Longrightarrow> length (sv_conns s') = length (sv_conns s)"
  by (erule channel_send_cases) auto

lemma channel_send_nth:
  assumes "channel_send t msg s = Some s'" and "c < length (sv_conns s)"
  shows "cn_group (sv_conns s' ! c) = cn_group (sv_conns s ! c)"
    and "cn_peer (sv_conns s' ! c) = cn_peer (sv_conns s ! c)"
    and "cn_main (sv_conns s' ! c) = cn_main (sv_conns s ! c)"
    and "cn_recv (sv_conns s' ! c) = cn_recv (sv_conns s ! c)"
    and "cn_rx (sv_conns s' ! c) = cn_rx (sv_conns s ! c)"
    and "cn_sent (sv_conns s' ! c) = cn_sent (sv_conns s ! c)"
  using assms by (auto elim!: channel_send_cases split: if_splits)

lemmas send_simps = channel_send_maps channel_send_length channel_send_nth

lemmas step_defs = do_connect_def do_send_join_def do_send_hello_def do_write_def do_receive_def
  do_receive_end_def do_handle_def do_forward_def do_send_limit_def do_select_def do_abort_recv_def
  do_abort_send_def do_disconnect_def do_send_left_def do_hourly_def

section \<open>Steps that leave the registry alone\<close>

fun active :: "main_phase \<Rightarrow> bool" where
  "active (Joining _ _) = True"
| "active Selecting = True"
| "active Disconnecting = True"
| "active _ = False"

definition static :: "server \<Rightarrow> server \<Rightarrow> bool" where
  "static s s' \<longleftrightarrow> tx_map (sv_maps s') = tx_map (sv_maps s) \<and>
     length (sv_conns s') = length (sv_conns s) \<and>
     (\<forall>c < length (sv_conns s).
        cn_group (sv_conns s' ! c) = cn_group (sv_conns s ! c) \<and>
        cn_peer (sv_conns s' ! c) = cn_peer (sv_conns s ! c) \<and>
        active (cn_main (sv_conns s' ! c)) = active (cn_main (sv_conns s ! c)))"

fun internal :: "srv_action \<Rightarrow> bool" where
  "internal (Connect _ _ _ _) = False"
| "internal (Handle _ _) = False"
| "internal (Disconnect _ _) = False"
| "internal _ = True"

lemma internal_static:
  assumes "srv_next lim a s = Some s'" and "internal a"
  shows "static s s'"
  using assms
  by (cases a)
    (auto simp: step_defs static_def send_simps clear_request_counts_def
      split: if_splits option.splits main_phase.splits recv_phase.splits list.splits prod.splits)

section \<open>The registry\<close>

text \<open>Who is registered under an identifier, and which connections should be.\<close>

definition owner :: "app_maps \<Rightarrow> string \<Rightarrow> uuid \<Rightarrow> conn_id option" where
  "owner m g u = map_option cs_tx (members m g u)"

definition connected :: "conn list \<Rightarrow> string \<Rightarrow> uuid \<Rightarrow> conn_id \<Rightarrow> bool" where
  "connected conns g u c \<longleftrightarrow> c < length conns \<and> active (cn_main (conns ! c)) \<and>
     cn_group (conns ! c) = g \<and> ci_id (cn_peer (conns ! c)) = u"

definition peer_ids :: "server \<Rightarrow> uuid list" where
  "peer_ids s = map (\<lambda>k. ci_id (cn_peer k)) (sv_conns s)"

definition reg_inv :: "server \<Rightarrow> bool" where
  "reg_inv s \<longleftrightarrow> maps_wf (sv_maps s) \<and> distinct (peer_ids s) \<and>
     (\<forall>g u c. owner (sv_maps s) g u = Some c \<longleftrightarrow> connected (sv_conns s) g u c)"

lemma owner_tx_map: "tx_map m = tx_map m' \<Longrightarrow> owner m = owner m'"
  by (simp add: owner_def members_def fun_eq_iff)

lemma maps_wf_tx_map: "tx_map m = tx_map m' \<Longrightarrow> maps_wf m = maps_wf m'"
  by (simp add: maps_wf_def)

lemma owner_connect:
  assumes "connect_section lim m g p tx = (r, m')"
  shows "owner m' h u =
    (if r \<noteq> None \<and> h = g \<and> u = ci_id p then Some tx else owner m h u)"
  using members_connect [OF assms] by (simp add: owner_def split: option.split)

lemma owner_disconnect:
  "owner (snd (disconnect_section m g i)) h u = (if h = g \<and> u = i then None else owner m h u)"
  by (simp add: owner_def members_disconnect)

lemma handle_maps:
  assumes "handle_client_message m g p msg = (outs, m')"
  shows "m' = (case msg of ClientUpdate info \<Rightarrow> snd (update_section m g (ci_id p) info) | _ \<Rightarrow> m)"
  using assms
  by (auto simp: handle_client_message_def case_prod_beta' Let_def
      split: ws_client_message.splits option.splits)

lemma owner_handle:
  assumes "handle_client_message m g p msg = (outs, m')"
  shows "owner m' = owner m" and "maps_wf m \<Longrightarrow> maps_wf m'"
  using handle_maps [OF assms]
  by (auto simp: owner_def fun_eq_iff members_update maps_wf_update option.map_comp comp_def
      split: ws_client_message.splits option.splits)

lemma connected_static: "static s s' \<Longrightarrow> connected (sv_conns s') g u c = connected (sv_conns s) g u c"
  by (auto simp: static_def connected_def)

lemma peer_ids_static: "static s s' \<Longrightarrow> peer_ids s' = peer_ids s"
  by (auto simp: static_def peer_ids_def intro: nth_equalityI)

lemma reg_inv_static:
  assumes "reg_inv s" and "static s s'"
  shows "reg_inv s'"
proof -
  have "tx_map (sv_maps s') = tx_map (sv_maps s)" using assms(2) by (simp add: static_def)
  from owner_tx_map [OF this] maps_wf_tx_map [OF this] show ?thesis
    using assms by (simp add: reg_inv_def connected_static peer_ids_static)
qed

lemma connected_snoc:
  "connected (conns @ [k]) g u c \<longleftrightarrow> connected conns g u c \<or>
     c = length conns \<and> active (cn_main k) \<and> cn_group k = g \<and> ci_id (cn_peer k) = u"
  by (auto simp: connected_def nth_append less_Suc_eq)

lemma do_connect_cases:
  assumes "do_connect lim g p ts ps s = Some s'"
  obtains (refused) m where "connect_section lim (sv_maps s) g p (length (sv_conns s)) = (None, m)"
      and "s' = \<lparr>sv_maps = m, sv_conns = sv_conns s @ [new_conn g p Refused]\<rparr>"
  | (joined) m peers_tx peers where
      "connect_section lim (sv_maps s) g p (length (sv_conns s)) = (Some (peers_tx, peers), m)"
      and "mset ts = mset peers_tx" and "mset ps = mset peers"
      and "s' = \<lparr>sv_maps = m, sv_conns = sv_conns s @ [new_conn g p (Joining ts ps)]\<rparr>"
proof (cases "connect_section lim (sv_maps s) g p (length (sv_conns s))")
  case (Pair r m)
  show ?thesis
  proof (cases r)
    case None
    with Pair assms show ?thesis by (intro refused [of m]) (auto simp: do_connect_def)
  next
    case (Some q)
    with Pair assms show ?thesis
      by (intro joined [of "fst q" "snd q" m]) (simp_all add: do_connect_def case_prod_beta' split: if_splits)
  qed
qed

lemma reg_inv_connect:
  assumes inv: "reg_inv s" and step: "do_connect lim g p ts ps s = Some s'"
    and fresh: "fresh_id (Connect g p ts ps) s"
  shows "reg_inv s'"
proof -
  have ids: "ci_id p \<notin> set (peer_ids s)"
    using fresh by (auto simp: list_all_iff peer_ids_def)
  then have new: "\<not> connected (sv_conns s) h (ci_id p) c" for h c
    unfolding connected_def peer_ids_def list.set_map by (metis image_eqI nth_mem)
  from step show ?thesis
  proof (cases rule: do_connect_cases)
    case (refused m)
    with ids inv maps_wf_connect [OF _ refused(1)] owner_connect [OF refused(1)] show ?thesis
      by (simp add: reg_inv_def connected_snoc new_conn_def peer_ids_def)
  next
    case (joined m peers_tx peers)
    with ids inv maps_wf_connect [OF _ joined(1)] owner_connect [OF joined(1)] new show ?thesis
      by (auto simp: reg_inv_def connected_snoc new_conn_def peer_ids_def)
  qed
qed

lemma connected_main:
  assumes "c < length (sv_conns s)" and "distinct (peer_ids s)"
    and "\<not> active (cn_main (f (sv_conns s ! c)))"
  shows "connected (sv_conns (upd_conn c f s)) g u d \<longleftrightarrow>
    connected (sv_conns s) g u d \<and> u \<noteq> ci_id (cn_peer (sv_conns s ! c))"
proof -
  have "u = ci_id (cn_peer (sv_conns s ! c)) \<Longrightarrow> connected (sv_conns s) g u d \<Longrightarrow> d = c"
    using assms(1,2) by (auto simp: connected_def peer_ids_def distinct_conv_nth)
  with assms show ?thesis by (cases "d = c") (auto simp: connected_def)
qed

lemma reg_inv_disconnect:
  assumes inv: "reg_inv s" and step: "do_disconnect c ts s = Some s'"
  shows "reg_inv s'"
proof -
  let ?g = "cn_group (sv_conns s ! c)" and ?i = "ci_id (cn_peer (sv_conns s ! c))"
  let ?m = "snd (disconnect_section (sv_maps s) ?g ?i)"
  have c: "c < length (sv_conns s)" "cn_main (sv_conns s ! c) = Disconnecting"
    and s': "s' = upd_conn c (cn_main_update (\<lambda>_. Leaving ts)) (s\<lparr>sv_maps := ?m\<rparr>)"
    using step by (auto simp: do_disconnect_def split: if_splits prod.splits)
  have "connected (sv_conns s) ?g ?i c" using c by (simp add: connected_def)
  with inv have own: "owner (sv_maps s) ?g ?i = Some c" by (simp add: reg_inv_def)
  have uniq: "connected (sv_conns s) h ?i d \<longleftrightarrow> h = ?g \<and> d = c" for h d
    using c inv by (auto simp: connected_def reg_inv_def peer_ids_def distinct_conv_nth)
  have con: "connected (sv_conns s') h u d \<longleftrightarrow> connected (sv_conns s) h u d \<and> u \<noteq> ?i" for h u d
    using connected_main [of c "s\<lparr>sv_maps := ?m\<rparr>" "cn_main_update (\<lambda>_. Leaving ts)" h u d] c inv
    unfolding s' by (simp add: reg_inv_def peer_ids_def)
  have ids: "peer_ids s' = peer_ids s"
    unfolding s' peer_ids_def by (auto intro: nth_equalityI)
  have m: "sv_maps s' = ?m" by (simp add: s')
  show ?thesis
    using inv own uniq maps_wf_disconnect [of "sv_maps s" ?g ?i]
    unfolding reg_inv_def con ids m owner_disconnect by auto
qed

lemma do_handle_cases:
  assumes "do_handle c outs s = Some s'"
  obtains msg m outs' where "c < length (sv_conns s)" and "cn_recv (sv_conns s ! c) = Admitted msg"
    and "handle_client_message (sv_maps s) (cn_group (sv_conns s ! c)) (cn_peer (sv_conns s ! c)) msg
      = (outs', m)"
    and "mset outs = mset outs'"
    and "s' = upd_conn c (cn_recv_update (\<lambda>_. sending outs)) (s\<lparr>sv_maps := m\<rparr>)"
  using assms by (auto simp: do_handle_def split: if_splits recv_phase.splits prod.splits)

lemma reg_inv_handle:
  assumes inv: "reg_inv s" and step: "do_handle c outs s = Some s'"
  shows "reg_inv s'"
  using step
proof (cases rule: do_handle_cases)
  case (1 msg m outs')
  have "peer_ids s' = peer_ids s"
    unfolding 1(5) peer_ids_def by (auto intro: nth_equalityI)
  moreover have "connected (sv_conns s') g u d = connected (sv_conns s) g u d" for g u d
    unfolding 1(5) by (cases "d = c") (auto simp: connected_def)
  ultimately show ?thesis
    using inv owner_handle [OF 1(3)] 1(5) by (simp add: reg_inv_def)
qed

lemma reg_inv_step:
  assumes "reg_inv s" and "srv_step lim s a s'"
  shows "reg_inv s'"
proof (cases "internal a")
  case True
  with assms show ?thesis
    by (auto simp: srv_step_iff intro: reg_inv_static internal_static)
next
  case False
  with assms show ?thesis
    by (cases a) (auto simp: srv_step_iff intro: reg_inv_connect reg_inv_disconnect reg_inv_handle)
qed

interpretation registry: inductive_invariant
  "\<lambda>s. s = server_new" "\<lambda>s s'. \<exists>a. srv_step lim s a s'" reg_inv for lim
proof
  show "s = server_new \<Longrightarrow> reg_inv s" for s
    by (simp add: reg_inv_def server_new_def maps_wf_def owner_def members_def app_maps_new_def
        connected_def peer_ids_def)
qed (auto intro: reg_inv_step)

section \<open>The limits\<close>

definition within_limits :: "limits \<Rightarrow> server \<Rightarrow> bool" where
  "within_limits lim s \<longleftrightarrow>
     (\<forall>g. room_size (sv_maps s) g \<le> max_connections lim) \<and>
     (\<forall>g. request_count (request_count_map (sv_maps s)) g \<le> max_requests lim) \<and>
     (\<forall>c < length (sv_conns s). length (cn_queue (sv_conns s ! c)) \<le> CHANNEL_CAPACITY)"

lemma request_count_bounded:
  assumes "\<forall>g. request_count m g \<le> max_requests lim"
  shows "\<forall>g. request_count (snd (protect_ddos_request_count lim m h)) g \<le> max_requests lim"
  using assms by (auto simp: request_count_protect inc_le)

lemma room_size_tx_map: "tx_map m = tx_map m' \<Longrightarrow> room_size m g = room_size m' g"
  by (simp add: room_size_def)

lemma channel_send_queue:
  assumes "channel_send t msg s = Some s'"
    and "\<forall>c < length (sv_conns s). length (cn_queue (sv_conns s ! c)) \<le> CHANNEL_CAPACITY"
    and "c < length (sv_conns s)"
  shows "length (cn_queue (sv_conns s' ! c)) \<le> CHANNEL_CAPACITY"
  using assms by (auto elim!: channel_send_cases)

text \<open>The only step that fills a queue is a send, and a send checks the capacity.\<close>

lemma queue_bounded_step:
  assumes "srv_next lim a s = Some s'"
    and "\<forall>c < length (sv_conns s). length (cn_queue (sv_conns s ! c)) \<le> CHANNEL_CAPACITY"
  shows "\<forall>c < length (sv_conns s'). length (cn_queue (sv_conns s' ! c)) \<le> CHANNEL_CAPACITY"
proof (cases a)
  case (Connect g p ts ps)
  with assms show ?thesis
    by (auto simp: do_connect_def new_conn_def nth_append less_Suc_eq
        split: prod.splits option.splits if_splits)
next
  case (Write c ok)
  have "length rest \<le> CHANNEL_CAPACITY"
    if "cn_queue (sv_conns s ! c) = msg # rest" "c < length (sv_conns s)" for msg rest
    using assms(2) that by fastforce
  with Write assms show ?thesis
    by (auto simp: do_write_def split: if_splits list.splits)
qed (use assms in \<open>auto simp: step_defs send_simps intro: channel_send_queue
    split: if_splits option.splits main_phase.splits recv_phase.splits list.splits prod.splits\<close>)

lemma request_counts_step:
  assumes "srv_next lim a s = Some s'"
  shows "request_count_map (sv_maps s') = request_count_map (sv_maps s) \<or>
    request_count_map (sv_maps s') = [] \<or>
    (\<exists>g. request_count_map (sv_maps s') = snd (protect_ddos_request_count lim (request_count_map (sv_maps s)) g))"
proof (cases a)
  case (Connect g p ts ps)
  with assms connect_counts [of lim "sv_maps s" g p "length (sv_conns s)"] show ?thesis
    by (auto elim!: do_connect_cases)
next
  case (Handle c outs)
  with assms show ?thesis
    by (auto elim!: do_handle_cases dest!: handle_maps
        simp: update_section_def Let_def split: ws_client_message.splits option.splits)
next
  case (Disconnect c ts)
  with assms show ?thesis
    by (auto simp: do_disconnect_def disconnect_section_def Let_def split: if_splits option.splits)
qed (use assms in \<open>auto simp: step_defs send_simps clear_request_counts_def case_prod_beta'
    split: if_splits option.splits main_phase.splits recv_phase.splits list.splits\<close>)

lemma room_sizes_step:
  assumes "srv_next lim a s = Some s'" and "\<forall>g. room_size (sv_maps s) g \<le> max_connections lim"
  shows "\<forall>g. room_size (sv_maps s') g \<le> max_connections lim"
proof (cases "internal a")
  case True
  with assms internal_static room_size_tx_map show ?thesis
    by (metis static_def)
next
  case False
  then consider (con) g p ts ps where "a = Connect g p ts ps" | (han) c outs where "a = Handle c outs"
    | (dis) c ts where "a = Disconnect c ts"
    by (cases a) auto
  then show ?thesis
  proof cases
    case con
    with assms room_size_connect show ?thesis by (auto elim!: do_connect_cases)
  next
    case han
    with assms show ?thesis
      by (auto elim!: do_handle_cases dest!: handle_maps simp: room_size_update
          split: ws_client_message.splits)
  next
    case dis
    with assms order_trans [OF room_size_disconnect] show ?thesis
      by (auto simp: do_disconnect_def case_prod_beta' split: if_splits)
  qed
qed

lemma within_limits_step:
  assumes "within_limits lim s" and "srv_step lim s a s'"
  shows "within_limits lim s'"
proof -
  from assms(2) have step: "srv_next lim a s = Some s'" by (simp add: srv_step_iff)
  have "request_count [] g \<le> max_requests lim" for g by (simp add: request_count_def)
  with assms(1) request_counts_step [OF step] request_count_bounded
  have "\<forall>g. request_count (request_count_map (sv_maps s')) g \<le> max_requests lim"
    unfolding within_limits_def by metis
  with room_sizes_step [OF step] queue_bounded_step [OF step] assms(1) show ?thesis
    unfolding within_limits_def by blast
qed

interpretation limits: inductive_invariant
  "\<lambda>s. s = server_new" "\<lambda>s s'. \<exists>a. srv_step lim s a s'" "within_limits lim" for lim
proof
  show "s = server_new \<Longrightarrow> within_limits lim s" for s
    by (simp add: within_limits_def server_new_def app_maps_new_def room_size_def request_count_def)
qed (auto intro: within_limits_step)

end
