(* ===== verification/Ws_Messages.thy ===== *)
theory Ws_Messages
  imports Ws_Invariants
begin

text \<open>
  What clients can be sent: every message in a channel, on a websocket or on its way names peers
  of the receiver's own group, and an offer or an answer names the peer that sent it.
\<close>

section \<open>Messages that are right for a receiver\<close>

text \<open>The peers that were ever accepted into a group.\<close>

definition peers_of :: "server \<Rightarrow> string \<Rightarrow> client_info set" where
  "peers_of s g = {cn_peer k | k. k \<in> set (sv_conns s) \<and> cn_group k = g \<and> cn_main k \<noteq> Refused}"

text \<open>For a receiver \<open>p\<close> in a group with the peers \<open>P\<close>.\<close>

fun msg_ok :: "client_info set \<Rightarrow> client_info \<Rightarrow> ws_server_message \<Rightarrow> bool" where
  "msg_ok P p (Hello c ps) \<longleftrightarrow> c = p \<and> (\<forall>q \<in> set ps. ci_id q \<in> ci_id ` P - {ci_id p})"
| "msg_ok P p (Join q) \<longleftrightarrow> q \<in> P \<and> ci_id q \<noteq> ci_id p"
| "msg_ok P p (Update q) \<longleftrightarrow> ci_id q \<in> ci_id ` P - {ci_id p}"
| "msg_ok P p (Left i) \<longleftrightarrow> i \<in> ci_id ` P - {ci_id p}"
| "msg_ok P p (Offer m) \<longleftrightarrow> sm_peer m \<in> P"
| "msg_ok P p (Answer m) \<longleftrightarrow> sm_peer m \<in> P"
| "msg_ok P p (ErrorCode n) \<longleftrightarrow> n = 429"

lemma msg_ok_mono: "msg_ok P p m \<Longrightarrow> P \<subseteq> Q \<Longrightarrow> msg_ok Q p m"
  by (cases m) auto

text \<open>The connections that a handler may send to.\<close>

definition target_ok :: "server \<Rightarrow> string \<Rightarrow> conn_id \<Rightarrow> bool" where
  "target_ok s g t \<longleftrightarrow> t < length (sv_conns s) \<and> cn_group (sv_conns s ! t) = g"

definition other_ok :: "server \<Rightarrow> conn \<Rightarrow> conn_id \<Rightarrow> bool" where
  "other_ok s k t \<longleftrightarrow> target_ok s (cn_group k) t \<and>
     ci_id (cn_peer (sv_conns s ! t)) \<noteq> ci_id (cn_peer k)"

definition main_ok :: "server \<Rightarrow> conn \<Rightarrow> bool" where
  "main_ok s k = (case cn_main k of
      Joining ts ps \<Rightarrow> list_all (other_ok s k) ts \<and>
        (\<forall>q \<in> set ps. ci_id q \<in> ci_id ` peers_of s (cn_group k) - {ci_id (cn_peer k)})
    | Leaving ts \<Rightarrow> list_all (other_ok s k) ts
    | _ \<Rightarrow> True)"

definition recv_ok :: "server \<Rightarrow> conn \<Rightarrow> bool" where
  "recv_ok s k \<longleftrightarrow> (cn_recv k \<noteq> NotSpawned \<longrightarrow> cn_main k \<noteq> Refused) \<and>
     (case cn_recv k of
        Sending outs \<Rightarrow> list_all (\<lambda>(t, m). target_ok s (cn_group k) t \<and>
          msg_ok (peers_of s (cn_group k)) (cn_peer (sv_conns s ! t)) m) outs
      | _ \<Rightarrow> True)"

definition inbox_ok :: "server \<Rightarrow> conn \<Rightarrow> bool" where
  "inbox_ok s k \<longleftrightarrow>
     list_all (msg_ok (peers_of s (cn_group k)) (cn_peer k)) (cn_queue k @ cn_sent k)"

definition conn_ok :: "server \<Rightarrow> conn \<Rightarrow> bool" where
  "conn_ok s k \<longleftrightarrow> main_ok s k \<and> recv_ok s k \<and> inbox_ok s k"

definition msgs_inv :: "server \<Rightarrow> bool" where
  "msgs_inv s \<longleftrightarrow> (\<forall>c < length (sv_conns s). conn_ok s (sv_conns s ! c))"

lemmas ok_defs = conn_ok_def main_ok_def recv_ok_def inbox_ok_def

section \<open>Growth\<close>

text \<open>The facts that what is right for a receiver depends on never change once a connection
  exists.\<close>

definition grows :: "server \<Rightarrow> server \<Rightarrow> bool" where
  "grows s s' \<longleftrightarrow> length (sv_conns s) \<le> length (sv_conns s') \<and>
     (\<forall>c < length (sv_conns s).
        cn_group (sv_conns s' ! c) = cn_group (sv_conns s ! c) \<and>
        cn_peer (sv_conns s' ! c) = cn_peer (sv_conns s ! c) \<and>
        (cn_main (sv_conns s' ! c) = Refused) = (cn_main (sv_conns s ! c) = Refused))"

lemma grows_peers: "grows s s' \<Longrightarrow> peers_of s g \<subseteq> peers_of s' g"
  unfolding grows_def peers_of_def by (auto simp: in_set_conv_nth) (metis order_less_le_trans)

lemma grows_target: "grows s s' \<Longrightarrow> target_ok s g t \<Longrightarrow> target_ok s' g t"
  by (auto simp: grows_def target_ok_def)

lemma grows_other: "grows s s' \<Longrightarrow> other_ok s k t \<Longrightarrow> other_ok s' k t"
  by (auto simp: grows_def target_ok_def other_ok_def)

lemma grows_conn:
  assumes g: "grows s s'" and k: "conn_ok s k"
  shows "conn_ok s' k"
proof -
  note P = grows_peers [OF g, of "cn_group k"]
  have "main_ok s' k"
    using k grows_other [OF g, of k]
    by (auto simp: conn_ok_def main_ok_def list_all_iff split: main_phase.splits
        intro: subsetD [OF image_mono [OF P]])
  moreover have "recv_ok s' k"
    using k g grows_target [OF g] msg_ok_mono [OF _ P]
    by (fastforce simp: conn_ok_def recv_ok_def list_all_iff grows_def target_ok_def split: recv_phase.splits)
  moreover have "inbox_ok s' k"
    using k msg_ok_mono [OF _ P] by (auto simp: conn_ok_def inbox_ok_def list_all_iff)
  ultimately show ?thesis by (simp add: conn_ok_def)
qed

section \<open>Changing one connection\<close>

definition same_peer :: "conn \<Rightarrow> conn \<Rightarrow> bool" where
  "same_peer k k' \<longleftrightarrow> cn_group k' = cn_group k \<and> cn_peer k' = cn_peer k \<and>
     (cn_main k' = Refused) = (cn_main k = Refused)"

lemma grows_upd:
  assumes "c < length (sv_conns s)" and "same_peer (sv_conns s ! c) (f (sv_conns s ! c))"
  shows "grows s (upd_conn c f s)"
  using assms by (auto simp: grows_def same_peer_def)

lemma msgs_upd:
  assumes "msgs_inv s" and "c < length (sv_conns s)"
    and "same_peer (sv_conns s ! c) (f (sv_conns s ! c))" and "conn_ok s (f (sv_conns s ! c))"
  shows "msgs_inv (upd_conn c f s)"
  using assms grows_conn [OF grows_upd [where f = f, OF assms(2,3)]] by (auto simp: msgs_inv_def)

lemma ok_maps [simp]:
  "peers_of (s\<lparr>sv_maps := m\<rparr>) = peers_of s"
  "other_ok (s\<lparr>sv_maps := m\<rparr>) = other_ok s"
  "target_ok (s\<lparr>sv_maps := m\<rparr>) = target_ok s"
  by (simp_all add: fun_eq_iff peers_of_def other_ok_def target_ok_def)

lemma phases_ok_maps [simp]:
  "main_ok (s\<lparr>sv_maps := m\<rparr>) k = main_ok s k" "recv_ok (s\<lparr>sv_maps := m\<rparr>) k = recv_ok s k"
  "inbox_ok (s\<lparr>sv_maps := m\<rparr>) k = inbox_ok s k"
  by (simp_all add: main_ok_def recv_ok_def inbox_ok_def split: main_phase.split recv_phase.split)

lemma conn_ok_maps [simp]: "conn_ok (s\<lparr>sv_maps := m\<rparr>) k = conn_ok s k"
  by (simp add: conn_ok_def)

lemma msgs_maps [simp]: "msgs_inv (s\<lparr>sv_maps := m\<rparr>) = msgs_inv s"
  by (simp add: msgs_inv_def)

lemma other_ok_upd [simp]:
  "other_ok s (cn_queue_update f k) = other_ok s k" "other_ok s (cn_sent_update f k) = other_ok s k"
  "other_ok s (cn_rx_update h k) = other_ok s k" "other_ok s (cn_main_update i k) = other_ok s k"
  "other_ok s (cn_recv_update j k) = other_ok s k"
  by (simp_all add: fun_eq_iff other_ok_def)

lemma same_peer_upd [simp]:
  "same_peer k (cn_queue_update f k)" "same_peer k (cn_sent_update f k)"
  "same_peer k (cn_rx_update h k)" "same_peer k (cn_recv_update j k)"
  "same_peer k (cn_main_update i k) \<longleftrightarrow> (i (cn_main k) = Refused) = (cn_main k = Refused)"
  "same_peer k (cn_queue_update f (cn_sent_update f' k))"
  "same_peer k (cn_queue_update f (cn_rx_update h k))"
  "same_peer k (cn_main_update i (cn_recv_update j k)) \<longleftrightarrow>
    (i (cn_main k) = Refused) = (cn_main k = Refused)"
  by (simp_all add: same_peer_def)

lemma phases_ok_upd [simp]:
  "main_ok s (cn_queue_update f k) = main_ok s k" "main_ok s (cn_sent_update f k) = main_ok s k"
  "main_ok s (cn_rx_update h k) = main_ok s k" "main_ok s (cn_recv_update j k) = main_ok s k"
  "recv_ok s (cn_queue_update f k) = recv_ok s k" "recv_ok s (cn_sent_update f k) = recv_ok s k"
  "recv_ok s (cn_rx_update h k) = recv_ok s k"
  "inbox_ok s (cn_main_update i k) = inbox_ok s k" "inbox_ok s (cn_recv_update j k) = inbox_ok s k"
  "inbox_ok s (cn_rx_update h k) = inbox_ok s k"
  by (simp_all add: main_ok_def recv_ok_def inbox_ok_def split: main_phase.split recv_phase.split)

text \<open>A new phase of one of the two halves.\<close>

lemma recv_ok_main [simp]:
  "(i (cn_main k) = Refused) = (cn_main k = Refused) \<Longrightarrow> recv_ok s (cn_main_update i k) = recv_ok s k"
  by (simp add: recv_ok_def split: recv_phase.split)

lemma main_ok_new [simp]:
  "main_ok s (k\<lparr>cn_main := Joining ts ps\<rparr>) \<longleftrightarrow> list_all (other_ok s k) ts \<and>
     (\<forall>q \<in> set ps. ci_id q \<in> ci_id ` peers_of s (cn_group k) - {ci_id (cn_peer k)})"
  "main_ok s (k\<lparr>cn_main := Leaving ts\<rparr>) \<longleftrightarrow> list_all (other_ok s k) ts"
  "main_ok s (k\<lparr>cn_main := Selecting\<rparr>)" "main_ok s (k\<lparr>cn_main := Disconnecting\<rparr>)"
  by (simp_all add: main_ok_def)

lemma recv_ok_new [simp]:
  "recv_ok s (k\<lparr>cn_recv := Receiving\<rparr>) \<longleftrightarrow> cn_main k \<noteq> Refused"
  "recv_ok s (k\<lparr>cn_recv := Admitted msg\<rparr>) \<longleftrightarrow> cn_main k \<noteq> Refused"
  "recv_ok s (k\<lparr>cn_recv := Limiting\<rparr>) \<longleftrightarrow> cn_main k \<noteq> Refused"
  "recv_ok s (k\<lparr>cn_recv := Ended\<rparr>) \<longleftrightarrow> cn_main k \<noteq> Refused"
  "recv_ok s (k\<lparr>cn_recv := sending outs\<rparr>) \<longleftrightarrow> cn_main k \<noteq> Refused \<and>
     list_all (\<lambda>(t, m). target_ok s (cn_group k) t \<and>
       msg_ok (peers_of s (cn_group k)) (cn_peer (sv_conns s ! t)) m) outs"
  by (simp_all add: recv_ok_def sending_def)

lemma main_ok_dest:
  "main_ok s k \<Longrightarrow> cn_main k = Joining ts ps \<Longrightarrow> list_all (other_ok s k) ts \<and>
     (\<forall>q \<in> set ps. ci_id q \<in> ci_id ` peers_of s (cn_group k) - {ci_id (cn_peer k)})"
  "main_ok s k \<Longrightarrow> cn_main k = Leaving ts \<Longrightarrow> list_all (other_ok s k) ts"
  by (simp_all add: main_ok_def)

lemma recv_ok_dest:
  "recv_ok s k \<Longrightarrow> cn_recv k \<noteq> NotSpawned \<Longrightarrow> cn_main k \<noteq> Refused"
  "recv_ok s k \<Longrightarrow> cn_recv k = Sending outs \<Longrightarrow> list_all (\<lambda>(t, m). target_ok s (cn_group k) t \<and>
     msg_ok (peers_of s (cn_group k)) (cn_peer (sv_conns s ! t)) m) outs"
  by (simp_all add: recv_ok_def)

lemma msgs_send:
  assumes "msgs_inv s" and "channel_send t msg s = Some s'"
    and "t < length (sv_conns s) \<Longrightarrow>
      msg_ok (peers_of s (cn_group (sv_conns s ! t))) (cn_peer (sv_conns s ! t)) msg"
  shows "msgs_inv s'"
  using assms(2)
proof (cases rule: channel_send_cases)
  case queued
  with assms show ?thesis
    unfolding queued(4)
    by (intro msgs_upd) (simp_all add: msgs_inv_def conn_ok_def inbox_ok_def)
qed (use assms in simp)

lemma send_grows:
  assumes "channel_send t msg s = Some s'"
  shows "grows s s'"
  using assms by (auto elim!: channel_send_cases intro!: grows_upd simp: same_peer_def) (simp add: grows_def)

text \<open>A send followed by a change of the sender.\<close>

lemma msgs_send_upd:
  assumes inv: "msgs_inv s" and c: "c < length (sv_conns s)"
    and step: "map_option (upd_conn c f) (channel_send t msg s) = Some s'"
    and msg: "t < length (sv_conns s) \<Longrightarrow>
      msg_ok (peers_of s (cn_group (sv_conns s ! t))) (cn_peer (sv_conns s ! t)) msg"
    and same: "\<And>k. cn_main k = cn_main (sv_conns s ! c) \<Longrightarrow> same_peer k (f k)"
    and ok: "\<And>u k. conn_ok u k \<Longrightarrow> cn_main k = cn_main (sv_conns s ! c) \<Longrightarrow>
      cn_recv k = cn_recv (sv_conns s ! c) \<Longrightarrow> conn_ok u (f k)"
  shows "msgs_inv s'"
proof -
  obtain u where u: "channel_send t msg s = Some u" and s': "s' = upd_conn c f u"
    using step by auto
  have inv': "msgs_inv u" using msgs_send [OF inv u msg] .
  then show ?thesis
    unfolding s' using c same ok
    by (intro msgs_upd) (auto simp: send_simps [OF u] msgs_inv_def)
qed

section \<open>Every step\<close>

lemma registered:
  assumes "reg_inv s" and "members (sv_maps s) g u = Some v"
  shows "connected (sv_conns s) g u (cs_tx v)"
proof -
  have "owner (sv_maps s) g u = Some (cs_tx v)" using assms(2) by (simp add: owner_def)
  with assms(1) show ?thesis by (simp add: reg_inv_def)
qed

lemma registered_other:
  assumes "reg_inv s" and "members (sv_maps s) (cn_group k) u = Some v"
    and "u \<noteq> ci_id (cn_peer k)"
  shows "other_ok s k (cs_tx v)"
  using registered [OF assms(1,2)] assms(3)
  by (auto simp: connected_def other_ok_def target_ok_def)

lemma registered_peer:
  assumes "reg_inv s" and "members (sv_maps s) g u = Some v"
  shows "u \<in> ci_id ` peers_of s g"
  using registered [OF assms] by (force simp: connected_def peers_of_def)

lemma own_peer:
  assumes "c < length (sv_conns s)" and "cn_main (sv_conns s ! c) \<noteq> Refused"
  shows "cn_peer (sv_conns s ! c) \<in> peers_of s (cn_group (sv_conns s ! c))"
  using assms by (auto simp: peers_of_def)

lemma msgs_send_join:
  assumes "msgs_inv s" and step: "do_send_join c s = Some s'"
  shows "msgs_inv s'"
proof -
  let ?k = "sv_conns s ! c"
  obtain t ts ps where c: "c < length (sv_conns s)" and m: "cn_main ?k = Joining (t # ts) ps"
    and s': "map_option (upd_conn c (cn_main_update (\<lambda>_. Joining ts ps)))
      (channel_send t (Join (cn_peer ?k)) s) = Some s'"
    using step by (auto simp: do_send_join_def split: if_splits main_phase.splits list.splits)
  have "main_ok s ?k" using assms(1) c by (simp add: msgs_inv_def conn_ok_def)
  then have "other_ok s ?k t" using m by (simp add: main_ok_def)
  with own_peer [OF c] m have "msg_ok (peers_of s (cn_group (sv_conns s ! t)))
      (cn_peer (sv_conns s ! t)) (Join (cn_peer ?k))"
    by (auto simp: other_ok_def target_ok_def)
  then show ?thesis
    using m by (intro msgs_send_upd [OF assms(1) c s']) (auto simp: conn_ok_def dest: main_ok_dest)
qed

lemma msgs_send_hello:
  assumes "msgs_inv s" and step: "do_send_hello c s = Some s'"
  shows "msgs_inv s'"
proof -
  let ?k = "sv_conns s ! c"
  obtain ps where c: "c < length (sv_conns s)" and m: "cn_main ?k = Joining [] ps"
    and s': "map_option (upd_conn c (cn_main_update (\<lambda>_. Selecting) \<circ> cn_recv_update (\<lambda>_. Receiving)))
      (channel_send c (Hello (cn_peer ?k) ps) s) = Some s'"
    using step by (auto simp: do_send_hello_def split: if_splits main_phase.splits list.splits)
  have "main_ok s ?k" using assms(1) c by (simp add: msgs_inv_def conn_ok_def)
  then have "msg_ok (peers_of s (cn_group ?k)) (cn_peer ?k) (Hello (cn_peer ?k) ps)"
    using m by (simp add: main_ok_def)
  then show ?thesis
    using m by (intro msgs_send_upd [OF assms(1) c s']) (auto simp: conn_ok_def dest: main_ok_dest)
qed

lemma msgs_forward:
  assumes "msgs_inv s" and step: "do_forward c s = Some s'"
  shows "msgs_inv s'"
proof -
  let ?k = "sv_conns s ! c"
  obtain t msg outs where c: "c < length (sv_conns s)" and m: "cn_recv ?k = Sending ((t, msg) # outs)"
    and s': "map_option (upd_conn c (cn_recv_update (\<lambda>_. sending outs))) (channel_send t msg s) = Some s'"
    using step by (auto simp: do_forward_def split: if_splits recv_phase.splits list.splits)
  have r: "recv_ok s ?k" using assms(1) c by (simp add: msgs_inv_def conn_ok_def)
  then have "msg_ok (peers_of s (cn_group (sv_conns s ! t))) (cn_peer (sv_conns s ! t)) msg"
    using m by (simp add: recv_ok_def target_ok_def)
  then show ?thesis
    using m by (intro msgs_send_upd [OF assms(1) c s'])
      (auto simp: conn_ok_def dest: recv_ok_dest)
qed

lemma msgs_send_limit:
  assumes "msgs_inv s" and step: "do_send_limit c s = Some s'"
  shows "msgs_inv s'"
proof -
  have c: "c < length (sv_conns s)" and m: "cn_recv (sv_conns s ! c) = Limiting"
    and s': "map_option (upd_conn c (cn_recv_update (\<lambda>_. Ended))) (channel_send c (ErrorCode 429) s)
      = Some s'"
    using step by (auto simp: do_send_limit_def split: if_splits)
  show ?thesis
    using m by (intro msgs_send_upd [OF assms(1) c s']) (auto simp: conn_ok_def dest: recv_ok_dest)
qed

lemma msgs_send_left:
  assumes "msgs_inv s" and step: "do_send_left c s = Some s'"
  shows "msgs_inv s'"
proof -
  let ?k = "sv_conns s ! c"
  obtain t ts where c: "c < length (sv_conns s)" and m: "cn_main ?k = Leaving (t # ts)"
    and s': "map_option (upd_conn c (cn_main_update (\<lambda>_. Leaving ts)))
      (channel_send t (Left (ci_id (cn_peer ?k))) s) = Some s'"
    using step by (auto simp: do_send_left_def split: if_splits main_phase.splits list.splits)
  have "main_ok s ?k" using assms(1) c by (simp add: msgs_inv_def conn_ok_def)
  then have "other_ok s ?k t" using m by (simp add: main_ok_def)
  with own_peer [OF c] m have "msg_ok (peers_of s (cn_group (sv_conns s ! t)))
      (cn_peer (sv_conns s ! t)) (Left (ci_id (cn_peer ?k)))"
    by (auto simp: other_ok_def target_ok_def)
  then show ?thesis
    using m by (intro msgs_send_upd [OF assms(1) c s']) (auto simp: conn_ok_def dest: main_ok_dest)
qed

text \<open>The steps that only change their own connection.\<close>

lemma msgs_local:
  assumes "msgs_inv s" and "srv_next lim a s = Some s'"
    and "case a of Write _ _ \<Rightarrow> True | Receive _ _ \<Rightarrow> True | ReceiveEnd _ \<Rightarrow> True | Select _ \<Rightarrow> True
      | AbortRecv _ \<Rightarrow> True | AbortSend _ \<Rightarrow> True | Hourly \<Rightarrow> True | _ \<Rightarrow> False"
  shows "msgs_inv s'"
proof -
  have ok: "main_ok s (sv_conns s ! c)" "recv_ok s (sv_conns s ! c)" "inbox_ok s (sv_conns s ! c)"
    if "c < length (sv_conns s)" for c
    using assms(1) that by (simp_all add: msgs_inv_def conn_ok_def)
  have refused: "cn_recv (sv_conns s ! c) = NotSpawned"
    if "c < length (sv_conns s)" "cn_main (sv_conns s ! c) = Refused" for c
    using recv_ok_dest(1) [OF ok(2)] that by blast
  from assms show ?thesis
    by (cases a)
      (auto simp: step_defs case_prod_beta' conn_ok_def ok split: if_splits list.splits sum.splits
        intro!: msgs_upd dest: refused,
       auto simp: inbox_ok_def dest: ok(3) refused)
qed

lemma msgs_connect:
  assumes reg: "reg_inv s" and inv: "msgs_inv s"
    and step: "do_connect lim g p ts ps s = Some s'" and fresh: "fresh_id (Connect g p ts ps) s"
  shows "msgs_inv s'"
proof -
  have new: "u \<noteq> ci_id p" if "members (sv_maps s) h u = Some v" for h u v
    using registered [OF reg that] fresh by (auto simp: connected_def list_all_iff)
  have ext: "msgs_inv \<lparr>sv_maps = m, sv_conns = sv_conns s @ [k]\<rparr>"
    if "conn_ok \<lparr>sv_maps = m, sv_conns = sv_conns s @ [k]\<rparr> k" for m k
  proof -
    have "grows s \<lparr>sv_maps = m, sv_conns = sv_conns s @ [k]\<rparr>"
      by (simp add: grows_def nth_append)
    from grows_conn [OF this] that inv show ?thesis
      by (simp add: msgs_inv_def nth_append less_Suc_eq)
  qed
  from step show ?thesis
  proof (cases rule: do_connect_cases)
    case (refused m)
    show ?thesis unfolding refused(2) by (rule ext) (simp add: ok_defs new_conn_def)
  next
    case (joined m peers_tx peers)
    note wf = reg [unfolded reg_inv_def, THEN conjunct1]
    let ?k = "new_conn g p (Joining ts ps)" and ?s' = "\<lparr>sv_maps = m, sv_conns = sv_conns s @ [new_conn g p (Joining ts ps)]\<rparr>"
    have gr: "grows s ?s'" by (simp add: grows_def nth_append)
    have k: "cn_group ?k = g" "cn_peer ?k = p" by (simp_all add: new_conn_def)
    have "set ts = set peers_tx" and "set ps = set peers"
      using joined(2,3) by (metis set_mset_mset)+
    with connect_targets [OF joined(1) wf]
    have ts: "set ts = {cs_tx v | u v. members (sv_maps s) g u = Some v}"
      and ps: "set ps = {client_info_from (cs_client v) u | u v. members (sv_maps s) g u = Some v}"
      by simp_all
    have "other_ok ?s' ?k t" if "t \<in> set ts" for t
      using that ts new registered_other [OF reg, of ?k] grows_other [OF gr, of ?k] by (auto simp: k)
    moreover have "ci_id q \<in> ci_id ` peers_of ?s' g - {ci_id p}" if "q \<in> set ps" for q
      using that ps new registered_peer [OF reg] image_mono [OF grows_peers [OF gr], of ci_id g] by auto
    moreover have "cn_main ?k = Joining ts ps" by (simp add: new_conn_def)
    ultimately have "main_ok ?s' ?k"
      by (simp add: main_ok_def list_all_iff k)
    moreover have "recv_ok ?s' ?k" "inbox_ok ?s' ?k"
      by (simp_all add: new_conn_def recv_ok_def inbox_ok_def)
    ultimately show ?thesis
      unfolding joined(4) by (intro ext) (simp only: conn_ok_def)
  qed
qed

lemma msgs_disconnect:
  assumes reg: "reg_inv s" and inv: "msgs_inv s" and step: "do_disconnect c ts s = Some s'"
  shows "msgs_inv s'"
proof -
  let ?k = "sv_conns s ! c"
  let ?d = "disconnect_section (sv_maps s) (cn_group ?k) (ci_id (cn_peer ?k))"
  have c: "c < length (sv_conns s)" "cn_main ?k = Disconnecting" and ts: "mset ts = mset (fst ?d)"
    and s': "s' = upd_conn c (cn_main_update (\<lambda>_. Leaving ts)) (s\<lparr>sv_maps := snd ?d\<rparr>)"
    using step by (auto simp: do_disconnect_def split: if_splits prod.splits)
  have "set ts = set (fst ?d)" using ts by (metis set_mset_mset)
  with disconnect_targets [of "sv_maps s" "cn_group ?k" "ci_id (cn_peer ?k)"] reg
    registered_other [OF reg, of ?k]
  have "list_all (other_ok s ?k) ts" by (auto simp: list_all_iff reg_inv_def)
  then show ?thesis
    unfolding s' using c inv
    by (intro msgs_upd) (simp_all, simp add: msgs_inv_def conn_ok_def)
qed

lemma msgs_handle:
  assumes reg: "reg_inv s" and inv: "msgs_inv s" and step: "do_handle c outs s = Some s'"
  shows "msgs_inv s'"
  using step
proof (cases rule: do_handle_cases)
  case (1 msg m outs')
  let ?k = "sv_conns s ! c"
  have k: "conn_ok s ?k" using inv 1(1) by (simp add: msgs_inv_def)
  then have nr: "cn_main ?k \<noteq> Refused" using 1(2) by (simp add: conn_ok_def recv_ok_def)
  note own = own_peer [OF 1(1) nr]
  have wf: "maps_wf (sv_maps s)" using reg by (simp add: reg_inv_def)
  have tgt: "target_ok s (cn_group ?k) (cs_tx v)"
    if "members (sv_maps s) (cn_group ?k) u = Some v" for u v
    using registered [OF reg that] by (simp add: connected_def target_ok_def)
  have "target_ok s (cn_group ?k) t \<and>
      msg_ok (peers_of s (cn_group ?k)) (cn_peer (sv_conns s ! t)) x" if "(t, x) \<in> set outs'" for t x
  proof (cases msg)
    case (ClientUpdate info)
    have "t \<in> set (fst (update_section (sv_maps s) (cn_group ?k) (ci_id (cn_peer ?k)) info))"
      and x: "x = Update (client_info_from info (ci_id (cn_peer ?k)))"
      using that 1(3) ClientUpdate by (auto simp: handle_client_message_def case_prod_beta' Let_def)
    then obtain u v where "members (sv_maps s) (cn_group ?k) u = Some v" "u \<noteq> ci_id (cn_peer ?k)"
      "t = cs_tx v"
      unfolding update_targets [OF wf] by (auto split: if_splits)
    with registered_other [OF reg, of ?k u v] own x show ?thesis
      by (auto simp: other_ok_def)
  qed (use that 1(3) own tgt in \<open>auto simp: handle_client_message_def target_section_members
      server_sdp_def split: option.splits\<close>)
  moreover have "set outs = set outs'" using 1(4) by (metis set_mset_mset)
  ultimately have "recv_ok s (cn_recv_update (\<lambda>_. sending outs) ?k)"
    using nr by (auto simp: list_all_iff)
  with k 1(1) inv show ?thesis
    unfolding 1(5) by (intro msgs_upd) (simp_all add: conn_ok_def)
qed

lemma msgs_step:
  assumes "reg_inv s" and "msgs_inv s" and "srv_step lim s a s'"
  shows "msgs_inv s'"
  using assms msgs_local [OF assms(2), of lim a s']
  by (cases a)
    (auto simp: srv_step_iff intro: msgs_send_join msgs_send_hello msgs_forward msgs_send_limit
      msgs_send_left msgs_connect msgs_disconnect msgs_handle)

interpretation messages: relative_invariant
  "\<lambda>s. s = server_new" "\<lambda>s s'. \<exists>a. srv_step lim s a s'" reg_inv msgs_inv for lim
proof
  show "s = server_new \<Longrightarrow> msgs_inv s" for s
    by (simp add: msgs_inv_def server_new_def)
qed (auto intro: msgs_step)

end
