(* ===== verification/Ws_Props.thy ===== *)
theory Ws_Props
  imports Ws_Messages
begin

text \<open>
  What the signaling server guarantees in every reachable state, its refinement of a plain
  directory of peers, and the situation in which a new handler can never proceed.
\<close>

section \<open>An abstract directory\<close>

text \<open>The specification: who is in which group with what information, and three events.\<close>

type_synonym directory = "string \<Rightarrow> uuid \<Rightarrow> client_info_without_id option"

datatype dir_event =
    Enter string uuid client_info_without_id
  | Change string uuid client_info_without_id
  | Leave string uuid
  | Keep

fun dir_apply :: "dir_event \<Rightarrow> directory \<Rightarrow> directory" where
  "dir_apply (Enter g u i) d = d(g := (d g)(u \<mapsto> i))"
| "dir_apply (Change g u i) d = (if d g u = None then d else d(g := (d g)(u \<mapsto> i)))"
| "dir_apply (Leave g u) d = d(g := (d g)(u := None))"
| "dir_apply Keep d = d"

definition directory_of :: "server \<Rightarrow> directory" where
  "directory_of s = (\<lambda>g u. map_option cs_client (members (sv_maps s) g u))"

fun event_of :: "limits \<Rightarrow> server \<Rightarrow> srv_action \<Rightarrow> dir_event" where
  "event_of lim s (Connect g p ts ps) =
     (if room_size (sv_maps s) g < max_connections lim \<and>
         request_count (request_count_map (sv_maps s)) g < max_requests lim
      then Enter g (ci_id p) (without_id_from p) else Keep)"
| "event_of lim s (Handle c outs) =
     (case cn_recv (sv_conns s ! c) of
        Admitted (ClientUpdate info) \<Rightarrow>
          Change (cn_group (sv_conns s ! c)) (ci_id (cn_peer (sv_conns s ! c))) info
      | _ \<Rightarrow> Keep)"
| "event_of lim s (Disconnect c ts) =
     Leave (cn_group (sv_conns s ! c)) (ci_id (cn_peer (sv_conns s ! c)))"
| "event_of lim s _ = Keep"

lemma connect_accepts:
  "fst (connect_section lim m g p tx) \<noteq> None \<longleftrightarrow>
   room_size m g < max_connections lim \<and> request_count (request_count_map m) g < max_requests lim"
  using protect_ok [of lim "request_count_map m" g]
  by (auto simp: connect_section_def Let_def room_size_def map_of_entry_or_insert
      split: option.splits prod.splits sum.splits if_splits)

lemma directory_connect:
  assumes "do_connect lim g p ts ps s = Some s'"
  shows "directory_of s' = dir_apply (event_of lim s (Connect g p ts ps)) (directory_of s)"
  using assms
proof (cases rule: do_connect_cases)
  case (refused m)
  with members_connect [OF refused(1)] connect_accepts [of lim "sv_maps s" g p "length (sv_conns s)"]
  show ?thesis by (auto simp: directory_of_def)
next
  case (joined m peers_tx peers)
  with members_connect [OF joined(1)] connect_accepts [of lim "sv_maps s" g p "length (sv_conns s)"]
  show ?thesis by (auto simp: directory_of_def fun_eq_iff)
qed

lemma directory_handle:
  assumes "do_handle c outs s = Some s'"
  shows "directory_of s' = dir_apply (event_of lim s (Handle c outs)) (directory_of s)"
  using assms
proof (cases rule: do_handle_cases)
  case (1 msg m outs')
  with handle_maps [OF 1(3)] show ?thesis
    by (auto simp: directory_of_def fun_eq_iff members_update option.map_comp comp_def
        split: ws_client_message.split option.split)
qed

text \<open>
  C5: the server implements a directory of peers: a connection that passes both limits enters its
  group under its own identifier with the information it registered with, an admitted update
  changes the entry of the connection it came from and no other, a disconnect removes exactly
  that entry, and no other step of any handler changes the directory.
\<close>

theorem server_refines_directory:
  assumes "srv_step lim s a s'"
  shows "directory_of s' = dir_apply (event_of lim s a) (directory_of s)"
proof (cases "internal a")
  case True
  with assms have "tx_map (sv_maps s') = tx_map (sv_maps s)"
    using internal_static [of lim a s s'] by (simp add: srv_step_iff static_def)
  then have "directory_of s' = directory_of s" by (simp add: directory_of_def members_def)
  with True show ?thesis by (cases a) auto
next
  case False
  then consider (con) g p ts ps where "a = Connect g p ts ps" | (han) c outs where "a = Handle c outs"
    | (dis) c ts where "a = Disconnect c ts"
    by (cases a) auto
  then show ?thesis
  proof cases
    case con
    with assms show ?thesis using directory_connect by (simp only: srv_step_iff srv_next.simps)
  next
    case han
    with assms show ?thesis using directory_handle by (simp only: srv_step_iff srv_next.simps)
  next
    case dis
    with assms show ?thesis
      by (auto simp: srv_step_iff do_disconnect_def directory_of_def members_disconnect
          fun_eq_iff case_prod_beta' split: if_splits)
  qed
qed

section \<open>A small server\<close>

text \<open>Two peers of one group, and the run that connects both; used by the witnesses.\<close>

definition demo_limits :: limits where
  "demo_limits = \<lparr>max_connections = 10, max_requests = 1000\<rparr>"

definition demo_peer :: "uuid \<Rightarrow> client_info" where
  "demo_peer i = \<lparr>ci_id = i, ci_alias = ''a'', ci_version = ''2'', ci_device_model = None,
     ci_device_type = None, ci_token = ''t''\<rparr>"

definition demo_run :: "srv_action list" where
  "demo_run =
     [Connect ''g'' (demo_peer 1) [] [], SendHello 0, Connect ''g'' (demo_peer 2) [0] [demo_peer 1],
      SendJoin 1, SendHello 1, Write 0 True]"

lemmas run_simps = step_defs connect_section_def disconnect_section_def update_section_def
  target_section_def entry_or_insert_def protect_ddos_request_count_def handle_client_message_def
  channel_send_def upd_conn_def new_conn_def CHANNEL_CAPACITY_def server_new_def app_maps_new_def
  demo_limits_def demo_peer_def Let_def client_info_from_def without_id_from_def server_sdp_def
  sending_def word_le_nat_alt

lemma demo_run_ok: "\<exists>s. srv_run demo_limits demo_run server_new = Some s \<and>
   sv_conns s =
     [\<lparr>cn_group = ''g'', cn_peer = demo_peer 1, cn_main = Selecting, cn_recv = Receiving,
       cn_rx = True, cn_queue = [Join (demo_peer 2)], cn_sent = [Hello (demo_peer 1) []]\<rparr>,
      \<lparr>cn_group = ''g'', cn_peer = demo_peer 2, cn_main = Selecting, cn_recv = Receiving,
       cn_rx = True, cn_queue = [Hello (demo_peer 2) [demo_peer 1]], cn_sent = []\<rparr>]"
  by (simp add: demo_run_def run_simps)

definition demo_state :: server where
  "demo_state = the (srv_run demo_limits demo_run server_new)"

lemma demo_state_reachable [simp]: "srv_reachable demo_limits demo_state"
proof -
  obtain s where "srv_run demo_limits demo_run server_new = Some s" using demo_run_ok by blast
  then show ?thesis
    using srv_run_reachable [of demo_limits demo_run server_new s] by (simp add: demo_state_def)
qed

lemma demo_state_conns:
  "sv_conns demo_state =
     [\<lparr>cn_group = ''g'', cn_peer = demo_peer 1, cn_main = Selecting, cn_recv = Receiving,
       cn_rx = True, cn_queue = [Join (demo_peer 2)], cn_sent = [Hello (demo_peer 1) []]\<rparr>,
      \<lparr>cn_group = ''g'', cn_peer = demo_peer 2, cn_main = Selecting, cn_recv = Receiving,
       cn_rx = True, cn_queue = [Hello (demo_peer 2) [demo_peer 1]], cn_sent = []\<rparr>]"
  using demo_run_ok by (auto simp: demo_state_def)

text \<open>
  C20: in every reachable state, a connection is registered in a group under an identifier exactly
  when it is live (it has connected and its disconnect section has not run), belongs to that group
  and has that identifier: no live peer is missing from the registry, and no peer that is gone is
  left in it.
\<close>

theorem registry_is_exact:
  assumes "srv_reachable lim s"
  shows "owner (sv_maps s) g u = Some c \<longleftrightarrow> connected (sv_conns s) g u c"
  using registry.holds [OF assms [unfolded srv_reachable_def]] by (simp add: reg_inv_def)

theorem registry_is_exact_witness:
  "owner (sv_maps demo_state) ''g'' 2 = Some 1 \<and> owner (sv_maps demo_state) ''g'' 3 \<noteq> Some 1"
  by (simp add: registry_is_exact [OF demo_state_reachable] connected_def demo_state_conns demo_peer_def)







text \<open>
  What a channel holds is delivered in order, once, and completely: a step of the server only
  appends to what a client was sent, taking it from the front of the channel, and only appends to
  the channel, as long as the sending task lives.
\<close>

theorem delivery_is_fifo:
  assumes "srv_step lim s a s'" and "c < length (sv_conns s)"
  shows "\<exists>ms. cn_sent (sv_conns s' ! c) = cn_sent (sv_conns s ! c) @ ms \<and>
    (cn_rx (sv_conns s' ! c) \<longrightarrow>
      (\<exists>more. cn_queue (sv_conns s ! c) @ more = ms @ cn_queue (sv_conns s' ! c)))"
proof -
  have send: "length (sv_conns u) = length (sv_conns s) \<and>
      cn_sent (sv_conns u ! c) = cn_sent (sv_conns s ! c) \<and>
      (\<exists>more. cn_queue (sv_conns u ! c) = cn_queue (sv_conns s ! c) @ more)"
    if "channel_send t msg s = Some u" for t msg u
    using that assms(2) by (auto elim!: channel_send_cases)
  from assms show ?thesis
    by (cases a) (auto simp: srv_step_iff step_defs send_simps case_prod_beta' nth_append
        split: if_splits option.splits main_phase.splits recv_phase.splits list.splits
        dest!: send)
qed

theorem delivery_is_fifo_witness:
  "\<exists>s'. srv_step demo_limits demo_state (Write 0 True) s' \<and>
     (\<exists>ms. cn_sent (sv_conns s' ! 0) = cn_sent (sv_conns demo_state ! 0) @ ms)"
proof -
  obtain s' where "do_write 0 True demo_state = Some s'"
    by (simp add: do_write_def demo_state_conns)
  then have step: "srv_step demo_limits demo_state (Write 0 True) s'"
    by (simp add: srv_step_iff)
  with delivery_is_fifo [OF step, of 0] show ?thesis by (auto simp: demo_state_conns)
qed

theorem server_refines_directory_witness:
  "\<exists>s'. srv_step demo_limits demo_state Hourly s' \<and>
     directory_of s' = directory_of demo_state"
proof -
  obtain s' where step: "srv_step demo_limits demo_state Hourly s'"
    by (simp add: srv_step_iff do_hourly_def)
  with server_refines_directory [OF step] show ?thesis by auto
qed

section \<open>A handler that can never proceed\<close>

text \<open>A new connection is registered before its Hello is in its channel and before anything reads
  that channel. If four other messages are sent to it in between, the send of Hello waits for
  room in a channel that nobody empties.\<close>

definition hello_stuck :: "conn_id \<Rightarrow> client_info list \<Rightarrow> server \<Rightarrow> bool" where
  "hello_stuck c ps s \<longleftrightarrow> c < length (sv_conns s) \<and>
     cn_main (sv_conns s ! c) = Joining [] ps \<and> cn_recv (sv_conns s ! c) = NotSpawned \<and>
     cn_rx (sv_conns s ! c) \<and> cn_sent (sv_conns s ! c) = [] \<and>
     length (cn_queue (sv_conns s ! c)) = CHANNEL_CAPACITY"

lemma hello_stuck_step:
  assumes "hello_stuck c ps s" and "srv_step lim s a s'"
  shows "hello_stuck c ps s'"
proof -
  have send: "channel_send t msg s = Some u \<Longrightarrow> t \<noteq> c \<and> hello_stuck c ps u" for t msg u
    using assms(1) by (auto simp: hello_stuck_def channel_send_def split: if_splits)
  have upd: "hello_stuck c ps u \<Longrightarrow> d \<noteq> c \<Longrightarrow> hello_stuck c ps (upd_conn d f u)" for d f u
    by (auto simp: hello_stuck_def)
  have maps: "hello_stuck c ps (u\<lparr>sv_maps := m\<rparr>) = hello_stuck c ps u" for u m
    by (simp add: hello_stuck_def)
  have c: "cn_main (sv_conns s ! c) = Joining [] ps" "cn_recv (sv_conns s ! c) = NotSpawned"
    using assms(1) by (simp_all add: hello_stuck_def)
  show ?thesis
  proof (cases a)
    case (Connect g p ts qs)
    with assms show ?thesis
      by (auto simp: srv_step_iff hello_stuck_def nth_append elim!: do_connect_cases)
  qed (use assms c send in \<open>auto simp: srv_step_iff step_defs case_prod_beta' maps intro!: upd
      split: if_splits option.splits main_phase.splits recv_phase.splits list.splits\<close>)
qed

text \<open>
  C28: once the channel of a connection is full before its Hello is sent, the connection is stuck
  for ever, whatever the other handlers and the clients do: its Hello is never sent, its client is
  never sent anything, and what its client sends is never read.
\<close>

theorem hello_deadlock:
  assumes "hello_stuck c ps s" and "srv_run lim as s = Some s'"
  shows "hello_stuck c ps s' \<and> do_send_hello c s' = None"
proof
  show st: "hello_stuck c ps s'"
    using assms
  proof (induction as arbitrary: s)
    case (Cons a as)
    then obtain t where "srv_next lim a s = Some t" and "fresh_id a s" and "srv_run lim as t = Some s'"
      by (auto split: if_splits option.splits)
    with Cons hello_stuck_step [of c ps s lim a t] show ?case by (simp add: srv_step_iff)
  qed simp
  then show "do_send_hello c s' = None"
    by (simp add: hello_stuck_def do_send_hello_def channel_send_def)
qed

definition demo_offer :: ws_client_message where
  "demo_offer = ClientOffer \<lparr>cm_session_id = ''s'', cm_target = 2, cm_sdp = ''x''\<rparr>"

definition demo_offered :: ws_server_message where
  "demo_offered = Offer \<lparr>sm_peer = demo_peer 1, sm_session_id = ''s'', sm_sdp = ''x''\<rparr>"

definition demo_stuck_run :: "srv_action list" where
  "demo_stuck_run =
     [Connect ''g'' (demo_peer 1) [] [], SendHello 0, Connect ''g'' (demo_peer 2) [0] [demo_peer 1],
      Receive 0 demo_offer, Handle 0 [(1, demo_offered)], Forward 0,
      Receive 0 demo_offer, Handle 0 [(1, demo_offered)], Forward 0,
      Receive 0 demo_offer, Handle 0 [(1, demo_offered)], Forward 0,
      Receive 0 demo_offer, Handle 0 [(1, demo_offered)], Forward 0,
      SendJoin 1]"

theorem hello_deadlock_witness:
  "\<exists>s s'. srv_reachable demo_limits s \<and> hello_stuck 1 [demo_peer 1] s \<and>
     srv_run demo_limits [Write 0 True, Hourly] s = Some s' \<and> do_send_hello 1 s' = None"
proof -
  obtain s where run: "srv_run demo_limits demo_stuck_run server_new = Some s"
    and st: "hello_stuck 1 [demo_peer 1] s"
    and q: "cn_queue (sv_conns s ! 0) \<noteq> []" "cn_rx (sv_conns s ! 0)" "cn_main (sv_conns s ! 0) = Selecting"
      "0 < length (sv_conns s)"
    by (simp add: demo_stuck_run_def run_simps demo_offer_def demo_offered_def hello_stuck_def)
  from run have "srv_reachable demo_limits s" by (rule srv_run_reachable) simp
  moreover obtain s' where "srv_run demo_limits [Write 0 True, Hourly] s = Some s'"
    using q by (cases "cn_queue (sv_conns s ! 0)") (auto simp: do_write_def do_hourly_def)
  ultimately show ?thesis using hello_deadlock [OF st] st by blast
qed

section \<open>Two races\<close>

definition demo_ghost_run :: "srv_action list" where
  "demo_ghost_run =
     [Connect ''g'' (demo_peer 1) [] [], SendHello 0, Connect ''g'' (demo_peer 2) [0] [demo_peer 1],
      ReceiveEnd 0, Select 0, Disconnect 0 [1], SendLeft 0,
      SendJoin 1, SendHello 1, Write 1 True, Write 1 True]"

text \<open>
  The messages do not determine the room: a peer that leaves while another one connects may
  be reported as left before the Hello that lists it, so the newcomer is told about a peer that is
  gone and is never told again that it left.
\<close>

theorem hello_may_list_departed_peer:
  "\<exists>s. srv_reachable demo_limits s \<and>
     cn_sent (sv_conns s ! 1) = [Left 1, Hello (demo_peer 2) [demo_peer 1]] \<and>
     cn_queue (sv_conns s ! 1) = [] \<and> owner (sv_maps s) ''g'' 1 = None \<and>
     cn_main (sv_conns s ! 0) = Leaving []"
proof -
  obtain s where run: "srv_run demo_limits demo_ghost_run server_new = Some s"
    and st: "cn_sent (sv_conns s ! 1) = [Left 1, Hello (demo_peer 2) [demo_peer 1]]"
      "cn_queue (sv_conns s ! 1) = []" "owner (sv_maps s) ''g'' 1 = None"
      "cn_main (sv_conns s ! 0) = Leaving []"
    by (simp add: demo_ghost_run_def run_simps owner_def members_def)
  from run have "srv_reachable demo_limits s" by (rule srv_run_reachable) simp
  with st show ?thesis by blast
qed

definition strict_limits :: limits where
  "strict_limits = \<lparr>max_connections = 10, max_requests = 1\<rparr>"

text \<open>
  A connection that is refused by the rate limiter leaves an entry for its group behind
  although the group has no peers; no handler is left that would remove it.
\<close>

theorem refused_connection_leaves_room:
  "\<exists>s. srv_reachable strict_limits s \<and> map_of (tx_map (sv_maps s)) ''g'' = Some [] \<and>
     list_all (\<lambda>k. \<not> active (cn_main k)) (sv_conns s)"
proof -
  obtain s where run: "srv_run strict_limits
      [Connect ''g'' (demo_peer 1) [] [], SendHello 0, ReceiveEnd 0, Select 0, Disconnect 0 [],
       Connect ''g'' (demo_peer 2) [] []] server_new = Some s"
    and st: "map_of (tx_map (sv_maps s)) ''g'' = Some []"
      "list_all (\<lambda>k. \<not> active (cn_main k)) (sv_conns s)"
    by (simp add: strict_limits_def run_simps)
  from run have "srv_reachable strict_limits s" by (rule srv_run_reachable) simp
  with st show ?thesis by blast
qed

text \<open>
  An admitted offer reaches at most one connection: the one that is registered under the
  target's identifier in the sender's own group; it carries the sender's record with the
  identifier the server assigned, and the session and description the sender gave. A target that
  is not in the group is ignored, and the maps do not change.
\<close>

theorem offer_reaches_target:
  "handle_client_message m g p (ClientOffer sdp) =
   (case owner m g (cm_target sdp) of
      Some t \<Rightarrow> ([(t, Offer \<lparr>sm_peer = p, sm_session_id = cm_session_id sdp, sm_sdp = cm_sdp sdp\<rparr>)], m)
    | None \<Rightarrow> ([], m))"
  by (simp add: handle_client_message_def target_section_members owner_def server_sdp_def
      split: option.split)

end
