(* ===== verification/Cert.thy ===== *)
theory Cert
  imports Task Text
begin

text \<open>
  Certificates (core/src/crypto/cert.rs) and the server's verifier of client certificates
  (core/src/http/server/client\_cert\_verifier.rs). Parsing and signatures are library functions:
  \<open>'c\<close> is a parsed certificate, \<open>'s\<close> a parsed SubjectPublicKeyInfo, \<open>'p\<close> a parsed public key.
\<close>

section \<open>Library functions\<close>

text \<open>\<open>cert_is_valid\<close> is the time validity at the time of the call, \<open>cert_signature_ok\<close> the
  verification of the signature with the certificate's own key.\<close>

record ('c, 's, 'p) x509_lib =
  pem_read :: "string \<Rightarrow> bytes option"
  pem_write :: "string \<Rightarrow> bytes \<Rightarrow> string"
  cert_from_der :: "bytes \<Rightarrow> 'c option"
  cert_is_valid :: "'c \<Rightarrow> bool"
  cert_subject_pki :: "'c \<Rightarrow> 's"
  cert_signature_ok :: "'c \<Rightarrow> bool"
  spki_from_der :: "bytes \<Rightarrow> 's option"
  spki_raw :: "'s \<Rightarrow> bytes"
  spki_parsed :: "'s \<Rightarrow> 'p option"

text \<open>What the code relies on: a PEM block reads back with its contents, and the raw form of a
  certificate's key information reads back as that information.\<close>

definition x509_ok :: "('c, 's, 'p) x509_lib \<Rightarrow> bool" where
  "x509_ok X \<longleftrightarrow>
     (\<forall>tag bs. pem_read X (pem_write X tag bs) = Some bs) \<and>
     (\<forall>c. spki_from_der X (spki_raw X (cert_subject_pki X c)) = Some (cert_subject_pki X c))"

section \<open>cert.rs\<close>

definition expected_key :: "('c, 's, 'p) x509_lib \<Rightarrow> string \<Rightarrow> err + 'p" where
  "expected_key X public_key =
     (case pem_read X public_key of
        None \<Rightarrow> Inl (Ext PemError)
      | Some contents \<Rightarrow>
          (case spki_from_der X contents of
             None \<Rightarrow> Inl (Ext X509Error)
           | Some spki \<Rightarrow>
               (case spki_parsed X spki of None \<Rightarrow> Inl (Ext X509Error) | Some p \<Rightarrow> Inr p)))"

definition verify_cert_from_cert ::
  "('c, 's, 'p) x509_lib \<Rightarrow> 'c \<Rightarrow> string option \<Rightarrow> err + unit" where
  "verify_cert_from_cert X cert public_key =
     (let check_signature =
        (if cert_signature_ok X cert then Inr () else Inl (Ext X509Error))
      in if \<not> cert_is_valid X cert then Inl (Msg ''Time validity error'')
         else case public_key of
           None \<Rightarrow> check_signature
         | Some key \<Rightarrow>
             (case spki_parsed X (cert_subject_pki X cert) of
                None \<Rightarrow> Inl (Ext X509Error)
              | Some cert_public_key \<Rightarrow>
                  (case expected_key X key of
                     Inl e \<Rightarrow> Inl e
                   | Inr expected_public_key \<Rightarrow>
                       if cert_public_key \<noteq> expected_public_key then Inl (Msg ''Public key mismatch'')
                       else check_signature)))"

definition verify_cert_from_der ::
  "('c, 's, 'p) x509_lib \<Rightarrow> bytes \<Rightarrow> string option \<Rightarrow> err + unit" where
  "verify_cert_from_der X cert public_key =
     (case cert_from_der X cert of
        None \<Rightarrow> Inl (Ext X509Error)
      | Some parsed_cert \<Rightarrow> verify_cert_from_cert X parsed_cert public_key)"

definition verify_cert_from_pem ::
  "('c, 's, 'p) x509_lib \<Rightarrow> string \<Rightarrow> string option \<Rightarrow> err + unit" where
  "verify_cert_from_pem X cert public_key =
     (case pem_read X cert of
        None \<Rightarrow> Inl (Ext PemError)
      | Some contents \<Rightarrow>
          (case cert_from_der X contents of
             None \<Rightarrow> Inl (Ext X509Error)
           | Some parsed_cert \<Rightarrow> verify_cert_from_cert X parsed_cert public_key))"

definition public_key_from_cert :: "('c, 's, 'p) x509_lib \<Rightarrow> 'c \<Rightarrow> err + string" where
  "public_key_from_cert X cert =
     Inr (pem_write X ''PUBLIC KEY'' (spki_raw X (cert_subject_pki X cert)))"

definition public_key_from_cert_der :: "('c, 's, 'p) x509_lib \<Rightarrow> bytes \<Rightarrow> err + string" where
  "public_key_from_cert_der X cert =
     (case cert_from_der X cert of
        None \<Rightarrow> Inl (Ext X509Error)
      | Some parsed_cert \<Rightarrow> public_key_from_cert X parsed_cert)"

definition public_key_from_cert_pem :: "('c, 's, 'p) x509_lib \<Rightarrow> string \<Rightarrow> err + string" where
  "public_key_from_cert_pem X cert =
     (case pem_read X cert of
        None \<Rightarrow> Inl (Ext PemError)
      | Some contents \<Rightarrow>
          (case cert_from_der X contents of
             None \<Rightarrow> Inl (Ext X509Error)
           | Some parsed_cert \<Rightarrow> public_key_from_cert X parsed_cert))"

section \<open>client\_cert\_verifier.rs\<close>

text \<open>Client certificates are asked for and mandatory; any that is valid and signed with its own
  key is trusted, whatever its chain.\<close>

definition offer_client_auth :: bool where
  "offer_client_auth = True"

definition client_auth_mandatory :: bool where
  "client_auth_mandatory = True"

definition verify_client_cert ::
  "('c, 's, 'p) x509_lib \<Rightarrow> bytes \<Rightarrow> bytes list \<Rightarrow> err + unit" where
  "verify_client_cert X cert intermediates =
     (case verify_cert_from_der X cert None of
        Inl _ \<Rightarrow> Inl (Ext TlsError)
      | Inr _ \<Rightarrow> Inr ())"

section \<open>Lemmas\<close>

lemma verify_cert_from_cert_None [simp]:
  "verify_cert_from_cert X c None = Inr () \<longleftrightarrow> cert_is_valid X c \<and> cert_signature_ok X c"
  by (simp add: verify_cert_from_cert_def Let_def)

lemma verify_cert_from_cert_Some:
  "verify_cert_from_cert X c (Some k) = Inr () \<longleftrightarrow>
   cert_is_valid X c \<and> cert_signature_ok X c \<and>
   (\<exists>p. spki_parsed X (cert_subject_pki X c) = Some p \<and> expected_key X k = Inr p)"
  by (auto simp: verify_cert_from_cert_def Let_def split: option.split sum.split)

lemma expected_key_of_cert:
  "x509_ok X \<Longrightarrow> public_key_from_cert X c = Inr k \<Longrightarrow>
   expected_key X k = Inr p \<longleftrightarrow> spki_parsed X (cert_subject_pki X c) = Some p"
  by (auto simp: public_key_from_cert_def expected_key_def x509_ok_def split: option.split)

section \<open>An instance of the library\<close>

text \<open>A certificate is its key, a flag for the time validity and a flag for the signature.\<close>

definition demo_x509 :: "(bytes \<times> bool \<times> bool, bytes, bytes) x509_lib" where
  "demo_x509 =
     \<lparr>pem_read = (\<lambda>s. if take 2 s = ''--'' then Some (utf8 (drop 2 s)) else None),
      pem_write = (\<lambda>tag bs. ''--'' @ map (\<lambda>b. char_of (unat b)) bs),
      cert_from_der = (\<lambda>bs. case bs of
         v # g # key \<Rightarrow> Some (key, v = 1, g = 1) | _ \<Rightarrow> None),
      cert_is_valid = (\<lambda>(key, valid, signed). valid),
      cert_subject_pki = (\<lambda>(key, valid, signed). key),
      cert_signature_ok = (\<lambda>(key, valid, signed). signed),
      spki_from_der = Some, spki_raw = id, spki_parsed = Some\<rparr>"

lemma demo_x509_simps [simp]:
  "cert_from_der demo_x509 (v # g # key) = Some (key, v = 1, g = 1)"
  "cert_is_valid demo_x509 (key, vd, sg) = vd" "cert_subject_pki demo_x509 (key, vd, sg) = key"
  "cert_signature_ok demo_x509 (key, vd, sg) = sg" "spki_from_der demo_x509 bs = Some bs"
  "spki_raw demo_x509 bs = bs" "spki_parsed demo_x509 bs = Some bs"
  by (simp_all add: demo_x509_def)

lemma of_char_char_of_byte [simp]: "of_char (char_of (unat (b :: u8))) = b"
proof -
  have "unat (of_char (char_of (unat b)) :: u8) = unat b"
    using unsigned_less [of b, where ?'a = nat] by (simp add: unat_of_char take_bit_nat_eq_self)
  then show ?thesis by (metis word_unat_eq_iff)
qed

lemma utf8_of_bytes [simp]: "utf8 (map (\<lambda>b. char_of (unat b)) bs) = bs"
  by (induction bs) (simp_all add: utf8_def)

lemma demo_x509_ok: "x509_ok demo_x509"
  by (auto simp: x509_ok_def demo_x509_def)

lemma demo_pem [simp]: "pem_read demo_x509 (pem_write demo_x509 tag bs) = Some bs"
  by (simp add: demo_x509_def)

section \<open>Properties\<close>

text \<open>
  C31: a public key that was extracted from one certificate pins another certificate exactly when
  that certificate is valid at the time, signed with its own key, and has the same public key.
\<close>

theorem pinned_key_decides:
  assumes "x509_ok X" and "public_key_from_cert_der X first = Inr key"
  shows "verify_cert_from_der X second (Some key) = Inr () \<longleftrightarrow>
    (\<exists>c d p. cert_from_der X first = Some c \<and> cert_from_der X second = Some d \<and>
       spki_parsed X (cert_subject_pki X c) = Some p \<and> spki_parsed X (cert_subject_pki X d) = Some p \<and>
       cert_is_valid X d \<and> cert_signature_ok X d)"
proof -
  obtain c where c: "cert_from_der X first = Some c" "public_key_from_cert X c = Inr key"
    using assms(2) by (auto simp: public_key_from_cert_der_def split: option.splits)
  show ?thesis
  proof (cases "cert_from_der X second")
    case (Some d)
    then show ?thesis
      using c expected_key_of_cert [OF assms(1) c(2)]
      by (auto simp: verify_cert_from_der_def verify_cert_from_cert_Some)
  qed (simp add: verify_cert_from_der_def)
qed

theorem pinned_key_decides_witness:
  "verify_cert_from_der demo_x509 [1, 1, 7] (Some ''--x'') = Inl (Msg ''Public key mismatch'') \<and>
   (\<exists>key. public_key_from_cert_der demo_x509 [0, 0, 7] = Inr key \<and>
      verify_cert_from_der demo_x509 [1, 1, 7] (Some key) = Inr ())"
proof -
  obtain key where key: "public_key_from_cert_der demo_x509 [0, 0, 7] = Inr key"
    by (simp add: public_key_from_cert_der_def public_key_from_cert_def demo_x509_def)
  have "verify_cert_from_der demo_x509 [1, 1, 7] (Some key) = Inr ()"
    unfolding pinned_key_decides [OF demo_x509_ok key] by (simp add: demo_x509_def)
  with key show ?thesis
    by (simp add: verify_cert_from_der_def verify_cert_from_cert_def expected_key_def demo_x509_def
        utf8_def)
qed

end
