(* ===== verification/Http_Server.thy ===== *)
theory Http_Server
  imports Dto Crypto Cert Net
begin

text \<open>
  The HTTP server of a device (core/src/http/server): the shared state, what is known of a client,
  the routes and their handlers, and how errors become responses.
\<close>

section \<open>Library functions\<close>

text \<open>\<open>hl_status_text\<close> is \<open>Display\<close> of a status code, \<open>hl_text\<close> the decoding of a body to text.\<close>

record http_lib =
  hl_crypto :: crypto_lib
  hl_wire :: wire_lib
  hl_status_text :: "nat \<Rightarrow> string"
  hl_text :: "bytes \<Rightarrow> string"

text \<open>What the code relies on: the text of a JSON value is decoded as it was written, an empty body
  is an empty text, and an empty text is no JSON.\<close>

definition http_text_ok :: "http_lib \<Rightarrow> bool" where
  "http_text_ok H \<longleftrightarrow>
     (\<forall>j. hl_text H (utf8 (json_print (hl_wire H) j)) = json_print (hl_wire H) j) \<and>
     hl_text H [] = [] \<and> json_parse (hl_wire H) [] = None"

text \<open>\<open>LruCache<String, Vec<u8>>\<close>; \<open>'m\<close> is the cache.\<close>

record 'm lru_lib =
  lru_new :: "nat \<Rightarrow> 'm"
  lru_put :: "string \<Rightarrow> bytes \<Rightarrow> 'm \<Rightarrow> 'm"
  lru_get :: "string \<Rightarrow> 'm \<Rightarrow> bytes option"

text \<open>What the code relies on: a new cache is empty, an entry that was put is found, and putting it
  changes no other entry but may evict one.\<close>

definition lru_ok :: "'m lru_lib \<Rightarrow> bool" where
  "lru_ok Z \<longleftrightarrow>
     (\<forall>n k. lru_get Z k (lru_new Z n) = None) \<and>
     (\<forall>k v m. lru_get Z k (lru_put Z k v m) = Some v) \<and>
     (\<forall>k l v w m. l \<noteq> k \<longrightarrow> lru_get Z l (lru_put Z k v m) = Some w \<longrightarrow> lru_get Z l m = Some w)"

lemma lru_get_new: "lru_ok Z \<Longrightarrow> lru_get Z k (lru_new Z n) = None"
  unfolding lru_ok_def by blast

lemma lru_get_put: "lru_ok Z \<Longrightarrow> lru_get Z k (lru_put Z k v m) = Some v"
  unfolding lru_ok_def by blast

lemma lru_get_other:
  "lru_ok Z \<Longrightarrow> l \<noteq> k \<Longrightarrow> lru_get Z l (lru_put Z k v m) = Some w \<Longrightarrow> lru_get Z l m = Some w"
  unfolding lru_ok_def by blast

section \<open>State\<close>

text \<open>\<open>ClientInfo\<close> of core/src/http/state.rs.\<close>

record http_client_info =
  hc_alias :: string
  hc_version :: string
  hc_device_model :: "string option"
  hc_device_type :: "device_type option"
  hc_token :: string

text \<open>\<open>as_web\<close>: a web page is served.\<close>

record 'm app_state =
  as_info :: http_client_info
  as_web :: bool
  as_received_nonce_map :: 'm
  as_generated_nonce_map :: 'm

definition app_state_new :: "'m lru_lib \<Rightarrow> http_client_info \<Rightarrow> 'm app_state" where
  "app_state_new Z info =
     \<lparr>as_info = info, as_web = False, as_received_nonce_map = lru_new Z 200,
      as_generated_nonce_map = lru_new Z 200\<rparr>"

record request_client_info =
  rq_ip :: ip_addr
  rq_cert :: "bytes option"

definition extract_public_key ::
  "('c, 's, 'p) x509_lib \<Rightarrow> request_client_info \<Rightarrow> string option" where
  "extract_public_key X info =
     (case rq_cert info of
        Some cert \<Rightarrow>
          (case public_key_from_cert_der X cert of Inr public_key \<Rightarrow> Some public_key | Inl _ \<Rightarrow> None)
      | None \<Rightarrow> None)"

definition client_identifier :: "('c, 's, 'p) x509_lib \<Rightarrow> request_client_info \<Rightarrow> string" where
  "client_identifier X info =
     (case extract_public_key X info of Some public_key \<Rightarrow> public_key | None \<Rightarrow> ip_to_string (rq_ip info))"

section \<open>Responses and errors\<close>

record http_response =
  rs_status :: nat
  rs_content_type :: "string option"
  rs_body :: string

definition json_response :: "http_lib \<Rightarrow> nat \<Rightarrow> ('b \<Rightarrow> json) \<Rightarrow> 'b \<Rightarrow> http_response" where
  "json_response H status enc body =
     \<lparr>rs_status = status, rs_content_type = Some ''application/json'',
      rs_body = to_text (hl_wire H) enc body\<rparr>"

datatype http_app_error = HyperError | StatusError nat | BadRequest string

fun error_to_response :: "http_lib \<Rightarrow> http_app_error \<Rightarrow> http_response" where
  "error_to_response H HyperError =
     json_response H 500 enc_error_response \<lparr>er_message = ''Internal server error''\<rparr>"
| "error_to_response H (StatusError code) =
     json_response H code enc_error_response \<lparr>er_message = ''Status code: '' @ hl_status_text H code\<rparr>"
| "error_to_response H (BadRequest message) =
     json_response H 400 enc_error_response \<lparr>er_message = message\<rparr>"

text \<open>The body of a request, \<open>None\<close> when it cannot be read to its end.\<close>

definition collect_to_json ::
  "http_lib \<Rightarrow> (json \<Rightarrow> 'b option) \<Rightarrow> bytes option \<Rightarrow> http_app_error + 'b" where
  "collect_to_json H dec body =
     (case body of
        None \<Rightarrow> Inl HyperError
      | Some bs \<Rightarrow>
          (case from_slice (hl_wire H) dec bs of
             None \<Rightarrow> Inl (BadRequest ''Invalid JSON body'')
           | Some x \<Rightarrow> Inr x))"

section \<open>Handlers (controller/v2.rs, controller/v3.rs)\<close>

text \<open>The lock on the received nonces is held to the end of the handler, so both maps change
  together.\<close>

definition nonce_exchange ::
  "http_lib \<Rightarrow> ('c, 's, 'p) x509_lib \<Rightarrow> 'm lru_lib \<Rightarrow> (nat \<Rightarrow> u8) \<Rightarrow> bytes option \<Rightarrow>
   request_client_info \<Rightarrow> 'm app_state \<Rightarrow> (http_app_error + http_response) \<times> 'm app_state" where
  "nonce_exchange H X Z rng body client_info st =
     (case collect_to_json H dec_nonce_request body of
        Inl e \<Rightarrow> (Inl e, st)
      | Inr payload \<Rightarrow>
          (case b64_decode (hl_crypto H) (nq_nonce payload) of
             None \<Rightarrow> (Inl (BadRequest ''Invalid nonce format''), st)
           | Some nonce \<Rightarrow>
               if \<not> validate_nonce nonce then (Inl (BadRequest ''Invalid nonce''), st)
               else let remote_key = client_identifier X client_info;
                        new_nonce = generate_nonce rng
                 in (Inr (json_response H 200 enc_nonce_response
                        \<lparr>nr_nonce = b64_encode (hl_crypto H) new_nonce\<rparr>),
                     st\<lparr>as_received_nonce_map :=
                          lru_put Z remote_key nonce (as_received_nonce_map st),
                        as_generated_nonce_map :=
                          lru_put Z remote_key new_nonce (as_generated_nonce_map st)\<rparr>)))"

definition register_response :: "'m app_state \<Rightarrow> register_response_dto" where
  "register_response st =
     \<lparr>rr_alias = hc_alias (as_info st), rr_version = hc_version (as_info st),
      rr_device_model = hc_device_model (as_info st), rr_device_type = hc_device_type (as_info st),
      rr_token = hc_token (as_info st), rr_has_web_interface = as_web st\<rparr>"

text \<open>The handlers of both versions have the same body.\<close>

definition v2_register ::
  "http_lib \<Rightarrow> bytes option \<Rightarrow> request_client_info \<Rightarrow> 'm app_state \<Rightarrow>
   (http_app_error + http_response) \<times> 'm app_state" where
  "v2_register H body client_info st =
     (case collect_to_json H dec_register_dto body of
        Inl e \<Rightarrow> (Inl e, st)
      | Inr payload \<Rightarrow>
          (Inr (json_response H 200 enc_register_response_dto (register_response st)), st))"

definition v3_register ::
  "http_lib \<Rightarrow> bytes option \<Rightarrow> request_client_info \<Rightarrow> 'm app_state \<Rightarrow>
   (http_app_error + http_response) \<times> 'm app_state" where
  "v3_register H body client_info st =
     (case collect_to_json H dec_register_dto body of
        Inl e \<Rightarrow> (Inl e, st)
      | Inr payload \<Rightarrow>
          (Inr (json_response H 200 enc_register_response_dto (register_response st)), st))"

section \<open>Routes\<close>

text \<open>A request as the service hands it over: the two extensions may be missing.\<close>

datatype http_method = GET | POST | OtherMethod string

record http_request =
  hr_method :: http_method
  hr_path :: string
  hr_body :: "bytes option"
  hr_has_state :: bool
  hr_client_info :: "request_client_info option"

definition legacy_paths :: "string list" where
  "legacy_paths =
     [''/api/localsend/v2/register'', ''/api/localsend/v2/prepare-upload'',
      ''/api/localsend/v2/upload'', ''/api/localsend/v2/cancel'']"

definition handle_request_inner ::
  "http_lib \<Rightarrow> ('c, 's, 'p) x509_lib \<Rightarrow> 'm lru_lib \<Rightarrow> (nat \<Rightarrow> u8) \<Rightarrow> bool \<Rightarrow> http_request \<Rightarrow>
   'm app_state \<Rightarrow> (http_app_error + http_response) \<times> 'm app_state" where
  "handle_request_inner H X Z rng legacy_enabled req st =
     (if \<not> hr_has_state req then (Inl (StatusError 500), st)
      else case hr_client_info req of
        None \<Rightarrow> (Inl (StatusError 500), st)
      | Some client_info \<Rightarrow>
          if hr_method req = POST \<and> hr_path req \<in> set legacy_paths then
            (if \<not> legacy_enabled then (Inl (StatusError 404), st)
             else v2_register H (hr_body req) client_info st)
          else if hr_method req = POST \<and> hr_path req = ''/api/localsend/v3/nonce''
          then nonce_exchange H X Z rng (hr_body req) client_info st
          else if hr_method req = POST \<and> hr_path req = ''/api/localsend/v3/register''
          then v3_register H (hr_body req) client_info st
          else (Inr \<lparr>rs_status = 404, rs_content_type = None, rs_body = ''''\<rparr>, st))"

text \<open>An error becomes its response; the state is as the handler left it.\<close>

definition respond ::
  "http_lib \<Rightarrow> (http_app_error + http_response) \<times> 'm app_state \<Rightarrow> http_response \<times> 'm app_state" where
  "respond H result =
     (case result of
        (Inl err, st) \<Rightarrow> (error_to_response H err, st)
      | (Inr response, st) \<Rightarrow> (response, st))"

definition handle_request ::
  "http_lib \<Rightarrow> ('c, 's, 'p) x509_lib \<Rightarrow> 'm lru_lib \<Rightarrow> (nat \<Rightarrow> u8) \<Rightarrow> bool \<Rightarrow> http_request \<Rightarrow>
   'm app_state \<Rightarrow> http_response \<times> 'm app_state" where
  "handle_request H X Z rng legacy_enabled req st =
     respond H (handle_request_inner H X Z rng legacy_enabled req st)"

section \<open>Connections (start\_server\_with\_addr)\<close>

text \<open>What is known of the client of an accepted connection. With TLS the client has to present a
  certificate that the verifier accepts; \<open>None\<close>: the handshake fails.\<close>

definition connection_info ::
  "('c, 's, 'p) x509_lib \<Rightarrow> bool \<Rightarrow> ip_addr \<Rightarrow> bytes list \<Rightarrow> request_client_info option" where
  "connection_info X tls remote_ip certs =
     (if \<not> tls then Some \<lparr>rq_ip = remote_ip, rq_cert = None\<rparr>
      else case certs of
        [] \<Rightarrow> if client_auth_mandatory then None else Some \<lparr>rq_ip = remote_ip, rq_cert = None\<rparr>
      | cert # intermediates \<Rightarrow>
          (case verify_client_cert X cert intermediates of
             Inl _ \<Rightarrow> None
           | Inr _ \<Rightarrow> Some \<lparr>rq_ip = remote_ip, rq_cert = Some cert\<rparr>))"

text \<open>The service function: both extensions are inserted before the request is handled.\<close>

definition serve ::
  "http_lib \<Rightarrow> ('c, 's, 'p) x509_lib \<Rightarrow> 'm lru_lib \<Rightarrow> (nat \<Rightarrow> u8) \<Rightarrow> bool \<Rightarrow> request_client_info \<Rightarrow>
   http_method \<Rightarrow> string \<Rightarrow> bytes option \<Rightarrow> 'm app_state \<Rightarrow> http_response \<times> 'm app_state" where
  "serve H X Z rng legacy_enabled client_info meth path body st =
     handle_request H X Z rng legacy_enabled
       \<lparr>hr_method = meth, hr_path = path, hr_body = body, hr_has_state = True,
        hr_client_info = Some client_info\<rparr> st"

section \<open>Lemmas\<close>

lemma from_slice_to_text:
  assumes "json_ok L" and "dec (enc x) = Some x"
  shows "from_slice L dec (utf8 (to_text L enc x)) = Some x"
  using assms by (simp add: from_slice_def from_text_def to_text_def json_ok_def)

lemma collect_to_json_text:
  assumes "json_ok (hl_wire H)" and "dec (enc x) = Some x"
  shows "collect_to_json H dec (Some (utf8 (to_text (hl_wire H) enc x))) = Inr x"
  using from_slice_to_text [of "hl_wire H" dec enc x] assms by (simp add: collect_to_json_def)

lemma respond_simps [simp]:
  "respond H (Inl err, st) = (error_to_response H err, st)"
  "respond H (Inr response, st) = (response, st)"
  "snd (respond H result) = snd result"
  by (simp_all add: respond_def split: prod.split sum.split)

lemma register_state [simp]:
  "snd (v2_register H body info st) = st" "snd (v3_register H body info st) = st"
  by (simp_all add: v2_register_def v3_register_def split: sum.split)

lemma connection_info_tls:
  assumes "connection_info X True ip certs = Some info"
  obtains cert rest c where "certs = cert # rest" and "cert_from_der X cert = Some c"
    and "cert_is_valid X c" and "cert_signature_ok X c" and "info = \<lparr>rq_ip = ip, rq_cert = Some cert\<rparr>"
  using assms
  by (auto simp: connection_info_def client_auth_mandatory_def verify_client_cert_def
      verify_cert_from_der_def split: list.splits sum.splits option.splits)

end
