(* ===== verification/Http_Client.thy ===== *)
theory Http_Client
  imports Http_Server
begin

text \<open>
  The HTTP client of a device (core/src/http/client): the URLs of the requests, the requests and
  what is made of the responses. The connection is a parameter: a function that takes a URL and a
  body and gives the response, or \<open>None\<close> when the request fails.
\<close>

section \<open>Library functions and state\<close>

text \<open>A response: \<open>hp_body\<close> is \<open>None\<close> when it cannot be read, \<open>hp_tls\<close> is the TLS information
  with the peer's certificate.\<close>

record http_reply =
  hp_status :: nat
  hp_body :: "bytes option"
  hp_remote_addr :: "ip_addr option"
  hp_tls :: "bytes option option"

type_synonym transport = "string \<Rightarrow> bytes \<Rightarrow> http_reply option"

record 'm ls_http_client =
  lc_received_nonce_map :: 'm
  lc_generated_nonce_map :: 'm

definition http_client_new :: "'m lru_lib \<Rightarrow> 'm ls_http_client" where
  "http_client_new Z =
     \<lparr>lc_received_nonce_map = lru_new Z 200, lc_generated_nonce_map = lru_new Z 200\<rparr>"

text \<open>reqwest: the identity in a PEM text, and whether a client can be built with it, which takes any
  certificate of a server and hands out TLS information.\<close>

record reqwest_lib =
  rw_identity_from_pem :: "bytes \<Rightarrow> bytes option"
  rw_build_ok :: "bytes \<Rightarrow> bool"

definition http_client_try_new ::
  "reqwest_lib \<Rightarrow> 'm lru_lib \<Rightarrow> string \<Rightarrow> string \<Rightarrow> err + 'm ls_http_client" where
  "http_client_try_new Q Z private_key cert =
     (case rw_identity_from_pem Q (utf8 cert @ utf8 [CHR 0x0A] @ utf8 private_key) of
        None \<Rightarrow> Inl (Ext HttpError)
      | Some identity \<Rightarrow>
          if rw_build_ok Q identity then Inr (http_client_new Z) else Inl (Ext HttpError))"

text \<open>\<open>StatusCodeError\<close> of core/src/http/mod.rs, or any other error.\<close>

datatype http_error = StatusCodeError nat "string option" | HttpFailure err

section \<open>URLs\<close>

datatype api_version = V2 | V3

record target_url =
  tu_version :: api_version
  tu_protocol :: protocol_type
  tu_host :: string
  tu_port :: u16
  tu_path :: string

fun api_version_text :: "api_version \<Rightarrow> string" where
  "api_version_text V2 = ''v2''"
| "api_version_text V3 = ''v3''"

definition target_url_to_string :: "target_url \<Rightarrow> string" where
  "target_url_to_string u =
     protocol_as_str (tu_protocol u) @ ''://'' @
     (if CHR '':'' \<in> set (tu_host u) then ''['' @ tu_host u @ '']'' else tu_host u) @ '':'' @
     fmt_dec (unat (tu_port u)) @ ''/api/localsend/'' @ api_version_text (tu_version u) @ tu_path u"

definition BASE_PATH :: string where
  "BASE_PATH = ''/api/localsend/v3''"

text \<open>The URLs of the other requests are formatted without brackets around the address.\<close>

definition plain_url :: "protocol_type \<Rightarrow> string \<Rightarrow> u16 \<Rightarrow> string \<Rightarrow> string" where
  "plain_url protocol ip port path =
     protocol_as_str protocol @ ''://'' @ ip @ '':'' @ fmt_dec (unat port) @ BASE_PATH @ path"

section \<open>Responses\<close>

text \<open>The outer error is one of reading the body.\<close>

definition status_code_error_from_res :: "http_lib \<Rightarrow> http_reply \<Rightarrow> http_error" where
  "status_code_error_from_res H response =
     (case hp_body response of
        None \<Rightarrow> HttpFailure (Ext HttpError)
      | Some bs \<Rightarrow>
          (let text = hl_text H bs;
               body = (case from_text (hl_wire H) dec_error_response text of
                   Some error \<Rightarrow> er_message error
                 | None \<Rightarrow> text)
           in StatusCodeError (hp_status response) (if body = [] then None else Some body)))"

definition verify_cert_from_res ::
  "('c, 's, 'p) x509_lib \<Rightarrow> http_reply \<Rightarrow> string option \<Rightarrow> http_error + string" where
  "verify_cert_from_res X response public_key =
     (case hp_tls response of
        None \<Rightarrow> Inl (HttpFailure (Msg ''TLS info not found''))
      | Some None \<Rightarrow> Inl (HttpFailure (Msg ''Certificate not found''))
      | Some (Some cert) \<Rightarrow>
          (case (case public_key of Some key \<Rightarrow> Inr key | None \<Rightarrow> public_key_from_cert_der X cert) of
             Inl e \<Rightarrow> Inl (HttpFailure e)
           | Inr key \<Rightarrow>
               (case verify_cert_from_der X cert (Some key) of
                  Inl e \<Rightarrow> Inl (HttpFailure e)
                | Inr _ \<Rightarrow> Inr key)))"

definition to_identifier ::
  "('c, 's, 'p) x509_lib \<Rightarrow> http_reply \<Rightarrow> bool \<Rightarrow> string option \<Rightarrow> http_error + string" where
  "to_identifier X response require_cert public_key =
     (if require_cert then verify_cert_from_res X response public_key
      else case hp_remote_addr response of
        None \<Rightarrow> Inl (HttpFailure (Msg ''Remote address not found in response''))
      | Some addr \<Rightarrow> Inr (ip_to_string addr))"

text \<open>\<open>res.json()\<close>\<close>

definition reply_json :: "http_lib \<Rightarrow> (json \<Rightarrow> 'b option) \<Rightarrow> http_reply \<Rightarrow> http_error + 'b" where
  "reply_json H dec response =
     (case hp_body response of
        None \<Rightarrow> Inl (HttpFailure (Ext HttpError))
      | Some bs \<Rightarrow>
          (case from_slice (hl_wire H) dec bs of
             None \<Rightarrow> Inl (HttpFailure (Ext HttpError))
           | Some x \<Rightarrow> Inr x))"

definition post :: "transport \<Rightarrow> string \<Rightarrow> string \<Rightarrow> http_error + http_reply" where
  "post net url body =
     (case net url (utf8 body) of
        None \<Rightarrow> Inl (HttpFailure (Ext HttpError))
      | Some response \<Rightarrow> Inr response)"

section \<open>Requests\<close>

definition client_nonce ::
  "http_lib \<Rightarrow> ('c, 's, 'p) x509_lib \<Rightarrow> 'm lru_lib \<Rightarrow> transport \<Rightarrow> (nat \<Rightarrow> u8) \<Rightarrow> protocol_type \<Rightarrow>
   string \<Rightarrow> u16 \<Rightarrow> 'm ls_http_client \<Rightarrow> (http_error + string) \<times> 'm ls_http_client" where
  "client_nonce H X Z net rng protocol ip port cl =
     (let generated_nonce = generate_nonce rng;
          url = target_url_to_string
            \<lparr>tu_version = V3, tu_protocol = protocol, tu_host = ip, tu_port = port, tu_path = ''/nonce''\<rparr>
      in case post net url (to_text (hl_wire H) enc_nonce_request
                \<lparr>nq_nonce = b64_encode (hl_crypto H) generated_nonce\<rparr>) of
           Inl e \<Rightarrow> (Inl e, cl)
         | Inr res \<Rightarrow>
             if hp_status res \<noteq> 200 then (Inl (status_code_error_from_res H res), cl)
             else (case to_identifier X res (protocol = Https) None of
                 Inl e \<Rightarrow> (Inl e, cl)
               | Inr remote_key \<Rightarrow>
                   (case reply_json H dec_nonce_response res of
                      Inl e \<Rightarrow> (Inl e, cl)
                    | Inr body \<Rightarrow>
                        (case b64_decode (hl_crypto H) (nr_nonce body) of
                           None \<Rightarrow> (Inl (HttpFailure (Ext Base64Error)), cl)
                         | Some response_nonce \<Rightarrow>
                             (Inr (nr_nonce body),
                              cl\<lparr>lc_received_nonce_map :=
                                   lru_put Z remote_key response_nonce (lc_received_nonce_map cl),
                                 lc_generated_nonce_map :=
                                   lru_put Z remote_key generated_nonce (lc_generated_nonce_map cl)\<rparr>)))))"

record register_result =
  rg_public_key :: "string option"
  rg_body :: register_response_dto

text \<open>The status of the response is not looked at.\<close>

definition client_register ::
  "http_lib \<Rightarrow> ('c, 's, 'p) x509_lib \<Rightarrow> transport \<Rightarrow> protocol_type \<Rightarrow> string \<Rightarrow> u16 \<Rightarrow>
   register_dto \<Rightarrow> http_error + register_result" where
  "client_register H X net protocol ip port payload =
     (case post net (plain_url protocol ip port ''/register'')
             (to_text (hl_wire H) enc_register_dto payload) of
        Inl e \<Rightarrow> Inl e
      | Inr res \<Rightarrow>
          (case (case protocol of
                   Https \<Rightarrow> map_sum id Some (verify_cert_from_res X res None)
                 | Http \<Rightarrow> Inr None) of
             Inl e \<Rightarrow> Inl e
           | Inr public_key \<Rightarrow>
               (case reply_json H dec_register_response_dto res of
                  Inl e \<Rightarrow> Inl e
                | Inr body \<Rightarrow> Inr \<lparr>rg_public_key = public_key, rg_body = body\<rparr>)))"

definition client_prepare_upload ::
  "http_lib \<Rightarrow> ('c, 's, 'p) x509_lib \<Rightarrow> transport \<Rightarrow> protocol_type \<Rightarrow> string \<Rightarrow> u16 \<Rightarrow>
   string option \<Rightarrow> prepare_upload_request_dto \<Rightarrow> http_error + prepare_upload_response_dto" where
  "client_prepare_upload H X net protocol ip port public_key payload =
     (case post net (plain_url protocol ip port ''/prepare-upload'')
             (to_text (hl_wire H) enc_prepare_upload_request_dto payload) of
        Inl e \<Rightarrow> Inl e
      | Inr res \<Rightarrow>
          (case (case public_key of
                   Some key \<Rightarrow> map_sum id Some (verify_cert_from_res X res (Some key))
                 | None \<Rightarrow> Inr None) of
             Inl e \<Rightarrow> Inl e
           | Inr _ \<Rightarrow>
               if hp_status res \<noteq> 200 then Inl (status_code_error_from_res H res)
               else reply_json H dec_prepare_upload_response_dto res))"

text \<open>The body is the stream of the file's chunks.\<close>

definition client_upload ::
  "http_lib \<Rightarrow> transport \<Rightarrow> protocol_type \<Rightarrow> string \<Rightarrow> u16 \<Rightarrow> string \<Rightarrow> string \<Rightarrow> string \<Rightarrow>
   bytes list \<Rightarrow> http_error + unit" where
  "client_upload H net protocol ip port session_id file_id token binary =
     (case net (plain_url protocol ip port
             (''/upload?sessionId='' @ session_id @ ''&fileId='' @ file_id @ ''&token='' @ token))
             (concat binary) of
        None \<Rightarrow> Inl (HttpFailure (Ext HttpError))
      | Some res \<Rightarrow>
          if hp_status res \<noteq> 200 then Inl (status_code_error_from_res H res) else Inr ())"

definition client_cancel ::
  "transport \<Rightarrow> protocol_type \<Rightarrow> string \<Rightarrow> u16 \<Rightarrow> string \<Rightarrow> http_error + unit" where
  "client_cancel net protocol ip port session_id =
     (case net (plain_url protocol ip port (''/cancel?sessionId='' @ session_id)) [] of
        None \<Rightarrow> Inl (HttpFailure (Ext HttpError))
      | Some _ \<Rightarrow> Inr ())"

end
