(* ===== verification/Http_Url.thy ===== *)
theory Http_Url
  imports Http_Client
begin

text \<open>
  How the URLs of the client are read by the other side of the connection: the reference is the
  generic syntax of URLs, where a host with colons has to be in brackets.
\<close>

section \<open>Reading a URL\<close>

definition parse_authority :: "string \<Rightarrow> (string \<times> string) option" where
  "parse_authority auth =
     (case auth of
        [] \<Rightarrow> None
      | c # rest \<Rightarrow>
          if c = CHR ''['' then
            (case dropWhile (\<lambda>x. x \<noteq> CHR '']'') rest of
               _ # x # port \<Rightarrow>
                 if x = CHR '':'' then Some (takeWhile (\<lambda>x. x \<noteq> CHR '']'') rest, port) else None
             | _ \<Rightarrow> None)
          else (case split_on CHR '':'' auth of [host, port] \<Rightarrow> Some (host, port) | _ \<Rightarrow> None))"

text \<open>Scheme, host, port and the path with the query.\<close>

definition parse_url :: "string \<Rightarrow> (string \<times> string \<times> string \<times> string) option" where
  "parse_url url =
     (let scheme = takeWhile (\<lambda>c. c \<noteq> CHR '':'') url;
          rest = drop (length scheme) url;
          auth = takeWhile (\<lambda>c. c \<noteq> CHR ''/'') (drop 3 rest);
          path = dropWhile (\<lambda>c. c \<noteq> CHR ''/'') (drop 3 rest)
      in if take 3 rest = ''://''
         then map_option (\<lambda>(host, port). (scheme, host, port, path)) (parse_authority auth) else None)"

section \<open>Characters of addresses and ports\<close>

lemma set_join_on: "set (join_on c ps) \<subseteq> insert c (\<Union> (set ` set ps))"
  by (induction c ps rule: join_on.induct) auto

definition host_chars :: "char set" where
  "host_chars = - {CHR ''/'', CHR ''['', CHR '']''}"

lemma host_no_mark:
  assumes "set h \<subseteq> host_chars"
  shows "CHR ''/'' \<notin> set h" and "CHR ''['' \<notin> set h" and "CHR '']'' \<notin> set h"
  using assms by (auto simp: host_chars_def)

lemma digit_host_char:
  assumes "d < 36"
  shows "digit d \<in> host_chars"
proof -
  have "digit d \<noteq> CHR ''/''" "digit d \<noteq> CHR ''[''" "digit d \<noteq> CHR '']''"
    using of_char_digit [OF assms] by (auto split: if_splits)
  then show ?thesis by (simp add: host_chars_def)
qed

lemma fmt_host_chars: "set (fmt_dec n) \<subseteq> host_chars" "set (fmt_hex n) \<subseteq> host_chars"
  using radix_chars [of 10 _ n] radix_chars [of 16 _ n] digit_host_char
  by (fastforce simp: fmt_dec_def fmt_hex_def)+

lemma join_host_chars:
  "c \<in> host_chars \<Longrightarrow> (\<And>p. p \<in> set ps \<Longrightarrow> set p \<subseteq> host_chars) \<Longrightarrow>
   set (join_on c ps) \<subseteq> host_chars"
  using set_join_on [of c ps] by blast

lemma mark_host_chars: "CHR '':'' \<in> host_chars" "CHR ''.'' \<in> host_chars"
  by (simp_all add: host_chars_def)

lemma ipv4_host_chars: "set (fmt_ipv4 a b c d) \<subseteq> host_chars"
  unfolding fmt_ipv4_def by (rule join_host_chars) (use fmt_host_chars mark_host_chars in auto)

lemma segments_host_chars: "set (fmt_segments ss) \<subseteq> host_chars"
  unfolding fmt_segments_def by (rule join_host_chars) (use fmt_host_chars mark_host_chars in auto)

lemma mapped_host_chars: "set ''::ffff:'' \<subseteq> host_chars" "set ''::'' \<subseteq> host_chars"
  by (simp_all add: host_chars_def)

lemma ipv6_forms:
  fixes s0 s1 s2 s3 s4 s5 s6 s7 :: u16
  defines "s \<equiv> ip_to_string (V6 s0 s1 s2 s3 s4 s5 s6 s7)"
  obtains (mapped) a b c d where "s = ''::ffff:'' @ fmt_ipv4 a b c d"
    | (compressed) xs ys where "s = fmt_segments xs @ ''::'' @ fmt_segments ys"
    | (full) "s = fmt_segments [s0, s1, s2, s3, s4, s5, s6, s7]"
proof -
  obtain st ln where z: "longest_zeroes 0 (0, 0) (0, 0) [s0, s1, s2, s3, s4, s5, s6, s7] = (st, ln)"
    by fastforce
  have "(\<exists>a b c d. s = ''::ffff:'' @ fmt_ipv4 a b c d) \<or>
      (\<exists>xs ys. s = fmt_segments xs @ ''::'' @ fmt_segments ys) \<or>
      s = fmt_segments [s0, s1, s2, s3, s4, s5, s6, s7]"
    unfolding s_def ip_to_string.simps Let_def z prod.case by (metis (no_types))
  then show thesis using mapped compressed full by blast
qed

lemma ip_host_chars: "set (ip_to_string ip) \<subseteq> host_chars"
proof (cases ip)
  case (V6 s0 s1 s2 s3 s4 s5 s6 s7)
  show ?thesis
    unfolding V6
    by (cases rule: ipv6_forms [of s0 s1 s2 s3 s4 s5 s6 s7])
      (simp_all only: set_append Un_subset_iff mapped_host_chars ipv4_host_chars segments_host_chars
        simp_thms)
qed (simp add: ipv4_host_chars)

lemma ipv4_no_colon: "CHR '':'' \<notin> set (ip_to_string (V4 a b c d))"
  using set_join_on [of "CHR ''.''" "map (\<lambda>x. fmt_dec (unat x)) [a, b, c, d]"] fmt_dec_chars(2)
  by (auto simp: fmt_ipv4_def)

lemma join_has_mark: "1 < length ps \<Longrightarrow> c \<in> set (join_on c ps)"
  by (induction c ps rule: join_on.induct) auto

lemma ipv6_colon: "CHR '':'' \<in> set (ip_to_string (V6 s0 s1 s2 s3 s4 s5 s6 s7))"
proof (cases rule: ipv6_forms [of s0 s1 s2 s3 s4 s5 s6 s7])
  case (mapped a b c d)
  show ?thesis unfolding mapped by simp
next
  case (compressed xs ys)
  show ?thesis unfolding compressed by simp
next
  case full
  show ?thesis unfolding full fmt_segments_def by (rule join_has_mark) simp
qed

section \<open>Lemmas\<close>

lemma take_drop_mark:
  assumes "c \<notin> set xs"
  shows "takeWhile (\<lambda>x. x \<noteq> c) (xs @ c # ys) = xs" and "dropWhile (\<lambda>x. x \<noteq> c) (xs @ c # ys) = c # ys"
  using assms by (induction xs) auto

lemma parse_authority_plain:
  assumes "set h \<subseteq> host_chars" and "CHR '':'' \<notin> set p"
  shows "parse_authority (h @ CHR '':'' # p) = (if CHR '':'' \<in> set h then None else Some (h, p))"
proof -
  have 1: "hd (h @ CHR '':'' # p) \<noteq> CHR ''[''"
    using host_no_mark(2) [OF assms(1)] by (cases h) auto
  have "1 < length (split_on CHR '':'' h)" if "CHR '':'' \<in> set h"
  proof -
    from that obtain xs ys where h: "h = xs @ CHR '':'' # ys" by (auto simp: in_set_conv_decomp)
    have "0 < length (split_on CHR '':'' xs)" and "0 < length (split_on CHR '':'' ys)" by simp_all
    then show ?thesis unfolding h split_on_append_sep length_append by linarith
  qed
  moreover have "parse_authority (h @ CHR '':'' # p) =
      (case split_on CHR '':'' h @ [p] of [host, port] \<Rightarrow> Some (host, port) | _ \<Rightarrow> None)"
  proof -
    obtain c r where c: "h @ CHR '':'' # p = c # r" by (cases h) auto
    have "split_on CHR '':'' (c # r) = split_on CHR '':'' h @ [p]"
      unfolding c [symmetric] split_on_append_sep split_on_none [OF assms(2)] by (rule refl)
    with 1 show ?thesis by (simp add: c parse_authority_def del: split_on.simps)
  qed
  ultimately show ?thesis
    by (cases "CHR '':'' \<in> set h") (auto simp: split_on_none split: list.splits)
qed

lemma parse_authority_bracket:
  assumes "set h \<subseteq> host_chars"
  shows "parse_authority (''['' @ h @ '']:'' @ p) = Some (h, p)"
  using host_no_mark(3) [OF assms] by (simp add: parse_authority_def take_drop_mark)

lemma parse_url_parts:
  assumes "CHR '':'' \<notin> set scheme" and "CHR ''/'' \<notin> set auth"
  shows "parse_url (scheme @ ''://'' @ auth @ CHR ''/'' # path) =
    map_option (\<lambda>(host, port). (scheme, host, port, CHR ''/'' # path)) (parse_authority auth)"
  using assms by (simp add: parse_url_def Let_def take_drop_mark)

lemma protocol_no_colon: "CHR '':'' \<notin> set (protocol_as_str p)"
  by (cases p) simp_all

lemma target_url_parts:
  "parse_url (target_url_to_string
     \<lparr>tu_version = v, tu_protocol = p, tu_host = ip_to_string ip, tu_port = port, tu_path = path\<rparr>) =
   Some (protocol_as_str p, ip_to_string ip, fmt_dec (unat port),
     ''/api/localsend/'' @ api_version_text v @ path)"
proof -
  let ?h = "ip_to_string ip" and ?p = "fmt_dec (unat port)"
  have h: "set ?h \<subseteq> host_chars" and p: "set ?p \<subseteq> host_chars"
    by (rule ip_host_chars, rule fmt_host_chars)
  let ?auth = "(if CHR '':'' \<in> set ?h then ''['' @ ?h @ '']'' else ?h) @ '':'' @ ?p"
  have "CHR ''/'' \<notin> set ?auth"
    using host_no_mark(1) [OF h] host_no_mark(1) [OF p] by simp
  moreover have "parse_authority ?auth = Some (?h, ?p)"
    using parse_authority_bracket [OF h, of ?p] parse_authority_plain [OF h, of ?p]
    by (simp add: fmt_dec_chars)
  ultimately show ?thesis
    using parse_url_parts [OF protocol_no_colon, of ?auth p "''api/localsend/'' @ api_version_text v @ path"]
    by (cases "CHR '':'' \<in> set ?h") (simp_all add: target_url_to_string_def)
qed

lemma plain_url_parts:
  "parse_url (plain_url p (ip_to_string ip) port path) =
   (case ip of
      V4 a b c d \<Rightarrow> Some (protocol_as_str p, ip_to_string ip, fmt_dec (unat port), BASE_PATH @ path)
    | V6 _ _ _ _ _ _ _ _ \<Rightarrow> None)"
proof -
  let ?h = "ip_to_string ip" and ?p = "fmt_dec (unat port)"
  have h: "set ?h \<subseteq> host_chars" and p: "set ?p \<subseteq> host_chars"
    by (rule ip_host_chars, rule fmt_host_chars)
  have "CHR ''/'' \<notin> set (?h @ CHR '':'' # ?p)"
    using host_no_mark(1) [OF h] host_no_mark(1) [OF p] by simp
  then have "parse_url (plain_url p ?h port path) =
      map_option (\<lambda>(host, port). (protocol_as_str p, host, port, BASE_PATH @ path))
        (parse_authority (?h @ CHR '':'' # ?p))"
    using parse_url_parts [OF protocol_no_colon, of "?h @ CHR '':'' # ?p" p "''api/localsend/v3'' @ path"]
    by (simp add: plain_url_def BASE_PATH_def)
  also have "\<dots> = (if CHR '':'' \<in> set ?h then None
      else Some (protocol_as_str p, ?h, ?p, BASE_PATH @ path))"
    using parse_authority_plain [OF h fmt_dec_chars(2)] by simp
  finally show ?thesis
    using ipv4_no_colon ipv6_colon by (cases ip) simp_all
qed

section \<open>Properties\<close>

text \<open>
  The URL of the nonce request names the address it was made for: read as a URL it gives back
  the protocol, the address (IPv4 or IPv6), the port and the path under the API's base path.
\<close>

theorem target_url_names_host:
  "parse_url (target_url_to_string
     \<lparr>tu_version = v, tu_protocol = p, tu_host = ip_to_string ip, tu_port = port, tu_path = path\<rparr>) =
   Some (protocol_as_str p, ip_to_string ip, fmt_dec (unat port),
     ''/api/localsend/'' @ api_version_text v @ path)"
  by (rule target_url_parts)

text \<open>
  The URLs of the register, prepare-upload, upload and cancel requests name the address they
  were made for when it is an IPv4 address, and are no URLs at all for any IPv6 address: the
  address is not put in brackets.
\<close>

theorem plain_url_only_ipv4:
  "parse_url (plain_url p (ip_to_string ip) port path) =
   (case ip of
      V4 a b c d \<Rightarrow> Some (protocol_as_str p, ip_to_string ip, fmt_dec (unat port), BASE_PATH @ path)
    | V6 _ _ _ _ _ _ _ _ \<Rightarrow> None)"
  by (rule plain_url_parts)

end
