(* ===== verification/Http_Props.thy ===== *)
theory Http_Props
  imports Http_Url Instances Json_Text Transition
begin

text \<open>
  What the HTTP server and the HTTP client of two devices do together: which requests are served,
  what they change, how errors travel, and what both sides know after a nonce exchange.
\<close>

section \<open>Requests to a server\<close>

text \<open>Where a server is and how it is reached; \<open>pe_certs\<close> is the chain that the client presents
  when it is asked for one.\<close>

record http_peer =
  pe_ip :: ip_addr
  pe_port :: u16
  pe_tls :: bool
  pe_cert :: bytes
  pe_legacy :: bool
  pe_client_ip :: ip_addr
  pe_client_certs :: "bytes list"

definition pe_protocol :: "http_peer \<Rightarrow> protocol_type" where
  "pe_protocol e = (if pe_tls e then Https else Http)"

text \<open>A POST request that is made for a URL: the connection succeeds when the URL names the server
  and the server accepts the client.\<close>

definition reach_server ::
  "http_lib \<Rightarrow> ('c, 's, 'p) x509_lib \<Rightarrow> 'm lru_lib \<Rightarrow> (nat \<Rightarrow> u8) \<Rightarrow> http_peer \<Rightarrow> 'm app_state \<Rightarrow>
   string \<Rightarrow> bytes \<Rightarrow> (http_reply \<times> 'm app_state) option" where
  "reach_server H X Z rng e st url body =
     (case parse_url url of
        None \<Rightarrow> None
      | Some (scheme, host, port, path) \<Rightarrow>
          if scheme \<noteq> protocol_as_str (pe_protocol e) \<or> host \<noteq> ip_to_string (pe_ip e) \<or>
             port \<noteq> fmt_dec (unat (pe_port e)) then None
          else case connection_info X (pe_tls e) (pe_client_ip e) (pe_client_certs e) of
            None \<Rightarrow> None
          | Some info \<Rightarrow>
              (case serve H X Z rng (pe_legacy e) info POST (takeWhile (\<lambda>c. c \<noteq> CHR ''?'') path)
                      (Some body) st of
                 (res, st') \<Rightarrow>
                   Some (\<lparr>hp_status = rs_status res, hp_body = Some (utf8 (rs_body res)),
                      hp_remote_addr = Some (pe_ip e),
                      hp_tls = (if pe_tls e then Some (Some (pe_cert e)) else None)\<rparr>, st')))"

definition network ::
  "http_lib \<Rightarrow> ('c, 's, 'p) x509_lib \<Rightarrow> 'm lru_lib \<Rightarrow> (nat \<Rightarrow> u8) \<Rightarrow> http_peer \<Rightarrow> 'm app_state \<Rightarrow>
   transport" where
  "network H X Z rng e st = (\<lambda>url body. map_option fst (reach_server H X Z rng e st url body))"

section \<open>Served requests\<close>

text \<open>
  C32: exactly these requests are answered with 200: a POST to the v3 nonce route with a readable
  nonce of a valid length, and a POST with a readable registration to the v3 register route or,
  when the legacy API is enabled, to any of the four v2 routes.
\<close>

theorem served_iff:
  "rs_status (fst (handle_request H X Z rng legacy req st)) = 200 \<longleftrightarrow>
   hr_has_state req \<and> hr_client_info req \<noteq> None \<and> hr_method req = POST \<and>
   (hr_path req = ''/api/localsend/v3/nonce'' \<and>
      (\<exists>r n. collect_to_json H dec_nonce_request (hr_body req) = Inr r \<and>
         b64_decode (hl_crypto H) (nq_nonce r) = Some n \<and> validate_nonce n) \<or>
    (hr_path req = ''/api/localsend/v3/register'' \<or> legacy \<and> hr_path req \<in> set legacy_paths) \<and>
      (\<exists>r. collect_to_json H dec_register_dto (hr_body req) = Inr r))"
proof -
  have nonce: "rs_status (fst (respond H (nonce_exchange H X Z rng body info st))) = 200 \<longleftrightarrow>
      (\<exists>r n. collect_to_json H dec_nonce_request body = Inr r \<and>
         b64_decode (hl_crypto H) (nq_nonce r) = Some n \<and> validate_nonce n)" for body info
    by (auto simp: nonce_exchange_def json_response_def Let_def collect_to_json_def
        split: sum.splits option.splits)
  have register: "rs_status (fst (respond H (v2_register H body info st))) = 200 \<longleftrightarrow>
      (\<exists>r. collect_to_json H dec_register_dto body = Inr r)"
    "rs_status (fst (respond H (v3_register H body info st))) = 200 \<longleftrightarrow>
      (\<exists>r. collect_to_json H dec_register_dto body = Inr r)" for body info
    by (auto simp: v2_register_def v3_register_def json_response_def collect_to_json_def
        split: sum.splits option.splits)
  have "''/api/localsend/v3/nonce'' \<notin> set legacy_paths" "''/api/localsend/v3/register'' \<notin> set legacy_paths"
    by (simp_all add: legacy_paths_def)
  then show ?thesis
    unfolding handle_request_def handle_request_inner_def
    by (auto simp: nonce register json_response_def split: option.split)
qed

text \<open>The nonce that a request brings, with the identifier it is stored under: a reference for what
  the routes, the handler and its checks do together.\<close>

definition accepted_nonce ::
  "http_lib \<Rightarrow> ('c, 's, 'p) x509_lib \<Rightarrow> http_request \<Rightarrow> (string \<times> bytes) option" where
  "accepted_nonce H X req =
     (if hr_has_state req \<and> hr_method req = POST \<and> hr_path req = ''/api/localsend/v3/nonce''
      then do {
        info \<leftarrow> hr_client_info req;
        body \<leftarrow> hr_body req;
        request \<leftarrow> from_slice (hl_wire H) dec_nonce_request body;
        nonce \<leftarrow> b64_decode (hl_crypto H) (nq_nonce request);
        if validate_nonce nonce then Some (client_identifier X info, nonce) else None }
      else None)"

lemma handle_request_state:
  "snd (handle_request H X Z rng legacy req st) =
   (case accepted_nonce H X req of
      None \<Rightarrow> st
    | Some (k, n) \<Rightarrow>
        st\<lparr>as_received_nonce_map := lru_put Z k n (as_received_nonce_map st),
           as_generated_nonce_map := lru_put Z k (generate_nonce rng) (as_generated_nonce_map st)\<rparr>)"
proof -
  have "''/api/localsend/v3/nonce'' \<notin> set legacy_paths"
    by (simp add: legacy_paths_def)
  then show ?thesis
    by (auto simp: handle_request_def handle_request_inner_def nonce_exchange_def collect_to_json_def
        accepted_nonce_def Let_def split: option.split)
qed

text \<open>
  C33: a request changes the state of the server only when it is an accepted nonce exchange: then
  the nonce of the client and the new nonce of the server are stored under the client's
  identifier, and nothing else changes. Every other request, whatever its outcome, leaves the
  state as it was.
\<close>

theorem request_effects:
  "snd (handle_request H X Z rng legacy req st) =
   (case accepted_nonce H X req of
      None \<Rightarrow> st
    | Some (k, n) \<Rightarrow>
        st\<lparr>as_received_nonce_map := lru_put Z k n (as_received_nonce_map st),
           as_generated_nonce_map := lru_put Z k (generate_nonce rng) (as_generated_nonce_map st)\<rparr>)"
  by (rule handle_request_state)

section \<open>An instance of the cache\<close>

text \<open>The entries, most recent first, with the capacity.\<close>

definition demo_lru :: "(nat \<times> (string \<times> bytes) list) lru_lib" where
  "demo_lru =
     \<lparr>lru_new = (\<lambda>n. (n - 1, [])),
      lru_put = (\<lambda>k v (n, m). (n, take (Suc n) ((k, v) # AList.delete k m))),
      lru_get = (\<lambda>k (n, m). map_of m k)\<rparr>"

lemma map_of_take: "map_of (take n xs) k = Some v \<Longrightarrow> map_of xs k = Some v"
proof -
  have "map_of xs = map_of (drop n xs) ++ map_of (take n xs)"
    unfolding map_of_append [symmetric] append_take_drop_id by (rule refl)
  then show "map_of (take n xs) k = Some v \<Longrightarrow> map_of xs k = Some v"
    by (simp add: map_add_Some_iff)
qed

lemma demo_lru_other:
  assumes "l \<noteq> k" and "lru_get demo_lru l (lru_put demo_lru k v m) = Some w"
  shows "lru_get demo_lru l m = Some w"
proof -
  obtain n kvs where m: "m = (n, kvs)" by (cases m)
  have "map_of (take n (AList.delete k kvs)) l = Some w"
    using assms by (simp add: demo_lru_def m)
  then have "map_of (AList.delete k kvs) l = Some w" by (rule map_of_take)
  with assms(1) show ?thesis by (simp add: demo_lru_def m AList.delete_conv')
qed

lemma demo_lru_hit: "lru_get demo_lru k (lru_put demo_lru k v m) = Some v"
  by (cases m) (simp add: demo_lru_def)

lemma demo_lru_ok: "lru_ok demo_lru"
  unfolding lru_ok_def
  by (intro conjI allI impI; (rule demo_lru_hit | erule (1) demo_lru_other | simp add: demo_lru_def))

section \<open>Instances\<close>

definition demo_http :: http_lib where
  "demo_http =
     \<lparr>hl_crypto = demo_crypto, hl_wire = demo_wire, hl_status_text = fmt_dec,
      hl_text = map (\<lambda>b. char_of (unat b))\<rparr>"

lemma demo_http_ok [simp]:
  "json_ok (hl_wire demo_http)" "b64_ok (hl_crypto demo_http)" "http_text_ok demo_http"
  using demo_json_ok demo_b64_ok
  by (simp_all add: demo_http_def http_text_ok_def) (simp add: demo_wire_def json_untext_def)

definition demo_info :: http_client_info where
  "demo_info = \<lparr>hc_alias = ''a'', hc_version = ''2'', hc_device_model = None, hc_device_type = None,
     hc_token = ''t''\<rparr>"

definition demo_address :: ip_addr where
  "demo_address = V4 10 0 0 1"

definition http_demo_state :: "(nat \<times> (string \<times> bytes) list) app_state" where
  "http_demo_state = app_state_new demo_lru demo_info"

definition demo_nonce_request :: "bytes \<Rightarrow> http_request" where
  "demo_nonce_request nonce =
     \<lparr>hr_method = POST, hr_path = ''/api/localsend/v3/nonce'',
      hr_body = Some (utf8 (to_text (hl_wire demo_http) enc_nonce_request
        \<lparr>nq_nonce = b64_encode (hl_crypto demo_http) nonce\<rparr>)),
      hr_has_state = True, hr_client_info = Some \<lparr>rq_ip = demo_address, rq_cert = None\<rparr>\<rparr>"

lemma demo_accepted:
  "validate_nonce nonce \<Longrightarrow>
   accepted_nonce demo_http X (demo_nonce_request nonce) = Some (ip_to_string demo_address, nonce)"
proof -
  assume "validate_nonce nonce"
  moreover have "from_slice (hl_wire demo_http) dec_nonce_request
      (utf8 (to_text (hl_wire demo_http) enc_nonce_request r)) = Some r" for r
    by (rule from_slice_to_text [of _ dec_nonce_request enc_nonce_request])
      (simp_all only: demo_http_ok dec_nonce_request_enc)
  moreover have "b64_decode (hl_crypto demo_http) (b64_encode (hl_crypto demo_http) nonce) = Some nonce"
    by (rule demo_http_ok(2) [unfolded b64_ok_def, THEN conjunct1, THEN spec])
  ultimately show ?thesis
    by (simp add: accepted_nonce_def demo_nonce_request_def client_identifier_def extract_public_key_def)
qed

section \<open>Stored nonces\<close>

definition stored_valid :: "'m lru_lib \<Rightarrow> 'm app_state \<Rightarrow> bool" where
  "stored_valid Z st \<longleftrightarrow>
     (\<forall>k n. lru_get Z k (as_received_nonce_map st) = Some n \<longrightarrow> validate_nonce n) \<and>
     (\<forall>k n. lru_get Z k (as_generated_nonce_map st) = Some n \<longrightarrow> length n = 32)"

definition http_step ::
  "http_lib \<Rightarrow> ('c, 's, 'p) x509_lib \<Rightarrow> 'm lru_lib \<Rightarrow> 'm app_state \<Rightarrow> 'm app_state \<Rightarrow> bool" where
  "http_step H X Z st st' \<longleftrightarrow>
     (\<exists>rng legacy req. st' = snd (handle_request H X Z rng legacy req st))"

lemma lru_put_cases:
  assumes "lru_ok Z" and "lru_get Z l (lru_put Z k v m) = Some w"
  shows "l = k \<and> w = v \<or> lru_get Z l m = Some w"
proof (cases "l = k")
  case True
  with assms(2) show ?thesis by (simp add: lru_get_put [OF assms(1)])
next
  case False
  with lru_get_other [OF assms(1) _ assms(2)] show ?thesis by blast
qed

lemma stored_valid_step:
  assumes "lru_ok Z" and "stored_valid Z st" and "http_step H X Z st st'"
  shows "stored_valid Z st'"
proof -
  obtain rng legacy req where "st' = snd (handle_request H X Z rng legacy req st)"
    using assms(3) by (auto simp: http_step_def)
  then have st': "st' = (case accepted_nonce H X req of None \<Rightarrow> st | Some (k, n) \<Rightarrow>
      st\<lparr>as_received_nonce_map := lru_put Z k n (as_received_nonce_map st),
         as_generated_nonce_map := lru_put Z k (generate_nonce rng) (as_generated_nonce_map st)\<rparr>)"
    by (simp only: handle_request_state)
  show ?thesis
  proof (cases "accepted_nonce H X req")
    case None
    with st' assms(2) show ?thesis by simp
  next
    case (Some kn)
    then obtain k n where kn: "accepted_nonce H X req = Some (k, n)" by (cases kn) simp
    then have "validate_nonce n"
      by (auto simp: accepted_nonce_def bind_eq_Some_conv split: if_splits)
    with st' kn assms(2) show ?thesis
      unfolding stored_valid_def by (auto dest!: lru_put_cases [OF assms(1)])
  qed
qed

text \<open>
  Whatever requests a server has handled, every received nonce it holds has between 16 and 128
  bytes and every nonce it generated has 32.
\<close>

theorem server_nonces_valid:
  assumes "lru_ok Z" and "reach (\<lambda>st. st = app_state_new Z info) (http_step H X Z) st"
  shows "(lru_get Z k (as_received_nonce_map st) = Some n \<longrightarrow> 16 \<le> length n \<and> length n \<le> 128) \<and>
    (lru_get Z k (as_generated_nonce_map st) = Some n \<longrightarrow> length n = 32)"
proof -
  have "stored_valid Z st"
    using assms(2)
  proof induction
    case (reach_init st)
    then show ?case
      using lru_get_new [OF assms(1)] by (simp add: stored_valid_def app_state_new_def)
  qed (rule stored_valid_step [OF assms(1)])
  then show ?thesis by (simp add: stored_valid_def validate_nonce_def)
qed

theorem server_nonces_valid_witness:
  "\<exists>(st :: (nat \<times> (string \<times> bytes) list) app_state) k.
     lru_get demo_lru k (as_received_nonce_map st) = Some (replicate 16 7) \<and>
     lru_get demo_lru k (as_generated_nonce_map st) = Some (replicate 32 9) \<and>
     16 \<le> length (replicate 16 (7 :: u8)) \<and> length (replicate 32 (9 :: u8)) = 32"
proof -
  let ?req = "demo_nonce_request (replicate 16 7)"
  let ?k = "ip_to_string demo_address"
  let ?st = "snd (handle_request demo_http demo_x509 demo_lru (\<lambda>_. 9) False ?req http_demo_state)"
  have "http_step demo_http demo_x509 demo_lru http_demo_state ?st"
    by (auto simp: http_step_def)
  then have r: "reach (\<lambda>st. st = app_state_new demo_lru demo_info) (http_step demo_http demo_x509 demo_lru) ?st"
    unfolding http_demo_state_def by (blast intro: reach_init reach_step)
  have "validate_nonce (replicate 16 7)" by (simp add: validate_nonce_def)
  then have "lru_get demo_lru ?k (as_received_nonce_map ?st) = Some (replicate 16 7)"
    "lru_get demo_lru ?k (as_generated_nonce_map ?st) = Some (generate_nonce (\<lambda>_. 9))"
    by (simp_all add: handle_request_state demo_accepted demo_lru_hit)
  moreover have "generate_nonce (\<lambda>_. 9) = replicate 32 9"
    by (simp add: generate_nonce_def map_replicate_const)
  moreover note server_nonces_valid [OF demo_lru_ok r, of ?k]
  ultimately show ?thesis
    by (intro exI [of _ ?st] exI [of _ ?k]) simp
qed

end
