(* ===== verification/Http_Exchange.thy ===== *)
theory Http_Exchange
  imports Http_Props
begin

text \<open>
  A client's requests answered by a server: nonces, registrations, uploads and errors, from the
  call on one device to the state of the other.
\<close>

section \<open>The server's identity\<close>

text \<open>What a client takes for the identifier of a server: the public key of its certificate, which
  has to pass verification against itself, or its address.\<close>

definition server_identity :: "('c, 's, 'p) x509_lib \<Rightarrow> http_peer \<Rightarrow> string \<Rightarrow> bool" where
  "server_identity X e key \<longleftrightarrow>
     (if pe_tls e
      then public_key_from_cert_der X (pe_cert e) = Inr key \<and>
           verify_cert_from_der X (pe_cert e) (Some key) = Inr ()
      else key = ip_to_string (pe_ip e))"

text \<open>The client that the server sees.\<close>

definition client_seen :: "('c, 's, 'p) x509_lib \<Rightarrow> http_peer \<Rightarrow> request_client_info option" where
  "client_seen X e = connection_info X (pe_tls e) (pe_client_ip e) (pe_client_certs e)"

definition reply_of :: "http_peer \<Rightarrow> http_response \<Rightarrow> http_reply" where
  "reply_of e res =
     \<lparr>hp_status = rs_status res, hp_body = Some (utf8 (rs_body res)), hp_remote_addr = Some (pe_ip e),
      hp_tls = (if pe_tls e then Some (Some (pe_cert e)) else None)\<rparr>"

lemma to_identifier_reply:
  assumes "server_identity X e key"
  shows "to_identifier X (reply_of e res) (pe_protocol e = Https) None = Inr key"
  using assms
  by (simp add: server_identity_def to_identifier_def reply_of_def verify_cert_from_res_def
      pe_protocol_def split: if_splits)

section \<open>Requests that name the server\<close>

lemma reach_server_at:
  assumes "parse_url url = Some (protocol_as_str (pe_protocol e), ip_to_string (pe_ip e),
      fmt_dec (unat (pe_port e)), path)"
    and "client_seen X e = Some info"
  shows "reach_server H X Z rng e st url body =
    (case serve H X Z rng (pe_legacy e) info POST (takeWhile (\<lambda>c. c \<noteq> CHR ''?'') path) (Some body) st of
       (res, st') \<Rightarrow> Some (reply_of e res, st'))"
  using assms by (simp add: reach_server_def client_seen_def reply_of_def)

text \<open>The URL and the text of the client's nonce request.\<close>

definition nonce_url :: "http_peer \<Rightarrow> string" where
  "nonce_url e = target_url_to_string
     \<lparr>tu_version = V3, tu_protocol = pe_protocol e, tu_host = ip_to_string (pe_ip e),
      tu_port = pe_port e, tu_path = ''/nonce''\<rparr>"

definition nonce_text :: "http_lib \<Rightarrow> (nat \<Rightarrow> u8) \<Rightarrow> string" where
  "nonce_text H rng = to_text (hl_wire H) enc_nonce_request
     \<lparr>nq_nonce = b64_encode (hl_crypto H) (generate_nonce rng)\<rparr>"

lemma nonce_url_parts:
  "parse_url (nonce_url e) = Some (protocol_as_str (pe_protocol e), ip_to_string (pe_ip e),
     fmt_dec (unat (pe_port e)), ''/api/localsend/v3/nonce'')"
  unfolding nonce_url_def by (simp add: target_url_parts)

lemma from_slice_nonce:
  assumes "json_ok (hl_wire H)"
  shows "from_slice (hl_wire H) dec_nonce_request (utf8 (to_text (hl_wire H) enc_nonce_request r)) = Some r"
    and "from_slice (hl_wire H) dec_nonce_response (utf8 (to_text (hl_wire H) enc_nonce_response s)) = Some s"
  by (rule from_slice_to_text [of _ dec_nonce_request enc_nonce_request], rule assms,
      rule dec_nonce_request_enc)
    (rule from_slice_to_text [of _ dec_nonce_response enc_nonce_response], rule assms,
      rule dec_nonce_response_enc)

lemma b64_round: "b64_ok C \<Longrightarrow> b64_decode C (b64_encode C bs) = Some bs"
  unfolding b64_ok_def by blast

lemma serve_nonce:
  assumes "json_ok (hl_wire H)" and "b64_ok (hl_crypto H)"
  shows "serve H X Z rng legacy info POST ''/api/localsend/v3/nonce'' (Some (utf8 (nonce_text H rng_c))) st =
    (json_response H 200 enc_nonce_response \<lparr>nr_nonce = b64_encode (hl_crypto H) (generate_nonce rng)\<rparr>,
     st\<lparr>as_received_nonce_map :=
          lru_put Z (client_identifier X info) (generate_nonce rng_c) (as_received_nonce_map st),
        as_generated_nonce_map :=
          lru_put Z (client_identifier X info) (generate_nonce rng) (as_generated_nonce_map st)\<rparr>)"
  by (simp add: serve_def handle_request_def handle_request_inner_def legacy_paths_def
      nonce_exchange_def collect_to_json_def nonce_text_def from_slice_nonce [OF assms(1)]
      b64_round [OF assms(2)] Let_def)

lemma reach_server_nonce:
  assumes "json_ok (hl_wire H)" and "b64_ok (hl_crypto H)" and "client_seen X e = Some info"
  shows "reach_server H X Z rng e st (nonce_url e) (utf8 (nonce_text H rng_c)) =
    Some (reply_of e (json_response H 200 enc_nonce_response
            \<lparr>nr_nonce = b64_encode (hl_crypto H) (generate_nonce rng)\<rparr>),
     st\<lparr>as_received_nonce_map :=
          lru_put Z (client_identifier X info) (generate_nonce rng_c) (as_received_nonce_map st),
        as_generated_nonce_map :=
          lru_put Z (client_identifier X info) (generate_nonce rng) (as_generated_nonce_map st)\<rparr>)"
  by (simp add: reach_server_at [OF nonce_url_parts assms(3)] serve_nonce [OF assms(1,2)])

lemma client_nonce_reply:
  assumes "json_ok (hl_wire H)" and "b64_ok (hl_crypto H)" and "server_identity X e key"
    and "net (nonce_url e) (utf8 (nonce_text H rng)) = Some (reply_of e (json_response H 200
      enc_nonce_response \<lparr>nr_nonce = b64_encode (hl_crypto H) nonce\<rparr>))"
  shows "client_nonce H X Z net rng (pe_protocol e) (ip_to_string (pe_ip e)) (pe_port e) cl =
    (Inr (b64_encode (hl_crypto H) nonce),
     cl\<lparr>lc_received_nonce_map := lru_put Z key nonce (lc_received_nonce_map cl),
        lc_generated_nonce_map := lru_put Z key (generate_nonce rng) (lc_generated_nonce_map cl)\<rparr>)"
proof -
  let ?res = "reply_of e (json_response H 200 enc_nonce_response
      \<lparr>nr_nonce = b64_encode (hl_crypto H) nonce\<rparr>)"
  have "reply_json H dec_nonce_response ?res = Inr \<lparr>nr_nonce = b64_encode (hl_crypto H) nonce\<rparr>"
    using from_slice_nonce(2) [OF assms(1)] by (simp add: reply_json_def reply_of_def json_response_def)
  moreover have "hp_status ?res = 200" by (simp add: reply_of_def json_response_def)
  moreover have "post net (nonce_url e) (nonce_text H rng) = Inr ?res"
    using assms(4) by (simp add: post_def)
  ultimately show ?thesis
    by (simp add: client_nonce_def Let_def to_identifier_reply [OF assms(3)] b64_round [OF assms(2)]
        flip: nonce_url_def nonce_text_def)
qed

section \<open>Properties\<close>

text \<open>
  C24: a nonce exchange over a connection that the server accepts leaves both devices with the same
  two nonces, each under the other's identity: what the client generated is what the server
  received from it, and the other way round.
\<close>

theorem nonce_exchange_agrees:
  assumes "json_ok (hl_wire H)" and "b64_ok (hl_crypto H)" and "lru_ok Z"
    and "client_seen X e = Some info" and "server_identity X e key"
  shows "\<exists>nonce cl' reply st'.
    client_nonce H X Z (network H X Z rng_s e st) rng_c (pe_protocol e) (ip_to_string (pe_ip e))
      (pe_port e) cl = (Inr nonce, cl') \<and>
    reach_server H X Z rng_s e st (nonce_url e) (utf8 (nonce_text H rng_c)) = Some (reply, st') \<and>
    lru_get Z key (lc_generated_nonce_map cl') = Some (generate_nonce rng_c) \<and>
    lru_get Z (client_identifier X info) (as_received_nonce_map st') = Some (generate_nonce rng_c) \<and>
    lru_get Z key (lc_received_nonce_map cl') = Some (generate_nonce rng_s) \<and>
    lru_get Z (client_identifier X info) (as_generated_nonce_map st') = Some (generate_nonce rng_s)"
proof -
  note reached = reach_server_nonce [OF assms(1,2,4), of Z rng_s st rng_c]
  then have "network H X Z rng_s e st (nonce_url e) (utf8 (nonce_text H rng_c)) =
      Some (reply_of e (json_response H 200 enc_nonce_response
        \<lparr>nr_nonce = b64_encode (hl_crypto H) (generate_nonce rng_s)\<rparr>))"
    by (simp add: network_def)
  note client = client_nonce_reply [where net = "network H X Z rng_s e st" and rng = rng_c and
      nonce = "generate_nonce rng_s" and Z = Z and cl = cl, OF assms(1,2,5) this]
  show ?thesis
    by (intro exI conjI, rule client, rule reached) (simp_all add: lru_get_put [OF assms(3)])
qed

definition demo_peer_tls :: http_peer where
  "demo_peer_tls =
     \<lparr>pe_ip = V4 10 0 0 2, pe_port = 53317, pe_tls = True, pe_cert = [1, 1, 5], pe_legacy = True,
      pe_client_ip = demo_address, pe_client_certs = [[1, 1, 6]]\<rparr>"

lemma demo_client_seen:
  "client_seen demo_x509 demo_peer_tls = Some \<lparr>rq_ip = demo_address, rq_cert = Some [1, 1, 6]\<rparr>"
  by (simp add: client_seen_def connection_info_def verify_client_cert_def verify_cert_from_der_def
      verify_cert_from_cert_def demo_peer_tls_def)

lemma demo_server_identity: "\<exists>key. server_identity demo_x509 demo_peer_tls key"
  by (simp add: server_identity_def demo_peer_tls_def public_key_from_cert_der_def
      verify_cert_from_der_def verify_cert_from_cert_def public_key_from_cert_def expected_key_def)

theorem nonce_exchange_agrees_witness:
  "\<exists>key k nonce cl' reply st'.
    client_nonce demo_http demo_x509 demo_lru
      (network demo_http demo_x509 demo_lru (\<lambda>_. 1) demo_peer_tls http_demo_state) (\<lambda>_. 2) Https
      (ip_to_string (V4 10 0 0 2)) 53317 (http_client_new demo_lru) = (Inr nonce, cl') \<and>
    reach_server demo_http demo_x509 demo_lru (\<lambda>_. 1) demo_peer_tls http_demo_state
      (nonce_url demo_peer_tls) (utf8 (nonce_text demo_http (\<lambda>_. 2))) = Some (reply, st') \<and>
    lru_get demo_lru key (lc_generated_nonce_map cl') = Some (generate_nonce (\<lambda>_. 2)) \<and>
    lru_get demo_lru k (as_received_nonce_map st') = Some (generate_nonce (\<lambda>_. 2))"
proof -
  obtain key where key: "server_identity demo_x509 demo_peer_tls key"
    using demo_server_identity by blast
  have peer: "pe_protocol demo_peer_tls = Https" "pe_ip demo_peer_tls = V4 10 0 0 2"
    "pe_port demo_peer_tls = 53317"
    by (simp_all add: demo_peer_tls_def pe_protocol_def)
  from nonce_exchange_agrees [OF demo_http_ok(1,2) demo_lru_ok demo_client_seen key, unfolded peer,
      of "\<lambda>_. 1" http_demo_state "\<lambda>_. 2" "http_client_new demo_lru"]
  show ?thesis by blast
qed

section \<open>Registrations and uploads\<close>

definition plain_ipv4 :: "http_peer \<Rightarrow> bool" where
  "plain_ipv4 e \<longleftrightarrow> (\<exists>a b c d. pe_ip e = V4 a b c d)"

lemma reach_server_plain:
  assumes "plain_ipv4 e" and "client_seen X e = Some info"
  shows "reach_server H X Z rng e st
      (plain_url (pe_protocol e) (ip_to_string (pe_ip e)) (pe_port e) path) body =
    (case serve H X Z rng (pe_legacy e) info POST
            (BASE_PATH @ takeWhile (\<lambda>c. c \<noteq> CHR ''?'') path) (Some body) st of
       (res, st') \<Rightarrow> Some (reply_of e res, st'))"
proof -
  have parts: "parse_url (plain_url (pe_protocol e) (ip_to_string (pe_ip e)) (pe_port e) path) =
      Some (protocol_as_str (pe_protocol e), ip_to_string (pe_ip e), fmt_dec (unat (pe_port e)), BASE_PATH @ path)"
    using assms(1) by (auto simp: plain_ipv4_def plain_url_parts simp del: ip_to_string.simps)
  have path: "takeWhile (\<lambda>c. c \<noteq> CHR ''?'') (BASE_PATH @ path) =
      BASE_PATH @ takeWhile (\<lambda>c. c \<noteq> CHR ''?'') path"
    by (simp add: BASE_PATH_def)
  show ?thesis unfolding reach_server_at [OF parts assms(2)] path by (rule refl)
qed

lemma serve_register:
  assumes "json_ok (hl_wire H)"
  shows "serve H X Z rng legacy info POST ''/api/localsend/v3/register''
      (Some (utf8 (to_text (hl_wire H) enc_register_dto payload))) st =
    (json_response H 200 enc_register_response_dto (register_response st), st)"
proof -
  have "from_slice (hl_wire H) dec_register_dto (utf8 (to_text (hl_wire H) enc_register_dto payload)) = Some payload"
    by (rule from_slice_to_text [of _ dec_register_dto enc_register_dto], rule assms, rule dec_register_dto_enc)
  then show ?thesis
    by (simp add: serve_def handle_request_def handle_request_inner_def legacy_paths_def v3_register_def
        collect_to_json_def)
qed

lemma verify_cert_reply:
  assumes "server_identity X e key" and "pe_tls e"
  shows "verify_cert_from_res X (reply_of e res) None = Inr key"
  using assms by (simp add: server_identity_def reply_of_def verify_cert_from_res_def)

lemma reply_json_reply:
  assumes "json_ok (hl_wire H)" and "dec (enc x) = Some x"
  shows "reply_json H dec (reply_of e (json_response H status enc x)) = Inr x"
  using assms
  by (simp add: reply_json_def reply_of_def json_response_def from_slice_def from_text_def to_text_def json_ok_def)

lemma register_reply:
  assumes "json_ok (hl_wire H)" and "plain_ipv4 e" and "client_seen X e = Some info"
    and "server_identity X e key"
  shows "client_register H X (network H X Z rng e st) (pe_protocol e) (ip_to_string (pe_ip e)) (pe_port e) payload =
    Inr \<lparr>rg_public_key = (if pe_tls e then Some key else None), rg_body = register_response st\<rparr>"
proof -
  let ?res = "reply_of e (json_response H 200 enc_register_response_dto (register_response st))"
  have "reach_server H X Z rng e st (plain_url (pe_protocol e) (ip_to_string (pe_ip e)) (pe_port e) ''/register'')
      (utf8 (to_text (hl_wire H) enc_register_dto payload)) = Some (?res, st)"
    using serve_register [OF assms(1)]
    by (simp add: reach_server_plain [OF assms(2,3)] BASE_PATH_def serve_register [OF assms(1)])
  then have "post (network H X Z rng e st)
      (plain_url (pe_protocol e) (ip_to_string (pe_ip e)) (pe_port e) ''/register'')
      (to_text (hl_wire H) enc_register_dto payload) = Inr ?res"
    by (simp add: post_def network_def)
  moreover have "reply_json H dec_register_response_dto ?res = Inr (register_response st)"
    using assms(1) dec_register_response_dto_enc by (rule reply_json_reply)
  ultimately show ?thesis
    using verify_cert_reply [OF assms(4)]
    by (simp add: client_register_def pe_protocol_def split: if_splits)
qed


text \<open>The response to a request that no route matches.\<close>

definition not_routed :: http_response where
  "not_routed = \<lparr>rs_status = 404, rs_content_type = None, rs_body = []\<rparr>"

lemma serve_upload:
  "serve H X Z rng legacy info POST ''/api/localsend/v3/prepare-upload'' body st = (not_routed, st)"
  "serve H X Z rng legacy info POST ''/api/localsend/v3/upload'' body st = (not_routed, st)"
  by (simp_all add: serve_def handle_request_def handle_request_inner_def legacy_paths_def not_routed_def)

lemma not_routed_error:
  assumes "http_text_ok H"
  shows "status_code_error_from_res H (reply_of e not_routed) = StatusCodeError 404 None"
  using assms
  by (simp add: http_text_ok_def status_code_error_from_res_def reply_of_def not_routed_def from_text_def utf8_def)

text \<open>
  The server of this repository serves no upload of the v3 API: over IPv4 every
  prepare-upload (without a pinned key) and every upload fails with the status 404 and no
  message.
\<close>

theorem uploads_not_served:
  assumes "http_text_ok H" and "plain_ipv4 e" and "client_seen X e = Some info"
  shows "client_prepare_upload H X (network H X Z rng e st) (pe_protocol e) (ip_to_string (pe_ip e))
      (pe_port e) None payload = Inl (StatusCodeError 404 None) \<and>
    client_upload H (network H X Z rng e st) (pe_protocol e) (ip_to_string (pe_ip e))
      (pe_port e) session fid token binary = Inl (StatusCodeError 404 None)"
proof -
  have status: "hp_status (reply_of e not_routed) = 404"
    by (simp add: reply_of_def not_routed_def)
  show ?thesis
    by (simp add: client_prepare_upload_def client_upload_def post_def network_def BASE_PATH_def serve_upload
        reach_server_plain [OF assms(2,3)] not_routed_error [OF assms(1)] status)
qed

text \<open>
  An error of a handler reaches the client: whatever error the server turned into a response,
  the client's error has that response's status and the message of the error, and no other.
\<close>

theorem error_reaches_client:
  assumes "http_text_ok H" and "json_ok (hl_wire H)"
  shows "status_code_error_from_res H (reply_of e (error_to_response H err)) =
    (case err of
       HyperError \<Rightarrow> StatusCodeError 500 (Some ''Internal server error'')
     | StatusError code \<Rightarrow> StatusCodeError code (Some (''Status code: '' @ hl_status_text H code))
     | BadRequest message \<Rightarrow> StatusCodeError 400 (if message = [] then None else Some message))"
proof -
  have decoded: "hl_text H (utf8 (to_text (hl_wire H) enc_error_response r)) = to_text (hl_wire H) enc_error_response r"
    for r using assms(1) by (simp add: http_text_ok_def to_text_def)
  have json: "from_text (hl_wire H) dec_error_response (to_text (hl_wire H) enc_error_response r) = Some r" for r
    using assms(2) by (simp add: from_text_def to_text_def json_ok_def dec_error_response_enc)
  show ?thesis
    by (cases err) (simp_all add: status_code_error_from_res_def reply_of_def json_response_def decoded json)
qed

section \<open>Witnesses\<close>

definition demo_peer_plain :: http_peer where
  "demo_peer_plain =
     \<lparr>pe_ip = V4 10 0 0 2, pe_port = 53317, pe_tls = False, pe_cert = [], pe_legacy = True,
      pe_client_ip = demo_address, pe_client_certs = []\<rparr>"

lemma demo_plain:
  "plain_ipv4 demo_peer_tls" "plain_ipv4 demo_peer_plain"
  "client_seen X demo_peer_plain = Some \<lparr>rq_ip = demo_address, rq_cert = None\<rparr>"
  by (simp_all add: plain_ipv4_def client_seen_def connection_info_def demo_peer_tls_def demo_peer_plain_def)

definition demo_register :: register_dto where
  "demo_register = \<lparr>rd_alias = ''b'', rd_version = ''2'', rd_device_model = None, rd_device_type = None,
     rd_token = ''u'', rd_port = 53317, rd_protocol = Https, rd_has_web_interface = False\<rparr>"


theorem uploads_not_served_witness:
  "client_upload demo_http (network demo_http demo_x509 demo_lru (\<lambda>_. 1) demo_peer_plain http_demo_state)
     (pe_protocol demo_peer_plain) (ip_to_string (pe_ip demo_peer_plain)) (pe_port demo_peer_plain)
     ''s'' ''f'' ''t'' [[1]] = Inl (StatusCodeError 404 None)"
  using uploads_not_served [OF demo_http_ok(3) demo_plain(2,3)] by blast

theorem error_reaches_client_witness:
  "status_code_error_from_res demo_http
     (reply_of demo_peer_plain (error_to_response demo_http (BadRequest ''Invalid nonce''))) =
   StatusCodeError 400 (Some ''Invalid nonce'')"
  using error_reaches_client [OF demo_http_ok(3,1), of demo_peer_plain "BadRequest ''Invalid nonce''"] by simp

end
