(* ===== verification/Http_Tls.thy ===== *)
theory Http_Tls
  imports Http_Props
begin

text \<open>
  TLS at the HTTP server: the verifier of client certificates
  (core/src/http/server/client\_cert\_verifier.rs), the configuration of the server
  (core/src/http/server/mod.rs) and what a handshake needs to succeed.
\<close>

section \<open>The verifier\<close>

record tls_config =
  tc_cert :: string
  tc_private_key :: string

text \<open>rustls: a signature of the client over the handshake with its scheme, a verifier object
  (\<open>dyn ClientCertVerifier\<close>) with the methods the code calls; reading a certificate and a key from PEM,
  whether a certificate can be a root, building a verifier for one root, and whether key and
  certificate belong together.\<close>

record digitally_signed =
  ds_scheme :: nat
  ds_signature :: bytes

record webpki_verifier =
  wv_root_hint_subjects :: "bytes list"
  wv_verify_tls12_signature :: "bytes \<Rightarrow> bytes \<Rightarrow> digitally_signed \<Rightarrow> bool"
  wv_verify_tls13_signature :: "bytes \<Rightarrow> bytes \<Rightarrow> digitally_signed \<Rightarrow> bool"
  wv_supported_verify_schemes :: "nat list"
  wv_debug :: string

record tls_lib =
  tl_cert_pem :: "string \<Rightarrow> bytes option"
  tl_key_pem :: "string \<Rightarrow> bytes option"
  tl_root_ok :: "bytes \<Rightarrow> bool"
  tl_build_verifier :: "bytes \<Rightarrow> webpki_verifier option"
  tl_pair_ok :: "bytes \<Rightarrow> bytes \<Rightarrow> bool"

text \<open>The certificate check is \<open>verify_client_cert\<close> of theory Cert; the rest is passed on.\<close>

record custom_client_cert_verifier =
  cv_inner :: webpki_verifier

definition verifier_try_new :: "tls_lib \<Rightarrow> string \<Rightarrow> err + custom_client_cert_verifier" where
  "verifier_try_new T cert =
     (case tl_cert_pem T cert of
        None \<Rightarrow> Inl (Ext PemError)
      | Some der \<Rightarrow>
          if \<not> tl_root_ok T der then Inl (Ext TlsError)
          else (case tl_build_verifier T der of
                  None \<Rightarrow> Inl (Ext TlsError)
                | Some inner \<Rightarrow> Inr \<lparr>cv_inner = inner\<rparr>))"

definition verifier_fmt :: "custom_client_cert_verifier \<Rightarrow> string" where
  "verifier_fmt v = wv_debug (cv_inner v)"

definition root_hint_subjects :: "custom_client_cert_verifier \<Rightarrow> bytes list" where
  "root_hint_subjects v = wv_root_hint_subjects (cv_inner v)"

definition verify_tls12_signature ::
  "custom_client_cert_verifier \<Rightarrow> bytes \<Rightarrow> bytes \<Rightarrow> digitally_signed \<Rightarrow> err + unit" where
  "verify_tls12_signature v message cert dss =
     (if wv_verify_tls12_signature (cv_inner v) message cert dss then Inr () else Inl (Ext TlsError))"

definition verify_tls13_signature ::
  "custom_client_cert_verifier \<Rightarrow> bytes \<Rightarrow> bytes \<Rightarrow> digitally_signed \<Rightarrow> err + unit" where
  "verify_tls13_signature v message cert dss =
     (if wv_verify_tls13_signature (cv_inner v) message cert dss then Inr () else Inl (Ext TlsError))"

definition supported_verify_schemes :: "custom_client_cert_verifier \<Rightarrow> nat list" where
  "supported_verify_schemes v = wv_supported_verify_schemes (cv_inner v)"

section \<open>The server\<close>

definition create_tls_config :: "tls_lib \<Rightarrow> tls_config \<Rightarrow> err + custom_client_cert_verifier" where
  "create_tls_config T config =
     (case tl_cert_pem T (tc_cert config) of
        None \<Rightarrow> Inl (Ext PemError)
      | Some cert \<Rightarrow>
          (case tl_key_pem T (tc_private_key config) of
             None \<Rightarrow> Inl (Ext PemError)
           | Some key \<Rightarrow>
               (case verifier_try_new T (tc_cert config) of
                  Inl e \<Rightarrow> Inl e
                | Inr v \<Rightarrow> if tl_pair_ok T cert key then Inr v else Inl (Ext TlsError))))"

section \<open>The handshake\<close>

text \<open>What the server asks the client for (\<open>None\<close>: no certificate): the schemes it takes and its hints.\<close>

definition certificate_request :: "custom_client_cert_verifier \<Rightarrow> (nat list \<times> bytes list) option" where
  "certificate_request v =
     (if offer_client_auth then Some (supported_verify_schemes v, root_hint_subjects v) else None)"

text \<open>What the client brings: its certificates, the protocol version, the part of the handshake that is
  signed (as the server sees it) and the signature. rustls has the certificate checked first, then
  that the signature was made with its key.\<close>

datatype tls_version = Tls12 | Tls13

record client_handshake =
  ch_certs :: "bytes list"
  ch_version :: tls_version
  ch_message :: bytes
  ch_signature :: digitally_signed

definition handshake_signature :: "custom_client_cert_verifier \<Rightarrow> client_handshake \<Rightarrow> bytes \<Rightarrow> err + unit" where
  "handshake_signature v h cert = (case ch_version h of
      Tls12 \<Rightarrow> verify_tls12_signature v (ch_message h) cert (ch_signature h)
    | Tls13 \<Rightarrow> verify_tls13_signature v (ch_message h) cert (ch_signature h))"

definition handshake_info ::
  "('c, 's, 'p) x509_lib \<Rightarrow> custom_client_cert_verifier \<Rightarrow> ip_addr \<Rightarrow> client_handshake \<Rightarrow>
   request_client_info option" where
  "handshake_info X v ip h =
     (case connection_info X True ip (ch_certs h) of
        None \<Rightarrow> None
      | Some info \<Rightarrow>
          (case rq_cert info of
             None \<Rightarrow> Some info
           | Some cert \<Rightarrow>
               (case handshake_signature v h cert of Inl _ \<Rightarrow> None | Inr _ \<Rightarrow> Some info)))"

text \<open>What it comes to: the signature verifies under the certificate, as rustls sees it.\<close>

definition client_signed :: "custom_client_cert_verifier \<Rightarrow> client_handshake \<Rightarrow> bytes \<Rightarrow> bool" where
  "client_signed v h cert \<longleftrightarrow>
     (if ch_version h = Tls13 then wv_verify_tls13_signature (cv_inner v) (ch_message h) cert (ch_signature h)
      else wv_verify_tls12_signature (cv_inner v) (ch_message h) cert (ch_signature h))"

lemma handshake_signature_ok: "handshake_signature v h cert = Inr () \<longleftrightarrow> client_signed v h cert"
  by (cases "ch_version h")
    (simp_all add: handshake_signature_def client_signed_def verify_tls12_signature_def verify_tls13_signature_def)

text \<open>A client gets through exactly when its first certificate is valid and signed with its own key, and
  its signature verifies under that certificate.\<close>

lemma handshake_info_iff:
  "handshake_info X v ip h = Some info \<longleftrightarrow>
     (\<exists>cert rest. ch_certs h = cert # rest \<and> verify_cert_from_der X cert None = Inr () \<and>
        handshake_signature v h cert = Inr () \<and> info = \<lparr>rq_ip = ip, rq_cert = Some cert\<rparr>)"
  by (auto simp: handshake_info_def connection_info_def client_auth_mandatory_def verify_client_cert_def
      split: list.split sum.split)

end
