(* ===== verification/Http_Start.thy ===== *)
theory Http_Start
  imports Http_Tls Transition
begin

text \<open>
  Starting and stopping the HTTP server (core/src/http/server/mod.rs): the two listeners of
  \<open>start_with_port\<close> run in one task until one of three ends, and each accepted connection runs in a
  task of its own.
\<close>

section \<open>State\<close>

datatype ip_family = IPv4 | IPv6

text \<open>A listener (\<open>start_server_with_addr\<close>): not yet bound, accepting, ended with an error, or dropped
  with the task.\<close>

datatype listener = Starting | Accepting | Failed err | ListenerDropped

text \<open>A connection: in the TLS handshake, with what the client is going to bring, open with what is known
  of the client, or given up. \<open>sv_responses\<close>: the responses, each with the number
  of its connection.\<close>

datatype connection = Handshaking ip_addr client_handshake | Open request_client_info | Refused

record 'm http_service =
  sv_v4 :: listener
  sv_v6 :: listener
  sv_running :: bool
  sv_app :: "'m app_state"
  sv_conns :: "connection list"
  sv_responses :: "(nat \<times> http_response) list"

definition start_with_port :: "'m lru_lib \<Rightarrow> http_client_info \<Rightarrow> 'm http_service" where
  "start_with_port Z info =
     \<lparr>sv_v4 = Starting, sv_v6 = Starting, sv_running = True, sv_app = app_state_new Z info,
      sv_conns = [], sv_responses = []\<rparr>"

section \<open>Steps\<close>

definition listener_of :: "ip_family \<Rightarrow> 'm http_service \<Rightarrow> listener" where
  "listener_of fam s = (case fam of IPv4 \<Rightarrow> sv_v4 s | IPv6 \<Rightarrow> sv_v6 s)"

text \<open>The end of \<open>tokio::select!\<close>: the task is over and drops both listeners, not the connections.\<close>

definition shut_down :: "'m http_service \<Rightarrow> 'm http_service" where
  "shut_down s = s\<lparr>sv_running := False, sv_v4 := ListenerDropped, sv_v6 := ListenerDropped\<rparr>"

text \<open>The error of the IPv4 listener ends the task; the one of the IPv6 listener leaves its branch
  sleeping.\<close>

definition listener_failed :: "ip_family \<Rightarrow> err \<Rightarrow> 'm http_service \<Rightarrow> 'm http_service" where
  "listener_failed fam e s = (case fam of IPv4 \<Rightarrow> shut_down s | IPv6 \<Rightarrow> s\<lparr>sv_v6 := Failed e\<rparr>)"

definition set_listener :: "ip_family \<Rightarrow> listener \<Rightarrow> 'm http_service \<Rightarrow> 'm http_service" where
  "set_listener fam l s = (case fam of IPv4 \<Rightarrow> s\<lparr>sv_v4 := l\<rparr> | IPv6 \<Rightarrow> s\<lparr>sv_v6 := l\<rparr>)"

definition start_server_with_addr ::
  "tls_lib \<Rightarrow> tls_config option \<Rightarrow> ip_family \<Rightarrow> bool \<Rightarrow> 'm http_service \<Rightarrow> 'm http_service option" where
  "start_server_with_addr T tls fam bind_ok s =
     (if listener_of fam s \<noteq> Starting then None
      else if \<not> bind_ok then Some (listener_failed fam (Ext BindError) s)
      else case tls of
        None \<Rightarrow> Some (set_listener fam Accepting s)
      | Some config \<Rightarrow>
          (case create_tls_config T config of
             Inl e \<Rightarrow> Some (listener_failed fam e s)
           | Inr _ \<Rightarrow> Some (set_listener fam Accepting s)))"

text \<open>\<open>incoming.accept().await?\<close>; each connection that is accepted gets a task.\<close>

definition accept_failed :: "ip_family \<Rightarrow> 'm http_service \<Rightarrow> 'm http_service option" where
  "accept_failed fam s =
     (if listener_of fam s = Accepting then Some (listener_failed fam (Ext BindError) s) else None)"

definition accept_connection ::
  "tls_config option \<Rightarrow> ip_family \<Rightarrow> ip_addr \<Rightarrow> client_handshake \<Rightarrow> 'm http_service \<Rightarrow> 'm http_service option" where
  "accept_connection tls fam ip h s =
     (if listener_of fam s \<noteq> Accepting then None
      else Some (s\<lparr>sv_conns := sv_conns s @
        [if tls = None then Open \<lparr>rq_ip = ip, rq_cert = None\<rparr> else Handshaking ip h]\<rparr>))"

text \<open>\<open>tls_acceptor.accept\<close>, with the configuration the listener was started with.\<close>

definition tls_handshake ::
  "('c, 's, 'p) x509_lib \<Rightarrow> tls_lib \<Rightarrow> tls_config option \<Rightarrow> nat \<Rightarrow> 'm http_service \<Rightarrow> 'm http_service option" where
  "tls_handshake X T tls i s =
     (if length (sv_conns s) \<le> i then None
      else case sv_conns s ! i of
        Handshaking ip h \<Rightarrow>
          (case tls of
             None \<Rightarrow> None
           | Some config \<Rightarrow>
               (case create_tls_config T config of
                  Inl _ \<Rightarrow> None
                | Inr v \<Rightarrow>
                    Some (s\<lparr>sv_conns := (sv_conns s)[i :=
                      (case handshake_info X v ip h of Some info \<Rightarrow> Open info | None \<Rightarrow> Refused)]\<rparr>)))
      | _ \<Rightarrow> None)"

definition stop_server :: "'m http_service \<Rightarrow> 'm http_service option" where
  "stop_server s = (if sv_running s then Some (shut_down s) else None)"

text \<open>A request on an accepted connection.\<close>

definition connection_request ::
  "http_lib \<Rightarrow> ('c, 's, 'p) x509_lib \<Rightarrow> 'm lru_lib \<Rightarrow> (nat \<Rightarrow> u8) \<Rightarrow> bool \<Rightarrow> nat \<Rightarrow> http_method \<Rightarrow>
   string \<Rightarrow> bytes option \<Rightarrow> 'm http_service \<Rightarrow> 'm http_service option" where
  "connection_request H X Z rng legacy_enabled i meth path body s =
     (if length (sv_conns s) \<le> i then None
      else case sv_conns s ! i of
        Open info \<Rightarrow>
          (let (response, st) = serve H X Z rng legacy_enabled info meth path body (sv_app s)
           in Some (s\<lparr>sv_app := st, sv_responses := sv_responses s @ [(i, response)]\<rparr>))
      | _ \<Rightarrow> None)"

datatype svc_action =
    StartListener ip_family bool
  | AcceptFailed ip_family
  | Accept ip_family ip_addr client_handshake
  | Handshake nat
  | StopServer
  | Serve "nat \<Rightarrow> u8" nat http_method string "bytes option"

record ('c, 's, 'p, 'm) svc_env =
  se_http :: http_lib
  se_x509 :: "('c, 's, 'p) x509_lib"
  se_lru :: "'m lru_lib"
  se_tls_lib :: tls_lib
  se_tls :: "tls_config option"
  se_legacy :: bool

fun svc_next :: "('c, 's, 'p, 'm) svc_env \<Rightarrow> svc_action \<Rightarrow> 'm http_service \<Rightarrow> 'm http_service option" where
  "svc_next E (StartListener fam bind_ok) s = start_server_with_addr (se_tls_lib E) (se_tls E) fam bind_ok s"
| "svc_next E (AcceptFailed fam) s = accept_failed fam s"
| "svc_next E (Accept fam ip h) s = accept_connection (se_tls E) fam ip h s"
| "svc_next E (Handshake i) s = tls_handshake (se_x509 E) (se_tls_lib E) (se_tls E) i s"
| "svc_next E StopServer s = stop_server s"
| "svc_next E (Serve rng i meth path body) s =
     connection_request (se_http E) (se_x509 E) (se_lru E) rng (se_legacy E) i meth path body s"

inductive svc_step :: "('c, 's, 'p, 'm) svc_env \<Rightarrow> 'm http_service \<Rightarrow> 'm http_service \<Rightarrow> bool"
  for E :: "('c, 's, 'p, 'm) svc_env" where
  svc_stepI: "svc_next E a s = Some s' \<Longrightarrow> svc_step E s s'"

inductive_cases svc_stepE: "svc_step E s s'"


definition svc_reachable :: "('c, 's, 'p, 'm) svc_env \<Rightarrow> http_client_info \<Rightarrow> 'm http_service \<Rightarrow> bool" where
  "svc_reachable E info = reach (\<lambda>s. s = start_with_port (se_lru E) info) (svc_step E)"

fun svc_run :: "('c, 's, 'p, 'm) svc_env \<Rightarrow> svc_action list \<Rightarrow> 'm http_service \<Rightarrow> 'm http_service option" where
  "svc_run E [] s = Some s"
| "svc_run E (a # as) s = (case svc_next E a s of Some s' \<Rightarrow> svc_run E as s' | None \<Rightarrow> None)"

lemma svc_run_reachable: "svc_run E as s = Some s' \<Longrightarrow> svc_reachable E info s \<Longrightarrow> svc_reachable E info s'"
proof (induction as arbitrary: s)
  case (Cons a as)
  then obtain t where "svc_next E a s = Some t" and t: "svc_run E as t = Some s'"
    by (auto split: option.splits)
  then have "svc_reachable E info t"
    using Cons.prems(2) unfolding svc_reachable_def by (blast intro: reach_step svc_stepI)
  with Cons.IH t show ?case by blast
qed simp

section \<open>Who is behind a connection\<close>

text \<open>With TLS a client is known by the key of a certificate that was verified, and under which it signed
  the handshake.\<close>

definition proven :: "('c, 's, 'p) x509_lib \<Rightarrow> tls_lib \<Rightarrow> tls_config option \<Rightarrow> request_client_info \<Rightarrow> bool" where
  "proven X T tls info \<longleftrightarrow>
     (\<exists>cert config v h. rq_cert info = Some cert \<and> tls = Some config \<and> create_tls_config T config = Inr v \<and>
        handshake_signature v h cert = Inr () \<and> verify_cert_from_der X cert None = Inr () \<and>
        public_key_from_cert_der X cert = Inr (client_identifier X info))"

lemma handshake_info_proven:
  assumes "handshake_info X v ip h = Some info" and "tls = Some config" and "create_tls_config T config = Inr v"
  shows "proven X T tls info"
proof -
  from assms(1) obtain cert rest where c: "connection_info X True ip (ch_certs h) = Some info"
    "rq_cert info = Some cert" "handshake_signature v h cert = Inr ()" "verify_cert_from_der X cert None = Inr ()"
    by (auto simp: handshake_info_iff) (auto simp: connection_info_def verify_client_cert_def)
  moreover from c(1,2) have "public_key_from_cert_der X cert = Inr (client_identifier X info)"
    by (elim connection_info_tls)
      (auto simp: client_identifier_def extract_public_key_def public_key_from_cert_der_def public_key_from_cert_def)
  ultimately show ?thesis using assms(2,3) unfolding proven_def by blast
qed

definition conns_proven ::
  "('c, 's, 'p) x509_lib \<Rightarrow> tls_lib \<Rightarrow> tls_config option \<Rightarrow> connection list \<Rightarrow> bool" where
  "conns_proven X T tls = list_all (\<lambda>c. case c of Open info \<Rightarrow> proven X T tls info | _ \<Rightarrow> True)"

definition known_clients :: "('c, 's, 'p) x509_lib \<Rightarrow> connection list \<Rightarrow> string set" where
  "known_clients X conns = {client_identifier X info | info. Open info \<in> set conns}"

definition nonces_owned :: "('c, 's, 'p) x509_lib \<Rightarrow> 'm lru_lib \<Rightarrow> 'm http_service \<Rightarrow> bool" where
  "nonces_owned X Z s \<longleftrightarrow>
     (\<forall>k n. lru_get Z k (as_received_nonce_map (sv_app s)) = Some n \<longrightarrow> k \<in> known_clients X (sv_conns s)) \<and>
     (\<forall>k n. lru_get Z k (as_generated_nonce_map (sv_app s)) = Some n \<longrightarrow> k \<in> known_clients X (sv_conns s))"

lemma handshake_conns:
  assumes "tls_handshake X T tls i s = Some s'"
  obtains ip h config v where "i < length (sv_conns s)" "sv_conns s ! i = Handshaking ip h"
    "tls = Some config" "create_tls_config T config = Inr v"
    "s' = s\<lparr>sv_conns := (sv_conns s)[i :=
       (case handshake_info X v ip h of Some info \<Rightarrow> Open info | None \<Rightarrow> Refused)]\<rparr>"
  using assms by (auto simp: tls_handshake_def not_le split: if_splits connection.splits option.splits sum.splits)

lemma listener_steps_conns:
  "start_server_with_addr T tls fam ok s = Some s' \<Longrightarrow> sv_conns s' = sv_conns s \<and> sv_app s' = sv_app s"
  "accept_failed fam s = Some s' \<Longrightarrow> sv_conns s' = sv_conns s \<and> sv_app s' = sv_app s"
  "stop_server s = Some s' \<Longrightarrow> sv_conns s' = sv_conns s \<and> sv_app s' = sv_app s"
  by (auto simp: start_server_with_addr_def accept_failed_def stop_server_def listener_failed_def
      set_listener_def shut_down_def split: if_splits option.splits sum.splits ip_family.splits)

lemma known_clients_keep:
  assumes "i < length conns" and "\<And>info. conns ! i \<noteq> Open info"
  shows "known_clients X conns \<subseteq> known_clients X (conns[i := c])"
proof -
  have "Open info \<in> set (conns[i := c])" if "Open info \<in> set conns" for info
  proof -
    from that obtain j where "j < length conns" "conns ! j = Open info" by (auto simp: in_set_conv_nth)
    moreover with assms(2) have "i \<noteq> j" by metis
    ultimately have "j < length (conns[i := c])" "conns[i := c] ! j = Open info" by simp_all
    then show ?thesis by (metis nth_mem)
  qed
  then show ?thesis by (auto simp: known_clients_def)
qed

lemma nonces_owned_mono:
  "nonces_owned X Z s \<Longrightarrow> sv_app s' = sv_app s \<Longrightarrow>
   known_clients X (sv_conns s) \<subseteq> known_clients X (sv_conns s') \<Longrightarrow> nonces_owned X Z s'"
  unfolding nonces_owned_def by auto

lemma serve_state:
  "snd (serve H X Z rng legacy info meth path body st) = st \<or>
   (\<exists>n n'. snd (serve H X Z rng legacy info meth path body st) =
     st\<lparr>as_received_nonce_map := lru_put Z (client_identifier X info) n (as_received_nonce_map st),
        as_generated_nonce_map := lru_put Z (client_identifier X info) n' (as_generated_nonce_map st)\<rparr>)"
  unfolding serve_def handle_request_state
  by (auto simp: accepted_nonce_def bind_eq_Some_conv split: option.split)

lemma nonces_owned_request:
  assumes "lru_ok Z" and "nonces_owned X Z s"
    and "connection_request H X Z rng legacy i meth path body s = Some s'"
  shows "nonces_owned X Z s' \<and> sv_conns s' = sv_conns s"
proof -
  from assms(3) obtain info where i: "i < length (sv_conns s)" "sv_conns s ! i = Open info"
    and conns: "sv_conns s' = sv_conns s"
    and app: "sv_app s' = snd (serve H X Z rng legacy info meth path body (sv_app s))"
    by (auto simp: connection_request_def not_le split: if_splits connection.splits prod.splits)
  from i have "Open info \<in> set (sv_conns s)" by (metis nth_mem)
  then have k: "client_identifier X info \<in> known_clients X (sv_conns s)" by (auto simp: known_clients_def)
  have "nonces_owned X Z s'"
    using serve_state [of H X Z rng legacy info meth path body "sv_app s"] assms(2) k
    unfolding nonces_owned_def conns app by (auto dest!: lru_put_cases [OF assms(1)])
  with conns show ?thesis by blast
qed

definition svc_inv :: "('c, 's, 'p, 'm) svc_env \<Rightarrow> 'm http_service \<Rightarrow> bool" where
  "svc_inv E s \<longleftrightarrow> (se_tls E \<noteq> None \<longrightarrow> conns_proven (se_x509 E) (se_tls_lib E) (se_tls E) (sv_conns s)) \<and>
     nonces_owned (se_x509 E) (se_lru E) s"

lemma svc_inv_same: "svc_inv E s \<Longrightarrow> sv_conns s' = sv_conns s \<and> sv_app s' = sv_app s \<Longrightarrow> svc_inv E s'"
  by (simp add: svc_inv_def nonces_owned_def)

lemma svc_inv_accept:
  assumes "svc_inv E s" and "accept_connection (se_tls E) fam ip h s = Some s'"
  shows "svc_inv E s'"
proof -
  let ?c = "if se_tls E = None then Open \<lparr>rq_ip = ip, rq_cert = None\<rparr> else Handshaking ip h"
  from assms(2) have s': "s' = s\<lparr>sv_conns := sv_conns s @ [?c]\<rparr>"
    by (auto simp: accept_connection_def split: if_splits)
  have "known_clients (se_x509 E) (sv_conns s) \<subseteq> known_clients (se_x509 E) (sv_conns s')"
    unfolding s' by (auto simp: known_clients_def)
  moreover have "nonces_owned (se_x509 E) (se_lru E) s" and "sv_app s' = sv_app s"
    using assms(1) by (simp_all add: svc_inv_def s')
  ultimately have "nonces_owned (se_x509 E) (se_lru E) s'" by (blast intro: nonces_owned_mono)
  with assms(1) show ?thesis by (simp add: svc_inv_def s' conns_proven_def)
qed

lemma svc_inv_handshake:
  assumes "svc_inv E s" and "tls_handshake (se_x509 E) (se_tls_lib E) (se_tls E) i s = Some s'"
  shows "svc_inv E s'"
proof -
  obtain ip h config v where i: "i < length (sv_conns s)" "sv_conns s ! i = Handshaking ip h"
    and v: "se_tls E = Some config" "create_tls_config (se_tls_lib E) config = Inr v"
    and s': "s' = s\<lparr>sv_conns := (sv_conns s)[i :=
       (case handshake_info (se_x509 E) v ip h of Some info \<Rightarrow> Open info | None \<Rightarrow> Refused)]\<rparr>"
    using assms(2) by (rule handshake_conns)
  have "known_clients (se_x509 E) (sv_conns s) \<subseteq> known_clients (se_x509 E) (sv_conns s')"
    unfolding s' using known_clients_keep [OF i(1)] i(2) by simp
  moreover have "nonces_owned (se_x509 E) (se_lru E) s" and "sv_app s' = sv_app s"
    using assms(1) by (simp_all add: svc_inv_def s')
  ultimately have "nonces_owned (se_x509 E) (se_lru E) s'" by (blast intro: nonces_owned_mono)
  moreover have "conns_proven (se_x509 E) (se_tls_lib E) (se_tls E) (sv_conns s')"
    if "conns_proven (se_x509 E) (se_tls_lib E) (se_tls E) (sv_conns s)"
    using that unfolding s' conns_proven_def list_all_iff
    by (auto dest!: set_update_subset_insert [THEN subsetD] intro: handshake_info_proven [OF _ v] split: option.splits)
  ultimately show ?thesis using assms(1) by (simp add: svc_inv_def)
qed

lemma svc_inv_next:
  assumes "lru_ok (se_lru E)" and "svc_inv E s" and "svc_next E a s = Some s'"
  shows "svc_inv E s'"
proof (cases a)
  case (Serve rng i meth path body)
  with assms(3) have "connection_request (se_http E) (se_x509 E) (se_lru E) rng (se_legacy E) i meth path body s = Some s'"
    by simp
  from nonces_owned_request [OF assms(1) _ this] assms(2) show ?thesis by (simp add: svc_inv_def)
qed (use assms in \<open>auto dest: listener_steps_conns intro: svc_inv_same svc_inv_accept svc_inv_handshake\<close>)

lemma svc_inv_new: "lru_ok (se_lru E) \<Longrightarrow> svc_inv E (start_with_port (se_lru E) info)"
  by (simp add: svc_inv_def conns_proven_def nonces_owned_def start_with_port_def app_state_new_def lru_get_new)

interpretation service: inductive_invariant "\<lambda>s. s = start_with_port (se_lru E) info" "svc_step E"
  "\<lambda>s. lru_ok (se_lru E) \<longrightarrow> svc_inv E s" for E info
  by unfold_locales (auto simp: svc_inv_new intro: svc_inv_next elim!: svc_stepE)

lemma svc_inv_reachable: "lru_ok (se_lru E) \<Longrightarrow> svc_reachable E info s \<Longrightarrow> svc_inv E s"
  unfolding svc_reachable_def using service.holds by blast

section \<open>Properties\<close>


text \<open>A signature is the certificate followed by the message.\<close>

definition demo_verifier :: webpki_verifier where
  "demo_verifier = \<lparr>wv_root_hint_subjects = [], wv_verify_tls12_signature = (\<lambda>_ _ _. False),
     wv_verify_tls13_signature = (\<lambda>m cert dss. ds_signature dss = cert @ m), wv_supported_verify_schemes = [0x807],
     wv_debug = ''verifier''\<rparr>"

definition demo_handshake :: client_handshake where
  "demo_handshake = \<lparr>ch_certs = [[1, 1, 65]], ch_version = Tls13, ch_message = [7],
     ch_signature = \<lparr>ds_scheme = 0x807, ds_signature = [1, 1, 65, 7]\<rparr>\<rparr>"

definition demo_svc_env :: "(bytes \<times> bool \<times> bool, bytes, bytes, nat \<times> (string \<times> bytes) list) svc_env" where
  "demo_svc_env = \<lparr>se_http = demo_http, se_x509 = demo_x509, se_lru = demo_lru,
     se_tls_lib = \<lparr>tl_cert_pem = (\<lambda>s. Some (utf8 s)), tl_key_pem = (\<lambda>s. Some (utf8 s)),
        tl_root_ok = (\<lambda>_. True), tl_build_verifier = (\<lambda>_. Some demo_verifier), tl_pair_ok = (\<lambda>_ _. True)\<rparr>,
     se_tls = Some \<lparr>tc_cert = ''c'', tc_private_key = ''k''\<rparr>, se_legacy = False\<rparr>"

definition demo_svc_run :: "svc_action list" where
  "demo_svc_run =
     [StartListener IPv6 False, StartListener IPv4 True, Accept IPv4 demo_address demo_handshake, Handshake 0,
      Serve (\<lambda>_. 7) 0 POST ''/api/localsend/v3/nonce'' (hr_body (demo_nonce_request (replicate 16 1))), StopServer]"

lemma demo_serve_nonce:
  assumes "validate_nonce nonce"
  shows "snd (serve demo_http X Z rng legacy info POST ''/api/localsend/v3/nonce''
      (hr_body (demo_nonce_request nonce)) st) =
    st\<lparr>as_received_nonce_map := lru_put Z (client_identifier X info) nonce (as_received_nonce_map st),
       as_generated_nonce_map := lru_put Z (client_identifier X info) (generate_nonce rng) (as_generated_nonce_map st)\<rparr>"
proof -
  obtain body request where b: "hr_body (demo_nonce_request nonce) = Some body"
    "from_slice (hl_wire demo_http) dec_nonce_request body = Some request"
    "b64_decode (hl_crypto demo_http) (nq_nonce request) = Some nonce"
    using demo_accepted [OF assms, where X = demo_x509] by (auto simp: accepted_nonce_def bind_eq_Some_conv split: if_splits)
  then show ?thesis
    unfolding serve_def handle_request_state by (simp add: accepted_nonce_def assms)
qed

definition demo_client :: request_client_info where
  "demo_client = \<lparr>rq_ip = demo_address, rq_cert = Some [1, 1, 65]\<rparr>"

lemma demo_client_accepted:
  "handshake_info demo_x509 \<lparr>cv_inner = demo_verifier\<rparr> demo_address demo_handshake = Some demo_client"
  by (simp add: handshake_info_iff handshake_signature_ok client_signed_def demo_handshake_def demo_verifier_def verify_cert_from_der_def verify_cert_from_cert_def demo_client_def)

lemma demo_svc:
  obtains s where "svc_run demo_svc_env demo_svc_run (start_with_port demo_lru demo_info) = Some s"
    and "\<not> sv_running s" and "sv_conns s = [Open demo_client]"
    and "lru_get demo_lru (client_identifier demo_x509 demo_client) (as_received_nonce_map (sv_app s)) =
      Some (replicate 16 1)"
proof -
  have n: "validate_nonce (replicate 16 1)" by (simp add: validate_nonce_def)
  let ?s = "start_with_port demo_lru demo_info :: (nat \<times> (string \<times> bytes) list) http_service"
  let ?served = "serve demo_http demo_x509 demo_lru (\<lambda>_. 7) False demo_client POST ''/api/localsend/v3/nonce''
      (hr_body (demo_nonce_request (replicate 16 1))) (app_state_new demo_lru demo_info)"
  note run = demo_svc_run_def demo_svc_env_def start_with_port_def start_server_with_addr_def
    listener_of_def listener_failed_def set_listener_def create_tls_config_def verifier_try_new_def
    accept_connection_def tls_handshake_def demo_client_accepted connection_request_def stop_server_def
    shut_down_def
  define t where "t = \<lparr>sv_v4 = ListenerDropped, sv_v6 = ListenerDropped, sv_running = False,
    sv_app = snd ?served, sv_conns = [Open demo_client], sv_responses = [(0, fst ?served)]\<rparr>"
  have "svc_run demo_svc_env demo_svc_run ?s = Some t"
    unfolding t_def
    by (simp add: run split: prod.split)
  moreover have "lru_get demo_lru (client_identifier demo_x509 demo_client) (as_received_nonce_map (sv_app t)) =
      Some (replicate 16 1)"
    unfolding t_def http_service.select_convs demo_serve_nonce [OF n] by (simp add: demo_lru_hit)
  ultimately show thesis using that [of t] by (simp add: t_def)
qed

lemma svc_reachable_new [simp]: "svc_reachable E info (start_with_port (se_lru E) info)"
  by (simp add: svc_reachable_def reach_init)


section \<open>The end of the service\<close>

lemma stopped_step:
  assumes "sv_v4 s = ListenerDropped \<and> sv_v6 s = ListenerDropped \<and> \<not> sv_running s" and "svc_next E a s = Some s'"
  shows "sv_v4 s' = ListenerDropped \<and> sv_v6 s' = ListenerDropped \<and> \<not> sv_running s' \<and>
    length (sv_conns s') = length (sv_conns s)"
  using assms
  by (cases a)
    (auto simp: start_server_with_addr_def accept_failed_def accept_connection_def tls_handshake_def
      connection_request_def stop_server_def listener_of_def
      split: if_splits ip_family.splits connection.splits prod.splits option.splits sum.splits)

lemma stopped_run:
  assumes "sv_v4 s = ListenerDropped \<and> sv_v6 s = ListenerDropped \<and> \<not> sv_running s" and "svc_run E as s = Some s'"
  shows "length (sv_conns s') = length (sv_conns s)"
  using assms
proof (induction as arbitrary: s)
  case (Cons a as)
  then obtain t where "svc_next E a s = Some t" "svc_run E as t = Some s'" by (auto split: option.splits)
  with Cons stopped_step [of s E a t] show ?case by auto
qed simp

definition dropped_when_over :: "'m http_service \<Rightarrow> bool" where
  "dropped_when_over s \<longleftrightarrow> sv_running s \<or> sv_v4 s = ListenerDropped \<and> sv_v6 s = ListenerDropped"

lemma dropped_when_over_step: "dropped_when_over s \<Longrightarrow> svc_next E a s = Some s' \<Longrightarrow> dropped_when_over s'"
  by (cases a)
    (auto simp: dropped_when_over_def start_server_with_addr_def accept_failed_def accept_connection_def
      tls_handshake_def connection_request_def stop_server_def listener_of_def listener_failed_def
      set_listener_def shut_down_def
      split: if_splits ip_family.splits connection.splits prod.splits option.splits sum.splits)

lemma dropped_when_over_new: "dropped_when_over (start_with_port Z info)"
  by (simp add: dropped_when_over_def start_with_port_def)

interpretation lifecycle: inductive_invariant "\<lambda>s. s = start_with_port (se_lru E) info" "svc_step E"
  dropped_when_over for E info
  by unfold_locales (auto simp: dropped_when_over_new intro: dropped_when_over_step elim!: svc_stepE)

text \<open>
  When the service is over, because it was stopped or because its IPv4 listener failed, no connection
  is accepted any more, but the ones that are open are still served; a failure of the IPv6
  listener changes nothing for IPv4.
\<close>

theorem over_service_keeps_connections:
  assumes "svc_reachable E info s"
  shows "(\<not> sv_running s \<longrightarrow> svc_run E as s = Some s' \<longrightarrow> length (sv_conns s') = length (sv_conns s)) \<and>
    (i < length (sv_conns s) \<and> sv_conns s ! i = Open client \<longrightarrow>
      (\<exists>s''. svc_next E (Serve rng i meth path body) s = Some s'' \<and>
         sv_responses s'' = sv_responses s @ [(i, fst (serve (se_http E) (se_x509 E) (se_lru E) rng
           (se_legacy E) client meth path body (sv_app s)))])) \<and>
    (sv_running s \<and> svc_next E (StartListener fam False) s = Some t \<longrightarrow>
      (sv_running t \<longleftrightarrow> fam = IPv6) \<and> (fam = IPv6 \<longrightarrow> sv_v4 t = sv_v4 s))"
proof (intro conjI impI)
  assume "\<not> sv_running s" and "svc_run E as s = Some s'"
  moreover have "dropped_when_over s"
    using lifecycle.holds assms unfolding svc_reachable_def .
  ultimately show "length (sv_conns s') = length (sv_conns s)"
    using stopped_run by (auto simp: dropped_when_over_def)
next
  assume "i < length (sv_conns s) \<and> sv_conns s ! i = Open client"
  then show "\<exists>s''. svc_next E (Serve rng i meth path body) s = Some s'' \<and>
      sv_responses s'' = sv_responses s @ [(i, fst (serve (se_http E) (se_x509 E) (se_lru E) rng
        (se_legacy E) client meth path body (sv_app s)))]"
    by (simp add: connection_request_def split: prod.split)
qed (auto simp: start_server_with_addr_def listener_failed_def shut_down_def split: if_splits ip_family.splits)

theorem over_service_keeps_connections_witness:
  "\<exists>s. svc_run demo_svc_env demo_svc_run (start_with_port demo_lru demo_info) = Some s \<and> \<not> sv_running s \<and>
     svc_run demo_svc_env [Accept IPv4 demo_address demo_handshake] s = None \<and>
     (\<exists>s''. svc_next demo_svc_env (Serve (\<lambda>_. 7) 0 GET ''/'' None) s = Some s'')"
proof -
  obtain s where s: "svc_run demo_svc_env demo_svc_run (start_with_port demo_lru demo_info) = Some s"
    "\<not> sv_running s" "sv_conns s = [Open demo_client]"
    using demo_svc by blast
  have "svc_reachable demo_svc_env demo_info (start_with_port demo_lru demo_info)"
    using svc_reachable_new [of demo_svc_env demo_info] by (simp add: demo_svc_env_def)
  with s(1) have r: "svc_reachable demo_svc_env demo_info s" by (rule svc_run_reachable)
  have "svc_run demo_svc_env [Accept IPv4 demo_address demo_handshake] s \<noteq> Some t" for t
  proof
    assume t: "svc_run demo_svc_env [Accept IPv4 demo_address demo_handshake] s = Some t"
    then have "length (sv_conns t) = length (sv_conns s)"
      using over_service_keeps_connections [OF r] s(2) by blast
    moreover have "length (sv_conns t) = Suc (length (sv_conns s))"
      using t by (auto simp: accept_connection_def split: if_splits)
    ultimately show False by simp
  qed
  moreover have "\<exists>s''. svc_next demo_svc_env (Serve (\<lambda>_. 7) 0 GET ''/'' None) s = Some s''"
    using over_service_keeps_connections [OF r, of _ _ 0 demo_client "\<lambda>_. 7" GET "''/''" None IPv6 s] s(3) by auto
  ultimately show ?thesis using s by auto
qed

end
