(* ===== verification/Signaling_Client.thy ===== *)
theory Signaling_Client
  imports Signaling_Msg Transition Crypto
begin

text \<open>
  The client of the signaling server (core/src/webrtc/signaling.rs): \<open>connect\<close> with its sending and
  its receiving task, the listener that \<open>start_listener\<close> spawns, and the callbacks that wait for
  an answer. The tasks, the function \<open>connect\<close> and the application take steps that interleave;
  a send into a full channel is not enabled.
\<close>

section \<open>State\<close>

text \<open>What the websocket delivers: a text, anything else, or an error of the stream.\<close>

datatype frame = TextFrame string | OtherFrame

text \<open>The receiving task: reading, sending the client of a Hello to \<open>connect\<close>, sending a message to
  the listener, or ended, which drops both of its senders.\<close>

datatype reader_phase =
    Reading
  | ToConnect client_info ws_server_message
  | ToListener ws_server_message
  | ReaderEnded

text \<open>The function \<open>connect\<close>: waiting for a client, with a client but its receiver not dropped yet,
  returned, or panicked at the \<open>unwrap\<close>.\<close>

datatype connect_phase =
    Waiting
  | Took client_info
  | Connected client_info
  | ConnectPanicked

datatype listener_phase =
    NotStarted
  | Listening
  | ToApp ws_server_message
  | ListenerEnded
  | ListenerPanicked

text \<open>The sending task: waiting for a message, writing it, or ended.\<close>

datatype sender_phase = SenderWaiting | SenderWriting ws_client_message | SenderEnded

datatype written = WrittenText ws_client_message | WrittenPing

text \<open>A callback that was registered: its session, whether the one who waits is still there, and the
  description it was called with.\<close>

record answer_slot =
  sl_session :: string
  sl_alive :: bool
  sl_answer :: "string option"

text \<open>\<open>sc_arrived\<close>: every frame the server sent so far, of which \<open>sc_incoming\<close> is still unread;
  \<open>sc_on_answer\<close>: the map from sessions to callbacks, which are numbered in the order of their
  registration; \<open>sc_app_got\<close>: what the application took; \<open>sc_sent\<close>: what the application sent.\<close>

record sig_client =
  sc_arrived :: "frame list"
  sc_incoming :: "frame list"
  sc_stream_closed :: bool
  sc_reader :: reader_phase
  sc_client_queue :: "client_info list"
  sc_queue :: "ws_server_message list"
  sc_connect :: connect_phase
  sc_listener :: listener_phase
  sc_on_answer :: "(string \<times> nat) list"
  sc_slots :: "answer_slot list"
  sc_app_queue :: "ws_server_message list"
  sc_app_open :: bool
  sc_app_got :: "ws_server_message list"
  sc_sent :: "ws_client_message list"
  sc_tx_open :: bool
  sc_send_queue :: "ws_client_message list"
  sc_sender :: sender_phase
  sc_written :: "written list"

definition sig_client_new :: sig_client where
  "sig_client_new =
     \<lparr>sc_arrived = [], sc_incoming = [], sc_stream_closed = False, sc_reader = Reading,
      sc_client_queue = [], sc_queue = [], sc_connect = Waiting, sc_listener = NotStarted,
      sc_on_answer = [], sc_slots = [], sc_app_queue = [], sc_app_open = True, sc_app_got = [],
      sc_sent = [], sc_tx_open = True, sc_send_queue = [], sc_sender = SenderWaiting, sc_written = []\<rparr>"

text \<open>The URL that the connection is opened with.\<close>

definition connect_uri :: "crypto_lib \<Rightarrow> wire_lib \<Rightarrow> string \<Rightarrow> client_info_without_id \<Rightarrow> string" where
  "connect_uri C L uri info =
     uri @ ''?d='' @ b64_encode C (utf8 (to_text L enc_client_info_without_id info))"

section \<open>The receiving task\<close>

definition parse_frame :: "wire_lib \<Rightarrow> frame \<Rightarrow> ws_server_message option" where
  "parse_frame L f = (case f of
      TextFrame text \<Rightarrow> from_text L (dec_ws_server_message L) text
    | OtherFrame \<Rightarrow> None)"

definition on_frame :: "wire_lib \<Rightarrow> frame \<Rightarrow> reader_phase" where
  "on_frame L f = (case parse_frame L f of
      None \<Rightarrow> Reading
    | Some message \<Rightarrow>
        (case message of
           Hello client peers \<Rightarrow> ToConnect client message
         | _ \<Rightarrow> ToListener message))"

definition sig_read :: "wire_lib \<Rightarrow> sig_client \<Rightarrow> sig_client option" where
  "sig_read L s =
     (case (sc_reader s, sc_incoming s) of
        (Reading, f # fs) \<Rightarrow> Some (s\<lparr>sc_incoming := fs, sc_reader := on_frame L f\<rparr>)
      | _ \<Rightarrow> None)"

definition client_rx_open :: "sig_client \<Rightarrow> bool" where
  "client_rx_open s \<longleftrightarrow> (case sc_connect s of Waiting \<Rightarrow> True | Took _ \<Rightarrow> True | _ \<Rightarrow> False)"

text \<open>The receiver of the messages lives in \<open>connect\<close>, then in the connection it returned, then in
  the listener.\<close>

definition queue_rx_open :: "sig_client \<Rightarrow> bool" where
  "queue_rx_open s \<longleftrightarrow> sc_connect s \<noteq> ConnectPanicked \<and> sc_listener s \<noteq> ListenerPanicked"

text \<open>When \<open>connect\<close> no longer listens, the closure returns and the message is not sent on.\<close>

definition sig_to_connect :: "sig_client \<Rightarrow> sig_client option" where
  "sig_to_connect s =
     (case sc_reader s of
        ToConnect client message \<Rightarrow>
          if \<not> client_rx_open s then Some (s\<lparr>sc_reader := Reading\<rparr>)
          else if length (sc_client_queue s) < 1
          then Some (s\<lparr>sc_client_queue := sc_client_queue s @ [client], sc_reader := ToListener message\<rparr>)
          else None
      | _ \<Rightarrow> None)"

definition sig_to_listener :: "sig_client \<Rightarrow> sig_client option" where
  "sig_to_listener s =
     (case sc_reader s of
        ToListener message \<Rightarrow>
          if \<not> queue_rx_open s then Some (s\<lparr>sc_reader := Reading\<rparr>)
          else if length (sc_queue s) < 1
          then Some (s\<lparr>sc_queue := sc_queue s @ [message], sc_reader := Reading\<rparr>)
          else None
      | _ \<Rightarrow> None)"

definition sig_reader_end :: "sig_client \<Rightarrow> sig_client option" where
  "sig_reader_end s =
     (if sc_reader s = Reading \<and> sc_incoming s = [] \<and> sc_stream_closed s
      then Some (s\<lparr>sc_reader := ReaderEnded\<rparr>) else None)"

section \<open>connect\<close>

text \<open>\<open>client_rx.recv().await.unwrap()\<close>\<close>

definition sig_connect_take :: "sig_client \<Rightarrow> sig_client option" where
  "sig_connect_take s =
     (if sc_connect s = Waiting then
        (case sc_client_queue s of
           client # rest \<Rightarrow> Some (s\<lparr>sc_client_queue := rest, sc_connect := Took client\<rparr>)
         | [] \<Rightarrow> if sc_reader s = ReaderEnded
                 then Some (s\<lparr>sc_connect := ConnectPanicked, sc_queue := []\<rparr>) else None)
      else None)"

definition sig_connect_return :: "sig_client \<Rightarrow> sig_client option" where
  "sig_connect_return s =
     (case sc_connect s of
        Took client \<Rightarrow> Some (s\<lparr>sc_connect := Connected client, sc_client_queue := []\<rparr>)
      | _ \<Rightarrow> None)"

section \<open>The listener\<close>

definition sig_start_listener :: "sig_client \<Rightarrow> sig_client option" where
  "sig_start_listener s =
     (case (sc_connect s, sc_listener s) of
        (Connected _, NotStarted) \<Rightarrow> Some (s\<lparr>sc_listener := Listening\<rparr>)
      | _ \<Rightarrow> None)"

text \<open>The callback of the answer's session is removed and called; it panics when nobody waits for the
  answer any more, and the listener ends with it.\<close>

definition call_back :: "ws_server_sdp_message \<Rightarrow> sig_client \<Rightarrow> sig_client" where
  "call_back sdp s =
     (case map_of (sc_on_answer s) (sm_session_id sdp) of
        None \<Rightarrow> s\<lparr>sc_listener := ToApp (Answer sdp)\<rparr>
      | Some i \<Rightarrow>
          (let s' = s\<lparr>sc_on_answer := AList.delete (sm_session_id sdp) (sc_on_answer s)\<rparr>
           in if sl_alive (sc_slots s ! i)
              then s'\<lparr>sc_slots := (sc_slots s)[i := (sc_slots s ! i)\<lparr>sl_answer := Some (sm_sdp sdp)\<rparr>],
                     sc_listener := ToApp (Answer sdp)\<rparr>
              else s'\<lparr>sc_listener := ListenerPanicked, sc_queue := []\<rparr>))"

definition sig_listen :: "sig_client \<Rightarrow> sig_client option" where
  "sig_listen s =
     (if sc_listener s = Listening then
        (case sc_queue s of
           message # rest \<Rightarrow>
             (case message of
                Answer sdp \<Rightarrow> Some (call_back sdp (s\<lparr>sc_queue := rest\<rparr>))
              | _ \<Rightarrow> Some (s\<lparr>sc_queue := rest, sc_listener := ToApp message\<rparr>))
         | [] \<Rightarrow> if sc_reader s = ReaderEnded then Some (s\<lparr>sc_listener := ListenerEnded\<rparr>) else None)
      else None)"

definition APP_CAPACITY :: nat where
  "APP_CAPACITY = 16"

text \<open>\<open>tx.send(message).await.unwrap()\<close>\<close>

definition sig_to_app :: "sig_client \<Rightarrow> sig_client option" where
  "sig_to_app s =
     (case sc_listener s of
        ToApp message \<Rightarrow>
          if \<not> sc_app_open s then Some (s\<lparr>sc_listener := ListenerPanicked, sc_queue := []\<rparr>)
          else if length (sc_app_queue s) < APP_CAPACITY
          then Some (s\<lparr>sc_app_queue := sc_app_queue s @ [message], sc_listener := Listening\<rparr>)
          else None
      | _ \<Rightarrow> None)"

section \<open>The application\<close>

definition sig_app_take :: "sig_client \<Rightarrow> sig_client option" where
  "sig_app_take s =
     (case sc_app_queue s of
        message # rest \<Rightarrow>
          if sc_app_open s
          then Some (s\<lparr>sc_app_queue := rest, sc_app_got := sc_app_got s @ [message]\<rparr>) else None
      | [] \<Rightarrow> None)"

text \<open>\<open>on_answer\<close>: a callback of the same session is replaced.\<close>

definition sig_on_answer :: "string \<Rightarrow> sig_client \<Rightarrow> sig_client option" where
  "sig_on_answer session_id s =
     (if sc_listener s = NotStarted then None
      else Some (s\<lparr>sc_on_answer := AList.update session_id (length (sc_slots s)) (sc_on_answer s),
                  sc_slots := sc_slots s @ [\<lparr>sl_session = session_id, sl_alive = True, sl_answer = None\<rparr>]\<rparr>))"

text \<open>The one who waits for an answer goes away (\<open>send_offer\<close> is cancelled).\<close>

definition sig_drop_answer :: "nat \<Rightarrow> sig_client \<Rightarrow> sig_client option" where
  "sig_drop_answer i s =
     (if i < length (sc_slots s)
      then Some (s\<lparr>sc_slots := (sc_slots s)[i := (sc_slots s ! i)\<lparr>sl_alive := False\<rparr>]\<rparr>) else None)"

section \<open>The sending task\<close>

text \<open>\<open>send_update\<close>, \<open>send_offer\<close> and \<open>send_answer\<close> of both connection types.\<close>

definition update_message :: "client_info_without_id \<Rightarrow> ws_client_message" where
  "update_message info = ClientUpdate info"

definition offer_message :: "string \<Rightarrow> uuid \<Rightarrow> string \<Rightarrow> ws_client_message" where
  "offer_message session_id target sdp =
     ClientOffer \<lparr>cm_session_id = session_id, cm_target = target, cm_sdp = sdp\<rparr>"

definition answer_message :: "string \<Rightarrow> uuid \<Rightarrow> string \<Rightarrow> ws_client_message" where
  "answer_message session_id target sdp =
     ClientAnswer \<lparr>cm_session_id = session_id, cm_target = target, cm_sdp = sdp\<rparr>"

text \<open>The send fails when the sending task has ended.\<close>

definition sig_send :: "ws_client_message \<Rightarrow> sig_client \<Rightarrow> sig_client option" where
  "sig_send message s =
     (if sc_tx_open s \<and> sc_sender s \<noteq> SenderEnded \<and> length (sc_send_queue s) < 1
      then Some (s\<lparr>sc_sent := sc_sent s @ [message], sc_send_queue := sc_send_queue s @ [message]\<rparr>)
      else None)"

definition sig_sender_take :: "sig_client \<Rightarrow> sig_client option" where
  "sig_sender_take s =
     (case (sc_sender s, sc_send_queue s) of
        (SenderWaiting, message # rest) \<Rightarrow>
          Some (s\<lparr>sc_send_queue := rest, sc_sender := SenderWriting message\<rparr>)
      | _ \<Rightarrow> None)"

definition sig_sender_write :: "bool \<Rightarrow> sig_client \<Rightarrow> sig_client option" where
  "sig_sender_write ok s =
     (case sc_sender s of
        SenderWriting message \<Rightarrow>
          Some (if ok
                then s\<lparr>sc_written := sc_written s @ [WrittenText message], sc_sender := SenderWaiting\<rparr>
                else s\<lparr>sc_sender := SenderEnded, sc_send_queue := []\<rparr>)
      | _ \<Rightarrow> None)"

text \<open>The timeout covers waiting for a message and writing it. When it expires the future is dropped,
  with the message it may hold, and a ping is written.\<close>

definition sig_sender_timeout :: "bool \<Rightarrow> sig_client \<Rightarrow> sig_client option" where
  "sig_sender_timeout ok s =
     (if sc_sender s = SenderEnded then None
      else Some (if ok then s\<lparr>sc_written := sc_written s @ [WrittenPing], sc_sender := SenderWaiting\<rparr>
                 else s\<lparr>sc_sender := SenderEnded, sc_send_queue := []\<rparr>))"

text \<open>The task ends when the connection was dropped and its channel is empty.\<close>

definition sig_sender_close :: "sig_client \<Rightarrow> sig_client option" where
  "sig_sender_close s =
     (if sc_sender s = SenderWaiting \<and> sc_send_queue s = [] \<and>
         (\<not> sc_tx_open s \<or> sc_connect s = ConnectPanicked)
      then Some (s\<lparr>sc_sender := SenderEnded\<rparr>) else None)"

section \<open>The step relation\<close>

datatype sig_action =
    Arrive frame | CloseStream
  | Read | DeliverClient | DeliverMessage | ReaderEnd
  | ConnectTake | ConnectReturn
  | StartListener | Listen | Forward
  | AppTake | AppClose | OnAnswer string | DropAnswer nat
  | Send ws_client_message | DropConnection
  | SenderTake | SenderWrite bool | SenderTimeout bool | SenderClose

fun sig_next :: "wire_lib \<Rightarrow> sig_action \<Rightarrow> sig_client \<Rightarrow> sig_client option" where
  "sig_next L (Arrive f) s =
     (if sc_stream_closed s then None
      else Some (s\<lparr>sc_arrived := sc_arrived s @ [f], sc_incoming := sc_incoming s @ [f]\<rparr>))"
| "sig_next L CloseStream s = Some (s\<lparr>sc_stream_closed := True\<rparr>)"
| "sig_next L Read s = sig_read L s"
| "sig_next L DeliverClient s = sig_to_connect s"
| "sig_next L DeliverMessage s = sig_to_listener s"
| "sig_next L ReaderEnd s = sig_reader_end s"
| "sig_next L ConnectTake s = sig_connect_take s"
| "sig_next L ConnectReturn s = sig_connect_return s"
| "sig_next L StartListener s = sig_start_listener s"
| "sig_next L Listen s = sig_listen s"
| "sig_next L Forward s = sig_to_app s"
| "sig_next L AppTake s = sig_app_take s"
| "sig_next L AppClose s = Some (s\<lparr>sc_app_open := False\<rparr>)"
| "sig_next L (OnAnswer session_id) s = sig_on_answer session_id s"
| "sig_next L (DropAnswer i) s = sig_drop_answer i s"
| "sig_next L (Send message) s = sig_send message s"
| "sig_next L DropConnection s = Some (s\<lparr>sc_tx_open := False\<rparr>)"
| "sig_next L SenderClose s = sig_sender_close s"
| "sig_next L SenderTake s = sig_sender_take s"
| "sig_next L (SenderWrite ok) s = sig_sender_write ok s"
| "sig_next L (SenderTimeout ok) s = sig_sender_timeout ok s"

inductive sig_step :: "wire_lib \<Rightarrow> sig_client \<Rightarrow> sig_client \<Rightarrow> bool" for L :: wire_lib where
  sig_stepI: "sig_next L a s = Some s' \<Longrightarrow> sig_step L s s'"

inductive_cases sig_stepE: "sig_step L s s'"

definition sig_reachable :: "wire_lib \<Rightarrow> sig_client \<Rightarrow> bool" where
  "sig_reachable L = reach (\<lambda>s. s = sig_client_new) (sig_step L)"

fun sig_run :: "wire_lib \<Rightarrow> sig_action list \<Rightarrow> sig_client \<Rightarrow> sig_client option" where
  "sig_run L [] s = Some s"
| "sig_run L (a # as) s =
     (case sig_next L a s of Some s' \<Rightarrow> sig_run L as s' | None \<Rightarrow> None)"

lemma sig_run_reachable:
  "sig_run L as s = Some s' \<Longrightarrow> sig_reachable L s \<Longrightarrow> sig_reachable L s'"
proof (induction as arbitrary: s)
  case (Cons a as)
  then obtain t where "sig_next L a s = Some t" and t: "sig_run L as t = Some s'"
    by (auto split: option.splits)
  then have "sig_reachable L t"
    using Cons.prems(2) unfolding sig_reachable_def by (blast intro: reach_step sig_stepI)
  with Cons.IH t show ?case by blast
qed simp

lemma sig_reachable_new [simp]: "sig_reachable L sig_client_new"
  by (simp add: sig_reachable_def reach_init)

end
