(* ===== verification/Signaling_Client_Inv.thy ===== *)
theory Signaling_Client_Inv
  imports Signaling_Client
begin

text \<open>
  The way of a message through the client of the signaling server: an invariant on everything
  that is under way, and what \<open>connect\<close> needs to return.
\<close>

section \<open>Messages under way\<close>

definition messages :: "wire_lib \<Rightarrow> frame list \<Rightarrow> ws_server_message list" where
  "messages L fs = List.map_filter (parse_frame L) fs"

fun is_hello :: "ws_server_message \<Rightarrow> bool" where
  "is_hello (Hello _ _) \<longleftrightarrow> True"
| "is_hello _ \<longleftrightarrow> False"

fun reader_hand :: "reader_phase \<Rightarrow> ws_server_message list" where
  "reader_hand (ToConnect c m) = [m]"
| "reader_hand (ToListener m) = [m]"
| "reader_hand _ = []"

fun listener_hand :: "listener_phase \<Rightarrow> ws_server_message list" where
  "listener_hand (ToApp m) = [m]"
| "listener_hand _ = []"

definition pipeline :: "wire_lib \<Rightarrow> sig_client \<Rightarrow> ws_server_message list" where
  "pipeline L s = sc_app_got s @ sc_app_queue s @ listener_hand (sc_listener s) @ sc_queue s @
     reader_hand (sc_reader s) @ messages L (sc_incoming s)"

lemma messages_simps [simp]:
  "messages L [] = []"
  "messages L (f # fs) = (case parse_frame L f of None \<Rightarrow> messages L fs | Some m \<Rightarrow> m # messages L fs)"
  "messages L (fs @ gs) = messages L fs @ messages L gs"
  by (simp_all add: messages_def map_filter_simps split: option.split)
    (induction fs; simp add: map_filter_simps split: option.split)

lemma on_frame_hand: "messages L (f # fs) = reader_hand (on_frame L f) @ messages L fs"
  by (simp add: on_frame_def split: option.split ws_server_message.split)

lemma on_frame_hello: "on_frame L f = ToConnect c m \<Longrightarrow> \<exists>ps. m = Hello c ps"
  by (auto simp: on_frame_def split: option.splits ws_server_message.splits)

lemmas sig_op_defs = sig_read_def sig_to_connect_def sig_to_listener_def sig_reader_end_def
  sig_connect_take_def sig_connect_return_def sig_start_listener_def sig_listen_def sig_to_app_def
  sig_app_take_def sig_on_answer_def sig_drop_answer_def sig_send_def sig_sender_close_def
  sig_sender_take_def sig_sender_write_def sig_sender_timeout_def

lemmas sig_op_splits = if_splits list.splits option.splits reader_phase.splits connect_phase.splits
  listener_phase.splits sender_phase.splits

section \<open>Order and completeness\<close>

abbreviation no_hellos :: "ws_server_message list \<Rightarrow> ws_server_message list" where
  "no_hellos \<equiv> filter (\<lambda>m. \<not> is_hello m)"

definition fifo_inv :: "wire_lib \<Rightarrow> sig_client \<Rightarrow> bool" where
  "fifo_inv L s \<longleftrightarrow>
     (\<forall>c m. sc_reader s = ToConnect c m \<longrightarrow> is_hello m) \<and>
     (client_rx_open s \<longrightarrow> sc_listener s = NotStarted) \<and>
     set (pipeline L s) \<subseteq> set (messages L (sc_arrived s)) \<and>
     (queue_rx_open s \<longrightarrow> no_hellos (pipeline L s) = no_hellos (messages L (sc_arrived s)))"

lemma call_back_pipeline:
  "pipeline L (call_back sdp s) =
   (if sc_listener (call_back sdp s) = ListenerPanicked
    then sc_app_got s @ sc_app_queue s @ reader_hand (sc_reader s) @ messages L (sc_incoming s)
    else sc_app_got s @ sc_app_queue s @ [Answer sdp] @ sc_queue s @ reader_hand (sc_reader s) @ messages L (sc_incoming s))"
  by (simp add: call_back_def pipeline_def Let_def split: option.split)

lemma call_back_simps [simp]:
  "sc_reader (call_back sdp s) = sc_reader s" "sc_connect (call_back sdp s) = sc_connect s"
  "sc_arrived (call_back sdp s) = sc_arrived s" "sc_incoming (call_back sdp s) = sc_incoming s"
  "sc_app_got (call_back sdp s) = sc_app_got s" "sc_app_queue (call_back sdp s) = sc_app_queue s"
  "sc_client_queue (call_back sdp s) = sc_client_queue s"
  "sc_sent (call_back sdp s) = sc_sent s" "sc_send_queue (call_back sdp s) = sc_send_queue s"
  "sc_sender (call_back sdp s) = sc_sender s" "sc_written (call_back sdp s) = sc_written s"
  by (simp_all add: call_back_def Let_def split: option.split)

lemma call_back_listener:
  "sc_listener (call_back sdp s) = ListenerPanicked \<or> sc_listener (call_back sdp s) = ToApp (Answer sdp)"
  by (simp add: call_back_def Let_def split: option.split)

text \<open>The steps that do not touch the receiving side.\<close>

definition same_receiving :: "sig_client \<Rightarrow> sig_client \<Rightarrow> bool" where
  "same_receiving s s' \<longleftrightarrow>
     sc_arrived s' = sc_arrived s \<and> sc_incoming s' = sc_incoming s \<and> sc_reader s' = sc_reader s \<and>
     sc_client_queue s' = sc_client_queue s \<and> sc_queue s' = sc_queue s \<and>
     sc_connect s' = sc_connect s \<and> sc_listener s' = sc_listener s \<and>
     sc_app_queue s' = sc_app_queue s \<and> sc_app_got s' = sc_app_got s"

lemma same_receiving_fields:
  "same_receiving s (s\<lparr>sc_stream_closed := b\<rparr>)" "same_receiving s (s\<lparr>sc_app_open := b\<rparr>)"
  "same_receiving s (s\<lparr>sc_tx_open := b\<rparr>)"
  by (simp_all add: same_receiving_def)

lemma same_receiving_on_answer: "sig_on_answer i s = Some s' \<Longrightarrow> same_receiving s s'"
  by (auto simp: same_receiving_def sig_on_answer_def split: if_splits)

lemma same_receiving_drop: "sig_drop_answer k s = Some s' \<Longrightarrow> same_receiving s s'"
  by (auto simp: same_receiving_def sig_drop_answer_def split: if_splits)

lemma same_receiving_send: "sig_send m s = Some s' \<Longrightarrow> same_receiving s s'"
  by (auto simp: same_receiving_def sig_send_def split: if_splits)

lemma same_receiving_take: "sig_sender_take s = Some s' \<Longrightarrow> same_receiving s s'"
  by (auto simp: same_receiving_def sig_sender_take_def split: sender_phase.splits list.splits)

lemma same_receiving_write: "sig_sender_write ok s = Some s' \<Longrightarrow> same_receiving s s'"
  by (auto simp: same_receiving_def sig_sender_write_def split: sender_phase.splits)

lemma same_receiving_timeout: "sig_sender_timeout ok s = Some s' \<Longrightarrow> same_receiving s s'"
  by (auto simp: same_receiving_def sig_sender_timeout_def split: if_splits)

lemma same_receiving_close: "sig_sender_close s = Some s' \<Longrightarrow> same_receiving s s'"
  by (auto simp: same_receiving_def sig_sender_close_def split: if_splits)

lemmas same_receiving_steps = same_receiving_on_answer same_receiving_drop same_receiving_send
  same_receiving_take same_receiving_write same_receiving_timeout same_receiving_close

lemma same_receiving_inv:
  assumes "same_receiving s s'"
  shows "pipeline L s' = pipeline L s" "queue_rx_open s' = queue_rx_open s"
    "client_rx_open s' = client_rx_open s" "fifo_inv L s' = fifo_inv L s"
  using assms
  by (simp_all add: same_receiving_def pipeline_def queue_rx_open_def client_rx_open_def fifo_inv_def)

lemmas rx_defs = client_rx_open_def queue_rx_open_def

text \<open>A step that only moves messages along keeps the invariant, and so does one that closes the
  receiver of the queue and forgets some.\<close>

lemma fifo_keep:
  assumes "fifo_inv L s" and "pipeline L s' = pipeline L s" and "sc_arrived s' = sc_arrived s"
    and "queue_rx_open s' \<Longrightarrow> queue_rx_open s" and "client_rx_open s' \<Longrightarrow> sc_listener s' = NotStarted"
    and "\<And>c m. sc_reader s' = ToConnect c m \<Longrightarrow> is_hello m"
  shows "fifo_inv L s'"
  using assms by (simp add: fifo_inv_def)

lemma fifo_forget:
  assumes "fifo_inv L s" and "set (pipeline L s') \<subseteq> set (pipeline L s)" and "sc_arrived s' = sc_arrived s"
    and "\<not> queue_rx_open s'" and "client_rx_open s' \<Longrightarrow> sc_listener s' = NotStarted"
    and "\<And>c m. sc_reader s' = ToConnect c m \<Longrightarrow> is_hello m"
  shows "fifo_inv L s'"
  using assms by (auto simp: fifo_inv_def)

lemma fifo_inv_dest:
  assumes "fifo_inv L s"
  shows "client_rx_open s \<Longrightarrow> sc_listener s = NotStarted"
    and "sc_reader s = ToConnect c m \<Longrightarrow> is_hello m"
  using assms by (simp_all add: fifo_inv_def)

lemma fifo_arrive:
  "fifo_inv L s \<Longrightarrow> fifo_inv L (s\<lparr>sc_arrived := sc_arrived s @ [f], sc_incoming := sc_incoming s @ [f]\<rparr>)"
  by (auto simp: fifo_inv_def pipeline_def rx_defs)

lemma fifo_read:
  assumes inv: "fifo_inv L s" and "sig_read L s = Some s'"
  shows "fifo_inv L s'"
proof -
  obtain f fs where s: "sc_reader s = Reading" "sc_incoming s = f # fs"
    "s' = s\<lparr>sc_incoming := fs, sc_reader := on_frame L f\<rparr>"
    using assms(2) by (auto simp: sig_read_def split: reader_phase.splits list.splits)
  show ?thesis
  proof (rule fifo_keep [OF inv])
    show "pipeline L s' = pipeline L s"
      using on_frame_hand [of L f fs] by (simp add: pipeline_def s del: messages_simps(2))
  qed (use s fifo_inv_dest [OF inv] in \<open>auto simp: rx_defs dest: on_frame_hello\<close>)
qed

lemma fifo_to_connect:
  assumes inv: "fifo_inv L s" and "sig_to_connect s = Some s'"
  shows "fifo_inv L s'"
proof -
  obtain c m where r: "sc_reader s = ToConnect c m"
    using assms(2) by (auto simp: sig_to_connect_def split: reader_phase.splits)
  then have hello: "is_hello m" using fifo_inv_dest(2) [OF inv] by simp
  show ?thesis
  proof (cases "client_rx_open s")
    case True
    then have s': "s' = s\<lparr>sc_client_queue := sc_client_queue s @ [c], sc_reader := ToListener m\<rparr>"
      using assms(2) r by (simp add: sig_to_connect_def split: if_splits)
    show ?thesis
      by (rule fifo_keep [OF inv]) (use r fifo_inv_dest [OF inv] in \<open>simp_all add: s' pipeline_def rx_defs\<close>)
  next
    case False
    then have s': "s' = s\<lparr>sc_reader := Reading\<rparr>"
      using assms(2) r by (simp add: sig_to_connect_def)
    have "set (pipeline L s') \<subseteq> set (pipeline L s)" "no_hellos (pipeline L s') = no_hellos (pipeline L s)"
      using r hello by (auto simp: pipeline_def s')
    then show ?thesis using inv False by (auto simp: fifo_inv_def s' rx_defs)
  qed
qed

lemma fifo_to_listener:
  assumes inv: "fifo_inv L s" and "sig_to_listener s = Some s'"
  shows "fifo_inv L s'"
proof -
  obtain m where r: "sc_reader s = ToListener m"
    using assms(2) by (auto simp: sig_to_listener_def split: reader_phase.splits)
  show ?thesis
  proof (cases "queue_rx_open s")
    case True
    then have s': "s' = s\<lparr>sc_queue := sc_queue s @ [m], sc_reader := Reading\<rparr>"
      using assms(2) r by (simp add: sig_to_listener_def split: if_splits)
    show ?thesis
      by (rule fifo_keep [OF inv]) (use r fifo_inv_dest [OF inv] in \<open>simp_all add: s' pipeline_def rx_defs\<close>)
  next
    case False
    then have s': "s' = s\<lparr>sc_reader := Reading\<rparr>"
      using assms(2) r by (simp add: sig_to_listener_def)
    show ?thesis
      by (rule fifo_forget [OF inv])
        (use r False fifo_inv_dest [OF inv] in \<open>auto simp: s' pipeline_def rx_defs\<close>)
  qed
qed

lemma fifo_reader_end:
  assumes inv: "fifo_inv L s" and "sig_reader_end s = Some s'"
  shows "fifo_inv L s'"
proof -
  have s': "sc_reader s = Reading" "s' = s\<lparr>sc_reader := ReaderEnded\<rparr>"
    using assms(2) by (simp_all add: sig_reader_end_def split: if_splits)
  show ?thesis
    by (rule fifo_keep [OF inv]) (use s' fifo_inv_dest [OF inv] in \<open>simp_all add: pipeline_def rx_defs\<close>)
qed

lemma fifo_connect_take:
  assumes inv: "fifo_inv L s" and "sig_connect_take s = Some s'"
  shows "fifo_inv L s'"
proof (cases "sc_client_queue s")
  case Nil
  then have s': "sc_connect s = Waiting" "s' = s\<lparr>sc_connect := ConnectPanicked, sc_queue := []\<rparr>"
    using assms(2) by (simp_all add: sig_connect_take_def split: if_splits)
  show ?thesis
    by (rule fifo_forget [OF inv])
      (use s' fifo_inv_dest [OF inv] in \<open>auto simp: pipeline_def rx_defs\<close>)
next
  case (Cons c cs)
  then have s': "sc_connect s = Waiting" "s' = s\<lparr>sc_client_queue := cs, sc_connect := Took c\<rparr>"
    using assms(2) by (simp_all add: sig_connect_take_def split: if_splits)
  show ?thesis
    by (rule fifo_keep [OF inv]) (use s' fifo_inv_dest [OF inv] in \<open>simp_all add: pipeline_def rx_defs\<close>)
qed

lemma fifo_connect_return:
  assumes inv: "fifo_inv L s" and "sig_connect_return s = Some s'"
  shows "fifo_inv L s'"
proof -
  obtain c where s': "sc_connect s = Took c" "s' = s\<lparr>sc_connect := Connected c, sc_client_queue := []\<rparr>"
    using assms(2) by (auto simp: sig_connect_return_def split: connect_phase.splits)
  show ?thesis
    by (rule fifo_keep [OF inv]) (use s' fifo_inv_dest [OF inv] in \<open>simp_all add: pipeline_def rx_defs\<close>)
qed

lemma fifo_start:
  assumes inv: "fifo_inv L s" and "sig_start_listener s = Some s'"
  shows "fifo_inv L s'"
proof -
  obtain c where s': "sc_connect s = Connected c" "sc_listener s = NotStarted" "s' = s\<lparr>sc_listener := Listening\<rparr>"
    using assms(2) by (auto simp: sig_start_listener_def split: connect_phase.splits listener_phase.splits)
  show ?thesis
    by (rule fifo_keep [OF inv]) (use s' fifo_inv_dest [OF inv] in \<open>simp_all add: pipeline_def rx_defs\<close>)
qed

lemma fifo_to_app:
  assumes inv: "fifo_inv L s" and "sig_to_app s = Some s'"
  shows "fifo_inv L s'"
proof -
  obtain m where l: "sc_listener s = ToApp m"
    using assms(2) by (auto simp: sig_to_app_def split: listener_phase.splits)
  then have closed: "\<not> client_rx_open s" using fifo_inv_dest(1) [OF inv] by auto
  show ?thesis
  proof (cases "sc_app_open s")
    case True
    then have s': "s' = s\<lparr>sc_app_queue := sc_app_queue s @ [m], sc_listener := Listening\<rparr>"
      using assms(2) l by (simp add: sig_to_app_def split: if_splits)
    show ?thesis
      by (rule fifo_keep [OF inv])
        (use l closed fifo_inv_dest [OF inv] in \<open>simp_all add: s' pipeline_def rx_defs\<close>)
  next
    case False
    then have s': "s' = s\<lparr>sc_listener := ListenerPanicked, sc_queue := []\<rparr>"
      using assms(2) l by (simp add: sig_to_app_def)
    show ?thesis
      by (rule fifo_forget [OF inv])
        (use l closed fifo_inv_dest [OF inv] in \<open>auto simp: s' pipeline_def rx_defs\<close>)
  qed
qed

lemma fifo_app_take:
  assumes inv: "fifo_inv L s" and "sig_app_take s = Some s'"
  shows "fifo_inv L s'"
proof -
  obtain m rest where s': "sc_app_queue s = m # rest"
    "s' = s\<lparr>sc_app_queue := rest, sc_app_got := sc_app_got s @ [m]\<rparr>"
    using assms(2) by (auto simp: sig_app_take_def split: list.splits if_splits)
  show ?thesis
    by (rule fifo_keep [OF inv]) (use s' fifo_inv_dest [OF inv] in \<open>simp_all add: pipeline_def rx_defs\<close>)
qed

lemma fifo_call_back:
  assumes "fifo_inv L s" and "sc_listener s = Listening" and "sc_queue s = Answer sdp # rest"
  shows "fifo_inv L (call_back sdp (s\<lparr>sc_queue := rest\<rparr>))"
proof -
  let ?s = "call_back sdp (s\<lparr>sc_queue := rest\<rparr>)"
  have p: "pipeline L s = sc_app_got s @ sc_app_queue s @ Answer sdp # rest @ reader_hand (sc_reader s) @
      messages L (sc_incoming s)"
    using assms(2,3) by (simp add: pipeline_def)
  show ?thesis
    using assms(1,2) call_back_listener [of sdp "s\<lparr>sc_queue := rest\<rparr>"]
    unfolding fifo_inv_def call_back_pipeline p
    by (auto simp: rx_defs)
qed

lemma fifo_listen:
  assumes "fifo_inv L s" and "sig_listen s = Some s'"
  shows "fifo_inv L s'"
proof -
  have l: "sc_listener s = Listening" using assms(2) by (simp add: sig_listen_def split: if_splits)
  show ?thesis
  proof (cases "sc_queue s")
    case Nil
    with assms l show ?thesis
      by (auto simp: sig_listen_def fifo_inv_def pipeline_def rx_defs split: if_splits)
  next
    case (Cons m rest)
    show ?thesis
    proof (cases "\<exists>sdp. m = Answer sdp")
      case True
      then obtain sdp where "m = Answer sdp" by blast
      with fifo_call_back [OF assms(1) l] Cons assms(2) l show ?thesis by (simp add: sig_listen_def)
    next
      case False
      then have s': "s' = s\<lparr>sc_queue := rest, sc_listener := ToApp m\<rparr>"
        using assms(2) l Cons by (cases m) (simp_all add: sig_listen_def)
      then have "pipeline L s' = pipeline L s"
        using l Cons by (simp add: pipeline_def)
      with assms(1) s' l show ?thesis by (auto simp: fifo_inv_def rx_defs)
    qed
  qed
qed

lemma fifo_inv_next:
  assumes "fifo_inv L s" and "sig_next L a s = Some s'"
  shows "fifo_inv L s'"
  using assms(2)
  by (cases a)
    (auto simp: fifo_arrive [OF assms(1)] same_receiving_inv(4) [OF same_receiving_fields(1)] assms(1)
       same_receiving_inv(4) [OF same_receiving_fields(2)] same_receiving_inv(4) [OF same_receiving_fields(3)]
       split: if_splits
       intro: fifo_read [OF assms(1)] fifo_to_connect [OF assms(1)] fifo_to_listener [OF assms(1)]
       fifo_reader_end [OF assms(1)] fifo_connect_take [OF assms(1)] fifo_connect_return [OF assms(1)] fifo_start [OF assms(1)]
       fifo_listen [OF assms(1)] fifo_to_app [OF assms(1)] fifo_app_take [OF assms(1)]
       dest: same_receiving_steps [THEN same_receiving_inv(4), THEN iffD2, OF _ assms(1)])

lemma fifo_inv_new: "fifo_inv L sig_client_new"
  by (simp add: fifo_inv_def sig_client_new_def pipeline_def rx_defs)

interpretation sig_fifo: inductive_invariant "\<lambda>s. s = sig_client_new" "sig_step L" "fifo_inv L"
  for L :: wire_lib
  by unfold_locales (auto simp: fifo_inv_new intro: fifo_inv_next elim: sig_stepE)

section \<open>connect\<close>

fun hello_client :: "ws_server_message \<Rightarrow> client_info option" where
  "hello_client (Hello c _) = Some c"
| "hello_client _ = None"

definition hellos :: "ws_server_message list \<Rightarrow> client_info list" where
  "hellos ms = List.map_filter hello_client ms"

lemma hellos_simps [simp]:
  "hellos [] = []" "hellos (m # ms) = (case hello_client m of None \<Rightarrow> hellos ms | Some c \<Rightarrow> c # hellos ms)"
  by (simp_all add: hellos_def map_filter_simps split: option.split)

lemma hellos_append [simp]: "hellos (ms @ ns) = hellos ms @ hellos ns"
  by (induction ms) (simp_all split: option.split)

lemma hello_client_None [simp]: "\<not> is_hello m \<Longrightarrow> hello_client m = None"
  by (cases m) simp_all

text \<open>The first Hello is at most the second message, and it names \<open>c\<close>.\<close>

definition early_hello :: "client_info \<Rightarrow> ws_server_message list \<Rightarrow> bool" where
  "early_hello c ms \<longleftrightarrow>
     (\<exists>xs ps rest. ms = xs @ Hello c ps # rest \<and> length xs \<le> 1 \<and> list_all (\<lambda>m. \<not> is_hello m) xs)"

lemma early_hello_append: "early_hello c ms \<Longrightarrow> early_hello c (ms @ ns)"
  unfolding early_hello_def by (metis append.assoc append_Cons)

lemma early_helloI:
  assumes "hellos ms = c # cs" and "length ms \<le> 2"
  shows "early_hello c (ms @ rest)"
proof -
  obtain m ns where ms: "ms = m # ns" using assms(1) by (cases ms) auto
  show ?thesis
  proof (cases "is_hello m")
    case True
    then obtain d ps where "m = Hello d ps" by (cases m) auto
    with assms(1) ms have "m = Hello c ps" by simp
    then show ?thesis
      unfolding early_hello_def ms by (intro exI [of _ "[]"] exI [of _ ps] exI [of _ "ns @ rest"]) simp
  next
    case False
    then obtain n os where ns: "ns = n # os" using assms(1) ms by (cases ns) auto
    then have "os = []" using assms(2) ms by simp
    moreover have "is_hello n"
      using assms(1) ms ns False \<open>os = []\<close> by (cases "is_hello n") auto
    then obtain d ps where n: "n = Hello d ps" by (cases n) auto
    with assms(1) ms ns False have "n = Hello c ps" by simp
    ultimately show ?thesis
      unfolding early_hello_def ms ns using False
      by (intro exI [of _ "[m]"] exI [of _ ps] exI [of _ rest]) simp
  qed
qed

fun client_hand :: "reader_phase \<Rightarrow> client_info list" where
  "client_hand (ToConnect c m) = [c]"
| "client_hand _ = []"

definition waiting_inv :: "wire_lib \<Rightarrow> sig_client \<Rightarrow> bool" where
  "waiting_inv L s \<longleftrightarrow>
     sc_listener s = NotStarted \<and> length (sc_queue s) \<le> 1 \<and>
     messages L (sc_arrived s) = sc_queue s @ reader_hand (sc_reader s) @ messages L (sc_incoming s) \<and>
     hellos (sc_queue s @ reader_hand (sc_reader s)) = sc_client_queue s @ client_hand (sc_reader s)"

definition connect_inv :: "wire_lib \<Rightarrow> sig_client \<Rightarrow> bool" where
  "connect_inv L s \<longleftrightarrow>
     (\<forall>c m. sc_reader s = ToConnect c m \<longrightarrow> (\<exists>ps. m = Hello c ps)) \<and>
     (sc_connect s = Waiting \<longrightarrow> waiting_inv L s) \<and>
     (\<forall>c. sc_connect s = Took c \<or> sc_connect s = Connected c \<longrightarrow> early_hello c (messages L (sc_arrived s)))"

lemma on_frame_clients: "hellos (reader_hand (on_frame L f)) = client_hand (on_frame L f)"
  by (auto simp: on_frame_def split: option.split ws_server_message.split)

lemma connect_inv_same:
  "same_receiving s s' \<Longrightarrow> connect_inv L s' = connect_inv L s"
  by (simp add: same_receiving_def connect_inv_def waiting_inv_def)

lemma connect_arrive:
  "connect_inv L s \<Longrightarrow> connect_inv L (s\<lparr>sc_arrived := sc_arrived s @ [f], sc_incoming := sc_incoming s @ [f]\<rparr>)"
  by (auto simp: connect_inv_def waiting_inv_def early_hello_append simp del: messages_simps(2))

lemma connect_read:
  assumes "connect_inv L s" and "sig_read L s = Some s'"
  shows "connect_inv L s'"
proof -
  obtain f fs where s: "sc_reader s = Reading" "sc_incoming s = f # fs"
    "s' = s\<lparr>sc_incoming := fs, sc_reader := on_frame L f\<rparr>"
    using assms(2) by (auto simp: sig_read_def split: reader_phase.splits list.splits)
  show ?thesis
    using assms(1) on_frame_hand [of L f fs] on_frame_clients [of L f] on_frame_hello [of L f]
    by (auto simp: connect_inv_def waiting_inv_def s simp del: messages_simps(2))
qed

lemma connect_to_connect: "connect_inv L s \<Longrightarrow> sig_to_connect s = Some s' \<Longrightarrow> connect_inv L s'"
  by (auto simp: sig_to_connect_def connect_inv_def waiting_inv_def rx_defs split: reader_phase.splits if_splits)

lemma connect_to_listener: "connect_inv L s \<Longrightarrow> sig_to_listener s = Some s' \<Longrightarrow> connect_inv L s'"
  by (auto simp: sig_to_listener_def connect_inv_def waiting_inv_def rx_defs split: reader_phase.splits if_splits)

lemma connect_reader_end: "connect_inv L s \<Longrightarrow> sig_reader_end s = Some s' \<Longrightarrow> connect_inv L s'"
  by (auto simp: sig_reader_end_def connect_inv_def waiting_inv_def split: if_splits)

lemma connect_return: "connect_inv L s \<Longrightarrow> sig_connect_return s = Some s' \<Longrightarrow> connect_inv L s'"
  by (auto simp: sig_connect_return_def connect_inv_def split: connect_phase.splits)

lemma connect_take:
  assumes "connect_inv L s" and "sig_connect_take s = Some s'"
  shows "connect_inv L s'"
proof (cases "sc_client_queue s")
  case Nil
  with assms show ?thesis
    by (auto simp: sig_connect_take_def connect_inv_def split: if_splits)
next
  case (Cons c cs)
  have w: "sc_connect s = Waiting" and s': "s' = s\<lparr>sc_client_queue := cs, sc_connect := Took c\<rparr>"
    using assms(2) Cons by (auto simp: sig_connect_take_def split: if_splits)
  let ?ms = "sc_queue s @ reader_hand (sc_reader s)"
  have i: "waiting_inv L s" using assms(1) w by (simp add: connect_inv_def)
  have "length (reader_hand (sc_reader s)) \<le> 1" by (cases "sc_reader s") auto
  then have "early_hello c (?ms @ messages L (sc_incoming s))"
    using i Cons by (intro early_helloI [of ?ms c "cs @ client_hand (sc_reader s)"]) (auto simp: waiting_inv_def)
  then have "early_hello c (messages L (sc_arrived s))"
    using i by (simp add: waiting_inv_def)
  with assms(1) s' show ?thesis by (auto simp: connect_inv_def)
qed

text \<open>The listener only runs after \<open>connect\<close>, where nothing depends on the queue any more.\<close>

lemma connect_after:
  assumes "connect_inv L s" and "sc_connect s \<noteq> Waiting" and "sc_connect s' = sc_connect s"
    and "sc_arrived s' = sc_arrived s" and "sc_reader s' = sc_reader s"
  shows "connect_inv L s'"
  using assms by (simp add: connect_inv_def)

lemma listening_connected:
  "connect_inv L s \<Longrightarrow> sc_listener s \<noteq> NotStarted \<Longrightarrow> sc_connect s \<noteq> Waiting"
  by (auto simp: connect_inv_def waiting_inv_def)

lemma connect_listener:
  assumes "connect_inv L s"
  shows "sig_start_listener s = Some s' \<Longrightarrow> connect_inv L s'"
    and "sig_listen s = Some s' \<Longrightarrow> connect_inv L s'"
    and "sig_to_app s = Some s' \<Longrightarrow> connect_inv L s'"
proof -
  show "sig_start_listener s = Some s' \<Longrightarrow> connect_inv L s'"
    by (rule connect_after [OF assms])
      (auto simp: sig_start_listener_def split: connect_phase.splits listener_phase.splits)
  show "sig_listen s = Some s' \<Longrightarrow> connect_inv L s'"
    by (rule connect_after [OF assms])
      (auto simp: sig_listen_def listening_connected [OF assms] split: if_splits list.splits ws_server_message.splits)
  show "sig_to_app s = Some s' \<Longrightarrow> connect_inv L s'"
    by (rule connect_after [OF assms])
      (auto simp: sig_to_app_def listening_connected [OF assms] split: if_splits listener_phase.splits)
qed

lemma connect_app_take: "connect_inv L s \<Longrightarrow> sig_app_take s = Some s' \<Longrightarrow> connect_inv L s'"
  by (auto simp: sig_app_take_def connect_inv_def waiting_inv_def split: list.splits if_splits)

lemma connect_inv_next:
  assumes "connect_inv L s" and "sig_next L a s = Some s'"
  shows "connect_inv L s'"
  using assms(2)
  by (cases a)
    (auto simp: connect_arrive [OF assms(1)] assms(1) connect_inv_same [OF same_receiving_fields(1)]
       connect_inv_same [OF same_receiving_fields(2)] connect_inv_same [OF same_receiving_fields(3)]
       split: if_splits
       intro: connect_read [OF assms(1)] connect_to_connect [OF assms(1)] connect_to_listener [OF assms(1)]
       connect_reader_end [OF assms(1)] connect_take [OF assms(1)] connect_return [OF assms(1)]
       connect_listener [OF assms(1)] connect_app_take [OF assms(1)]
       dest: same_receiving_steps [THEN connect_inv_same, THEN iffD2, OF _ assms(1)])

lemma connect_inv_new: "connect_inv L sig_client_new"
  by (simp add: connect_inv_def waiting_inv_def sig_client_new_def)

interpretation sig_connect: inductive_invariant "\<lambda>s. s = sig_client_new" "sig_step L" "connect_inv L"
  for L :: wire_lib
  by unfold_locales (auto simp: connect_inv_new intro: connect_inv_next elim: sig_stepE)

end
