(* ===== verification/Signaling_Client_Props.thy ===== *)
theory Signaling_Client_Props
  imports Signaling_Client_Inv "HOL-Library.Sublist" Json_Text Instances Room
begin

text \<open>
  What the client of the signaling server guarantees: \<open>connect\<close> returns only for an early Hello, no
  message is lost or reordered on the way to the application, an answer goes to the callback of
  its session, once, and messages to the server keep their order.
\<close>

section \<open>Answers\<close>

definition answered_by :: "wire_lib \<Rightarrow> frame list \<Rightarrow> answer_slot \<Rightarrow> bool" where
  "answered_by L fs slot \<longleftrightarrow>
     (\<forall>sdp. sl_answer slot = Some sdp \<longrightarrow>
        (\<exists>p. Answer p \<in> set (messages L fs) \<and> sm_session_id p = sl_session slot \<and> sm_sdp p = sdp))"

definition waits_for :: "answer_slot list \<Rightarrow> string \<Rightarrow> nat \<Rightarrow> bool" where
  "waits_for slots session_id i \<longleftrightarrow>
     i < length slots \<and> sl_session (slots ! i) = session_id \<and> sl_answer (slots ! i) = None"

definition answers_inv :: "wire_lib \<Rightarrow> sig_client \<Rightarrow> bool" where
  "answers_inv L s \<longleftrightarrow>
     (\<forall>session_id i. map_of (sc_on_answer s) session_id = Some i \<longrightarrow> waits_for (sc_slots s) session_id i) \<and>
     list_all (answered_by L (sc_arrived s)) (sc_slots s)"

definition same_answers :: "sig_client \<Rightarrow> sig_client \<Rightarrow> bool" where
  "same_answers s s' \<longleftrightarrow>
     sc_arrived s' = sc_arrived s \<and> sc_slots s' = sc_slots s \<and> sc_on_answer s' = sc_on_answer s"

lemma same_answers_steps:
  "sig_read L s = Some s' \<Longrightarrow> same_answers s s'" "sig_to_connect s = Some s' \<Longrightarrow> same_answers s s'"
  "sig_to_listener s = Some s' \<Longrightarrow> same_answers s s'" "sig_reader_end s = Some s' \<Longrightarrow> same_answers s s'"
  "sig_connect_take s = Some s' \<Longrightarrow> same_answers s s'" "sig_connect_return s = Some s' \<Longrightarrow> same_answers s s'"
  "sig_start_listener s = Some s' \<Longrightarrow> same_answers s s'" "sig_to_app s = Some s' \<Longrightarrow> same_answers s s'"
  "sig_app_take s = Some s' \<Longrightarrow> same_answers s s'" "sig_send m s = Some s' \<Longrightarrow> same_answers s s'"
  "sig_sender_take s = Some s' \<Longrightarrow> same_answers s s'" "sig_sender_write ok s = Some s' \<Longrightarrow> same_answers s s'"
  "sig_sender_timeout ok s = Some s' \<Longrightarrow> same_answers s s'" "sig_sender_close s = Some s' \<Longrightarrow> same_answers s s'"
  by (auto simp: same_answers_def sig_read_def sig_to_connect_def sig_to_listener_def sig_reader_end_def
      sig_connect_take_def sig_connect_return_def sig_start_listener_def sig_to_app_def sig_app_take_def
      sig_send_def sig_sender_take_def sig_sender_write_def sig_sender_timeout_def sig_sender_close_def
      split: if_splits list.splits reader_phase.splits connect_phase.splits listener_phase.splits sender_phase.splits)

lemma answers_same: "same_answers s s' \<Longrightarrow> answers_inv L s' = answers_inv L s"
  by (simp add: same_answers_def answers_inv_def)

lemma answered_by_mono: "answered_by L fs slot \<Longrightarrow> answered_by L (fs @ gs) slot"
  by (fastforce simp: answered_by_def simp del: messages_simps(2))

lemma answers_arrive:
  "answers_inv L s \<Longrightarrow> answers_inv L (s\<lparr>sc_arrived := sc_arrived s @ [f], sc_incoming := fs\<rparr>)"
  by (auto simp: answers_inv_def list_all_iff intro: answered_by_mono)

lemma answers_call_back:
  assumes inv: "answers_inv L s" and p: "Answer p \<in> set (messages L (sc_arrived s))"
  shows "answers_inv L (call_back p s)"
proof (cases "map_of (sc_on_answer s) (sm_session_id p)")
  case None
  with inv show ?thesis by (simp add: call_back_def answers_inv_def)
next
  case (Some i)
  then have w: "waits_for (sc_slots s) (sm_session_id p) i" using inv by (simp add: answers_inv_def)
  let ?m = "AList.delete (sm_session_id p) (sc_on_answer s)"
  have rest: "waits_for (sc_slots s) u j \<and> j \<noteq> i" if "map_of ?m u = Some j" for u j
  proof -
    have u: "u \<noteq> sm_session_id p" "map_of (sc_on_answer s) u = Some j"
      using that by (auto simp: AList.delete_conv' split: if_splits)
    then have "waits_for (sc_slots s) u j" using inv by (simp add: answers_inv_def)
    with w u(1) show ?thesis by (auto simp: waits_for_def)
  qed
  show ?thesis
  proof (cases "sl_alive (sc_slots s ! i)")
    case True
    let ?slot = "(sc_slots s ! i)\<lparr>sl_answer := Some (sm_sdp p)\<rparr>"
    have c: "call_back p s = s\<lparr>sc_on_answer := ?m, sc_slots := (sc_slots s)[i := ?slot],
        sc_listener := ToApp (Answer p)\<rparr>"
      using Some True by (simp add: call_back_def Let_def)
    have "answered_by L (sc_arrived s) ?slot"
      using p w by (auto simp: answered_by_def waits_for_def)
    then have "list_all (answered_by L (sc_arrived s)) ((sc_slots s)[i := ?slot])"
      using inv by (auto simp: answers_inv_def list_all_iff dest!: set_update_subset_insert [THEN subsetD])
    moreover have "waits_for ((sc_slots s)[i := ?slot]) u j" if "map_of ?m u = Some j" for u j
      using rest [OF that] by (simp add: waits_for_def)
    ultimately show ?thesis unfolding c by (simp add: answers_inv_def)
  next
    case False
    then have c: "call_back p s = s\<lparr>sc_on_answer := ?m, sc_listener := ListenerPanicked, sc_queue := []\<rparr>"
      using Some by (simp add: call_back_def Let_def)
    from inv rest show ?thesis unfolding c by (simp add: answers_inv_def)
  qed
qed

lemma answers_listen:
  assumes "fifo_inv L s" and "answers_inv L s" and "sig_listen s = Some s'"
  shows "answers_inv L s'"
proof (cases "\<exists>p rest. sc_queue s = Answer p # rest")
  case True
  then obtain p rest where q: "sc_queue s = Answer p # rest" by blast
  have "Answer p \<in> set (pipeline L s)" by (simp add: pipeline_def q)
  then have "Answer p \<in> set (messages L (sc_arrived s))" using assms(1) by (auto simp: fifo_inv_def)
  moreover have "answers_inv L (s\<lparr>sc_queue := rest\<rparr>)" using assms(2) by (simp add: answers_inv_def)
  moreover have "s' = call_back p (s\<lparr>sc_queue := rest\<rparr>)"
    using assms(3) q by (simp add: sig_listen_def split: if_splits)
  ultimately show ?thesis using answers_call_back by simp
next
  case False
  with assms(3) have "same_answers s s'"
    by (auto simp: sig_listen_def same_answers_def split: if_splits list.splits ws_server_message.splits)
  with assms(2) show ?thesis by (simp add: answers_same)
qed

lemma answers_on_answer:
  assumes "answers_inv L s" and "sig_on_answer u s = Some s'"
  shows "answers_inv L s'"
proof -
  have "s' = s\<lparr>sc_on_answer := AList.update u (length (sc_slots s)) (sc_on_answer s),
      sc_slots := sc_slots s @ [\<lparr>sl_session = u, sl_alive = True, sl_answer = None\<rparr>]\<rparr>"
    using assms(2) by (simp add: sig_on_answer_def split: if_splits)
  moreover have "waits_for (sc_slots s @ [x]) v i" if "waits_for (sc_slots s) v i" for v i x
    using that by (simp add: waits_for_def nth_append)
  moreover have "waits_for (sc_slots s @ [\<lparr>sl_session = u, sl_alive = True, sl_answer = None\<rparr>]) u (length (sc_slots s))"
    by (simp add: waits_for_def)
  ultimately show ?thesis
    using assms(1) by (auto simp: answers_inv_def update_conv' answered_by_def)
qed

lemma answers_drop:
  assumes "answers_inv L s" and "sig_drop_answer k s = Some s'"
  shows "answers_inv L s'"
proof -
  have k: "k < length (sc_slots s)"
    "s' = s\<lparr>sc_slots := (sc_slots s)[k := (sc_slots s ! k)\<lparr>sl_alive := False\<rparr>]\<rparr>"
    using assms(2) by (simp_all add: sig_drop_answer_def split: if_splits)
  have "answered_by L (sc_arrived s) (sc_slots s ! k)"
    using assms(1) k(1) by (simp add: answers_inv_def list_all_length)
  then have "answered_by L (sc_arrived s) ((sc_slots s ! k)\<lparr>sl_alive := False\<rparr>)"
    by (simp add: answered_by_def)
  then have "list_all (answered_by L (sc_arrived s)) ((sc_slots s)[k := (sc_slots s ! k)\<lparr>sl_alive := False\<rparr>])"
    using assms(1) by (auto simp: answers_inv_def list_all_iff dest!: set_update_subset_insert [THEN subsetD])
  moreover have "waits_for ((sc_slots s)[k := (sc_slots s ! k)\<lparr>sl_alive := False\<rparr>]) v i \<longleftrightarrow>
      waits_for (sc_slots s) v i" for v i
    using k(1) by (cases "i = k") (auto simp: waits_for_def)
  ultimately show ?thesis
    using assms(1) by (simp add: k(2) answers_inv_def)
qed

lemma answers_inv_next:
  assumes "fifo_inv L s" and "answers_inv L s" and "sig_next L a s = Some s'"
  shows "answers_inv L s'"
  using assms(3)
  by (cases a)
    (auto simp: answers_arrive [OF assms(2)] split: if_splits
       intro: answers_listen [OF assms(1,2)] answers_on_answer [OF assms(2)] answers_drop [OF assms(2)]
       assms(2) [unfolded answers_inv_def]
       dest: same_answers_steps [THEN answers_same, THEN iffD2, OF _ assms(2)],
     use assms(2) in \<open>simp_all add: answers_inv_def\<close>)

lemma answers_inv_new: "answers_inv L sig_client_new"
  by (simp add: answers_inv_def sig_client_new_def)

interpretation sig_answers: relative_invariant "\<lambda>s. s = sig_client_new" "sig_step L" "fifo_inv L" "answers_inv L"
  for L :: wire_lib
  by unfold_locales (auto simp: answers_inv_new intro: answers_inv_next elim: sig_stepE)

section \<open>Messages to the server\<close>

fun sender_hand :: "sender_phase \<Rightarrow> ws_client_message list" where
  "sender_hand (SenderWriting m) = [m]"
| "sender_hand _ = []"

definition texts :: "written list \<Rightarrow> ws_client_message list" where
  "texts ws = List.map_filter (\<lambda>w. case w of WrittenText m \<Rightarrow> Some m | WrittenPing \<Rightarrow> None) ws"

lemma texts_simps [simp]:
  "texts [] = []" "texts (ws @ [WrittenText m]) = texts ws @ [m]" "texts (ws @ [WrittenPing]) = texts ws"
  by (simp_all add: texts_def map_filter_def)

definition outbox :: "sig_client \<Rightarrow> ws_client_message list" where
  "outbox s = texts (sc_written s) @ sender_hand (sc_sender s) @ sc_send_queue s"

definition sends_inv :: "sig_client \<Rightarrow> bool" where
  "sends_inv s \<longleftrightarrow> subseq (outbox s) (sc_sent s) \<and>
     (sc_sender s \<noteq> SenderEnded \<and> WrittenPing \<notin> set (sc_written s) \<longrightarrow> outbox s = sc_sent s)"

definition same_sends :: "sig_client \<Rightarrow> sig_client \<Rightarrow> bool" where
  "same_sends s s' \<longleftrightarrow>
     sc_sent s' = sc_sent s \<and> sc_sender s' = sc_sender s \<and> sc_send_queue s' = sc_send_queue s \<and>
     sc_written s' = sc_written s"

lemma same_sends_steps:
  "sig_read L s = Some s' \<Longrightarrow> same_sends s s'" "sig_to_connect s = Some s' \<Longrightarrow> same_sends s s'"
  "sig_to_listener s = Some s' \<Longrightarrow> same_sends s s'" "sig_reader_end s = Some s' \<Longrightarrow> same_sends s s'"
  "sig_connect_take s = Some s' \<Longrightarrow> same_sends s s'" "sig_connect_return s = Some s' \<Longrightarrow> same_sends s s'"
  "sig_start_listener s = Some s' \<Longrightarrow> same_sends s s'" "sig_to_app s = Some s' \<Longrightarrow> same_sends s s'"
  "sig_app_take s = Some s' \<Longrightarrow> same_sends s s'" "sig_on_answer u s = Some s' \<Longrightarrow> same_sends s s'"
  "sig_drop_answer k s = Some s' \<Longrightarrow> same_sends s s'"
  by (auto simp: same_sends_def sig_read_def sig_to_connect_def sig_to_listener_def sig_reader_end_def
      sig_connect_take_def sig_connect_return_def sig_start_listener_def sig_to_app_def sig_app_take_def
      sig_on_answer_def sig_drop_answer_def
      split: if_splits list.splits reader_phase.splits connect_phase.splits listener_phase.splits)

lemma same_sends_listen: "sig_listen s = Some s' \<Longrightarrow> same_sends s s'"
  by (auto simp: same_sends_def sig_listen_def split: if_splits list.splits ws_server_message.splits)

lemma sends_same: "same_sends s s' \<Longrightarrow> sends_inv s' = sends_inv s"
  by (simp add: same_sends_def sends_inv_def outbox_def)

lemma subseq_drop_middle: "subseq (xs @ ys @ zs) ws \<Longrightarrow> subseq (xs @ zs) ws"
  by (rule subseq_order.order_trans [of _ "xs @ ys @ zs"]) (auto intro: list_emb_append_mono)

lemma subseq_drop_end: "subseq (xs @ ys) ws \<Longrightarrow> subseq xs ws"
  by (rule subseq_order.order_trans [of _ "xs @ ys"]) auto

lemma sends_steps:
  assumes "sends_inv s"
  shows "sig_send m s = Some s' \<Longrightarrow> sends_inv s'" "sig_sender_take s = Some s' \<Longrightarrow> sends_inv s'"
    "sig_sender_write ok s = Some s' \<Longrightarrow> sends_inv s'" "sig_sender_timeout ok s = Some s' \<Longrightarrow> sends_inv s'"
    "sig_sender_close s = Some s' \<Longrightarrow> sends_inv s'"
proof -
  show "sig_send m s = Some s' \<Longrightarrow> sends_inv s'"
    using assms by (auto simp: sig_send_def sends_inv_def outbox_def list_emb_append_mono
        simp flip: append_assoc split: if_splits)
  show "sig_sender_take s = Some s' \<Longrightarrow> sends_inv s'"
    using assms by (auto simp: sig_sender_take_def sends_inv_def outbox_def split: sender_phase.splits list.splits)
  show "sig_sender_write ok s = Some s' \<Longrightarrow> sends_inv s'"
    using assms by (auto simp: sig_sender_write_def sends_inv_def outbox_def
        split: sender_phase.splits if_splits dest: subseq_drop_end)
  have sub: "subseq (texts (sc_written s) @ sender_hand (sc_sender s) @ sc_send_queue s) (sc_sent s)"
    using assms by (simp add: sends_inv_def outbox_def)
  show "sig_sender_timeout ok s = Some s' \<Longrightarrow> sends_inv s'"
    using subseq_drop_middle [OF sub] subseq_drop_end [OF sub]
    by (auto simp: sig_sender_timeout_def sends_inv_def outbox_def split: if_splits)
  show "sig_sender_close s = Some s' \<Longrightarrow> sends_inv s'"
    using assms by (auto simp: sig_sender_close_def sends_inv_def outbox_def split: if_splits)
qed

lemma sends_inv_next:
  assumes "sends_inv s" and "sig_next L a s = Some s'"
  shows "sends_inv s'"
  using assms(2)
  by (cases a)
    (auto split: if_splits intro: sends_steps [OF assms(1)]
       dest: same_sends_steps [THEN sends_same, THEN iffD2, OF _ assms(1)]
         same_sends_listen [THEN sends_same, THEN iffD2, OF _ assms(1)],
     use assms(1) in \<open>simp_all add: sends_inv_def outbox_def\<close>)

lemma sends_inv_new: "sends_inv sig_client_new"
  by (simp add: sends_inv_def outbox_def sig_client_new_def)

interpretation sig_sends: inductive_invariant "\<lambda>s. s = sig_client_new" "sig_step L" sends_inv
  for L :: wire_lib
  by unfold_locales (auto simp: sends_inv_new intro: sends_inv_next elim: sig_stepE)

section \<open>A concrete connection\<close>

definition sig_peer :: "uuid \<Rightarrow> client_info" where
  "sig_peer i = \<lparr>ci_id = i, ci_alias = ''p'', ci_version = ''2'', ci_device_model = None,
     ci_device_type = None, ci_token = ''t''\<rparr>"

definition sig_answer :: ws_server_message where
  "sig_answer = Answer \<lparr>sm_peer = sig_peer 2, sm_session_id = ''s'', sm_sdp = ''d''\<rparr>"

definition sig_frame :: "ws_server_message \<Rightarrow> frame" where
  "sig_frame m = TextFrame (to_text demo_wire (enc_ws_server_message demo_wire) m)"

lemma parse_sig_frame [simp]: "parse_frame demo_wire (sig_frame m) = Some m"
  using demo_json_ok dec_ws_server_message_enc [OF demo_uuid_ok, of m]
  by (simp add: parse_frame_def sig_frame_def from_text_def to_text_def json_ok_def)

definition sig_demo_run :: "sig_action list" where
  "sig_demo_run =
     [Arrive (sig_frame (Join (sig_peer 2))), Arrive (sig_frame (Hello (sig_peer 1) [])),
      Arrive OtherFrame, Arrive (sig_frame sig_answer),
      Read, DeliverMessage, Read, DeliverClient, ConnectTake, ConnectReturn, StartListener,
      OnAnswer ''s'', Listen, Forward, AppTake, DeliverMessage, Listen, Forward, Read, Read,
      DeliverMessage, Listen, Forward,
      Send (update_message (without_id_from (sig_peer 1))), SenderTake, SenderWrite True,
      Send (offer_message ''s'' 2 ''o'')]"

lemma sig_demo:
  "\<exists>s. sig_run demo_wire sig_demo_run sig_client_new = Some s \<and> sc_connect s = Connected (sig_peer 1) \<and>
     messages demo_wire (sc_arrived s) = [Join (sig_peer 2), Hello (sig_peer 1) [], sig_answer] \<and>
     sc_listener s = Listening \<and> length (sc_slots s) = 1 \<and>
     sc_slots s ! 0 = \<lparr>sl_session = ''s'', sl_alive = True, sl_answer = Some ''d''\<rparr> \<and>
     sc_app_got s = [Join (sig_peer 2)] \<and> sc_app_queue s = [Hello (sig_peer 1) [], sig_answer] \<and>
     sc_sender s = SenderWaiting \<and> sc_sent s = [update_message (without_id_from (sig_peer 1)), offer_message ''s'' 2 ''o''] \<and>
     sc_written s = [WrittenText (update_message (without_id_from (sig_peer 1)))] \<and>
     sc_queue s = [] \<and> sc_reader s = Reading \<and> sc_incoming s = [] \<and>
     sc_send_queue s = [offer_message ''s'' 2 ''o'']"
  by (simp add: sig_demo_run_def sig_client_new_def sig_op_defs rx_defs on_frame_def parse_frame_def [of _ OtherFrame]
      call_back_def APP_CAPACITY_def sig_answer_def)

section \<open>Properties\<close>

text \<open>
  \<open>connect\<close> only returns when the server's first Hello is its first or second message, and then
  with the client that this Hello names. When two other messages come first, the receiving task
  waits for a listener that does not exist yet and \<open>connect\<close> waits for the receiving task: it never
  returns.
\<close>

theorem connect_needs_early_hello:
  assumes "sig_reachable L s" and "sc_connect s = Connected c"
  shows "\<exists>xs ps rest. messages L (sc_arrived s) = xs @ Hello c ps # rest \<and> length xs \<le> 1 \<and>
    list_all (\<lambda>m. \<not> is_hello m) xs"
  using sig_connect.holds assms unfolding sig_reachable_def connect_inv_def early_hello_def by blast

theorem connect_needs_early_hello_witness:
  "\<exists>s xs ps rest. sig_run demo_wire sig_demo_run sig_client_new = Some s \<and>
     messages demo_wire (sc_arrived s) = xs @ Hello (sig_peer 1) ps # rest \<and> length xs \<le> 1"
proof -
  obtain s where run: "sig_run demo_wire sig_demo_run sig_client_new = Some s"
    and c: "sc_connect s = Connected (sig_peer 1)" using sig_demo by blast
  have "sig_reachable demo_wire s" using run by (rule sig_run_reachable) simp
  from run connect_needs_early_hello [OF this c] show ?thesis by blast
qed

text \<open>
  What the application received, with what is still on the way to it, is what the server sent, in
  the order it was sent: apart from Hello messages nothing is lost or added, as long as \<open>connect\<close>
  and the listener have not panicked; and nothing that was not sent is ever received.
\<close>

theorem client_receives_in_order:
  assumes "sig_reachable L s"
  shows "set (pipeline L s) \<subseteq> set (messages L (sc_arrived s)) \<and>
    (sc_connect s \<noteq> ConnectPanicked \<and> sc_listener s \<noteq> ListenerPanicked \<longrightarrow>
       no_hellos (pipeline L s) = no_hellos (messages L (sc_arrived s)))"
  using sig_fifo.holds assms unfolding sig_reachable_def fifo_inv_def queue_rx_open_def by blast

theorem client_receives_in_order_witness:
  "\<exists>s. sig_run demo_wire sig_demo_run sig_client_new = Some s \<and>
     no_hellos (pipeline demo_wire s) = [Join (sig_peer 2), sig_answer]"
proof -
  obtain s where run: "sig_run demo_wire sig_demo_run sig_client_new = Some s"
    and s: "sc_connect s = Connected (sig_peer 1)" "sc_listener s = Listening"
      "messages demo_wire (sc_arrived s) = [Join (sig_peer 2), Hello (sig_peer 1) [], sig_answer]"
    using sig_demo by blast
  have "sig_reachable demo_wire s" using run by (rule sig_run_reachable) simp
  from run client_receives_in_order [OF this] s show ?thesis by (auto simp: sig_answer_def)
qed

text \<open>
  Whatever answer a callback was called with came from the server, in an answer to the very
  session the callback was registered for, and as long as a callback is registered it was not
  called: no answer goes to another session's transfer, and none is delivered twice.
\<close>

theorem answer_reaches_its_session:
  assumes "sig_reachable L s" and "i < length (sc_slots s)"
  shows "(sl_answer (sc_slots s ! i) = Some sdp \<longrightarrow>
      (\<exists>p. Answer p \<in> set (messages L (sc_arrived s)) \<and>
         sm_session_id p = sl_session (sc_slots s ! i) \<and> sm_sdp p = sdp)) \<and>
    (map_of (sc_on_answer s) (sl_session (sc_slots s ! i)) = Some i \<longrightarrow> sl_answer (sc_slots s ! i) = None)"
proof -
  have "answers_inv L s"
    using assms(1) unfolding sig_reachable_def by (rule sig_answers.holds2)
  with assms(2) show ?thesis
    by (auto simp: answers_inv_def answered_by_def waits_for_def list_all_length)
qed

theorem answer_reaches_its_session_witness:
  "\<exists>s p. sig_run demo_wire sig_demo_run sig_client_new = Some s \<and>
     sl_answer (sc_slots s ! 0) = Some ''d'' \<and> Answer p \<in> set (messages demo_wire (sc_arrived s)) \<and>
     sm_session_id p = ''s''"
proof -
  obtain s where run: "sig_run demo_wire sig_demo_run sig_client_new = Some s"
    and s: "length (sc_slots s) = 1"
      "sc_slots s ! 0 = \<lparr>sl_session = ''s'', sl_alive = True, sl_answer = Some ''d''\<rparr>"
    using sig_demo by blast
  have "sig_reachable demo_wire s" using run by (rule sig_run_reachable) simp
  from run answer_reaches_its_session [OF this, of 0 "''d''"] s show ?thesis by auto
qed

text \<open>
  The messages that were written to the server, with those still waiting, are among the sent
  ones in the order in which they were sent; and none is lost as long as the sending task lives and
  has not had to ping: only a timeout that expires while a message is being written drops it.
\<close>

theorem client_sends_in_order:
  assumes "sig_reachable L s"
  shows "subseq (texts (sc_written s) @ sender_hand (sc_sender s) @ sc_send_queue s) (sc_sent s) \<and>
    (sc_sender s \<noteq> SenderEnded \<and> WrittenPing \<notin> set (sc_written s) \<longrightarrow>
       texts (sc_written s) @ sender_hand (sc_sender s) @ sc_send_queue s = sc_sent s)"
  using sig_sends.holds assms unfolding sig_reachable_def sends_inv_def outbox_def by blast

theorem client_sends_in_order_witness:
  "\<exists>s. sig_run demo_wire sig_demo_run sig_client_new = Some s \<and> sc_sender s \<noteq> SenderEnded \<and>
     texts (sc_written s) @ sender_hand (sc_sender s) @ sc_send_queue s =
       [update_message (without_id_from (sig_peer 1)), offer_message ''s'' 2 ''o'']"
proof -
  obtain s where run: "sig_run demo_wire sig_demo_run sig_client_new = Some s"
    and s: "sc_sender s = SenderWaiting"
      "sc_sent s = [update_message (without_id_from (sig_peer 1)), offer_message ''s'' 2 ''o'']"
      "sc_written s = [WrittenText (update_message (without_id_from (sig_peer 1)))]"
    using sig_demo by blast
  have "sig_reachable demo_wire s" using run by (rule sig_run_reachable) simp
  from run client_sends_in_order [OF this] s show ?thesis by simp
qed

text \<open>
  C35: the server reads back exactly the information the client connects with: the query parameter
  that \<open>connect\<close> appends to the address of the server passes the upgrade request's checks and gives
  the peer this information, with the identifier that the server generated.
\<close>

theorem connect_uri_accepted:
  assumes "json_ok L" and "b64_ok C" and "utf8_valid (utf8 (to_text L enc_client_info_without_id info))"
  shows "\<exists>d. connect_uri C L uri info = uri @ ''?d='' @ d \<and>
    ws_handler C L d forwarded addr new_id =
      Inr (get_ip_group (client_ip forwarded addr), client_info_from info new_id)"
proof -
  let ?t = "to_text L enc_client_info_without_id info"
  have "from_text L dec_client_info_without_id ?t = Some info"
    using assms(1) by (simp add: from_text_def to_text_def json_ok_def codec_simps)
  moreover have "b64_decode C (b64_encode C (utf8 ?t)) = Some (utf8 ?t)"
    using assms(2) by (simp add: b64_ok_def)
  ultimately show ?thesis
    unfolding connect_uri_def
    by (intro exI [of _ "b64_encode C (utf8 ?t)"])
      (simp add: ws_handler_def from_utf8_utf8 [OF assms(3)])
qed

theorem connect_uri_accepted_witness:
  "\<exists>d. connect_uri demo_crypto demo_wire ''ws://h/v1/ws'' (without_id_from (sig_peer 1)) = ''ws://h/v1/ws?d='' @ d \<and>
    ws_handler demo_crypto demo_wire d None (V4 10 0 0 1) 7 =
      Inr (get_ip_group (V4 10 0 0 1), client_info_from (without_id_from (sig_peer 1)) 7)"
proof -
  have "utf8_valid (utf8 (to_text demo_wire enc_client_info_without_id (without_id_from (sig_peer 1))))"
    by (simp add: to_text_def demo_wire_def enc_client_info_without_id_def client_fields_def
        without_id_from_def sig_peer_def skip_none_def quote_def utf8_def utf8_cont_def)
  from connect_uri_accepted [OF demo_json_ok demo_b64_ok this, of "''ws://h/v1/ws''" None "V4 10 0 0 1" 7]
  show ?thesis by (simp add: client_ip_def)
qed

end
