(* ===== verification/Signaling_Net.thy ===== *)
theory Signaling_Net
  imports Ws_Props Signaling_Client_Props
begin

text \<open>
  The signaling server and its clients as one system: every connection of the server has a client,
  what the server writes arrives at the client as the text of the message, and what the client writes
  is read by the server in that order. Each side takes the steps of its own model.
\<close>

section \<open>State and steps\<close>

text \<open>The client of connection \<open>c\<close> is \<open>nt_clients ! c\<close>; \<open>nt_read ! c\<close>: how many of the messages that it
  wrote the server has read.\<close>

record net =
  nt_server :: server
  nt_clients :: "sig_client list"
  nt_read :: "nat list"

definition net_new :: net where
  "net_new = \<lparr>nt_server = server_new, nt_clients = [], nt_read = []\<rparr>"

definition server_frame :: "wire_lib \<Rightarrow> ws_server_message \<Rightarrow> frame" where
  "server_frame L m = TextFrame (to_text L (enc_ws_server_message L) m)"

datatype net_action =
    NetConnect string client_info "conn_id list" "client_info list"
  | NetWrite conn_id
  | NetReceive conn_id
  | NetServer srv_action
  | NetClient conn_id sig_action

definition net_connect :: "limits \<Rightarrow> srv_action \<Rightarrow> net \<Rightarrow> net option" where
  "net_connect lim a n =
     (if fresh_id a (nt_server n) then
        map_option (\<lambda>s. n\<lparr>nt_server := s, nt_clients := nt_clients n @ [sig_client_new],
          nt_read := nt_read n @ [0]\<rparr>) (srv_next lim a (nt_server n))
      else None)"

definition net_write :: "limits \<Rightarrow> wire_lib \<Rightarrow> conn_id \<Rightarrow> net \<Rightarrow> net option" where
  "net_write lim L c n =
     (if c < length (nt_clients n) \<and> c < length (sv_conns (nt_server n)) then
        (case cn_queue (sv_conns (nt_server n) ! c) of
           [] \<Rightarrow> None
         | m # _ \<Rightarrow>
             (case (srv_next lim (srv_action.Write c True) (nt_server n),
                    sig_next L (Arrive (server_frame L m)) (nt_clients n ! c)) of
                (Some s, Some cl) \<Rightarrow> Some (n\<lparr>nt_server := s, nt_clients := (nt_clients n)[c := cl]\<rparr>)
              | _ \<Rightarrow> None))
      else None)"

text \<open>A text that is no message of the protocol is skipped.\<close>

definition net_receive :: "limits \<Rightarrow> wire_lib \<Rightarrow> conn_id \<Rightarrow> net \<Rightarrow> net option" where
  "net_receive lim L c n =
     (if c < length (nt_clients n) \<and> nt_read n ! c < length (texts (sc_written (nt_clients n ! c))) then
        (let next = n\<lparr>nt_read := (nt_read n)[c := Suc (nt_read n ! c)]\<rparr>
         in case from_text L (dec_ws_client_message L) (to_text L (enc_ws_client_message L)
                  (texts (sc_written (nt_clients n ! c)) ! (nt_read n ! c))) of
              None \<Rightarrow> Some next
            | Some msg \<Rightarrow>
                map_option (\<lambda>s. next\<lparr>nt_server := s\<rparr>) (srv_next lim (srv_action.Receive c msg) (nt_server n)))
      else None)"

fun net_internal :: "srv_action \<Rightarrow> bool" where
  "net_internal (Connect _ _ _ _) \<longleftrightarrow> False"
| "net_internal (srv_action.Write _ ok) \<longleftrightarrow> \<not> ok"
| "net_internal (srv_action.Receive _ _) \<longleftrightarrow> False"
| "net_internal _ \<longleftrightarrow> True"

fun client_own :: "sig_action \<Rightarrow> bool" where
  "client_own (Arrive _) \<longleftrightarrow> False"
| "client_own _ \<longleftrightarrow> True"

fun net_next :: "limits \<Rightarrow> wire_lib \<Rightarrow> net_action \<Rightarrow> net \<Rightarrow> net option" where
  "net_next lim L (NetConnect g p ts ps) n = net_connect lim (Connect g p ts ps) n"
| "net_next lim L (NetWrite c) n = net_write lim L c n"
| "net_next lim L (NetReceive c) n = net_receive lim L c n"
| "net_next lim L (NetServer a) n =
     (if net_internal a then map_option (\<lambda>s. n\<lparr>nt_server := s\<rparr>) (srv_next lim a (nt_server n)) else None)"
| "net_next lim L (NetClient c a) n =
     (if c < length (nt_clients n) \<and> client_own a
      then map_option (\<lambda>cl. n\<lparr>nt_clients := (nt_clients n)[c := cl]\<rparr>) (sig_next L a (nt_clients n ! c))
      else None)"

inductive net_step :: "limits \<Rightarrow> wire_lib \<Rightarrow> net \<Rightarrow> net \<Rightarrow> bool" for lim :: limits and L :: wire_lib where
  net_stepI: "net_next lim L a n = Some n' \<Longrightarrow> net_step lim L n n'"

inductive_cases net_stepE: "net_step lim L n n'"

definition net_reachable :: "limits \<Rightarrow> wire_lib \<Rightarrow> net \<Rightarrow> bool" where
  "net_reachable lim L = reach (\<lambda>n. n = net_new) (net_step lim L)"

fun net_run :: "limits \<Rightarrow> wire_lib \<Rightarrow> net_action list \<Rightarrow> net \<Rightarrow> net option" where
  "net_run lim L [] n = Some n"
| "net_run lim L (a # as) n = (case net_next lim L a n of Some n' \<Rightarrow> net_run lim L as n' | None \<Rightarrow> None)"

lemma net_run_reachable: "net_run lim L as n = Some n' \<Longrightarrow> net_reachable lim L n \<Longrightarrow> net_reachable lim L n'"
proof (induction as arbitrary: n)
  case (Cons a as)
  then obtain t where "net_next lim L a n = Some t" and t: "net_run lim L as t = Some n'"
    by (auto split: option.splits)
  then have "net_reachable lim L t"
    using Cons.prems(2) unfolding net_reachable_def by (blast intro: reach_step net_stepI)
  with Cons.IH t show ?case by blast
qed simp

section \<open>Each part runs its own model\<close>

lemma srv_step_reachable:
  "srv_reachable lim s \<Longrightarrow> srv_next lim a s = Some s' \<Longrightarrow> fresh_id a s \<Longrightarrow> srv_reachable lim s'"
  unfolding srv_reachable_def by (blast intro: reach_step srv_stepI)

lemma sig_step_reachable: "sig_reachable L s \<Longrightarrow> sig_next L a s = Some s' \<Longrightarrow> sig_reachable L s'"
  unfolding sig_reachable_def by (blast intro: reach_step sig_stepI)

text \<open>What each side's steps do to the wire.\<close>

definition sents :: "server \<Rightarrow> ws_server_message list list" where
  "sents s = map cn_sent (sv_conns s)"

lemma sents_upd: "(\<And>k. cn_sent (f k) = cn_sent k) \<Longrightarrow> sents (upd_conn c f s) = sents s"
  by (rule nth_equalityI) (auto simp: sents_def)

lemma sents_maps [simp]: "sents (s\<lparr>sv_maps := m\<rparr>) = sents s"
  by (simp add: sents_def)

lemma sents_send: "channel_send t msg s = Some u \<Longrightarrow> sents u = sents s"
  by (erule channel_send_cases) (auto simp: sents_upd)

lemma internal_wire: "net_internal a \<Longrightarrow> srv_next lim a s = Some s' \<Longrightarrow> sents s' = sents s"
  by (cases a)
    (auto simp: step_defs sents_upd dest: sents_send
      split: if_splits option.splits main_phase.splits recv_phase.splits list.splits prod.splits)

lemma receive_wire: "srv_next lim (srv_action.Receive c msg) s = Some s' \<Longrightarrow> sents s' = sents s"
  by (auto simp: do_receive_def sents_upd split: if_splits prod.splits)

lemma connect_wire: "srv_next lim (Connect g p ts ps) s = Some s' \<Longrightarrow> sents s' = sents s @ [[]]"
  by (auto simp: do_connect_def sents_def new_conn_def split: if_splits option.splits prod.splits)

lemma write_wire:
  "srv_next lim (srv_action.Write c True) s = Some s' \<Longrightarrow> cn_queue (sv_conns s ! c) = m # ms \<Longrightarrow>
   sents s' = (sents s)[c := cn_sent (sv_conns s ! c) @ [m]]"
  by (auto simp: do_write_def sents_def nth_list_update split: if_splits intro!: nth_equalityI)

lemma own_arrived: "client_own a \<Longrightarrow> sig_next L a s = Some s' \<Longrightarrow> sc_arrived s' = sc_arrived s"
  by (cases a) (auto simp: sig_op_defs call_back_simps split: sig_op_splits prod.splits ws_server_message.splits)

lemma arrive_arrived: "sig_next L (Arrive f) s = Some s' \<Longrightarrow> sc_arrived s' = sc_arrived s @ [f]"
  by (auto split: if_splits)

text \<open>What the clients were sent is what the server wrote to them.\<close>

definition net_inv :: "limits \<Rightarrow> wire_lib \<Rightarrow> net \<Rightarrow> bool" where
  "net_inv lim L n \<longleftrightarrow>
     srv_reachable lim (nt_server n) \<and> list_all (sig_reachable L) (nt_clients n) \<and>
     map sc_arrived (nt_clients n) = map (map (server_frame L)) (sents (nt_server n))"

lemma net_inv_length: "net_inv lim L n \<Longrightarrow> length (nt_clients n) = length (sv_conns (nt_server n))"
  unfolding net_inv_def sents_def by (metis length_map)

lemma net_inv_new: "net_inv lim L net_new"
  by (simp add: net_inv_def net_new_def) (simp add: sents_def server_new_def)

lemma net_inv_connect:
  "net_inv lim L n \<Longrightarrow> net_connect lim (Connect g p ts ps) n = Some n' \<Longrightarrow> net_inv lim L n'"
  using connect_wire [of lim g p ts ps "nt_server n"] srv_step_reachable [of lim "nt_server n" "Connect g p ts ps"]
  by (auto simp: net_connect_def net_inv_def sig_client_new_def [THEN arg_cong [of _ _ sc_arrived]]
      split: if_splits option.splits)

lemma net_inv_server:
  assumes "net_inv lim L n" and "net_internal a" and "srv_next lim a (nt_server n) = Some s"
  shows "net_inv lim L (n\<lparr>nt_server := s\<rparr>)"
proof -
  have "fresh_id a (nt_server n)" using assms(2) by (cases a) auto
  with assms internal_wire [OF assms(2,3)] show ?thesis
    by (auto simp: net_inv_def intro: srv_step_reachable)
qed

lemma net_inv_client:
  assumes "net_inv lim L n" and "client_own a" and "c < length (nt_clients n)"
    and "sig_next L a (nt_clients n ! c) = Some cl"
  shows "net_inv lim L (n\<lparr>nt_clients := (nt_clients n)[c := cl]\<rparr>)"
proof -
  have "sig_reachable L cl"
    using assms by (auto simp: net_inv_def list_all_length intro: sig_step_reachable)
  moreover have "map sc_arrived ((nt_clients n)[c := cl]) = map sc_arrived (nt_clients n)"
    using own_arrived [OF assms(2,4)] assms(3) by (simp add: map_update list_update_same_conv)
  ultimately show ?thesis
    using assms(1,3) by (auto simp: net_inv_def list_all_length nth_list_update)
qed

lemma net_inv_receive:
  assumes "net_inv lim L n" and "net_receive lim L c n = Some n'"
  shows "net_inv lim L n'"
  using assms receive_wire [of lim c _ "nt_server n"] srv_step_reachable [of lim "nt_server n" "srv_action.Receive c _"]
  by (auto simp: net_receive_def net_inv_def Let_def split: if_splits option.splits)

lemma net_inv_write:
  assumes "net_inv lim L n" and "net_write lim L c n = Some n'"
  shows "net_inv lim L n'"
proof -
  from assms(2) obtain m ms s cl where c: "c < length (nt_clients n)" "c < length (sv_conns (nt_server n))"
    and q: "cn_queue (sv_conns (nt_server n) ! c) = m # ms"
    and s: "srv_next lim (srv_action.Write c True) (nt_server n) = Some s"
    and cl: "sig_next L (Arrive (server_frame L m)) (nt_clients n ! c) = Some cl"
    and n': "n' = n\<lparr>nt_server := s, nt_clients := (nt_clients n)[c := cl]\<rparr>"
    by (auto simp: net_write_def simp del: srv_next.simps sig_next.simps split: if_splits list.splits option.splits)
  have "srv_reachable lim s"
    using assms(1) srv_step_reachable [OF _ s] by (simp add: net_inv_def)
  moreover have "sig_reachable L cl"
    using assms(1) c(1) sig_step_reachable [OF _ cl] by (simp add: net_inv_def list_all_length)
  moreover have "sc_arrived (nt_clients n ! c) = map (server_frame L) (cn_sent (sv_conns (nt_server n) ! c))"
    using assms(1) c by (auto simp: net_inv_def sents_def dest: arg_cong [of _ _ "\<lambda>xs. xs ! c"])
  ultimately show ?thesis
    using assms(1) write_wire [OF s q] arrive_arrived [OF cl] c
    by (auto simp: net_inv_def n' map_update list_all_length nth_list_update)
qed

lemma net_inv_next: "net_inv lim L n \<Longrightarrow> net_next lim L a n = Some n' \<Longrightarrow> net_inv lim L n'"
  by (cases a)
    (auto simp del: srv_next.simps sig_next.simps split: if_splits
      intro: net_inv_connect net_inv_write net_inv_receive net_inv_server net_inv_client)

interpretation network: inductive_invariant "\<lambda>n. n = net_new" "net_step lim L" "net_inv lim L" for lim L
  by unfold_locales (auto simp: net_inv_new intro: net_inv_next elim!: net_stepE)

section \<open>Properties\<close>

lemma parse_server_frame: "json_ok L \<Longrightarrow> uuid_ok L \<Longrightarrow> parse_frame L (server_frame L m) = Some m"
  using dec_ws_server_message_enc [of L m]
  by (simp add: parse_frame_def server_frame_def from_text_def to_text_def json_ok_def)

lemma messages_server_frames:
  "json_ok L \<Longrightarrow> uuid_ok L \<Longrightarrow> messages L (map (server_frame L) ms) = ms"
  by (induction ms) (simp_all add: parse_server_frame)

lemma net_arrived:
  assumes "json_ok L" and "uuid_ok L" and "net_reachable lim L n" and "c < length (nt_clients n)"
  shows "messages L (sc_arrived (nt_clients n ! c)) = cn_sent (sv_conns (nt_server n) ! c)"
    and "sig_reachable L (nt_clients n ! c)"
    and "list_all (msg_ok (peers_of (nt_server n) (cn_group (sv_conns (nt_server n) ! c)))
      (cn_peer (sv_conns (nt_server n) ! c))) (cn_sent (sv_conns (nt_server n) ! c))"
proof -
  have inv: "net_inv lim L n" using network.holds assms(3) unfolding net_reachable_def by blast
  then have c: "c < length (sv_conns (nt_server n))" using net_inv_length assms(4) by metis
  have "map sc_arrived (nt_clients n) ! c = map (map (server_frame L)) (sents (nt_server n)) ! c"
    using inv by (simp add: net_inv_def)
  with c assms(4) have "sc_arrived (nt_clients n ! c) = map (server_frame L) (cn_sent (sv_conns (nt_server n) ! c))"
    by (simp add: sents_def)
  then show "messages L (sc_arrived (nt_clients n ! c)) = cn_sent (sv_conns (nt_server n) ! c)"
    by (simp add: messages_server_frames [OF assms(1,2)])
  show "sig_reachable L (nt_clients n ! c)"
    using inv assms(4) by (simp add: net_inv_def list_all_length)
  have "srv_reachable lim (nt_server n)" using inv by (simp add: net_inv_def)
  from messages.holds2 [OF this [unfolded srv_reachable_def]] c
  show "list_all (msg_ok (peers_of (nt_server n) (cn_group (sv_conns (nt_server n) ! c)))
      (cn_peer (sv_conns (nt_server n) ! c))) (cn_sent (sv_conns (nt_server n) ! c))"
    by (auto simp: msgs_inv_def conn_ok_def inbox_ok_def list_all_iff)
qed

lemma pipeline_starts: "prefix (sc_app_got s) (pipeline L s)"
  by (simp add: pipeline_def)

text \<open>What the application of a client got and believes.\<close>

definition client_sees :: "client_info set \<Rightarrow> client_info \<Rightarrow> sig_client \<Rightarrow> bool" where
  "client_sees P p cl \<longleftrightarrow>
     list_all (msg_ok P p) (sc_app_got cl) \<and>
     (\<forall>ci. sc_connect cl = Connected ci \<longrightarrow> ci = p) \<and>
     list_all (\<lambda>sl. \<forall>sdp. sl_answer sl = Some sdp \<longrightarrow>
       (\<exists>m :: ws_server_sdp_message. sm_peer m \<in> P \<and> sm_session_id m = sl_session sl \<and> sm_sdp m = sdp)) (sc_slots cl)"


section \<open>A newcomer in a busy room\<close>

lemma net_step_sents:
  assumes "net_next lim L a n = Some n'" and "c < length (sv_conns (nt_server n))"
  shows "c < length (sv_conns (nt_server n')) \<and> prefix (sents (nt_server n) ! c) (sents (nt_server n') ! c)"
proof -
  have same: ?thesis if "sents (nt_server n') = sents (nt_server n)"
    using that assms(2) unfolding sents_def by (metis length_map prefix_order.refl)
  show ?thesis
  proof (cases a)
    case (NetConnect g p ts ps)
    with assms(1) obtain s where "srv_next lim (Connect g p ts ps) (nt_server n) = Some s" "nt_server n' = s"
      by (auto simp: net_connect_def split: if_splits)
    then have s: "sents (nt_server n') = sents (nt_server n) @ [[]]" using connect_wire by blast
    then have "length (sv_conns (nt_server n')) = Suc (length (sv_conns (nt_server n)))"
      unfolding sents_def by (metis length_append_singleton length_map)
    with s assms(2) show ?thesis by (simp add: sents_def nth_append)
  next
    case (NetWrite d)
    with assms(1) obtain m ms s where "cn_queue (sv_conns (nt_server n) ! d) = m # ms"
      "srv_next lim (srv_action.Write d True) (nt_server n) = Some s" "nt_server n' = s"
      by (auto simp: net_write_def simp del: srv_next.simps sig_next.simps split: if_splits list.splits option.splits)
    then have s: "sents (nt_server n') = (sents (nt_server n))[d := cn_sent (sv_conns (nt_server n) ! d) @ [m]]"
      using write_wire by blast
    then have "length (sv_conns (nt_server n')) = length (sv_conns (nt_server n))"
      unfolding sents_def by (metis length_list_update length_map)
    then show ?thesis using s assms(2) by (cases "d = c") (simp_all add: sents_def)
  next
    case (NetReceive d)
    with assms(1) show ?thesis
      using receive_wire [of lim d _ "nt_server n"] same
      by (auto simp: net_receive_def Let_def simp del: srv_next.simps split: if_splits option.splits)
  next
    case (NetServer b)
    with assms(1) show ?thesis
      using internal_wire [of b lim "nt_server n"] same by (auto simp del: srv_next.simps split: if_splits)
  next
    case (NetClient d b)
    with assms(1) same show ?thesis by (auto simp del: sig_next.simps split: if_splits)
  qed
qed

lemma net_run_sents:
  "net_run lim L as n = Some n' \<Longrightarrow> c < length (sv_conns (nt_server n)) \<Longrightarrow>
   c < length (sv_conns (nt_server n')) \<and> prefix (sents (nt_server n) ! c) (sents (nt_server n') ! c)"
proof (induction as arbitrary: n)
  case (Cons a as)
  then obtain t where t: "net_next lim L a n = Some t" "net_run lim L as t = Some n'"
    by (auto split: option.splits)
  with Cons.IH [of t] net_step_sents [OF t(1) Cons.prems(2)] show ?case
    by (meson prefix_order.trans)
qed simp

definition hello_comes_late :: "ws_server_message list \<Rightarrow> bool" where
  "hello_comes_late ms \<longleftrightarrow> 2 \<le> length ms \<and> \<not> is_hello (ms ! 0) \<and> \<not> is_hello (ms ! 1)"

lemma late_not_early:
  assumes "hello_comes_late ms" and "prefix ms ns"
  shows "\<not> early_hello ci ns"
proof
  assume "early_hello ci ns"
  then obtain xs ps rest where ns: "ns = xs @ Hello ci ps # rest" "length xs \<le> 1"
    unfolding early_hello_def by blast
  have "ns ! length xs = ms ! length xs"
    using assms ns(2) by (auto simp: hello_comes_late_def prefix_def nth_append)
  moreover have "is_hello (ns ! length xs)" by (simp add: ns(1))
  moreover have "length xs = 0 \<or> length xs = 1" using ns(2) by linarith
  ultimately show False using assms(1) by (auto simp: hello_comes_late_def)
qed

text \<open>
  C40: a newcomer can be locked out by the others: once the server has written two messages to a client
  before its Hello, as it does when two peers join while the client is connecting, \<open>connect\<close> never
  returns at this client, whatever happens in the network, although the others see it as connected.
\<close>

theorem late_hello_locks_client_out:
  assumes "json_ok L" and "uuid_ok L" and "net_reachable lim L n" and "c < length (nt_clients n)"
    and "hello_comes_late (cn_sent (sv_conns (nt_server n) ! c))" and "net_run lim L as n = Some n'"
  shows "sc_connect (nt_clients n' ! c) \<noteq> Connected ci"
proof
  assume con: "sc_connect (nt_clients n' ! c) = Connected ci"
  have reach: "net_reachable lim L n'" using assms(3,6) by (rule net_run_reachable [rotated])
  have inv: "net_inv lim L n" "net_inv lim L n'"
    using network.holds assms(3) reach unfolding net_reachable_def by blast+
  have c: "c < length (sv_conns (nt_server n))" using net_inv_length [OF inv(1)] assms(4) by simp
  note run = net_run_sents [OF assms(6) c]
  then have c': "c < length (nt_clients n')" using net_inv_length [OF inv(2)] by simp
  have p: "prefix (cn_sent (sv_conns (nt_server n) ! c)) (cn_sent (sv_conns (nt_server n') ! c))"
    using run c by (auto simp: sents_def)
  note net = net_arrived [OF assms(1,2) reach c']
  have "connect_inv L (nt_clients n' ! c)"
    using sig_connect.holds net(2) unfolding sig_reachable_def by blast
  with con net(1) have "early_hello ci (cn_sent (sv_conns (nt_server n') ! c))"
    by (simp add: connect_inv_def)
  with late_not_early [OF assms(5) p] show False by blast
qed

section \<open>Two runs\<close>

definition net_demo_run :: "net_action list" where
  "net_demo_run =
     [NetConnect ''g'' (demo_peer 1) [] [], NetServer (SendHello 0), NetWrite 0]
     @ map (NetClient 0) [Read, DeliverClient, ConnectTake, ConnectReturn, StartListener, DeliverMessage,
         Listen, sig_action.Forward, AppTake]
     @ [NetConnect ''g'' (demo_peer 2) [0] [demo_peer 1], NetServer (SendJoin 1), NetWrite 0]
     @ map (NetClient 0) [Read, DeliverMessage, Listen, sig_action.Forward, AppTake]"

definition net_lockout_run :: "net_action list" where
  "net_lockout_run =
     [NetConnect ''g'' (demo_peer 1) [] [], NetServer (SendHello 0),
      NetConnect ''g'' (demo_peer 2) [0] [demo_peer 1],
      NetConnect ''g'' (demo_peer 3) [0, 1] [demo_peer 1, demo_peer 2],
      NetServer (SendJoin 2), NetServer (SendJoin 2),
      NetConnect ''g'' (demo_peer 4) [0, 1, 2] [demo_peer 1, demo_peer 2, demo_peer 3],
      NetServer (SendJoin 3), NetServer (SendJoin 3), NetServer (SendJoin 3),
      NetServer (SendJoin 1), NetServer (SendHello 1), NetWrite 1, NetWrite 1, NetWrite 1]"

lemma demo_server_frame [simp]: "parse_frame demo_wire (server_frame demo_wire m) = Some m"
  by (rule parse_server_frame [OF demo_json_ok demo_uuid_ok])

lemmas net_run_simps = net_new_def net_connect_def net_write_def sig_client_new_def sig_op_defs rx_defs
  on_frame_def call_back_def APP_CAPACITY_def

lemma net_demo:
  "\<exists>n. net_run demo_limits demo_wire net_demo_run net_new = Some n \<and> length (nt_clients n) = 2 \<and>
     sc_connect (nt_clients n ! 0) = Connected (demo_peer 1) \<and> sc_listener (nt_clients n ! 0) = Listening \<and>
     sc_app_got (nt_clients n ! 0) = [Hello (demo_peer 1) [], Join (demo_peer 2)] \<and>
     cn_sent (sv_conns (nt_server n) ! 0) = [Hello (demo_peer 1) [], Join (demo_peer 2)]"
  by (simp add: net_demo_run_def net_run_simps run_simps)

lemma net_lockout:
  "\<exists>n. net_run demo_limits demo_wire net_lockout_run net_new = Some n \<and> length (nt_clients n) = 4 \<and>
     cn_main (sv_conns (nt_server n) ! 1) = Selecting \<and>
     hello_comes_late (cn_sent (sv_conns (nt_server n) ! 1)) \<and>
     (\<exists>n'. net_run demo_limits demo_wire (map (NetClient 1) [Read, DeliverMessage, Read]) n = Some n')"
  by (simp add: net_lockout_run_def net_run_simps run_simps hello_comes_late_def)

lemma net_reachable_new: "net_reachable lim L net_new"
  unfolding net_reachable_def by (rule reach_init) simp


lemma late_hello_locks_client_out_witness:
  "\<exists>n n'. net_run demo_limits demo_wire net_lockout_run net_new = Some n \<and>
     cn_main (sv_conns (nt_server n) ! 1) = Selecting \<and>
     net_run demo_limits demo_wire (map (NetClient 1) [Read, DeliverMessage, Read]) n = Some n' \<and>
     sc_connect (nt_clients n' ! 1) \<noteq> Connected (demo_peer 2)"
proof -
  obtain n n' where n: "net_run demo_limits demo_wire net_lockout_run net_new = Some n"
    "length (nt_clients n) = 4" "cn_main (sv_conns (nt_server n) ! 1) = Selecting"
    "hello_comes_late (cn_sent (sv_conns (nt_server n) ! 1))"
    and n': "net_run demo_limits demo_wire (map (NetClient 1) [Read, DeliverMessage, Read]) n = Some n'"
    using net_lockout by blast
  have "net_reachable demo_limits demo_wire n" using net_run_reachable [OF n(1) net_reachable_new] .
  from late_hello_locks_client_out [OF demo_json_ok demo_uuid_ok this _ n(4) n'] n n' show ?thesis by auto
qed

end
