(* ===== verification/Rtc_Offer.thy ===== *)
theory Rtc_Offer
  imports Rtc_Receive Signaling_Client
begin

text \<open>
  The functions \<open>send_offer\<close> and \<open>accept_offer\<close> around the two transfer tasks
  (core/src/webrtc/webrtc.rs): the peer connection, the exchange of the session descriptions over
  the signaling server, and how the end of the task becomes the result.
\<close>

section \<open>Session descriptions\<close>

text \<open>Zlib compression; \<open>zlib_decompress\<close> is \<open>None\<close> when the data is no zlib stream.\<close>

record zlib_lib =
  zlib_compress :: "bytes \<Rightarrow> bytes"
  zlib_decompress :: "bytes \<Rightarrow> bytes option"

definition zlib_ok :: "zlib_lib \<Rightarrow> bool" where
  "zlib_ok G \<longleftrightarrow> (\<forall>bs. zlib_decompress G (zlib_compress G bs) = Some bs)"

definition encode_sdp :: "zlib_lib \<Rightarrow> crypto_lib \<Rightarrow> string \<Rightarrow> string" where
  "encode_sdp G C s = b64_encode C (zlib_compress G (utf8 s))"

text \<open>\<open>read_to_string\<close> also fails when the data is not UTF-8.\<close>

definition decode_sdp :: "zlib_lib \<Rightarrow> crypto_lib \<Rightarrow> string \<Rightarrow> err + string" where
  "decode_sdp G C s =
     (case b64_decode C s of
        None \<Rightarrow> Inl (MsgOf ''Base64 decode of SDP failed: '' Base64Error)
      | Some decoded_data \<Rightarrow>
          (case Option.bind (zlib_decompress G decoded_data) from_utf8 of
             None \<Rightarrow> Inl (MsgOf ''Failed to decompress SDP: '' CompressError)
           | Some result \<Rightarrow> Inr result))"

section \<open>State\<close>

text \<open>What ends the waiting for the spawned task: its result, or the peer connection that became
  disconnected.\<close>

datatype selected = TaskEnded "unit outcome" | PeerDisconnected | NothingYet

text \<open>The environment of one of the two functions: whether the calls of the WebRTC library succeed,
  the local description, the identifier that is generated, whether the signaling connection takes
  messages, the answer that the callback delivers, the application's status channel, and what ends
  the waiting; and what the function did: the messages it sent, the callback it registered, the
  remote description it set, the statuses it reported, and what it closed.\<close>

record rtc_session =
  ss_connection_ok :: bool
  ss_channel_ok :: bool
  ss_description_ok :: bool
  ss_set_local_ok :: bool
  ss_local_sdp :: "string option"
  ss_uuid :: string
  ss_signaling_ok :: bool
  ss_sent :: "ws_client_message list"
  ss_registered :: "string option"
  ss_answer :: "string reply"
  ss_parses :: "string \<Rightarrow> bool"
  ss_set_remote_ok :: bool
  ss_remote_sdp :: "string option"
  ss_status_ok :: "nat \<Rightarrow> bool"
  ss_status :: "rtc_status list"
  ss_selected :: selected
  ss_channel_closed :: bool
  ss_close_ok :: bool
  ss_closed :: bool

definition lib_call :: "(rtc_session \<Rightarrow> bool) \<Rightarrow> (rtc_session, unit) task" where
  "lib_call ok = tbind (gets ok) (\<lambda>b. if b then ret () else throw (Ext PeerError))"

definition session_status :: "rtc_status \<Rightarrow> (rtc_session, unit) task" where
  "session_status st = (\<lambda>s.
     if ss_status_ok s (length (ss_status s)) then (Done (), s\<lparr>ss_status := ss_status s @ [st]\<rparr>)
     else (Fail (Ext ChannelSendError), s))"

definition signal :: "ws_client_message \<Rightarrow> (rtc_session, unit) task" where
  "signal message =
     tbind (gets ss_signaling_ok) (\<lambda>ok.
       if ok then modify (ss_sent_update (\<lambda>ms. ms @ [message])) else throw (Ext ChannelSendError))"

definition close_connection :: "(rtc_session, unit) task" where
  "close_connection =
     tseq (modify (ss_closed_update (\<lambda>_. True))) (lib_call ss_close_ok)"

definition local_description :: "string \<Rightarrow> (rtc_session, string) task" where
  "local_description message =
     tbind (gets ss_local_sdp) (\<lambda>sdp. case sdp of None \<Rightarrow> throw (Msg message) | Some d \<Rightarrow> ret d)"

text \<open>\<open>RTCSessionDescription::offer(..)?\<close> or \<open>::answer(..)?\<close>, then \<open>set_remote_description\<close>.\<close>

definition set_remote_description :: "string \<Rightarrow> (rtc_session, unit) task" where
  "set_remote_description sdp =
     tseq (lib_call (\<lambda>s. ss_parses s sdp))
       (tseq (lib_call ss_set_remote_ok) (modify (ss_remote_sdp_update (\<lambda>_. Some sdp))))"

text \<open>A status that cannot be reported closes the connection.\<close>

definition report_exchanged :: "(rtc_session, unit) task" where
  "report_exchanged =
     tbind (attempt (session_status StSdpExchanged)) (\<lambda>result. case result of
       Inr _ \<Rightarrow> ret ()
     | Inl e \<Rightarrow> tseq close_connection (throw e))"

text \<open>\<open>tokio::select!\<close>: an error of the task is the result of the function.\<close>

definition await_task :: "string \<Rightarrow> (rtc_session, unit) task" where
  "await_task message =
     tbind (gets ss_selected) (\<lambda>selected. case selected of
       NothingYet \<Rightarrow> suspend
     | PeerDisconnected \<Rightarrow> ret ()
     | TaskEnded result \<Rightarrow>
         (case result of
            Done _ \<Rightarrow> ret ()
          | Fail e \<Rightarrow> throw e
          | Panic _ \<Rightarrow> throw (Msg message)
          | Await \<Rightarrow> suspend))"

section \<open>send\_offer\<close>

definition exchange_offer ::
  "zlib_lib \<Rightarrow> crypto_lib \<Rightarrow> uuid \<Rightarrow> (rtc_session, unit) task" where
  "exchange_offer G C target_id =
     tseq (lib_call ss_description_ok)
    (tseq (lib_call ss_set_local_ok)
    (tbind (gets ss_uuid) (\<lambda>session_id.
     tbind (local_description ''Could not generate local_description'') (\<lambda>sdp.
     tseq (signal (offer_message session_id target_id (encode_sdp G C sdp)))
    (tseq (modify (ss_registered_update (\<lambda>_. Some session_id)))
    (tbind (gets ss_answer) (\<lambda>answer. case answer of
       Pending \<Rightarrow> suspend
     | Dropped \<Rightarrow> throw (Ext ChannelRecvError)
     | Reply remote_desc \<Rightarrow>
         tseq report_exchanged
        (tbind (of_result (decode_sdp G C remote_desc)) set_remote_description))))))))"

definition send_offer ::
  "zlib_lib \<Rightarrow> crypto_lib \<Rightarrow> uuid \<Rightarrow> (rtc_session, unit) task" where
  "send_offer G C target_id =
     tseq (lib_call ss_connection_ok)
    (tseq (lib_call ss_channel_ok)
    (tseq (exchange_offer G C target_id)
    (tseq (await_task ''Sending error: '')
    (tseq (discard (session_status StFinished))
    (tseq (modify (ss_channel_closed_update (\<lambda>_. True))) close_connection)))))"

section \<open>accept\_offer\<close>

definition exchange_answer ::
  "zlib_lib \<Rightarrow> crypto_lib \<Rightarrow> ws_server_sdp_message \<Rightarrow> (rtc_session, unit) task" where
  "exchange_answer G C offer =
     tseq (tbind (of_result (decode_sdp G C (sm_sdp offer))) set_remote_description)
    (tseq (lib_call ss_description_ok)
    (tseq (lib_call ss_set_local_ok)
    (tbind (local_description ''generate local_description failed!'') (\<lambda>sdp.
     tseq (signal (answer_message (sm_session_id offer) (ci_id (sm_peer offer)) (encode_sdp G C sdp)))
       report_exchanged))))"

definition accept_offer ::
  "zlib_lib \<Rightarrow> crypto_lib \<Rightarrow> ws_server_sdp_message \<Rightarrow> (rtc_session, unit) task" where
  "accept_offer G C offer =
     tseq (lib_call ss_connection_ok)
    (tseq (exchange_answer G C offer)
    (tseq (await_task ''Receiving error: '')
    (tseq (discard (session_status StFinished)) close_connection)))"

text \<open>Which data channels the receiver takes, and what ends a connection
  (\<open>on_data_channel\<close>, \<open>on_peer_connection_state_change\<close>).\<close>

definition CHANNEL_LABEL :: string where
  "CHANNEL_LABEL = ''data''"

definition takes_channel :: "string \<Rightarrow> bool" where
  "takes_channel label \<longleftrightarrow> label = CHANNEL_LABEL"

datatype peer_state = StateNew | StateConnecting | StateConnected | StateDisconnected | StateFailed | StateClosed

definition ends_connection :: "peer_state \<Rightarrow> bool" where
  "ends_connection state \<longleftrightarrow> state = StateDisconnected"

section \<open>Lemmas\<close>

lemma decode_encode_sdp:
  assumes "zlib_ok G" and "b64_ok C" and "utf8_valid (utf8 s)"
  shows "decode_sdp G C (encode_sdp G C s) = Inr s"
  using assms by (simp add: decode_sdp_def encode_sdp_def zlib_ok_def b64_ok_def from_utf8_utf8)

lemmas session_defs = lib_call_def session_status_def signal_def close_connection_def local_description_def
  set_remote_description_def report_exchanged_def await_task_def exchange_offer_def send_offer_def
  exchange_answer_def accept_offer_def

lemmas session_simps = session_defs task_simps tbind_def tseq_def attempt_def discard_def

end
