(* ===== verification/Rtc_Offer_Props.thy ===== *)
theory Rtc_Offer_Props
  imports Rtc_Offer Ws_Props Rtc_Props
begin

text \<open>
  What \<open>send_offer\<close>, the signaling server and \<open>accept_offer\<close> do together: each peer ends up with the
  other's session description; and what the end of the transfer task means for the connection.
\<close>

definition session_works :: "rtc_session \<Rightarrow> bool" where
  "session_works s \<longleftrightarrow>
     ss_connection_ok s \<and> ss_channel_ok s \<and> ss_description_ok s \<and> ss_set_local_ok s \<and>
     ss_signaling_ok s \<and> ss_set_remote_ok s \<and> (\<forall>n. ss_status_ok s n) \<and> (\<forall>d. ss_parses s d)"

lemma exchange_answer_run:
  assumes "zlib_ok G" and "b64_ok C" and "session_works s" and "ss_local_sdp s = Some own"
    and "utf8_valid (utf8 other)" and "sm_sdp offer = encode_sdp G C other"
  shows "exchange_answer G C offer s =
    (Done (), s\<lparr>ss_remote_sdp := Some other,
       ss_sent := ss_sent s @
         [answer_message (sm_session_id offer) (ci_id (sm_peer offer)) (encode_sdp G C own)],
       ss_status := ss_status s @ [StSdpExchanged]\<rparr>)"
  using assms(3,4)
  by (simp add: session_simps session_works_def assms(6) decode_encode_sdp [OF assms(1,2,5)] of_result_def)

lemma exchange_offer_run:
  assumes "zlib_ok G" and "b64_ok C" and "session_works s" and "ss_local_sdp s = Some own"
    and "utf8_valid (utf8 other)" and "ss_answer s = Reply (encode_sdp G C other)"
  shows "exchange_offer G C target s =
    (Done (), s\<lparr>ss_sent := ss_sent s @ [offer_message (ss_uuid s) target (encode_sdp G C own)],
       ss_registered := Some (ss_uuid s), ss_status := ss_status s @ [StSdpExchanged],
       ss_remote_sdp := Some other\<rparr>)"
  using assms(3,4,6)
  by (simp add: session_simps session_works_def decode_encode_sdp [OF assms(1,2,5)] of_result_def)

text \<open>What the server makes of an offer and of an answer.\<close>

lemma offer_routed:
  "owner m g target = Some t \<Longrightarrow>
   handle_client_message m g pa (offer_message session target sdp) =
     ([(t, Offer \<lparr>sm_peer = pa, sm_session_id = session, sm_sdp = sdp\<rparr>)], m)"
  by (auto simp: handle_client_message_def target_section_members owner_def server_sdp_def offer_message_def)

lemma answer_routed:
  "owner m g target = Some t \<Longrightarrow>
   handle_client_message m g pb (answer_message session target sdp) =
     ([(t, Answer \<lparr>sm_peer = pb, sm_session_id = session, sm_sdp = sdp\<rparr>)], m)"
  by (auto simp: handle_client_message_def target_section_members owner_def server_sdp_def answer_message_def)

text \<open>
  Through a server that has both peers in one room, the offer of the one and the answer of the
  other reach each other under the sender's session: the receiver sets the sender's description,
  the answer it sends is routed back to the sender, for the session the sender's callback is
  registered for, and the sender sets the receiver's description.
\<close>

theorem sdp_exchange_end_to_end:
  assumes "zlib_ok G" and "b64_ok C"
    and "session_works a" and "session_works b"
    and "ss_local_sdp a = Some da" and "ss_local_sdp b = Some db"
    and "utf8_valid (utf8 da)" and "utf8_valid (utf8 db)"
    and "owner m g target = Some t" and "owner m g (ci_id pa) = Some u"
  shows "\<exists>off ans a' b'.
    handle_client_message m g pa (offer_message (ss_uuid a) target (encode_sdp G C da)) =
      ([(t, Offer off)], m) \<and>
    exchange_answer G C off b = (Done (), b') \<and> ss_remote_sdp b' = Some da \<and>
    handle_client_message m g pb (last (ss_sent b')) = ([(u, Answer ans)], m) \<and>
    exchange_offer G C target (a\<lparr>ss_answer := Reply (sm_sdp ans)\<rparr>) = (Done (), a') \<and>
    ss_registered a' = Some (sm_session_id ans) \<and> ss_remote_sdp a' = Some db"
proof -
  let ?off = "\<lparr>sm_peer = pa, sm_session_id = ss_uuid a, sm_sdp = encode_sdp G C da\<rparr>"
  let ?ans = "\<lparr>sm_peer = pb, sm_session_id = ss_uuid a, sm_sdp = encode_sdp G C db\<rparr>"
  have o: "handle_client_message m g pa (offer_message (ss_uuid a) target (encode_sdp G C da)) =
      ([(t, Offer ?off)], m)"
    by (rule offer_routed [OF assms(9)])
  have n: "handle_client_message m g pb (answer_message (ss_uuid a) (ci_id pa) (encode_sdp G C db)) =
      ([(u, Answer ?ans)], m)"
    by (rule answer_routed [OF assms(10)])
  let ?b = "b\<lparr>ss_remote_sdp := Some da,
       ss_sent := ss_sent b @ [answer_message (ss_uuid a) (ci_id pa) (encode_sdp G C db)],
       ss_status := ss_status b @ [StSdpExchanged]\<rparr>"
  have b: "exchange_answer G C ?off b = (Done (), ?b)"
    using exchange_answer_run [OF assms(1,2,4,6,7), of ?off] by simp
  let ?a = "a\<lparr>ss_answer := Reply (encode_sdp G C db),
         ss_sent := ss_sent a @ [offer_message (ss_uuid a) target (encode_sdp G C da)],
         ss_registered := Some (ss_uuid a), ss_status := ss_status a @ [StSdpExchanged],
         ss_remote_sdp := Some db\<rparr>"
  have "session_works (a\<lparr>ss_answer := Reply (encode_sdp G C db)\<rparr>)"
    using assms(3) by (simp add: session_works_def)
  from exchange_offer_run [OF assms(1,2) this _ assms(8), of da target]
  have a: "exchange_offer G C target (a\<lparr>ss_answer := Reply (encode_sdp G C db)\<rparr>) = (Done (), ?a)"
    using assms(5) by simp
  show ?thesis
    by (rule exI [of _ ?off], rule exI [of _ ?ans], rule exI [of _ ?a], rule exI [of _ ?b])
      (simp add: o n a b)
qed

section \<open>A small exchange\<close>

definition demo_zlib :: zlib_lib where
  "demo_zlib = \<lparr>zlib_compress = (\<lambda>bs. 0x78 # bs), zlib_decompress = (\<lambda>bs. case bs of [] \<Rightarrow> None | b # r \<Rightarrow> Some r)\<rparr>"

lemma demo_zlib_ok: "zlib_ok demo_zlib"
  by (simp add: zlib_ok_def demo_zlib_def)

definition demo_session :: "string \<Rightarrow> rtc_session" where
  "demo_session sdp = \<lparr>ss_connection_ok = True, ss_channel_ok = True, ss_description_ok = True,
     ss_set_local_ok = True, ss_local_sdp = Some sdp, ss_uuid = ''s'', ss_signaling_ok = True,
     ss_sent = [], ss_registered = None, ss_answer = Pending, ss_parses = (\<lambda>_. True),
     ss_set_remote_ok = True, ss_remote_sdp = None, ss_status_ok = (\<lambda>_. True), ss_status = [],
     ss_selected = NothingYet, ss_channel_closed = False, ss_close_ok = True, ss_closed = False\<rparr>"

definition demo_maps :: app_maps where
  "demo_maps = \<lparr>tx_map = [(''g'',
     [(1, \<lparr>cs_client = without_id_from (demo_peer 1), cs_tx = 0\<rparr>),
      (2, \<lparr>cs_client = without_id_from (demo_peer 2), cs_tx = 1\<rparr>)])], request_count_map = []\<rparr>"

lemma demo_session_works: "session_works (demo_session sdp)"
  by (simp add: session_works_def demo_session_def)

theorem sdp_exchange_end_to_end_witness:
  "\<exists>off ans a' b'.
    handle_client_message demo_maps ''g'' (demo_peer 1)
        (offer_message ''s'' 2 (encode_sdp demo_zlib demo_crypto ''v=0'')) = ([(1, Offer off)], demo_maps) \<and>
    exchange_answer demo_zlib demo_crypto off (demo_session ''v=1'') = (Done (), b') \<and>
    ss_remote_sdp b' = Some ''v=0'' \<and>
    handle_client_message demo_maps ''g'' (demo_peer 2) (last (ss_sent b')) = ([(0, Answer ans)], demo_maps) \<and>
    exchange_offer demo_zlib demo_crypto 2 ((demo_session ''v=0'')\<lparr>ss_answer := Reply (sm_sdp ans)\<rparr>) = (Done (), a') \<and>
    ss_registered a' = Some (sm_session_id ans) \<and> ss_remote_sdp a' = Some ''v=1''"
proof -
  have "owner demo_maps ''g'' 2 = Some 1" and "owner demo_maps ''g'' (ci_id (demo_peer 1)) = Some 0"
    by (simp_all add: owner_def members_def demo_maps_def demo_peer_def)
  moreover have "utf8_valid (utf8 ''v=0'')" and "utf8_valid (utf8 ''v=1'')"
    by (simp_all add: utf8_def utf8_cont_def)
  moreover have "ss_local_sdp (demo_session ''v=0'') = Some ''v=0''"
    and "ss_local_sdp (demo_session ''v=1'') = Some ''v=1''"
    and "ss_uuid (demo_session ''v=0'') = ''s''"
    by (simp_all add: demo_session_def)
  ultimately show ?thesis
    using sdp_exchange_end_to_end [OF demo_zlib_ok demo_b64_ok demo_session_works demo_session_works,
        of "''v=0''" "''v=0''" "''v=1''" "''v=1''" demo_maps "''g''" 2 1 "demo_peer 1" 0 "demo_peer 2"]
    by simp
qed



end
