(* ===== verification/Ffi_Controller.thy ===== *)
theory Ffi_Controller
  imports Rtc_Offer Rtc_Session Cert
begin

text \<open>
  What the application reaches through the bindings (app/rust/src/api/webrtc.rs): connecting to
  the signaling server, starting a transfer, and the two controllers with their one-shot slots and
  event sinks. A receiver half that is listened to delivers its items and is then closed or not.
\<close>

section \<open>Connecting\<close>

record proposing_client_info =
  pi_alias :: string
  pi_version :: string
  pi_device_model :: "string option"
  pi_device_type :: "device_type option"

definition sign :: "crypto_lib \<Rightarrow> u64 option \<Rightarrow> signing_token_key \<Rightarrow> proposing_client_info \<Rightarrow>
  err + client_info_without_id" where
  "sign C now signing_key info =
     (case generate_token_timestamp C now signing_key of
        Inl e \<Rightarrow> Inl e
      | Inr token \<Rightarrow> Inr
          \<lparr>cw_alias = pi_alias info, cw_version = pi_version info, cw_device_model = pi_device_model info,
           cw_device_type = pi_device_type info, cw_token = token\<rparr>)"

datatype 'a sink_event = Added 'a | AddedError err

record 'a receiver =
  rx_items :: "'a list"
  rx_closed :: bool

text \<open>The environment of \<open>connect\<close>: what connecting to the server with some information gives, and
  whether the application's callback returns; the number of calls of the callback and the events of
  the sink.\<close>

record ffi_connect =
  fc_server :: "string \<Rightarrow> client_info_without_id \<Rightarrow> err + ws_server_message receiver"
  fc_callback_returns :: bool
  fc_callbacks :: nat
  fc_sink :: "ws_server_message sink_event list"

definition connect_error :: "err \<Rightarrow> (ffi_connect, unit) task" where
  "connect_error e = modify (fc_sink_update (\<lambda>es. es @ [AddedError e]))"

definition on_connection :: "(ffi_connect, unit) task" where
  "on_connection = tseq (modify (fc_callbacks_update Suc))
     (tbind (gets fc_callback_returns) (\<lambda>returns. if returns then ret () else suspend))"

definition ffi_connect_run ::
  "crypto_lib \<Rightarrow> u64 option \<Rightarrow> string \<Rightarrow> proposing_client_info \<Rightarrow> string \<Rightarrow> (ffi_connect, unit) task" where
  "ffi_connect_run C now uri info private_key =
     (case parse_private_key C private_key of
        Inl _ \<Rightarrow> connect_error (Msg ''Invalid private key'')
      | Inr signing_key \<Rightarrow>
          (case sign C now signing_key info of
             Inl _ \<Rightarrow> connect_error (Msg ''Invalid client info'')
           | Inr client_info \<Rightarrow>
               tbind (gets fc_server) (\<lambda>server. case server uri client_info of
                 Inl e \<Rightarrow> connect_error e
               | Inr rx \<Rightarrow>
                   tseq on_connection
                     (tseq (modify (fc_sink_update (\<lambda>es. es @ map Added (rx_items rx))))
                       (if rx_closed rx then ret () else suspend)))))"

section \<open>Starting a transfer\<close>

record expecting_public_key =
  ek_public_key :: string
  ek_kind :: string

definition session_keys :: "crypto_lib \<Rightarrow> string \<Rightarrow> expecting_public_key option \<Rightarrow>
  err + (signing_token_key \<times> verifying_token_key option)" where
  "session_keys C private_key expecting =
     (case parse_private_key C private_key of
        Inl e \<Rightarrow> Inl e
      | Inr signing_key \<Rightarrow>
          (case expecting of
             None \<Rightarrow> Inr (signing_key, None)
           | Some key \<Rightarrow>
               (case parse_public_key C (ek_public_key key) (ek_kind key) of
                  Inl e \<Rightarrow> Inl e
                | Inr parsed \<Rightarrow> Inr (signing_key, Some parsed))))"

text \<open>The task that runs the transfer: its error is reported as the last status.\<close>

definition run_transfer :: "(rtc_session, unit) task \<Rightarrow> (rtc_session, unit) task" where
  "run_transfer transfer =
     tbind (attempt transfer) (\<lambda>result. case result of
       Inr _ \<Rightarrow> ret ()
     | Inl e \<Rightarrow> discard (session_status (StError e)))"

definition offer_job :: "zlib_lib \<Rightarrow> crypto_lib \<Rightarrow> uuid \<Rightarrow> (rtc_session, unit) task" where
  "offer_job G C target = run_transfer (send_offer G C target)"

definition accept_job :: "zlib_lib \<Rightarrow> crypto_lib \<Rightarrow> ws_server_sdp_message \<Rightarrow> (rtc_session, unit) task" where
  "accept_job G C offer = run_transfer (accept_offer G C offer)"

text \<open>The task that waits for a pair request answers it with no.\<close>

definition pair_job :: "sender_io \<Rightarrow> sender_io" where
  "pair_job s = s\<lparr>so_pair_open := True, so_pair_answer := Reply False\<rparr>"

section \<open>The controller of a sending session\<close>

record send_controller =
  sd_status_rx :: "rtc_status receiver"
  sd_selected_rx :: "string list reply option"
  sd_error_rx :: "rtc_file_error receiver"
  sd_send_open :: bool
  sd_sent :: "(string \<times> bytes list) list"
  sd_takes :: "nat \<Rightarrow> nat \<Rightarrow> bool"
  sd_status_sink :: "rtc_status sink_event list"
  sd_error_sink :: "rtc_file_error sink_event list"

text \<open>\<open>sd_sent\<close>: the files that were handed over with the data sent for each; \<open>sd_takes i n\<close> tells
  whether the transfer still reads the data of file \<open>i\<close> after \<open>n\<close> pieces. The receiver half of a
  stream stays in the controller: a second call finds it drained.\<close>

definition drained :: "'a receiver \<Rightarrow> 'a receiver" where
  "drained rx = rx\<lparr>rx_items := []\<rparr>"

definition send_listen_status :: "(send_controller, unit) task" where
  "send_listen_status =
     tbind (gets sd_status_rx) (\<lambda>rx.
       tseq (modify (\<lambda>c. c\<lparr>sd_status_rx := drained rx, sd_status_sink := sd_status_sink c @ map Added (rx_items rx)\<rparr>))
         (if rx_closed rx then ret () else suspend))"

definition send_listen_error :: "(send_controller, unit) task" where
  "send_listen_error =
     tbind (gets sd_error_rx) (\<lambda>rx.
       tseq (modify (\<lambda>c. c\<lparr>sd_error_rx := drained rx, sd_error_sink := sd_error_sink c @ map Added (rx_items rx)\<rparr>))
         (if rx_closed rx then ret () else suspend))"

definition await_reply :: "string \<Rightarrow> 'a reply \<Rightarrow> ('s, 'a) task" where
  "await_reply message reply = (case reply of
      Pending \<Rightarrow> suspend | Dropped \<Rightarrow> throw (Msg message) | Reply x \<Rightarrow> ret x)"

definition listen_selected_files :: "(send_controller, string list) task" where
  "listen_selected_files =
     tbind (gets sd_selected_rx) (\<lambda>slot.
       tseq (modify (sd_selected_rx_update (\<lambda>_. None)))
         (case slot of
            None \<Rightarrow> throw (Msg ''Selected files already received'')
          | Some selected_rx \<Rightarrow> await_reply ''Selected files channel closed'' selected_rx))"

text \<open>\<open>send_file\<close> hands over a file that has no data yet and returns its sender; \<open>send\<close> of that sender
  appends to its data.\<close>

definition controller_send_file :: "string \<Rightarrow> (send_controller, nat) task" where
  "controller_send_file file_id =
     tbind (gets sd_send_open) (\<lambda>is_open.
       if \<not> is_open then throw (Ext ChannelSendError)
       else tbind (gets (\<lambda>c. length (sd_sent c))) (\<lambda>sender.
              tseq (modify (sd_sent_update (\<lambda>fs. fs @ [(file_id, [])]))) (ret sender)))"

definition add_data :: "nat \<Rightarrow> bytes \<Rightarrow> (string \<times> bytes list) list \<Rightarrow> (string \<times> bytes list) list" where
  "add_data sender data files =
     files[sender := (fst (files ! sender), snd (files ! sender) @ [data])]"

definition file_sender_send :: "nat \<Rightarrow> bytes \<Rightarrow> (send_controller, unit) task" where
  "file_sender_send sender data = (\<lambda>c.
     if sd_takes c sender (length (snd (sd_sent c ! sender)))
     then (Done (), sd_sent_update (add_data sender data) c)
     else (Fail (Ext ChannelSendError), c))"

section \<open>The controller of a receiving session\<close>

record file_receiver =
  fv_file_id :: string
  fv_binary_rx :: "bytes list option"
  fv_sink :: "bytes sink_event list"

text \<open>\<open>rc_selected_tx\<close>: the sender of the selection, and whether the transfer still waits for it.\<close>

record receive_controller =
  rc_status_rx :: "rtc_status receiver option"
  rc_files_rx :: "file_dto list reply option"
  rc_selected_tx :: "bool option"
  rc_error_rx :: "rtc_file_error receiver option"
  rc_receiving_rx :: "(string \<times> bytes list) receiver option"
  rc_results_open :: bool
  rc_status_sink :: "rtc_status sink_event list"
  rc_selection :: "string list option option"
  rc_error_sink :: "rtc_file_error sink_event list"
  rc_receiving_sink :: "file_receiver sink_event list"
  rc_results :: "rtc_send_file_response list"

text \<open>The listeners of streams: the slot is emptied; what it held is forwarded to the sink.\<close>

definition listen_slot ::
  "('c \<Rightarrow> 'a receiver option) \<Rightarrow> (('a receiver option \<Rightarrow> 'a receiver option) \<Rightarrow> 'c \<Rightarrow> 'c) \<Rightarrow>
   (('b sink_event list \<Rightarrow> 'b sink_event list) \<Rightarrow> 'c \<Rightarrow> 'c) \<Rightarrow> ('a \<Rightarrow> 'b) \<Rightarrow> string \<Rightarrow> ('c, unit) task" where
  "listen_slot get update add f message =
     tbind (gets get) (\<lambda>slot.
       tseq (modify (update (\<lambda>_. None)))
         (case slot of
            None \<Rightarrow> modify (add (\<lambda>es. es @ [AddedError (Msg message)]))
          | Some rx \<Rightarrow>
              tseq (modify (add (\<lambda>es. es @ map (\<lambda>x. Added (f x)) (rx_items rx))))
                (if rx_closed rx then ret () else suspend)))"

definition listen_status :: "(receive_controller, unit) task" where
  "listen_status = listen_slot rc_status_rx rc_status_rx_update rc_status_sink_update (\<lambda>x. x)
     ''Status stream already listened to''"

definition listen_error :: "(receive_controller, unit) task" where
  "listen_error = listen_slot rc_error_rx rc_error_rx_update rc_error_sink_update (\<lambda>x. x)
     ''Error stream already listened to''"

definition new_file_receiver :: "string \<times> bytes list \<Rightarrow> file_receiver" where
  "new_file_receiver file = \<lparr>fv_file_id = fst file, fv_binary_rx = Some (snd file), fv_sink = []\<rparr>"

definition listen_receiving :: "(receive_controller, unit) task" where
  "listen_receiving = listen_slot rc_receiving_rx rc_receiving_rx_update rc_receiving_sink_update
     new_file_receiver ''Receiving stream already listened to''"

definition listen_files :: "(receive_controller, file_dto list) task" where
  "listen_files =
     tbind (gets rc_files_rx) (\<lambda>slot.
       tseq (modify (rc_files_rx_update (\<lambda>_. None)))
         (case slot of
            None \<Rightarrow> throw (Msg ''Files already received'')
          | Some files_rx \<Rightarrow> await_reply ''Files channel closed'' files_rx))"

text \<open>\<open>send_selection\<close> and \<open>decline\<close> share the slot of the selection.\<close>

definition send_decision :: "string list option \<Rightarrow> (receive_controller, unit) task" where
  "send_decision decision =
     tbind (gets rc_selected_tx) (\<lambda>slot.
       tseq (modify (rc_selected_tx_update (\<lambda>_. None)))
         (case slot of
            None \<Rightarrow> throw (Msg ''Selected files already sent'')
          | Some waits \<Rightarrow>
              if waits then modify (rc_selection_update (\<lambda>_. Some decision))
              else throw (Msg ''Selected files channel closed'')))"

definition send_selection :: "string list \<Rightarrow> (receive_controller, unit) task" where
  "send_selection selection = send_decision (Some selection)"

definition decline :: "(receive_controller, unit) task" where
  "decline = send_decision None"

definition send_file_status :: "rtc_send_file_response \<Rightarrow> (receive_controller, unit) task" where
  "send_file_status status =
     tbind (gets rc_results_open) (\<lambda>is_open.
       if is_open then modify (rc_results_update (\<lambda>rs. rs @ [status])) else throw (Ext ChannelSendError))"

definition get_file_id :: "file_receiver \<Rightarrow> string" where
  "get_file_id = fv_file_id"

definition push :: "bytes \<Rightarrow> (file_receiver, unit) task" where
  "push data = modify (fv_sink_update (\<lambda>es. es @ [Added data]))"

definition receive :: "(file_receiver, unit) task" where
  "receive =
     tbind (gets fv_binary_rx) (\<lambda>slot.
       tseq (modify (fv_binary_rx_update (\<lambda>_. None)))
         (case slot of
            None \<Rightarrow> throw (Msg ''File receiver listened to'')
          | Some rx \<Rightarrow> buffer_receiver push rx))"

section \<open>Keys (api/crypto.rs)\<close>

definition ffi_verify_cert :: "('c, 's, 'p) x509_lib \<Rightarrow> string \<Rightarrow> string \<Rightarrow> err + unit" where
  "ffi_verify_cert X cert public_key = verify_cert_from_pem X cert (Some public_key)"

record key_pair =
  kp_private_key :: string
  kp_public_key :: string

definition generate_key_pair :: "crypto_lib \<Rightarrow> (nat \<Rightarrow> u8) \<Rightarrow> err + key_pair" where
  "generate_key_pair C csprng =
     (let signing_key = generate_key C csprng
      in case export_private_key C signing_key of
           Inl e \<Rightarrow> Inl e
         | Inr private_key \<Rightarrow>
             (case export_public_key C signing_key of
                Inl e \<Rightarrow> Inl e
              | Inr public_key \<Rightarrow> Inr \<lparr>kp_private_key = private_key, kp_public_key = public_key\<rparr>))"

text \<open>A generated pair is what a session of each side needs: the private key is read back, and the
  public key, expected by the other side, is the verifying half.\<close>

lemma key_pair_sessions:
  assumes "pem_ok C" and "generate_key_pair C csprng = Inr pair"
  shows "session_keys C (kp_private_key pair)
      (Some \<lparr>ek_public_key = kp_public_key pair, ek_kind = ''ed25519''\<rparr>) =
    Inr (generate_key C csprng, Some (to_verifying_key C (generate_key C csprng)))"
  using assms
  by (auto simp: generate_key_pair_def session_keys_def Let_def export_private_key_def export_public_key_def
      parse_private_key_def parse_public_key_def to_verifying_key_def generate_key_def pem_ok_def
      split: sum.splits option.splits)

section \<open>Logging\<close>

text \<open>\<open>try_init\<close> sets the subscriber of the process, unless there is one already.\<close>

definition enable_debug_logging :: "('w \<Rightarrow> (string + unit) \<times> 'w) \<Rightarrow> 'w \<Rightarrow> (err + unit) \<times> 'w" where
  "enable_debug_logging try_init w =
     (case try_init w of
        (Inl e, w') \<Rightarrow> (Inl (Msg e), w')
      | (Inr _, w') \<Rightarrow> (Inr (), w'))"

end
