(* ===== verification/Ffi_Pin.thy ===== *)
theory Ffi_Pin
  imports Signaling_Client Rtc_Channel_Props
begin

text \<open>
  How a PIN reaches a challenge (app/rust/src/api/webrtc.rs): the transfer task makes a request and
  waits for its answer (\<open>handle_pin\<close>), a relay task puts the sender of the request into the slot of
  the controller, and \<open>send_pin\<close> takes it from there. The three run concurrently.
\<close>

section \<open>State\<close>

text \<open>A request, numbered in the order of the requests: the PIN it was answered with, and whether the
  task still waits for it.\<close>

record pin_request =
  rq_answer :: "string option"
  rq_waits :: bool

datatype pin_task = TaskBusy | TaskAwaiting nat | TaskOver

datatype relay_phase = RelayWaiting | RelayStoring nat | RelayOver

text \<open>\<open>pr_queue\<close>: the channel of capacity 1 between the task and the relay; \<open>pr_slot\<close>: the controller's
  \<open>pin_tx\<close>; \<open>pr_got\<close>: the PINs the task received; \<open>pr_calls\<close>: the calls of \<open>send_pin\<close> and their results.
  The relay holds the slot too, so it outlives the controller.\<close>

record pin_relay =
  pr_requests :: "pin_request list"
  pr_task :: pin_task
  pr_queue :: "nat list"
  pr_relay :: relay_phase
  pr_slot :: "nat option"
  pr_got :: "string list"
  pr_calls :: "(string \<times> unit outcome) list"

definition pin_relay_new :: pin_relay where
  "pin_relay_new = \<lparr>pr_requests = [], pr_task = TaskBusy, pr_queue = [], pr_relay = RelayWaiting,
     pr_slot = None, pr_got = [], pr_calls = []\<rparr>"

section \<open>Steps\<close>

text \<open>\<open>pin_tx.send(new_pin_tx).await\<close>\<close>

definition pin_ask :: "pin_relay \<Rightarrow> pin_relay option" where
  "pin_ask s =
     (if pr_task s = TaskBusy \<and> pr_relay s \<noteq> RelayOver \<and> length (pr_queue s) < 1
      then Some (s\<lparr>pr_requests := pr_requests s @ [\<lparr>rq_answer = None, rq_waits = True\<rparr>],
                  pr_queue := pr_queue s @ [length (pr_requests s)],
                  pr_task := TaskAwaiting (length (pr_requests s))\<rparr>)
      else None)"

text \<open>Whether a request's sender is still somewhere.\<close>

definition pin_held :: "pin_relay \<Rightarrow> nat \<Rightarrow> bool" where
  "pin_held s i \<longleftrightarrow> i \<in> set (pr_queue s) \<or> pr_relay s = RelayStoring i \<or> pr_slot s = Some i"

text \<open>\<open>new_pin_rx.await\<close>: the answer, or an error when the sender was dropped.\<close>

definition pin_await :: "pin_relay \<Rightarrow> pin_relay option" where
  "pin_await s =
     (case pr_task s of
        TaskAwaiting i \<Rightarrow>
          (case rq_answer (pr_requests s ! i) of
             Some pin \<Rightarrow>
               Some (s\<lparr>pr_requests := (pr_requests s)[i := (pr_requests s ! i)\<lparr>rq_waits := False\<rparr>],
                       pr_task := TaskBusy, pr_got := pr_got s @ [pin]\<rparr>)
           | None \<Rightarrow>
               if pin_held s i then None
               else Some (s\<lparr>pr_requests := (pr_requests s)[i := (pr_requests s ! i)\<lparr>rq_waits := False\<rparr>],
                            pr_task := TaskOver\<rparr>))
      | _ \<Rightarrow> None)"

definition pin_finish :: "pin_relay \<Rightarrow> pin_relay option" where
  "pin_finish s = (if pr_task s = TaskBusy then Some (s\<lparr>pr_task := TaskOver\<rparr>) else None)"

text \<open>\<open>while let Some(pin_tx) = pin_rx.recv().await\<close> and the assignment to the slot, which drops the
  sender that was in it.\<close>

definition relay_take :: "pin_relay \<Rightarrow> pin_relay option" where
  "relay_take s =
     (if pr_relay s = RelayWaiting then
        (case pr_queue s of
           i # rest \<Rightarrow> Some (s\<lparr>pr_queue := rest, pr_relay := RelayStoring i\<rparr>)
         | [] \<Rightarrow> if pr_task s = TaskOver then Some (s\<lparr>pr_relay := RelayOver\<rparr>) else None)
      else None)"

definition relay_store :: "pin_relay \<Rightarrow> pin_relay option" where
  "relay_store s =
     (case pr_relay s of
        RelayStoring i \<Rightarrow> Some (s\<lparr>pr_slot := Some i, pr_relay := RelayWaiting\<rparr>)
      | _ \<Rightarrow> None)"

definition send_pin :: "string \<Rightarrow> (pin_relay, unit) task" where
  "send_pin pin =
     tbind (gets pr_slot) (\<lambda>slot.
       tseq (modify (pr_slot_update (\<lambda>_. None)))
         (case slot of
            None \<Rightarrow> throw (Msg ''Pin already sent'')
          | Some i \<Rightarrow>
              tbind (gets (\<lambda>s. rq_waits (pr_requests s ! i))) (\<lambda>waits.
                if waits
                then modify (\<lambda>s. s\<lparr>pr_requests := (pr_requests s)[i := (pr_requests s ! i)\<lparr>rq_answer := Some pin\<rparr>]\<rparr>)
                else throw (Msg ''Pin channel closed''))))"

definition pin_call :: "string \<Rightarrow> pin_relay \<Rightarrow> pin_relay" where
  "pin_call pin s = (let (result, s') = send_pin pin s in s'\<lparr>pr_calls := pr_calls s @ [(pin, result)]\<rparr>)"

datatype pin_action = Ask | AwaitPin | Finish | RelayTake | RelayStore | SendPin string

fun pin_next :: "pin_action \<Rightarrow> pin_relay \<Rightarrow> pin_relay option" where
  "pin_next Ask s = pin_ask s"
| "pin_next AwaitPin s = pin_await s"
| "pin_next Finish s = pin_finish s"
| "pin_next RelayTake s = relay_take s"
| "pin_next RelayStore s = relay_store s"
| "pin_next (SendPin pin) s = Some (pin_call pin s)"

inductive pin_step :: "pin_relay \<Rightarrow> pin_relay \<Rightarrow> bool" where
  pin_stepI: "pin_next a s = Some s' \<Longrightarrow> pin_step s s'"

inductive_cases pin_stepE: "pin_step s s'"

definition pin_reachable :: "pin_relay \<Rightarrow> bool" where
  "pin_reachable = reach (\<lambda>s. s = pin_relay_new) pin_step"

section \<open>The invariant\<close>

text \<open>Where the sender of the current request is: in the channel, with the relay, in the slot, or used.\<close>

definition accepted_pins :: "(string \<times> unit outcome) list \<Rightarrow> string list" where
  "accepted_pins calls = map fst (filter (\<lambda>(pin, result). result = Done ()) calls)"

definition in_flight :: "pin_relay \<Rightarrow> string list" where
  "in_flight s = (case pr_task s of
      TaskAwaiting i \<Rightarrow> (case rq_answer (pr_requests s ! i) of Some pin \<Rightarrow> [pin] | None \<Rightarrow> [])
    | _ \<Rightarrow> [])"

definition pin_places :: "pin_relay \<Rightarrow> (nat list \<times> relay_phase \<times> nat option) \<Rightarrow> bool" where
  "pin_places s p \<longleftrightarrow> (pr_queue s, pr_relay s, pr_slot s) = p"

definition pin_inv :: "pin_relay \<Rightarrow> bool" where
  "pin_inv s \<longleftrightarrow>
     accepted_pins (pr_calls s) = pr_got s @ in_flight s \<and>
     list_all (\<lambda>(pin, result). result = Done () \<or> result = Fail (Msg ''Pin already sent'')) (pr_calls s) \<and>
     (case pr_task s of
        TaskBusy \<Rightarrow> pin_places s ([], RelayWaiting, None) \<and> length (pr_requests s) = length (pr_got s)
      | TaskOver \<Rightarrow> pr_queue s = [] \<and> pr_slot s = None \<and> (pr_relay s = RelayWaiting \<or> pr_relay s = RelayOver) \<and>
          length (pr_requests s) = length (pr_got s)
      | TaskAwaiting i \<Rightarrow> i = length (pr_got s) \<and> length (pr_requests s) = Suc i \<and> rq_waits (pr_requests s ! i) \<and>
          (case rq_answer (pr_requests s ! i) of
             Some _ \<Rightarrow> pin_places s ([], RelayWaiting, None)
           | None \<Rightarrow> pin_places s ([i], RelayWaiting, None) \<or> pin_places s ([], RelayStoring i, None) \<or>
               pin_places s ([], RelayWaiting, Some i)))"

lemma accepted_pins_snoc:
  "accepted_pins (calls @ [(pin, result)]) = accepted_pins calls @ (if result = Done () then [pin] else [])"
  by (simp add: accepted_pins_def)

lemma pin_inv_new: "pin_inv pin_relay_new"
  by (simp add: pin_inv_def pin_relay_new_def accepted_pins_def in_flight_def pin_places_def)

lemmas pin_inv_defs = pin_inv_def in_flight_def pin_places_def accepted_pins_snoc

lemma pin_inv_ask: "pin_inv s \<Longrightarrow> pin_ask s = Some s' \<Longrightarrow> pin_inv s'"
  by (auto simp: pin_ask_def pin_inv_defs nth_append split: if_splits)

lemma pin_inv_await: "pin_inv s \<Longrightarrow> pin_await s = Some s' \<Longrightarrow> pin_inv s'"
  by (auto simp: pin_await_def pin_inv_defs pin_held_def split: pin_task.splits option.splits if_splits)

lemma pin_inv_finish: "pin_inv s \<Longrightarrow> pin_finish s = Some s' \<Longrightarrow> pin_inv s'"
  by (auto simp: pin_finish_def pin_inv_defs split: if_splits)

lemma pin_inv_take: "pin_inv s \<Longrightarrow> relay_take s = Some s' \<Longrightarrow> pin_inv s'"
  by (auto simp: relay_take_def pin_inv_defs split: if_splits list.splits pin_task.splits option.splits)

lemma pin_inv_store: "pin_inv s \<Longrightarrow> relay_store s = Some s' \<Longrightarrow> pin_inv s'"
  by (auto simp: relay_store_def pin_inv_defs split: relay_phase.splits pin_task.splits option.splits)

lemma pin_inv_call: "pin_inv s \<Longrightarrow> pin_inv (pin_call pin s)"
  by (auto simp: pin_call_def send_pin_def tseq_def tbind_def task_simps pin_inv_defs
      split: pin_task.splits option.splits)

lemma pin_inv_next: "pin_inv s \<Longrightarrow> pin_next a s = Some s' \<Longrightarrow> pin_inv s'"
  by (cases a) (auto intro: pin_inv_ask pin_inv_await pin_inv_finish pin_inv_take pin_inv_store pin_inv_call)

interpretation pins: inductive_invariant "\<lambda>s. s = pin_relay_new" pin_step pin_inv
  by unfold_locales (auto simp: pin_inv_new intro: pin_inv_next elim: pin_stepE)

section \<open>Properties\<close>

fun pin_run :: "pin_action list \<Rightarrow> pin_relay \<Rightarrow> pin_relay option" where
  "pin_run [] s = Some s"
| "pin_run (a # as) s = (case pin_next a s of Some s' \<Rightarrow> pin_run as s' | None \<Rightarrow> None)"

lemma pin_run_reachable: "pin_run as s = Some s' \<Longrightarrow> pin_reachable s \<Longrightarrow> pin_reachable s'"
proof (induction as arbitrary: s)
  case (Cons a as)
  then obtain t where "pin_next a s = Some t" and t: "pin_run as t = Some s'"
    by (auto split: option.splits)
  then have "pin_reachable t"
    using Cons.prems(2) unfolding pin_reachable_def by (blast intro: reach_step pin_stepI)
  with Cons.IH t show ?case by blast
qed simp

definition waits_for_pin :: "pin_relay \<Rightarrow> bool" where
  "waits_for_pin s \<longleftrightarrow> (case pr_task s of
      TaskAwaiting i \<Rightarrow> rq_answer (pr_requests s ! i) = None | _ \<Rightarrow> False)"

lemma pin_can_arrive:
  assumes "pin_inv s" and "waits_for_pin s"
  shows "\<exists>as s'. set as \<subseteq> {RelayTake, RelayStore} \<and>
    pin_run (as @ [SendPin pin, AwaitPin]) s = Some s' \<and> pr_got s' = pr_got s @ [pin]"
proof -
  from assms obtain i where t: "pr_task s = TaskAwaiting i" "rq_answer (pr_requests s ! i) = None"
      "rq_waits (pr_requests s ! i)" "i < length (pr_requests s)"
    and p: "pin_places s ([i], RelayWaiting, None) \<or> pin_places s ([], RelayStoring i, None) \<or>
       pin_places s ([], RelayWaiting, Some i)"
    by (auto simp: waits_for_pin_def pin_inv_def split: pin_task.splits)
  note run = relay_take_def relay_store_def pin_call_def send_pin_def pin_await_def
    tseq_def tbind_def task_simps pin_places_def
  from p consider "pin_places s ([i], RelayWaiting, None)" | "pin_places s ([], RelayStoring i, None)"
    | "pin_places s ([], RelayWaiting, Some i)" by blast
  then show ?thesis
  proof cases
    case 1
    with t show ?thesis by (intro exI [of _ "[RelayTake, RelayStore]"]) (simp add: run)
  next
    case 2
    with t show ?thesis by (intro exI [of _ "[RelayStore]"]) (simp add: run)
  next
    case 3
    with t show ?thesis by (intro exI [of _ "[]"]) (simp add: run)
  qed
qed


definition demo_pin_run :: "pin_action list" where
  "demo_pin_run = [Ask, SendPin ''0'', RelayTake, RelayStore, SendPin ''1'', AwaitPin, Ask]"


end
