(* ===== verification/Ffi_Props.thy ===== *)
theory Ffi_Props
  imports Ffi_Controller Ffi_Pin Rtc_Offer_Props
begin

text \<open>
  What the application gets through the bindings: the first decision on the file list counts, a
  file arrives with the bytes the other application handed over, whatever keys and PINs the two use,
  and the statuses of a session tell its result.
\<close>

section \<open>The selection\<close>

text \<open>What the receive task finds when it waits for the selection.\<close>

definition selection_reply :: "receive_controller \<Rightarrow> string list option reply" where
  "selection_reply c = (case rc_selection c of
      Some decision \<Rightarrow> Reply decision
    | None \<Rightarrow> if rc_selected_tx c = None then Dropped else Pending)"

text \<open>Calls of the application, one after the other, with their results.\<close>

fun run_calls :: "('c, 'a) task list \<Rightarrow> 'c \<Rightarrow> 'a outcome list \<times> 'c" where
  "run_calls [] c = ([], c)"
| "run_calls (m # ms) c = (let (r, c') = m c; (rs, c'') = run_calls ms c' in (r # rs, c''))"

lemma late_decision:
  assumes "rc_selected_tx c = None"
  shows "send_decision d c = (Fail (Msg ''Selected files already sent''), c)"
proof -
  have "c\<lparr>rc_selected_tx := None\<rparr> = c" using assms by (cases c) simp
  with assms show ?thesis by (simp add: send_decision_def tseq_def tbind_def task_simps)
qed

lemma later_decisions_fail:
  "rc_selected_tx c = None \<Longrightarrow>
   run_calls (map send_decision ds) c =
     (replicate (length ds) (Fail (Msg ''Selected files already sent'')), c)"
  by (induction ds) (simp_all add: late_decision)



section \<open>Files\<close>

fun send_pieces :: "nat \<Rightarrow> bytes list \<Rightarrow> (send_controller, unit) task" where
  "send_pieces sender [] = ret ()"
| "send_pieces sender (data # rest) = tseq (file_sender_send sender data) (send_pieces sender rest)"

fun send_all :: "(string \<times> bytes list) list \<Rightarrow> (send_controller, unit) task" where
  "send_all [] = ret ()"
| "send_all (f # fs) = tseq (tbind (controller_send_file (fst f)) (\<lambda>sender. send_pieces sender (snd f))) (send_all fs)"

definition sunk :: "'a sink_event list \<Rightarrow> 'a list" where
  "sunk es = concat (map (\<lambda>e. case e of Added x \<Rightarrow> [x] | AddedError _ \<Rightarrow> []) es)"

definition receive_all :: "receive_controller \<Rightarrow> (string \<times> bytes) list" where
  "receive_all c = map (\<lambda>f. (get_file_id f, concat (sunk (fv_sink (snd (receive f))))))
     (sunk (rc_receiving_sink (snd (listen_receiving c))))"

lemma sunk_append [simp]: "sunk (xs @ ys) = sunk xs @ sunk ys"
  by (simp add: sunk_def)

lemma sunk_added [simp]: "sunk (map (\<lambda>x. Added (f x)) xs) = map f xs" "sunk (Added x # es) = x # sunk es" "sunk [] = []"
  by (simp_all add: sunk_def map_concat comp_def concat_map_singleton)

lemma sd_sent_update_eq: "sd_sent_update g c = c\<lparr>sd_sent := g (sd_sent c)\<rparr>"
  by (cases c) simp

lemma send_pieces_run:
  "\<forall>i n. sd_takes c i n \<Longrightarrow> sd_sent c = pre @ [(i, ds)] \<Longrightarrow>
   send_pieces (length pre) pieces c = (Done (), c\<lparr>sd_sent := pre @ [(i, ds @ pieces)]\<rparr>)"
proof (induction pieces arbitrary: c ds)
  case (Cons p pieces)
  let ?c = "c\<lparr>sd_sent := pre @ [(i, ds @ [p])]\<rparr>"
  have "file_sender_send (length pre) p c = (Done (), ?c)"
    using Cons.prems
    by (simp add: file_sender_send_def sd_sent_update_eq [of "add_data (length pre) p" c] add_data_def)
  moreover have "send_pieces (length pre) pieces ?c = (Done (), ?c\<lparr>sd_sent := pre @ [(i, (ds @ [p]) @ pieces)]\<rparr>)"
    using Cons.prems by (intro Cons.IH) simp_all
  ultimately show ?case by (simp add: tseq_def tbind_def)
qed (simp add: task_simps)

lemma controller_send_run:
  assumes "\<forall>i n. sd_takes c i n" and "sd_send_open c"
  shows "tbind (controller_send_file i) (\<lambda>sender. send_pieces sender ds) c =
    (Done (), c\<lparr>sd_sent := sd_sent c @ [(i, ds)]\<rparr>)"
proof -
  let ?c = "c\<lparr>sd_sent := sd_sent c @ [(i, [])]\<rparr>"
  have "controller_send_file i c = (Done (length (sd_sent c)), ?c)"
    using assms(2) by (simp add: controller_send_file_def tseq_def tbind_def task_simps)
  with send_pieces_run [of ?c "sd_sent c" i "[]" ds] assms(1)
  show ?thesis by (simp add: tbind_def)
qed

lemma send_all_run:
  "\<forall>i n. sd_takes c i n \<Longrightarrow> sd_send_open c \<Longrightarrow>
   send_all files c = (Done (), c\<lparr>sd_sent := sd_sent c @ files\<rparr>)"
proof (induction files arbitrary: c)
  case (Cons f files)
  with controller_send_run [of c "fst f" "snd f"] show ?case by (simp add: tseq_def tbind_def)
qed (simp add: task_simps)

lemma push_run: "push data f = (Done (), f\<lparr>fv_sink := fv_sink f @ [Added data]\<rparr>)"
  by (cases f) (simp add: push_def task_simps)

lemma buffer_loop_sink:
  "\<exists>es. buffer_loop push buffer rx f = (Done (), f\<lparr>fv_sink := fv_sink f @ es\<rparr>) \<and>
     concat (sunk es) = buffer @ concat rx"
proof (induction rx arbitrary: buffer f)
  case Nil
  show ?case
    using push_run [of buffer f]
    by (cases "buffer = []") (auto simp: task_simps intro: exI [of _ "[]"] exI [of _ "[Added buffer]"])
next
  case (Cons data rx)
  let ?b = "buffer @ data"
  show ?case
  proof (cases "BUFFER_SIZE \<le> length ?b")
    case True
    obtain es where "buffer_loop push [] rx (f\<lparr>fv_sink := fv_sink f @ [Added ?b]\<rparr>) =
        (Done (), f\<lparr>fv_sink := fv_sink f @ [Added ?b] @ es\<rparr>)" and "concat (sunk es) = concat rx"
      using Cons.IH [of "[]" "f\<lparr>fv_sink := fv_sink f @ [Added ?b]\<rparr>"] by auto
    with True show ?thesis
      by (intro exI [of _ "[Added ?b] @ es"])
        (use push_run [of ?b f] in \<open>simp add: Let_def tbind_def\<close>)
  next
    case False
    with Cons.IH [of ?b f] show ?thesis by (auto simp: Let_def)
  qed
qed

lemma receive_run:
  "concat (sunk (fv_sink (snd (receive (new_file_receiver entry))))) = concat (snd entry)"
proof -
  let ?f = "(new_file_receiver entry)\<lparr>fv_binary_rx := None\<rparr>"
  obtain es where "buffer_loop push [] (snd entry) ?f = (Done (), ?f\<lparr>fv_sink := fv_sink ?f @ es\<rparr>)"
    and "concat (sunk es) = concat (snd entry)"
    using buffer_loop_sink [of "[]" "snd entry" ?f] by auto
  then show ?thesis
    by (simp add: receive_def buffer_receiver_def tseq_def tbind_def task_simps new_file_receiver_def)
qed

lemma receive_all_run:
  assumes "rc_receiving_rx c = Some rx" and "rc_receiving_sink c = []"
  shows "receive_all c = contents (rx_items rx)"
proof -
  have "sunk (rc_receiving_sink (snd (listen_receiving c))) = map new_file_receiver (rx_items rx)"
    using assms by (cases "rx_closed rx") (simp_all add: listen_receiving_def listen_slot_def tseq_def tbind_def task_simps)
  moreover have "get_file_id (new_file_receiver f) = fst f" for f
    by (simp add: get_file_id_def new_file_receiver_def)
  ultimately show ?thesis by (simp add: receive_all_def contents_def receive_run)
qed

section \<open>Keys and PINs\<close>

text \<open>The keys that \<open>generate_key_pair\<close> gives an application, and what it expects of the other one.\<close>

definition expected_key :: "key_pair \<Rightarrow> expecting_public_key" where
  "expected_key pair = \<lparr>ek_public_key = kp_public_key pair, ek_kind = ''ed25519''\<rparr>"

lemma session_keys_of_pairs:
  assumes "pem_ok C" and "generate_key_pair C csprng = Inr pair" and "generate_key_pair C csprng' = Inr pair'"
    and "expected \<in> {None, Some (expected_key pair')}"
  shows "session_keys C (kp_private_key pair) expected =
    Inr (generate_key C csprng, map_option (\<lambda>_. to_verifying_key C (generate_key C csprng')) expected)"
  using key_pair_sessions [OF assms(1,2)] key_pair_sessions [OF assms(1,3)] assms(4)
  by (auto simp: session_keys_def expected_key_def split: sum.splits)

text \<open>The PINs that an application entered: those of its calls of \<open>send_pin\<close> that succeeded. They are what
  the transfer gets, once none is under way.\<close>

definition entered :: "pin_relay \<Rightarrow> string list \<Rightarrow> bool" where
  "entered q pins \<longleftrightarrow> pin_reachable q \<and> in_flight q = [] \<and> accepted_pins (pr_calls q) = pins"

lemma entered_got: "entered q pins \<Longrightarrow> pr_got q = pins"
  using pins.holds [of q] by (auto simp: entered_def pin_reachable_def pin_inv_def)


definition demo_send_controller :: send_controller where
  "demo_send_controller = \<lparr>sd_status_rx = \<lparr>rx_items = [], rx_closed = False\<rparr>, sd_selected_rx = None,
     sd_error_rx = \<lparr>rx_items = [], rx_closed = False\<rparr>, sd_send_open = True, sd_sent = [],
     sd_takes = (\<lambda>_ _. True), sd_status_sink = [], sd_error_sink = []\<rparr>"

definition demo_receive_controller :: receive_controller where
  "demo_receive_controller = \<lparr>rc_status_rx = None, rc_files_rx = None, rc_selected_tx = Some True,
     rc_error_rx = None, rc_receiving_rx = None, rc_results_open = True, rc_status_sink = [],
     rc_selection = None, rc_error_sink = [], rc_receiving_sink = [], rc_results = []\<rparr>"

definition demo_entering :: "string \<Rightarrow> pin_relay" where
  "demo_entering pin = the (pin_run [Ask, RelayTake, RelayStore, SendPin pin, AwaitPin] pin_relay_new)"

lemma demo_entering_run:
  "pin_run [Ask, RelayTake, RelayStore, SendPin pin, AwaitPin] pin_relay_new = Some (demo_entering pin)"
  "pr_got (demo_entering pin) = [pin]" "in_flight (demo_entering pin) = []"
  by (simp_all add: demo_entering_def pin_ask_def relay_take_def relay_store_def pin_call_def send_pin_def
      pin_await_def tseq_def tbind_def task_simps pin_relay_new_def in_flight_def)

lemma demo_entered: "entered (demo_entering pin) [pin]"
proof -
  have "pin_reachable pin_relay_new" by (simp add: pin_reachable_def reach_init)
  with demo_entering_run(1) have "pin_reachable (demo_entering pin)" by (rule pin_run_reachable)
  moreover from this have "pin_inv (demo_entering pin)"
    unfolding pin_reachable_def by (rule pins.holds)
  ultimately show ?thesis
    using demo_entering_run(2,3) [of pin] by (simp add: entered_def pin_inv_def)
qed

definition demo_pair :: "u8 \<Rightarrow> key_pair" where
  "demo_pair b = \<lparr>kp_private_key = hex_encode (replicate 32 b), kp_public_key = hex_encode (replicate 32 b)\<rparr>"

lemma demo_pair_generated: "generate_key_pair (rl_crypto demo_lib) (\<lambda>_. b) = Inr (demo_pair b)"
  by (simp add: generate_key_pair_def demo_lib_def demo_crypto_def generate_key_def export_private_key_def
      export_public_key_def demo_pair_def Let_def map_replicate_const)

lemma demo_token_seed:
  "\<exists>token. generate_token_nonce (rl_crypto demo_lib) (generate_key (rl_crypto demo_lib) seed) nonce = Inr token"
  by (simp add: demo_lib_def demo_crypto_def generate_token_nonce_def Let_def)


section \<open>What a session reports\<close>

text \<open>The status channel stays open, and an exchange that succeeds reported \<open>SdpExchanged\<close>.\<close>

definition exchanged :: "rtc_session \<Rightarrow> unit outcome \<times> rtc_session \<Rightarrow> bool" where
  "exchanged s res \<longleftrightarrow> (\<forall>n. ss_status_ok (snd res) n) \<and>
    (if fst res = Done () then ss_status (snd res) = ss_status s @ [StSdpExchanged]
     else ss_status (snd res) \<in> {ss_status s, ss_status s @ [StSdpExchanged]})"

lemma exchange_offer_status:
  "\<forall>n. ss_status_ok s n \<Longrightarrow> exchanged s (exchange_offer G C target s)"
  by (auto simp: exchanged_def session_simps of_result_def split: option.splits reply.splits sum.splits)

lemma exchange_answer_status:
  "\<forall>n. ss_status_ok s n \<Longrightarrow> exchanged s (exchange_answer G C offer s)"
  by (auto simp: exchanged_def session_simps of_result_def split: option.splits sum.splits)

text \<open>The statuses of a session with the given result.\<close>

definition reports :: "rtc_status list \<Rightarrow> unit outcome \<Rightarrow> rtc_status list \<Rightarrow> bool" where
  "reports told result sts \<longleftrightarrow> (case result of
      Done _ \<Rightarrow> sts = told @ [StSdpExchanged, StFinished]
    | Fail e \<Rightarrow> sts \<in> {told @ [StError e], told @ [StSdpExchanged, StError e],
                      told @ [StSdpExchanged, StFinished, StError e]}
    | _ \<Rightarrow> sts \<in> {told, told @ [StSdpExchanged]})"

lemmas job_simps = run_transfer_def lib_call_def await_task_def session_status_def close_connection_def
  discard_def tseq_def tbind_def attempt_def task_simps

lemma offer_reports:
  assumes "\<forall>n. ss_status_ok s n"
  shows "reports (ss_status s) (fst (send_offer G C target s)) (ss_status (snd (offer_job G C target s)))"
proof -
  obtain x s' where e: "exchange_offer G C target s = (x, s')" by fastforce
  with exchange_offer_status [OF assms, of G C target] have "exchanged s (x, s')" by simp
  with e assms show ?thesis
    by (cases x; cases "ss_selected s'")
      (auto simp: exchanged_def reports_def offer_job_def send_offer_def job_simps split: outcome.splits if_splits)
qed

lemma accept_reports:
  assumes "\<forall>n. ss_status_ok s n"
  shows "reports (ss_status s) (fst (accept_offer G C offer s)) (ss_status (snd (accept_job G C offer s)))"
proof -
  obtain x s' where e: "exchange_answer G C offer s = (x, s')" by fastforce
  with exchange_answer_status [OF assms, of G C offer] have "exchanged s (x, s')" by simp
  with e assms show ?thesis
    by (cases x; cases "ss_selected s'")
      (auto simp: exchanged_def reports_def accept_job_def accept_offer_def job_simps split: outcome.splits if_splits)
qed




end
