(* ===== verification/Sse_Codec.thy ===== *)
theory Sse_Codec
  imports Rtc_Msg
begin

text \<open>
  The byte format in which the application and the Rust library exchange values
  (app/rust/src/frb\_generated.rs, SseEncode and SseDecode): integers in the byte order of the
  machine, strings and vectors with their length in front as an \<open>i32\<close>, an option with a byte that
  tells whether there is a value. A decoder takes the rest of the message and returns a value and
  what is left; \<open>None\<close> is a panic.
\<close>

unbundle bit_operations_syntax

section \<open>Integers\<close>

text \<open>\<open>ft_big_endian\<close>: \<open>NativeEndian\<close>; \<open>ft_display\<close> and \<open>ft_debug\<close>: how an error of a library is written
  by \<open>{}\<close> and any error by \<open>{:?}\<close>.\<close>

record ffi_target =
  ft_big_endian :: bool
  ft_display :: "foreign \<Rightarrow> string"
  ft_debug :: "err \<Rightarrow> string"

type_synonym 'a sse_decoder = "bytes \<Rightarrow> ('a \<times> bytes) option"

definition native :: "ffi_target \<Rightarrow> bytes \<Rightarrow> bytes" where
  "native F bs = (if ft_big_endian F then rev bs else bs)"

definition le_bytes :: "nat \<Rightarrow> 'a::len word \<Rightarrow> bytes" where
  "le_bytes n w = map (\<lambda>i. ucast (drop_bit (8 * i) w)) [0..<n]"

definition from_le :: "bytes \<Rightarrow> 'a::len word" where
  "from_le bs = foldr (\<lambda>b w. ucast b OR push_bit 8 w) bs 0"

definition write_int :: "ffi_target \<Rightarrow> 'a::len word \<Rightarrow> bytes" where
  "write_int F w = native F (le_bytes (LENGTH('a) div 8) w)"

definition read_int :: "ffi_target \<Rightarrow> 'a::len word sse_decoder" where
  "read_int F r =
     (if length r < LENGTH('a) div 8 then None
      else Some (from_le (native F (take (LENGTH('a) div 8) r)), drop (LENGTH('a) div 8) r))"

definition sse_encode_u8 :: "u8 \<Rightarrow> bytes" where
  "sse_encode_u8 b = [b]"

definition sse_decode_u8 :: "u8 sse_decoder" where
  "sse_decode_u8 r = (case r of [] \<Rightarrow> None | b # r' \<Rightarrow> Some (b, r'))"

definition sse_encode_u16 :: "ffi_target \<Rightarrow> u16 \<Rightarrow> bytes" where
  "sse_encode_u16 F w = write_int F w"

definition sse_decode_u16 :: "ffi_target \<Rightarrow> u16 sse_decoder" where
  "sse_decode_u16 F = read_int F"

definition sse_encode_u64 :: "ffi_target \<Rightarrow> u64 \<Rightarrow> bytes" where
  "sse_encode_u64 F w = write_int F w"

definition sse_decode_u64 :: "ffi_target \<Rightarrow> u64 sse_decoder" where
  "sse_decode_u64 F = read_int F"

text \<open>\<open>i32\<close> is a word that is read with its sign. \<open>usize\<close> and \<open>isize\<close> have 64 bits.\<close>

definition sse_encode_i32 :: "ffi_target \<Rightarrow> u32 \<Rightarrow> bytes" where
  "sse_encode_i32 F w = write_int F w"

definition sse_decode_i32 :: "ffi_target \<Rightarrow> u32 sse_decoder" where
  "sse_decode_i32 F = read_int F"

definition sse_encode_usize :: "ffi_target \<Rightarrow> u64 \<Rightarrow> bytes" where
  "sse_encode_usize F w = write_int F w"

definition sse_decode_usize :: "ffi_target \<Rightarrow> u64 sse_decoder" where
  "sse_decode_usize F = read_int F"

definition sse_encode_isize :: "ffi_target \<Rightarrow> u64 \<Rightarrow> bytes" where
  "sse_encode_isize F w = write_int F w"

definition sse_decode_isize :: "ffi_target \<Rightarrow> u64 sse_decoder" where
  "sse_decode_isize F = read_int F"

definition sse_encode_bool :: "bool \<Rightarrow> bytes" where
  "sse_encode_bool b = [if b then 1 else 0]"

definition sse_decode_bool :: "bool sse_decoder" where
  "sse_decode_bool r = do { (b, r) \<leftarrow> sse_decode_u8 r; Some (b \<noteq> 0, r) }"

definition sse_encode_unit :: "unit \<Rightarrow> bytes" where
  "sse_encode_unit u = []"

definition sse_decode_unit :: "unit sse_decoder" where
  "sse_decode_unit r = Some ((), r)"

section \<open>Vectors, options, strings\<close>

text \<open>\<open>self.len() as _\<close> wraps to an \<open>i32\<close>; a loop over \<open>0..len_\<close> runs no times when \<open>len_\<close> is
  negative.\<close>

definition sse_encode_vec :: "ffi_target \<Rightarrow> ('a \<Rightarrow> bytes) \<Rightarrow> 'a list \<Rightarrow> bytes" where
  "sse_encode_vec F enc xs = sse_encode_i32 F (of_nat (length xs)) @ concat (map enc xs)"

fun decode_times :: "nat \<Rightarrow> 'a sse_decoder \<Rightarrow> 'a list sse_decoder" where
  "decode_times 0 dec r = Some ([], r)"
| "decode_times (Suc n) dec r = do {
     (x, r) \<leftarrow> dec r;
     (xs, r) \<leftarrow> decode_times n dec r;
     Some (x # xs, r) }"

definition sse_decode_vec :: "ffi_target \<Rightarrow> 'a sse_decoder \<Rightarrow> 'a list sse_decoder" where
  "sse_decode_vec F dec r = do {
     (len, r) \<leftarrow> sse_decode_i32 F r;
     decode_times (nat (sint len)) dec r }"

definition sse_encode_option :: "('a \<Rightarrow> bytes) \<Rightarrow> 'a option \<Rightarrow> bytes" where
  "sse_encode_option enc x =
     sse_encode_bool (x \<noteq> None) @ (case x of None \<Rightarrow> [] | Some v \<Rightarrow> enc v)"

definition sse_decode_option :: "'a sse_decoder \<Rightarrow> 'a option sse_decoder" where
  "sse_decode_option dec r = do {
     (some, r) \<leftarrow> sse_decode_bool r;
     if some then do { (v, r) \<leftarrow> dec r; Some (Some v, r) } else Some (None, r) }"

definition sse_encode_string :: "ffi_target \<Rightarrow> string \<Rightarrow> bytes" where
  "sse_encode_string F s = sse_encode_vec F sse_encode_u8 (utf8 s)"

definition sse_decode_string :: "ffi_target \<Rightarrow> string sse_decoder" where
  "sse_decode_string F r = do {
     (inner, r) \<leftarrow> sse_decode_vec F sse_decode_u8 r;
     s \<leftarrow> from_utf8 inner;
     Some (s, r) }"

text \<open>\<open>Uuid::as_bytes\<close> and \<open>Uuid::from_slice\<close>: 16 bytes, the most significant first.\<close>

definition uuid_bytes :: "uuid \<Rightarrow> bytes" where
  "uuid_bytes u = rev (le_bytes 16 u)"

definition uuid_from_slice :: "bytes \<Rightarrow> uuid option" where
  "uuid_from_slice bs = (if length bs = 16 then Some (from_le (rev bs)) else None)"

definition sse_encode_uuid :: "ffi_target \<Rightarrow> uuid \<Rightarrow> bytes" where
  "sse_encode_uuid F u = sse_encode_vec F sse_encode_u8 (uuid_bytes u)"

definition sse_decode_uuid :: "ffi_target \<Rightarrow> uuid sse_decoder" where
  "sse_decode_uuid F r = do {
     (inner, r) \<leftarrow> sse_decode_vec F sse_decode_u8 r;
     u \<leftarrow> uuid_from_slice inner;
     Some (u, r) }"

text \<open>A \<open>HashSet<String>\<close> is the list of its elements in the order in which it is iterated.\<close>

definition sse_encode_hash_set :: "ffi_target \<Rightarrow> string list \<Rightarrow> bytes" where
  "sse_encode_hash_set F xs = sse_encode_vec F (sse_encode_string F) xs"

definition sse_decode_hash_set :: "ffi_target \<Rightarrow> string list sse_decoder" where
  "sse_decode_hash_set F r = do {
     (inner, r) \<leftarrow> sse_decode_vec F (sse_decode_string F) r;
     Some (remdups inner, r) }"

section \<open>Reading integers back\<close>

lemma length_le_bytes [simp]: "length (le_bytes n w) = n"
  by (simp add: le_bytes_def)

lemma length_native [simp]: "length (native F bs) = length bs"
  by (simp add: native_def)

lemma native_native [simp]: "native F (native F bs) = bs"
  by (simp add: native_def)

lemma from_le_bytes_take:
  "foldr (\<lambda>b w. ucast b OR push_bit 8 w) (map (\<lambda>i. ucast (drop_bit (8 * i) w) :: u8) [j..<j + n]) 0 =
   take_bit (8 * n) (drop_bit (8 * j) (w :: 'a::len word))"
proof (induction n arbitrary: j)
  case (Suc n)
  have "[j..<j + Suc n] = j # [Suc j..<Suc j + n]" by (simp add: upt_rec)
  then have "foldr (\<lambda>b w. ucast b OR push_bit 8 w)
      (map (\<lambda>i. ucast (drop_bit (8 * i) w) :: u8) [j..<j + Suc n]) 0 =
      ucast (ucast (drop_bit (8 * j) w) :: u8) OR push_bit 8 (take_bit (8 * n) (drop_bit (8 * Suc j) w))"
    using Suc.IH [of "Suc j"] by simp
  also have "\<dots> = take_bit (8 * Suc n) (drop_bit (8 * j) w)"
    by (rule bit_word_eqI) (auto simp: bit_simps not_less algebra_simps)
  finally show ?case .
qed simp

lemma from_le_bytes_eq: "LENGTH('a) \<le> 8 * n \<Longrightarrow> from_le (le_bytes n w) = (w :: 'a::len word)"
  using from_le_bytes_take [of w 0 n] by (simp add: from_le_def le_bytes_def take_bit_word_eq_self)

lemma length_write_int [simp]: "length (write_int F (w :: 'a::len word)) = LENGTH('a) div 8"
  by (simp add: write_int_def)

lemma read_write_int: "8 dvd LENGTH('a) \<Longrightarrow> read_int F (write_int F w @ r) = Some (w :: 'a::len word, r)"
  by (simp add: read_int_def) (simp add: write_int_def from_le_bytes_eq)

named_theorems sse_simps \<open>reading back what was written\<close>

lemma sse_ints [sse_simps]:
  "sse_decode_u8 (sse_encode_u8 b @ r) = Some (b, r)"
  "sse_decode_u16 F (sse_encode_u16 F h @ r) = Some (h, r)"
  "sse_decode_u64 F (sse_encode_u64 F w @ r) = Some (w, r)"
  "sse_decode_i32 F (sse_encode_i32 F i @ r) = Some (i, r)"
  "sse_decode_usize F (sse_encode_usize F w @ r) = Some (w, r)"
  "sse_decode_isize F (sse_encode_isize F w @ r) = Some (w, r)"
  "sse_decode_usize F (sse_encode_isize F w @ r) = Some (w, r)"
  "sse_decode_bool (sse_encode_bool p @ r) = Some (p, r)"
  "sse_decode_unit (sse_encode_unit u @ r) = Some ((), r)"
  by (simp_all add: sse_decode_u8_def sse_encode_u8_def sse_decode_u16_def sse_encode_u16_def
      sse_decode_u64_def sse_encode_u64_def sse_decode_i32_def sse_encode_i32_def sse_decode_usize_def
      sse_encode_usize_def sse_decode_isize_def sse_encode_isize_def sse_decode_bool_def sse_encode_bool_def
      sse_decode_unit_def sse_encode_unit_def read_write_int)

section \<open>The interface of a codec\<close>

text \<open>Every type has an encoder and a decoder; \<open>fits\<close> tells which values the format can carry: strings
  that are text, and lengths below \<open>2 ^ 31\<close>.\<close>

locale sse_codec =
  fixes enc :: "'a \<Rightarrow> bytes"
    and dec :: "'a sse_decoder"
    and fits :: "'a \<Rightarrow> bool"
  assumes read_back: "fits x \<Longrightarrow> dec (enc x @ r) = Some (x, r)"
begin

lemma times_read_back:
  "list_all fits xs \<Longrightarrow> decode_times (length xs) dec (concat (map enc xs) @ r) = Some (xs, r)"
  by (induction xs) (simp_all add: read_back)

lemma vec_read_back:
  assumes "list_all fits xs" and "length xs < 2 ^ 31"
  shows "sse_decode_vec F dec (sse_encode_vec F enc xs @ r) = Some (xs, r)"
proof -
  have "sint (of_nat (length xs) :: u32) = int (length xs)"
    using assms(2) by (simp add: sint_uint unsigned_of_nat take_bit_nat_eq_self signed_take_bit_int_eq_self)
  with assms(1) show ?thesis
    by (simp add: sse_decode_vec_def sse_encode_vec_def sse_ints times_read_back)
qed

lemma option_read_back:
  "pred_option fits x \<Longrightarrow> sse_decode_option dec (sse_encode_option enc x @ r) = Some (x, r)"
  by (cases x) (simp_all add: sse_decode_option_def sse_encode_option_def sse_ints read_back)

text \<open>Two values that the format can carry are written differently, and neither is written as the
  beginning of the other.\<close>

lemma prefix_free: "fits x \<Longrightarrow> fits y \<Longrightarrow> enc x @ r = enc y @ r' \<Longrightarrow> x = y \<and> r = r'"
  by (metis read_back option.inject prod.inject)

end

definition fits_string :: "string \<Rightarrow> bool" where
  "fits_string s \<longleftrightarrow> utf8_valid (utf8 s) \<and> length s < 2 ^ 31"

definition fits_vec :: "('a \<Rightarrow> bool) \<Rightarrow> 'a list \<Rightarrow> bool" where
  "fits_vec fits xs \<longleftrightarrow> list_all fits xs \<and> length xs < 2 ^ 31"

interpretation u8: sse_codec sse_encode_u8 sse_decode_u8 "\<lambda>_. True"
  by unfold_locales (simp add: sse_ints)

lemma string_read_back: "fits_string s \<Longrightarrow> sse_decode_string F (sse_encode_string F s @ r) = Some (s, r)"
  by (simp add: sse_decode_string_def sse_encode_string_def fits_string_def u8.vec_read_back from_utf8_utf8 list_all_iff)

lemma length_uuid_bytes [simp]: "length (uuid_bytes u) = 16"
  by (simp add: uuid_bytes_def)

lemma uuid_from_slice_bytes [simp]: "uuid_from_slice (uuid_bytes u) = Some u"
  by (simp add: uuid_from_slice_def uuid_bytes_def from_le_bytes_eq)

lemma uuid_read_back: "sse_decode_uuid F (sse_encode_uuid F u @ r) = Some (u, r)"
  by (simp add: sse_decode_uuid_def sse_encode_uuid_def u8.vec_read_back list_all_iff)

interpretation string: sse_codec "sse_encode_string F" "sse_decode_string F" fits_string for F
  by unfold_locales (rule string_read_back)

interpretation uuid: sse_codec "sse_encode_uuid F" "sse_decode_uuid F" "\<lambda>_. True" for F
  by unfold_locales (rule uuid_read_back)

lemma strings_read_back:
  "fits_vec fits_string xs \<Longrightarrow>
   sse_decode_vec F (sse_decode_string F) (sse_encode_vec F (sse_encode_string F) xs @ r) = Some (xs, r)"
  by (simp add: fits_vec_def string.vec_read_back)

lemma bytes_read_back:
  "length bs < 2 ^ 31 \<Longrightarrow> sse_decode_vec F sse_decode_u8 (sse_encode_vec F sse_encode_u8 bs @ r) = Some (bs, r)"
  by (simp add: u8.vec_read_back list_all_iff)

lemma hash_set_read_back:
  "fits_vec fits_string xs \<Longrightarrow> distinct xs \<Longrightarrow>
   sse_decode_hash_set F (sse_encode_hash_set F xs @ r) = Some (xs, r)"
  by (simp add: sse_decode_hash_set_def sse_encode_hash_set_def strings_read_back distinct_remdups_id)

interpretation strings: sse_codec "sse_encode_vec F (sse_encode_string F)" "sse_decode_vec F (sse_decode_string F)"
    "fits_vec fits_string" for F
  by unfold_locales (rule strings_read_back)

interpretation hash_set: sse_codec "sse_encode_hash_set F" "sse_decode_hash_set F"
    "\<lambda>xs. fits_vec fits_string xs \<and> distinct xs" for F
  by unfold_locales (simp add: hash_set_read_back)

lemmas [sse_simps] = string_read_back uuid_read_back strings_read_back bytes_read_back hash_set_read_back
  string.option_read_back

end
