(* ===== verification/Sse_Types.thy ===== *)
theory Sse_Types
  imports Sse_Codec Ffi_Controller
begin

text \<open>
  Encoders and decoders of the types that cross the border between the application and the Rust
  library (app/rust/src/frb\_generated.rs), field by field in the order of the generated code, and
  that each reads back what it wrote.
\<close>

section \<open>Enums\<close>

definition sse_encode_device_type :: "ffi_target \<Rightarrow> device_type \<Rightarrow> bytes" where
  "sse_encode_device_type F t = sse_encode_i32 F
     (case t of Mobile \<Rightarrow> 0 | Desktop \<Rightarrow> 1 | Web \<Rightarrow> 2 | Headless \<Rightarrow> 3 | Server \<Rightarrow> 4)"

definition sse_decode_device_type :: "ffi_target \<Rightarrow> device_type sse_decoder" where
  "sse_decode_device_type F r = do {
     (inner, r) \<leftarrow> sse_decode_i32 F r;
     if inner = 0 then Some (Mobile, r)
     else if inner = 1 then Some (Desktop, r)
     else if inner = 2 then Some (Web, r)
     else if inner = 3 then Some (Headless, r)
     else if inner = 4 then Some (Server, r)
     else None }"

section \<open>Errors\<close>

text \<open>The text of an error: in the sources the fields that hold errors are strings.\<close>

fun err_text :: "ffi_target \<Rightarrow> err \<Rightarrow> string" where
  "err_text F (Msg s) = s"
| "err_text F (MsgOf s f) = s @ ft_display F f"
| "err_text F (Ext f) = ft_display F f"

definition sse_encode_err :: "ffi_target \<Rightarrow> err \<Rightarrow> bytes" where
  "sse_encode_err F e = sse_encode_string F (err_text F e)"

definition sse_decode_err :: "ffi_target \<Rightarrow> err sse_decoder" where
  "sse_decode_err F r = do { (s, r) \<leftarrow> sse_decode_string F r; Some (Msg s, r) }"

fun fits_err :: "err \<Rightarrow> bool" where
  "fits_err (Msg s) \<longleftrightarrow> fits_string s"
| "fits_err _ \<longleftrightarrow> False"

text \<open>\<open>anyhow::Error\<close>: written with \<open>{:?}\<close>.\<close>

definition sse_encode_anyhow :: "ffi_target \<Rightarrow> err \<Rightarrow> bytes" where
  "sse_encode_anyhow F e = sse_encode_string F (ft_debug F e)"

definition sse_decode_anyhow :: "ffi_target \<Rightarrow> err sse_decoder" where
  "sse_decode_anyhow F r = do { (inner, r) \<leftarrow> sse_decode_string F r; Some (Msg inner, r) }"

section \<open>Objects and streams\<close>

text \<open>An object that stays in the library is known to the application by its address, with its size
  when the library hands it out. What puts an object behind a shared pointer and what gives it back
  belongs to the bridge: the parameters \<open>alloc\<close> and \<open>owned\<close>. A stream is opened by the application,
  which passes its name.\<close>

type_synonym handle = u64
type_synonym sink = string

definition sse_encode_opaque :: "ffi_target \<Rightarrow> handle \<times> u32 \<Rightarrow> bytes" where
  "sse_encode_opaque F object = sse_encode_usize F (fst object) @ sse_encode_i32 F (snd object)"

definition sse_decode_opaque :: "ffi_target \<Rightarrow> handle sse_decoder" where
  "sse_decode_opaque F r = do { (inner, r) \<leftarrow> sse_decode_usize F r; Some (inner, r) }"

definition sse_encode_owned :: "ffi_target \<Rightarrow> ('o \<Rightarrow> handle \<times> u32) \<Rightarrow> 'o \<Rightarrow> bytes" where
  "sse_encode_owned F alloc x = sse_encode_opaque F (alloc x)"

definition sse_decode_owned :: "ffi_target \<Rightarrow> (handle \<Rightarrow> 'o option) \<Rightarrow> 'o sse_decoder" where
  "sse_decode_owned F owned r = do {
     (inner, r) \<leftarrow> sse_decode_opaque F r;
     x \<leftarrow> owned inner;
     Some (x, r) }"

definition sse_encode_dart_opaque :: "ffi_target \<Rightarrow> handle \<Rightarrow> bytes" where
  "sse_encode_dart_opaque F h = sse_encode_usize F h"

definition sse_decode_dart_opaque :: "ffi_target \<Rightarrow> handle sse_decoder" where
  "sse_decode_dart_opaque F r = do { (inner, r) \<leftarrow> sse_decode_usize F r; Some (inner, r) }"

definition sse_decode_sink :: "ffi_target \<Rightarrow> sink sse_decoder" where
  "sse_decode_sink F r = do { (inner, r) \<leftarrow> sse_decode_string F r; Some (inner, r) }"

section \<open>Structs\<close>

definition sse_encode_file_metadata :: "ffi_target \<Rightarrow> file_metadata \<Rightarrow> bytes" where
  "sse_encode_file_metadata F m =
     sse_encode_option (sse_encode_string F) (modified m) @
     sse_encode_option (sse_encode_string F) (accessed m)"

definition sse_decode_file_metadata :: "ffi_target \<Rightarrow> file_metadata sse_decoder" where
  "sse_decode_file_metadata F r = do {
     (modified, r) \<leftarrow> sse_decode_option (sse_decode_string F) r;
     (accessed, r) \<leftarrow> sse_decode_option (sse_decode_string F) r;
     Some (\<lparr>modified = modified, accessed = accessed\<rparr>, r) }"

definition fits_file_metadata :: "file_metadata \<Rightarrow> bool" where
  "fits_file_metadata m \<longleftrightarrow>
     pred_option fits_string (modified m) \<and>
     pred_option fits_string (accessed m)"

definition sse_encode_file_dto :: "ffi_target \<Rightarrow> file_dto \<Rightarrow> bytes" where
  "sse_encode_file_dto F m =
     sse_encode_string F (fd_id m) @
     sse_encode_string F (fd_file_name m) @
     sse_encode_u64 F (fd_size m) @
     sse_encode_string F (fd_file_type m) @
     sse_encode_option (sse_encode_string F) (fd_sha256 m) @
     sse_encode_option (sse_encode_string F) (fd_preview m) @
     sse_encode_option (sse_encode_file_metadata F) (fd_metadata m)"

definition sse_decode_file_dto :: "ffi_target \<Rightarrow> file_dto sse_decoder" where
  "sse_decode_file_dto F r = do {
     (id, r) \<leftarrow> sse_decode_string F r;
     (file_name, r) \<leftarrow> sse_decode_string F r;
     (size, r) \<leftarrow> sse_decode_u64 F r;
     (file_type, r) \<leftarrow> sse_decode_string F r;
     (sha256, r) \<leftarrow> sse_decode_option (sse_decode_string F) r;
     (preview, r) \<leftarrow> sse_decode_option (sse_decode_string F) r;
     (metadata, r) \<leftarrow> sse_decode_option (sse_decode_file_metadata F) r;
     Some (\<lparr>fd_id = id, fd_file_name = file_name, fd_size = size, fd_file_type = file_type,
        fd_sha256 = sha256, fd_preview = preview, fd_metadata = metadata\<rparr>, r) }"

definition fits_file_dto :: "file_dto \<Rightarrow> bool" where
  "fits_file_dto m \<longleftrightarrow>
     fits_string (fd_id m) \<and>
     fits_string (fd_file_name m) \<and>
     fits_string (fd_file_type m) \<and>
     pred_option fits_string (fd_sha256 m) \<and>
     pred_option fits_string (fd_preview m) \<and>
     pred_option fits_file_metadata (fd_metadata m)"

definition sse_encode_client_info :: "ffi_target \<Rightarrow> client_info \<Rightarrow> bytes" where
  "sse_encode_client_info F m =
     sse_encode_uuid F (ci_id m) @
     sse_encode_string F (ci_alias m) @
     sse_encode_string F (ci_version m) @
     sse_encode_option (sse_encode_string F) (ci_device_model m) @
     sse_encode_option (sse_encode_device_type F) (ci_device_type m) @
     sse_encode_string F (ci_token m)"

definition sse_decode_client_info :: "ffi_target \<Rightarrow> client_info sse_decoder" where
  "sse_decode_client_info F r = do {
     (id, r) \<leftarrow> sse_decode_uuid F r;
     (alias, r) \<leftarrow> sse_decode_string F r;
     (version, r) \<leftarrow> sse_decode_string F r;
     (device_model, r) \<leftarrow> sse_decode_option (sse_decode_string F) r;
     (device_type, r) \<leftarrow> sse_decode_option (sse_decode_device_type F) r;
     (token, r) \<leftarrow> sse_decode_string F r;
     Some (\<lparr>ci_id = id, ci_alias = alias, ci_version = version, ci_device_model = device_model,
        ci_device_type = device_type, ci_token = token\<rparr>, r) }"

definition fits_client_info :: "client_info \<Rightarrow> bool" where
  "fits_client_info m \<longleftrightarrow>
     fits_string (ci_alias m) \<and>
     fits_string (ci_version m) \<and>
     pred_option fits_string (ci_device_model m) \<and>
     fits_string (ci_token m)"

definition sse_encode_client_info_without_id :: "ffi_target \<Rightarrow> client_info_without_id \<Rightarrow> bytes" where
  "sse_encode_client_info_without_id F m =
     sse_encode_string F (cw_alias m) @
     sse_encode_string F (cw_version m) @
     sse_encode_option (sse_encode_string F) (cw_device_model m) @
     sse_encode_option (sse_encode_device_type F) (cw_device_type m) @
     sse_encode_string F (cw_token m)"

definition sse_decode_client_info_without_id :: "ffi_target \<Rightarrow> client_info_without_id sse_decoder" where
  "sse_decode_client_info_without_id F r = do {
     (alias, r) \<leftarrow> sse_decode_string F r;
     (version, r) \<leftarrow> sse_decode_string F r;
     (device_model, r) \<leftarrow> sse_decode_option (sse_decode_string F) r;
     (device_type, r) \<leftarrow> sse_decode_option (sse_decode_device_type F) r;
     (token, r) \<leftarrow> sse_decode_string F r;
     Some (\<lparr>cw_alias = alias, cw_version = version, cw_device_model = device_model,
        cw_device_type = device_type, cw_token = token\<rparr>, r) }"

definition fits_client_info_without_id :: "client_info_without_id \<Rightarrow> bool" where
  "fits_client_info_without_id m \<longleftrightarrow>
     fits_string (cw_alias m) \<and>
     fits_string (cw_version m) \<and>
     pred_option fits_string (cw_device_model m) \<and>
     fits_string (cw_token m)"

definition sse_encode_proposing_client_info :: "ffi_target \<Rightarrow> proposing_client_info \<Rightarrow> bytes" where
  "sse_encode_proposing_client_info F m =
     sse_encode_string F (pi_alias m) @
     sse_encode_string F (pi_version m) @
     sse_encode_option (sse_encode_string F) (pi_device_model m) @
     sse_encode_option (sse_encode_device_type F) (pi_device_type m)"

definition sse_decode_proposing_client_info :: "ffi_target \<Rightarrow> proposing_client_info sse_decoder" where
  "sse_decode_proposing_client_info F r = do {
     (alias, r) \<leftarrow> sse_decode_string F r;
     (version, r) \<leftarrow> sse_decode_string F r;
     (device_model, r) \<leftarrow> sse_decode_option (sse_decode_string F) r;
     (device_type, r) \<leftarrow> sse_decode_option (sse_decode_device_type F) r;
     Some (\<lparr>pi_alias = alias, pi_version = version, pi_device_model = device_model,
        pi_device_type = device_type\<rparr>, r) }"

definition fits_proposing_client_info :: "proposing_client_info \<Rightarrow> bool" where
  "fits_proposing_client_info m \<longleftrightarrow>
     fits_string (pi_alias m) \<and>
     fits_string (pi_version m) \<and>
     pred_option fits_string (pi_device_model m)"

definition sse_encode_expecting_public_key :: "ffi_target \<Rightarrow> expecting_public_key \<Rightarrow> bytes" where
  "sse_encode_expecting_public_key F m =
     sse_encode_string F (ek_public_key m) @
     sse_encode_string F (ek_kind m)"

definition sse_decode_expecting_public_key :: "ffi_target \<Rightarrow> expecting_public_key sse_decoder" where
  "sse_decode_expecting_public_key F r = do {
     (public_key, r) \<leftarrow> sse_decode_string F r;
     (kind, r) \<leftarrow> sse_decode_string F r;
     Some (\<lparr>ek_public_key = public_key, ek_kind = kind\<rparr>, r) }"

definition fits_expecting_public_key :: "expecting_public_key \<Rightarrow> bool" where
  "fits_expecting_public_key m \<longleftrightarrow>
     fits_string (ek_public_key m) \<and>
     fits_string (ek_kind m)"

definition sse_encode_key_pair :: "ffi_target \<Rightarrow> key_pair \<Rightarrow> bytes" where
  "sse_encode_key_pair F m =
     sse_encode_string F (kp_private_key m) @
     sse_encode_string F (kp_public_key m)"

definition sse_decode_key_pair :: "ffi_target \<Rightarrow> key_pair sse_decoder" where
  "sse_decode_key_pair F r = do {
     (private_key, r) \<leftarrow> sse_decode_string F r;
     (public_key, r) \<leftarrow> sse_decode_string F r;
     Some (\<lparr>kp_private_key = private_key, kp_public_key = public_key\<rparr>, r) }"

definition fits_key_pair :: "key_pair \<Rightarrow> bool" where
  "fits_key_pair m \<longleftrightarrow>
     fits_string (kp_private_key m) \<and>
     fits_string (kp_public_key m)"

definition sse_encode_pin_config :: "ffi_target \<Rightarrow> pin_config \<Rightarrow> bytes" where
  "sse_encode_pin_config F m =
     sse_encode_string F (pc_pin m) @
     sse_encode_u8 (pc_max_tries m)"

definition sse_decode_pin_config :: "ffi_target \<Rightarrow> pin_config sse_decoder" where
  "sse_decode_pin_config F r = do {
     (pin, r) \<leftarrow> sse_decode_string F r;
     (max_tries, r) \<leftarrow> sse_decode_u8 r;
     Some (\<lparr>pc_pin = pin, pc_max_tries = max_tries\<rparr>, r) }"

definition fits_pin_config :: "pin_config \<Rightarrow> bool" where
  "fits_pin_config m \<longleftrightarrow>
     fits_string (pc_pin m)"

definition sse_encode_rtc_file_error :: "ffi_target \<Rightarrow> rtc_file_error \<Rightarrow> bytes" where
  "sse_encode_rtc_file_error F m =
     sse_encode_string F (fe_file_id m) @
     sse_encode_err F (fe_error m)"

definition sse_decode_rtc_file_error :: "ffi_target \<Rightarrow> rtc_file_error sse_decoder" where
  "sse_decode_rtc_file_error F r = do {
     (file_id, r) \<leftarrow> sse_decode_string F r;
     (error, r) \<leftarrow> sse_decode_err F r;
     Some (\<lparr>fe_file_id = file_id, fe_error = error\<rparr>, r) }"

definition fits_rtc_file_error :: "rtc_file_error \<Rightarrow> bool" where
  "fits_rtc_file_error m \<longleftrightarrow>
     fits_string (fe_file_id m) \<and>
     fits_err (fe_error m)"

definition sse_encode_rtc_send_file_response :: "ffi_target \<Rightarrow> rtc_send_file_response \<Rightarrow> bytes" where
  "sse_encode_rtc_send_file_response F m =
     sse_encode_string F (fr_id m) @
     sse_encode_bool (fr_success m) @
     sse_encode_option (sse_encode_string F) (fr_error m)"

definition sse_decode_rtc_send_file_response :: "ffi_target \<Rightarrow> rtc_send_file_response sse_decoder" where
  "sse_decode_rtc_send_file_response F r = do {
     (id, r) \<leftarrow> sse_decode_string F r;
     (success, r) \<leftarrow> sse_decode_bool r;
     (error, r) \<leftarrow> sse_decode_option (sse_decode_string F) r;
     Some (\<lparr>fr_id = id, fr_success = success, fr_error = error\<rparr>, r) }"

definition fits_rtc_send_file_response :: "rtc_send_file_response \<Rightarrow> bool" where
  "fits_rtc_send_file_response m \<longleftrightarrow>
     fits_string (fr_id m) \<and>
     pred_option fits_string (fr_error m)"

definition sse_encode_ws_server_sdp_message :: "ffi_target \<Rightarrow> ws_server_sdp_message \<Rightarrow> bytes" where
  "sse_encode_ws_server_sdp_message F m =
     sse_encode_client_info F (sm_peer m) @
     sse_encode_string F (sm_session_id m) @
     sse_encode_string F (sm_sdp m)"

definition sse_decode_ws_server_sdp_message :: "ffi_target \<Rightarrow> ws_server_sdp_message sse_decoder" where
  "sse_decode_ws_server_sdp_message F r = do {
     (peer, r) \<leftarrow> sse_decode_client_info F r;
     (session_id, r) \<leftarrow> sse_decode_string F r;
     (sdp, r) \<leftarrow> sse_decode_string F r;
     Some (\<lparr>sm_peer = peer, sm_session_id = session_id, sm_sdp = sdp\<rparr>, r) }"

definition fits_ws_server_sdp_message :: "ws_server_sdp_message \<Rightarrow> bool" where
  "fits_ws_server_sdp_message m \<longleftrightarrow>
     fits_client_info (sm_peer m) \<and>
     fits_string (sm_session_id m) \<and>
     fits_string (sm_sdp m)"

section \<open>Enums with fields\<close>

fun sse_encode_rtc_status :: "ffi_target \<Rightarrow> rtc_status \<Rightarrow> bytes" where
  "sse_encode_rtc_status F StSdpExchanged = sse_encode_i32 F 0"
| "sse_encode_rtc_status F StConnected = sse_encode_i32 F 1"
| "sse_encode_rtc_status F StPinRequired = sse_encode_i32 F 2"
| "sse_encode_rtc_status F StTooManyAttempts = sse_encode_i32 F 3"
| "sse_encode_rtc_status F StDeclined = sse_encode_i32 F 4"
| "sse_encode_rtc_status F StSending = sse_encode_i32 F 5"
| "sse_encode_rtc_status F StFinished = sse_encode_i32 F 6"
| "sse_encode_rtc_status F (StError e) = sse_encode_i32 F 7 @ sse_encode_err F e"

definition sse_decode_rtc_status :: "ffi_target \<Rightarrow> rtc_status sse_decoder" where
  "sse_decode_rtc_status F r = do {
     (tag, r) \<leftarrow> sse_decode_i32 F r;
     if tag = 0 then Some (StSdpExchanged, r)
     else if tag = 1 then Some (StConnected, r)
     else if tag = 2 then Some (StPinRequired, r)
     else if tag = 3 then Some (StTooManyAttempts, r)
     else if tag = 4 then Some (StDeclined, r)
     else if tag = 5 then Some (StSending, r)
     else if tag = 6 then Some (StFinished, r)
     else if tag = 7 then do { (e, r) \<leftarrow> sse_decode_err F r; Some (StError e, r) }
     else None }"

fun fits_rtc_status :: "rtc_status \<Rightarrow> bool" where
  "fits_rtc_status (StError e) \<longleftrightarrow> fits_err e"
| "fits_rtc_status _ \<longleftrightarrow> True"

fun sse_encode_ws_server_message :: "ffi_target \<Rightarrow> ws_server_message \<Rightarrow> bytes" where
  "sse_encode_ws_server_message F (Hello client peers) =
     sse_encode_i32 F 0 @ sse_encode_client_info F client @ sse_encode_vec F (sse_encode_client_info F) peers"
| "sse_encode_ws_server_message F (Join peer) = sse_encode_i32 F 1 @ sse_encode_client_info F peer"
| "sse_encode_ws_server_message F (Update peer) = sse_encode_i32 F 2 @ sse_encode_client_info F peer"
| "sse_encode_ws_server_message F (Left peer_id) = sse_encode_i32 F 3 @ sse_encode_uuid F peer_id"
| "sse_encode_ws_server_message F (Offer m) = sse_encode_i32 F 4 @ sse_encode_ws_server_sdp_message F m"
| "sse_encode_ws_server_message F (Answer m) = sse_encode_i32 F 5 @ sse_encode_ws_server_sdp_message F m"
| "sse_encode_ws_server_message F (ErrorCode code) = sse_encode_i32 F 6 @ sse_encode_u16 F code"

definition sse_decode_ws_server_message :: "ffi_target \<Rightarrow> ws_server_message sse_decoder" where
  "sse_decode_ws_server_message F r = do {
     (tag, r) \<leftarrow> sse_decode_i32 F r;
     if tag = 0 then do {
       (client, r) \<leftarrow> sse_decode_client_info F r;
       (peers, r) \<leftarrow> sse_decode_vec F (sse_decode_client_info F) r;
       Some (Hello client peers, r) }
     else if tag = 1 then do { (peer, r) \<leftarrow> sse_decode_client_info F r; Some (Join peer, r) }
     else if tag = 2 then do { (peer, r) \<leftarrow> sse_decode_client_info F r; Some (Update peer, r) }
     else if tag = 3 then do { (peer_id, r) \<leftarrow> sse_decode_uuid F r; Some (Left peer_id, r) }
     else if tag = 4 then do { (m, r) \<leftarrow> sse_decode_ws_server_sdp_message F r; Some (Offer m, r) }
     else if tag = 5 then do { (m, r) \<leftarrow> sse_decode_ws_server_sdp_message F r; Some (Answer m, r) }
     else if tag = 6 then do { (code, r) \<leftarrow> sse_decode_u16 F r; Some (ErrorCode code, r) }
     else None }"

fun fits_ws_server_message :: "ws_server_message \<Rightarrow> bool" where
  "fits_ws_server_message (Hello client peers) \<longleftrightarrow> fits_client_info client \<and> fits_vec fits_client_info peers"
| "fits_ws_server_message (Join peer) \<longleftrightarrow> fits_client_info peer"
| "fits_ws_server_message (Update peer) \<longleftrightarrow> fits_client_info peer"
| "fits_ws_server_message (Left peer_id) \<longleftrightarrow> True"
| "fits_ws_server_message (Offer m) \<longleftrightarrow> fits_ws_server_sdp_message m"
| "fits_ws_server_message (Answer m) \<longleftrightarrow> fits_ws_server_sdp_message m"
| "fits_ws_server_message (ErrorCode code) \<longleftrightarrow> True"

section \<open>Reading back\<close>

lemma device_type_read_back:
  "sse_decode_device_type F (sse_encode_device_type F t @ r) = Some (t, r)"
  by (cases t) (simp_all add: sse_decode_device_type_def sse_encode_device_type_def sse_simps)

interpretation device_type: sse_codec "sse_encode_device_type F" "sse_decode_device_type F" "\<lambda>_. True" for F
  by unfold_locales (rule device_type_read_back)

lemma device_type_option_read_back:
  "sse_decode_option (sse_decode_device_type F) (sse_encode_option (sse_encode_device_type F) t @ r) = Some (t, r)"
  by (rule device_type.option_read_back) (simp add: option.pred_set)

lemma err_read_back: "fits_err e \<Longrightarrow> sse_decode_err F (sse_encode_err F e @ r) = Some (e, r)"
  by (cases e) (simp_all add: sse_decode_err_def sse_encode_err_def sse_simps)

lemma anyhow_read_back:
  "fits_string (ft_debug F e) \<Longrightarrow> sse_decode_anyhow F (sse_encode_anyhow F e @ r) = Some (Msg (ft_debug F e), r)"
  by (simp add: sse_decode_anyhow_def sse_encode_anyhow_def sse_simps)

lemma opaque_read_back:
  "sse_decode_opaque F (sse_encode_usize F h @ r) = Some (h, r)"
  "sse_decode_dart_opaque F (sse_encode_dart_opaque F h @ r) = Some (h, r)"
  "sse_decode_dart_opaque F (sse_encode_isize F h @ r) = Some (h, r)"
  by (simp_all add: sse_decode_opaque_def sse_decode_dart_opaque_def sse_encode_dart_opaque_def sse_simps)

lemma sink_read_back: "fits_string s \<Longrightarrow> sse_decode_sink F (sse_encode_string F s @ r) = Some (s, r)"
  by (simp add: sse_decode_sink_def sse_simps)

lemmas [sse_simps] = device_type_read_back device_type_option_read_back err_read_back opaque_read_back
  sink_read_back

lemma file_metadata_read_back:
  "fits_file_metadata m \<Longrightarrow> sse_decode_file_metadata F (sse_encode_file_metadata F m @ r) = Some (m, r)"
  by (simp add: sse_decode_file_metadata_def sse_encode_file_metadata_def fits_file_metadata_def sse_simps)

interpretation file_metadata: sse_codec "sse_encode_file_metadata F" "sse_decode_file_metadata F" fits_file_metadata for F
  by unfold_locales (rule file_metadata_read_back)

lemmas [sse_simps] = file_metadata_read_back file_metadata.option_read_back

lemma file_dto_read_back:
  "fits_file_dto m \<Longrightarrow> sse_decode_file_dto F (sse_encode_file_dto F m @ r) = Some (m, r)"
  by (simp add: sse_decode_file_dto_def sse_encode_file_dto_def fits_file_dto_def sse_simps)

interpretation file_dto: sse_codec "sse_encode_file_dto F" "sse_decode_file_dto F" fits_file_dto for F
  by unfold_locales (rule file_dto_read_back)

lemmas [sse_simps] = file_dto_read_back file_dto.option_read_back

lemma client_info_read_back:
  "fits_client_info m \<Longrightarrow> sse_decode_client_info F (sse_encode_client_info F m @ r) = Some (m, r)"
  by (simp add: sse_decode_client_info_def sse_encode_client_info_def fits_client_info_def sse_simps)

interpretation client_info: sse_codec "sse_encode_client_info F" "sse_decode_client_info F" fits_client_info for F
  by unfold_locales (rule client_info_read_back)

lemmas [sse_simps] = client_info_read_back client_info.option_read_back

lemma client_info_without_id_read_back:
  "fits_client_info_without_id m \<Longrightarrow> sse_decode_client_info_without_id F (sse_encode_client_info_without_id F m @ r) = Some (m, r)"
  by (simp add: sse_decode_client_info_without_id_def sse_encode_client_info_without_id_def fits_client_info_without_id_def sse_simps)

interpretation client_info_without_id: sse_codec "sse_encode_client_info_without_id F" "sse_decode_client_info_without_id F" fits_client_info_without_id for F
  by unfold_locales (rule client_info_without_id_read_back)

lemmas [sse_simps] = client_info_without_id_read_back client_info_without_id.option_read_back

lemma proposing_client_info_read_back:
  "fits_proposing_client_info m \<Longrightarrow> sse_decode_proposing_client_info F (sse_encode_proposing_client_info F m @ r) = Some (m, r)"
  by (simp add: sse_decode_proposing_client_info_def sse_encode_proposing_client_info_def fits_proposing_client_info_def sse_simps)

interpretation proposing_client_info: sse_codec "sse_encode_proposing_client_info F" "sse_decode_proposing_client_info F" fits_proposing_client_info for F
  by unfold_locales (rule proposing_client_info_read_back)

lemmas [sse_simps] = proposing_client_info_read_back proposing_client_info.option_read_back

lemma expecting_public_key_read_back:
  "fits_expecting_public_key m \<Longrightarrow> sse_decode_expecting_public_key F (sse_encode_expecting_public_key F m @ r) = Some (m, r)"
  by (simp add: sse_decode_expecting_public_key_def sse_encode_expecting_public_key_def fits_expecting_public_key_def sse_simps)

interpretation expecting_public_key: sse_codec "sse_encode_expecting_public_key F" "sse_decode_expecting_public_key F" fits_expecting_public_key for F
  by unfold_locales (rule expecting_public_key_read_back)

lemmas [sse_simps] = expecting_public_key_read_back expecting_public_key.option_read_back

lemma key_pair_read_back:
  "fits_key_pair m \<Longrightarrow> sse_decode_key_pair F (sse_encode_key_pair F m @ r) = Some (m, r)"
  by (simp add: sse_decode_key_pair_def sse_encode_key_pair_def fits_key_pair_def sse_simps)

interpretation key_pair: sse_codec "sse_encode_key_pair F" "sse_decode_key_pair F" fits_key_pair for F
  by unfold_locales (rule key_pair_read_back)

lemmas [sse_simps] = key_pair_read_back key_pair.option_read_back

lemma pin_config_read_back:
  "fits_pin_config m \<Longrightarrow> sse_decode_pin_config F (sse_encode_pin_config F m @ r) = Some (m, r)"
  by (simp add: sse_decode_pin_config_def sse_encode_pin_config_def fits_pin_config_def sse_simps)

interpretation pin_config: sse_codec "sse_encode_pin_config F" "sse_decode_pin_config F" fits_pin_config for F
  by unfold_locales (rule pin_config_read_back)

lemmas [sse_simps] = pin_config_read_back pin_config.option_read_back

lemma rtc_file_error_read_back:
  "fits_rtc_file_error m \<Longrightarrow> sse_decode_rtc_file_error F (sse_encode_rtc_file_error F m @ r) = Some (m, r)"
  by (simp add: sse_decode_rtc_file_error_def sse_encode_rtc_file_error_def fits_rtc_file_error_def sse_simps)

interpretation rtc_file_error: sse_codec "sse_encode_rtc_file_error F" "sse_decode_rtc_file_error F" fits_rtc_file_error for F
  by unfold_locales (rule rtc_file_error_read_back)

lemmas [sse_simps] = rtc_file_error_read_back rtc_file_error.option_read_back

lemma rtc_send_file_response_read_back:
  "fits_rtc_send_file_response m \<Longrightarrow> sse_decode_rtc_send_file_response F (sse_encode_rtc_send_file_response F m @ r) = Some (m, r)"
  by (simp add: sse_decode_rtc_send_file_response_def sse_encode_rtc_send_file_response_def fits_rtc_send_file_response_def sse_simps)

interpretation rtc_send_file_response: sse_codec "sse_encode_rtc_send_file_response F" "sse_decode_rtc_send_file_response F" fits_rtc_send_file_response for F
  by unfold_locales (rule rtc_send_file_response_read_back)

lemmas [sse_simps] = rtc_send_file_response_read_back rtc_send_file_response.option_read_back

lemma ws_server_sdp_message_read_back:
  "fits_ws_server_sdp_message m \<Longrightarrow> sse_decode_ws_server_sdp_message F (sse_encode_ws_server_sdp_message F m @ r) = Some (m, r)"
  by (simp add: sse_decode_ws_server_sdp_message_def sse_encode_ws_server_sdp_message_def fits_ws_server_sdp_message_def sse_simps)

interpretation ws_server_sdp_message: sse_codec "sse_encode_ws_server_sdp_message F" "sse_decode_ws_server_sdp_message F" fits_ws_server_sdp_message for F
  by unfold_locales (rule ws_server_sdp_message_read_back)

lemmas [sse_simps] = ws_server_sdp_message_read_back ws_server_sdp_message.option_read_back

lemma client_infos_read_back:
  "fits_vec fits_client_info xs \<Longrightarrow>
   sse_decode_vec F (sse_decode_client_info F) (sse_encode_vec F (sse_encode_client_info F) xs @ r) = Some (xs, r)"
  by (simp add: fits_vec_def client_info.vec_read_back)

lemma file_dtos_read_back:
  "fits_vec fits_file_dto xs \<Longrightarrow>
   sse_decode_vec F (sse_decode_file_dto F) (sse_encode_vec F (sse_encode_file_dto F) xs @ r) = Some (xs, r)"
  by (simp add: fits_vec_def file_dto.vec_read_back)

lemmas [sse_simps] = client_infos_read_back file_dtos_read_back

lemma rtc_status_read_back:
  "fits_rtc_status st \<Longrightarrow> sse_decode_rtc_status F (sse_encode_rtc_status F st @ r) = Some (st, r)"
  by (cases st) (simp_all add: sse_decode_rtc_status_def sse_simps)

lemma ws_server_message_read_back:
  "fits_ws_server_message m \<Longrightarrow> sse_decode_ws_server_message F (sse_encode_ws_server_message F m @ r) = Some (m, r)"
  by (cases m) (simp_all add: sse_decode_ws_server_message_def sse_simps)

interpretation rtc_status: sse_codec "sse_encode_rtc_status F" "sse_decode_rtc_status F" fits_rtc_status for F
  by unfold_locales (rule rtc_status_read_back)

interpretation ws_server_message: sse_codec "sse_encode_ws_server_message F" "sse_decode_ws_server_message F"
    fits_ws_server_message for F
  by unfold_locales (rule ws_server_message_read_back)

lemmas [sse_simps] = rtc_status_read_back ws_server_message_read_back

text \<open>An error is written as its text.\<close>

lemma err_text_written: "sse_encode_err F e = sse_encode_err F (Msg (err_text F e))"
  by (simp add: sse_encode_err_def)

end
