(* ===== verification/Dart_Codec.thy ===== *)
theory Dart_Codec
  imports Sse_Types
begin

text \<open>
  The other side of the border: the encoders and decoders of the application
  (app/lib/rust/frb\_generated.dart). They are generated separately, in another language, and have to
  agree with those of the library byte for byte. A decoder that throws is \<open>None\<close>. Integers of the
  application are those of the library: what is out of range of a field is not modelled.
\<close>

section \<open>Basic types\<close>

definition dart_encode_u8 :: "u8 \<Rightarrow> bytes" where
  "dart_encode_u8 b = [b]"

definition dart_decode_u8 :: "u8 sse_decoder" where
  "dart_decode_u8 r = (case r of [] \<Rightarrow> None | b # r' \<Rightarrow> Some (b, r'))"

definition dart_decode_u16 :: "ffi_target \<Rightarrow> u16 sse_decoder" where
  "dart_decode_u16 F = read_int F"

definition dart_encode_u64 :: "ffi_target \<Rightarrow> u64 \<Rightarrow> bytes" where
  "dart_encode_u64 F w = write_int F w"

definition dart_decode_u64 :: "ffi_target \<Rightarrow> u64 sse_decoder" where
  "dart_decode_u64 F = read_int F"

definition dart_encode_i32 :: "ffi_target \<Rightarrow> u32 \<Rightarrow> bytes" where
  "dart_encode_i32 F w = write_int F w"

definition dart_decode_i32 :: "ffi_target \<Rightarrow> u32 sse_decoder" where
  "dart_decode_i32 F = read_int F"

definition dart_encode_usize :: "ffi_target \<Rightarrow> u64 \<Rightarrow> bytes" where
  "dart_encode_usize F w = write_int F w"

definition dart_decode_usize :: "ffi_target \<Rightarrow> u64 sse_decoder" where
  "dart_decode_usize F = read_int F"

definition dart_encode_isize :: "ffi_target \<Rightarrow> u64 \<Rightarrow> bytes" where
  "dart_encode_isize F w = write_int F w"

definition dart_encode_bool :: "bool \<Rightarrow> bytes" where
  "dart_encode_bool b = dart_encode_u8 (if b then 1 else 0)"

definition dart_decode_bool :: "bool sse_decoder" where
  "dart_decode_bool r = do { (b, r) \<leftarrow> dart_decode_u8 r; Some (b \<noteq> 0, r) }"

text \<open>A byte list is copied as a whole; \<open>getUint8List\<close> throws when the length is negative or there are
  not enough bytes.\<close>

definition dart_encode_u8_list :: "ffi_target \<Rightarrow> bytes \<Rightarrow> bytes" where
  "dart_encode_u8_list F bs = dart_encode_i32 F (of_nat (length bs)) @ bs"

definition dart_decode_u8_list :: "ffi_target \<Rightarrow> bytes sse_decoder" where
  "dart_decode_u8_list F r = do {
     (len, r) \<leftarrow> dart_decode_i32 F r;
     if sint len < 0 \<or> length r < nat (sint len) then None
     else Some (take (nat (sint len)) r, drop (nat (sint len)) r) }"

definition dart_encode_list :: "ffi_target \<Rightarrow> ('a \<Rightarrow> bytes) \<Rightarrow> 'a list \<Rightarrow> bytes" where
  "dart_encode_list F enc xs = dart_encode_i32 F (of_nat (length xs)) @ concat (map enc xs)"

definition dart_decode_list :: "ffi_target \<Rightarrow> 'a sse_decoder \<Rightarrow> 'a list sse_decoder" where
  "dart_decode_list F dec r = do {
     (len, r) \<leftarrow> dart_decode_i32 F r;
     decode_times (nat (sint len)) dec r }"

definition dart_encode_option :: "('a \<Rightarrow> bytes) \<Rightarrow> 'a option \<Rightarrow> bytes" where
  "dart_encode_option enc x =
     dart_encode_bool (x \<noteq> None) @ (case x of None \<Rightarrow> [] | Some v \<Rightarrow> enc v)"

definition dart_decode_option :: "'a sse_decoder \<Rightarrow> 'a option sse_decoder" where
  "dart_decode_option dec r = do {
     (some, r) \<leftarrow> dart_decode_bool r;
     if some then do { (v, r) \<leftarrow> dec r; Some (Some v, r) } else Some (None, r) }"

definition dart_encode_string :: "ffi_target \<Rightarrow> string \<Rightarrow> bytes" where
  "dart_encode_string F s = dart_encode_u8_list F (utf8 s)"

definition dart_decode_string :: "ffi_target \<Rightarrow> string sse_decoder" where
  "dart_decode_string F r = do {
     (inner, r) \<leftarrow> dart_decode_u8_list F r;
     s \<leftarrow> from_utf8 inner;
     Some (s, r) }"

definition dart_encode_uuid :: "ffi_target \<Rightarrow> uuid \<Rightarrow> bytes" where
  "dart_encode_uuid F u = dart_encode_u8_list F (uuid_bytes u)"

definition dart_decode_uuid :: "ffi_target \<Rightarrow> uuid sse_decoder" where
  "dart_decode_uuid F r = do {
     (inner, r) \<leftarrow> dart_decode_u8_list F r;
     u \<leftarrow> uuid_from_slice inner;
     Some (u, r) }"

definition dart_encode_set :: "ffi_target \<Rightarrow> string list \<Rightarrow> bytes" where
  "dart_encode_set F xs = dart_encode_list F (dart_encode_string F) xs"

definition dart_decode_set :: "ffi_target \<Rightarrow> string list sse_decoder" where
  "dart_decode_set F r = do {
     (inner, r) \<leftarrow> dart_decode_list F (dart_decode_string F) r;
     Some (remdups inner, r) }"

text \<open>An object is passed by its address; what the library hands out comes with its size.\<close>

definition dart_encode_object :: "ffi_target \<Rightarrow> handle \<Rightarrow> bytes" where
  "dart_encode_object F h = dart_encode_usize F h"

definition dart_decode_object :: "ffi_target \<Rightarrow> (handle \<times> u32) sse_decoder" where
  "dart_decode_object F r = do {
     (ptr, r) \<leftarrow> dart_decode_usize F r;
     (size, r) \<leftarrow> dart_decode_i32 F r;
     Some ((ptr, size), r) }"

definition dart_encode_dart_opaque :: "ffi_target \<Rightarrow> handle \<Rightarrow> bytes" where
  "dart_encode_dart_opaque F h = dart_encode_isize F h"

definition dart_encode_sink :: "ffi_target \<Rightarrow> sink \<Rightarrow> bytes" where
  "dart_encode_sink F s = dart_encode_string F s"

definition dart_decode_anyhow :: "ffi_target \<Rightarrow> err sse_decoder" where
  "dart_decode_anyhow F r = do { (inner, r) \<leftarrow> dart_decode_string F r; Some (Msg inner, r) }"

definition dart_decode_err :: "ffi_target \<Rightarrow> err sse_decoder" where
  "dart_decode_err F r = do { (s, r) \<leftarrow> dart_decode_string F r; Some (Msg s, r) }"

section \<open>Structs and enums\<close>

text \<open>\<open>self.index\<close> and \<open>DeviceType.values[inner]\<close>.\<close>

definition device_types :: "device_type list" where
  "device_types = [Mobile, Desktop, Web, Headless, Server]"

definition dart_encode_device_type :: "ffi_target \<Rightarrow> device_type \<Rightarrow> bytes" where
  "dart_encode_device_type F t =
     dart_encode_i32 F (of_nat (length (takeWhile (\<lambda>u. u \<noteq> t) device_types)))"

definition dart_decode_device_type :: "ffi_target \<Rightarrow> device_type sse_decoder" where
  "dart_decode_device_type F r = do {
     (inner, r) \<leftarrow> dart_decode_i32 F r;
     if 0 \<le> sint inner \<and> nat (sint inner) < length device_types
     then Some (device_types ! nat (sint inner), r) else None }"

definition dart_encode_file_metadata :: "ffi_target \<Rightarrow> file_metadata \<Rightarrow> bytes" where
  "dart_encode_file_metadata F m =
     dart_encode_option (dart_encode_string F) (modified m) @
     dart_encode_option (dart_encode_string F) (accessed m)"

definition dart_decode_file_metadata :: "ffi_target \<Rightarrow> file_metadata sse_decoder" where
  "dart_decode_file_metadata F r = do {
     (modified, r) \<leftarrow> dart_decode_option (dart_decode_string F) r;
     (accessed, r) \<leftarrow> dart_decode_option (dart_decode_string F) r;
     Some (\<lparr>modified = modified, accessed = accessed\<rparr>, r) }"

definition dart_encode_file_dto :: "ffi_target \<Rightarrow> file_dto \<Rightarrow> bytes" where
  "dart_encode_file_dto F m =
     dart_encode_string F (fd_id m) @
     dart_encode_string F (fd_file_name m) @
     dart_encode_u64 F (fd_size m) @
     dart_encode_string F (fd_file_type m) @
     dart_encode_option (dart_encode_string F) (fd_sha256 m) @
     dart_encode_option (dart_encode_string F) (fd_preview m) @
     dart_encode_option (dart_encode_file_metadata F) (fd_metadata m)"

definition dart_decode_file_dto :: "ffi_target \<Rightarrow> file_dto sse_decoder" where
  "dart_decode_file_dto F r = do {
     (id, r) \<leftarrow> dart_decode_string F r;
     (file_name, r) \<leftarrow> dart_decode_string F r;
     (size, r) \<leftarrow> dart_decode_u64 F r;
     (file_type, r) \<leftarrow> dart_decode_string F r;
     (sha256, r) \<leftarrow> dart_decode_option (dart_decode_string F) r;
     (preview, r) \<leftarrow> dart_decode_option (dart_decode_string F) r;
     (metadata, r) \<leftarrow> dart_decode_option (dart_decode_file_metadata F) r;
     Some (\<lparr>fd_id = id, fd_file_name = file_name, fd_size = size, fd_file_type = file_type,
        fd_sha256 = sha256, fd_preview = preview, fd_metadata = metadata\<rparr>, r) }"

definition dart_encode_client_info :: "ffi_target \<Rightarrow> client_info \<Rightarrow> bytes" where
  "dart_encode_client_info F m =
     dart_encode_uuid F (ci_id m) @
     dart_encode_string F (ci_alias m) @
     dart_encode_string F (ci_version m) @
     dart_encode_option (dart_encode_string F) (ci_device_model m) @
     dart_encode_option (dart_encode_device_type F) (ci_device_type m) @
     dart_encode_string F (ci_token m)"

definition dart_decode_client_info :: "ffi_target \<Rightarrow> client_info sse_decoder" where
  "dart_decode_client_info F r = do {
     (id, r) \<leftarrow> dart_decode_uuid F r;
     (alias, r) \<leftarrow> dart_decode_string F r;
     (version, r) \<leftarrow> dart_decode_string F r;
     (device_model, r) \<leftarrow> dart_decode_option (dart_decode_string F) r;
     (device_type, r) \<leftarrow> dart_decode_option (dart_decode_device_type F) r;
     (token, r) \<leftarrow> dart_decode_string F r;
     Some (\<lparr>ci_id = id, ci_alias = alias, ci_version = version, ci_device_model = device_model,
        ci_device_type = device_type, ci_token = token\<rparr>, r) }"

definition dart_encode_client_info_without_id :: "ffi_target \<Rightarrow> client_info_without_id \<Rightarrow> bytes" where
  "dart_encode_client_info_without_id F m =
     dart_encode_string F (cw_alias m) @
     dart_encode_string F (cw_version m) @
     dart_encode_option (dart_encode_string F) (cw_device_model m) @
     dart_encode_option (dart_encode_device_type F) (cw_device_type m) @
     dart_encode_string F (cw_token m)"

definition dart_encode_proposing_client_info :: "ffi_target \<Rightarrow> proposing_client_info \<Rightarrow> bytes" where
  "dart_encode_proposing_client_info F m =
     dart_encode_string F (pi_alias m) @
     dart_encode_string F (pi_version m) @
     dart_encode_option (dart_encode_string F) (pi_device_model m) @
     dart_encode_option (dart_encode_device_type F) (pi_device_type m)"

definition dart_encode_expecting_public_key :: "ffi_target \<Rightarrow> expecting_public_key \<Rightarrow> bytes" where
  "dart_encode_expecting_public_key F m =
     dart_encode_string F (ek_public_key m) @
     dart_encode_string F (ek_kind m)"

definition dart_decode_key_pair :: "ffi_target \<Rightarrow> key_pair sse_decoder" where
  "dart_decode_key_pair F r = do {
     (private_key, r) \<leftarrow> dart_decode_string F r;
     (public_key, r) \<leftarrow> dart_decode_string F r;
     Some (\<lparr>kp_private_key = private_key, kp_public_key = public_key\<rparr>, r) }"

definition dart_encode_pin_config :: "ffi_target \<Rightarrow> pin_config \<Rightarrow> bytes" where
  "dart_encode_pin_config F m =
     dart_encode_string F (pc_pin m) @
     dart_encode_u8 (pc_max_tries m)"

definition dart_decode_rtc_file_error :: "ffi_target \<Rightarrow> rtc_file_error sse_decoder" where
  "dart_decode_rtc_file_error F r = do {
     (file_id, r) \<leftarrow> dart_decode_string F r;
     (error, r) \<leftarrow> dart_decode_err F r;
     Some (\<lparr>fe_file_id = file_id, fe_error = error\<rparr>, r) }"

definition dart_encode_rtc_send_file_response :: "ffi_target \<Rightarrow> rtc_send_file_response \<Rightarrow> bytes" where
  "dart_encode_rtc_send_file_response F m =
     dart_encode_string F (fr_id m) @
     dart_encode_bool (fr_success m) @
     dart_encode_option (dart_encode_string F) (fr_error m)"

definition dart_encode_ws_server_sdp_message :: "ffi_target \<Rightarrow> ws_server_sdp_message \<Rightarrow> bytes" where
  "dart_encode_ws_server_sdp_message F m =
     dart_encode_client_info F (sm_peer m) @
     dart_encode_string F (sm_session_id m) @
     dart_encode_string F (sm_sdp m)"

definition dart_decode_ws_server_sdp_message :: "ffi_target \<Rightarrow> ws_server_sdp_message sse_decoder" where
  "dart_decode_ws_server_sdp_message F r = do {
     (peer, r) \<leftarrow> dart_decode_client_info F r;
     (session_id, r) \<leftarrow> dart_decode_string F r;
     (sdp, r) \<leftarrow> dart_decode_string F r;
     Some (\<lparr>sm_peer = peer, sm_session_id = session_id, sm_sdp = sdp\<rparr>, r) }"

definition dart_decode_rtc_status :: "ffi_target \<Rightarrow> rtc_status sse_decoder" where
  "dart_decode_rtc_status F r = do {
     (tag, r) \<leftarrow> dart_decode_i32 F r;
     if tag = 0 then Some (StSdpExchanged, r)
     else if tag = 1 then Some (StConnected, r)
     else if tag = 2 then Some (StPinRequired, r)
     else if tag = 3 then Some (StTooManyAttempts, r)
     else if tag = 4 then Some (StDeclined, r)
     else if tag = 5 then Some (StSending, r)
     else if tag = 6 then Some (StFinished, r)
     else if tag = 7 then do { (e, r) \<leftarrow> dart_decode_err F r; Some (StError e, r) }
     else None }"

definition dart_decode_ws_server_message :: "ffi_target \<Rightarrow> ws_server_message sse_decoder" where
  "dart_decode_ws_server_message F r = do {
     (tag, r) \<leftarrow> dart_decode_i32 F r;
     if tag = 0 then do {
       (client, r) \<leftarrow> dart_decode_client_info F r;
       (peers, r) \<leftarrow> dart_decode_list F (dart_decode_client_info F) r;
       Some (Hello client peers, r) }
     else if tag = 1 then do { (peer, r) \<leftarrow> dart_decode_client_info F r; Some (Join peer, r) }
     else if tag = 2 then do { (peer, r) \<leftarrow> dart_decode_client_info F r; Some (Update peer, r) }
     else if tag = 3 then do { (peer_id, r) \<leftarrow> dart_decode_uuid F r; Some (Left peer_id, r) }
     else if tag = 4 then do { (m, r) \<leftarrow> dart_decode_ws_server_sdp_message F r; Some (Offer m, r) }
     else if tag = 5 then do { (m, r) \<leftarrow> dart_decode_ws_server_sdp_message F r; Some (Answer m, r) }
     else if tag = 6 then do { (code, r) \<leftarrow> dart_decode_u16 F r; Some (ErrorCode code, r) }
     else None }"

section \<open>The application writes what the library writes\<close>

named_theorems dart_writes \<open>an encoder of the application in terms of the library's\<close>

lemma dart_writes_basic [dart_writes]:
  "dart_encode_u8 b = sse_encode_u8 b" "dart_encode_u64 F w = sse_encode_u64 F w"
  "dart_encode_i32 F i = sse_encode_i32 F i" "dart_encode_usize F w = sse_encode_usize F w"
  "dart_encode_isize F w = sse_encode_isize F w" "dart_encode_bool p = sse_encode_bool p"
  by (simp_all add: dart_encode_u8_def sse_encode_u8_def dart_encode_u64_def sse_encode_u64_def
      dart_encode_i32_def sse_encode_i32_def dart_encode_usize_def sse_encode_usize_def dart_encode_isize_def
      sse_encode_isize_def dart_encode_bool_def sse_encode_bool_def)

lemma concat_bytes: "concat (map sse_encode_u8 bs) = bs"
  by (induction bs) (simp_all add: sse_encode_u8_def)

lemma dart_writes_compound [dart_writes]:
  "dart_encode_u8_list F bs = sse_encode_vec F sse_encode_u8 bs"
  "dart_encode_list F enc xs = sse_encode_vec F enc xs"
  "dart_encode_option enc x = sse_encode_option enc x"
  "dart_encode_string F = sse_encode_string F"
  "dart_encode_uuid F u = sse_encode_uuid F u"
  by (rule ext | simp add: dart_encode_u8_list_def sse_encode_vec_def concat_bytes dart_encode_list_def
      dart_encode_option_def sse_encode_option_def dart_encode_string_def sse_encode_string_def
      dart_encode_uuid_def sse_encode_uuid_def dart_writes_basic)+

lemma dart_writes_device_type [dart_writes]: "dart_encode_device_type F = sse_encode_device_type F"
proof
  show "dart_encode_device_type F t = sse_encode_device_type F t" for t
    by (cases t) (simp_all add: dart_encode_device_type_def sse_encode_device_type_def device_types_def dart_writes_basic)
qed

lemma dart_writes_objects [dart_writes]:
  "dart_encode_set F xs = sse_encode_hash_set F xs" "dart_encode_object F h = sse_encode_usize F h"
  "dart_encode_dart_opaque F h = sse_encode_isize F h" "dart_encode_sink F s = sse_encode_string F s"
  by (simp_all add: dart_encode_set_def sse_encode_hash_set_def dart_encode_object_def
      dart_encode_dart_opaque_def dart_encode_sink_def dart_writes)

lemma dart_writes_file_metadata [dart_writes]: "dart_encode_file_metadata F = sse_encode_file_metadata F"
  by (rule ext) (simp add: dart_encode_file_metadata_def sse_encode_file_metadata_def dart_writes)

lemma dart_writes_file_dto [dart_writes]: "dart_encode_file_dto F = sse_encode_file_dto F"
  by (rule ext) (simp add: dart_encode_file_dto_def sse_encode_file_dto_def dart_writes)

lemma dart_writes_client_info [dart_writes]: "dart_encode_client_info F = sse_encode_client_info F"
  by (rule ext) (simp add: dart_encode_client_info_def sse_encode_client_info_def dart_writes)

lemma dart_writes_client_info_without_id [dart_writes]: "dart_encode_client_info_without_id F = sse_encode_client_info_without_id F"
  by (rule ext) (simp add: dart_encode_client_info_without_id_def sse_encode_client_info_without_id_def dart_writes)

lemma dart_writes_proposing_client_info [dart_writes]: "dart_encode_proposing_client_info F = sse_encode_proposing_client_info F"
  by (rule ext) (simp add: dart_encode_proposing_client_info_def sse_encode_proposing_client_info_def dart_writes)

lemma dart_writes_expecting_public_key [dart_writes]: "dart_encode_expecting_public_key F = sse_encode_expecting_public_key F"
  by (rule ext) (simp add: dart_encode_expecting_public_key_def sse_encode_expecting_public_key_def dart_writes)

lemma dart_writes_pin_config [dart_writes]: "dart_encode_pin_config F = sse_encode_pin_config F"
  by (rule ext) (simp add: dart_encode_pin_config_def sse_encode_pin_config_def dart_writes)

lemma dart_writes_rtc_send_file_response [dart_writes]: "dart_encode_rtc_send_file_response F = sse_encode_rtc_send_file_response F"
  by (rule ext) (simp add: dart_encode_rtc_send_file_response_def sse_encode_rtc_send_file_response_def dart_writes)

lemma dart_writes_ws_server_sdp_message [dart_writes]: "dart_encode_ws_server_sdp_message F = sse_encode_ws_server_sdp_message F"
  by (rule ext) (simp add: dart_encode_ws_server_sdp_message_def sse_encode_ws_server_sdp_message_def dart_writes)

section \<open>The application reads what the library writes\<close>

named_theorems dart_reads \<open>the application reads back what the library wrote\<close>

lemma dart_reads_same [dart_reads]:
  "dart_decode_u8 = sse_decode_u8" "dart_decode_u16 = sse_decode_u16" "dart_decode_u64 = sse_decode_u64"
  "dart_decode_i32 = sse_decode_i32" "dart_decode_usize = sse_decode_usize"
  "dart_decode_bool = sse_decode_bool" "dart_decode_option = sse_decode_option"
  "dart_decode_list = sse_decode_vec"
  by (rule ext | simp add: dart_decode_u8_def sse_decode_u8_def dart_decode_u16_def sse_decode_u16_def
      dart_decode_u64_def sse_decode_u64_def dart_decode_i32_def sse_decode_i32_def dart_decode_usize_def
      sse_decode_usize_def dart_decode_bool_def sse_decode_bool_def dart_decode_option_def
      sse_decode_option_def dart_decode_list_def sse_decode_vec_def)+

lemma dart_reads_bytes [dart_reads]:
  assumes "length bs < 2 ^ 31"
  shows "dart_decode_u8_list F (sse_encode_vec F sse_encode_u8 bs @ r) = Some (bs, r)"
proof -
  have "sint (of_nat (length bs) :: u32) = int (length bs)"
    using assms by (simp add: sint_uint unsigned_of_nat take_bit_nat_eq_self signed_take_bit_int_eq_self)
  then show ?thesis
    by (simp add: dart_decode_u8_list_def sse_encode_vec_def concat_bytes dart_reads_same sse_ints)
qed

lemma dart_reads_string [dart_reads]:
  "fits_string s \<Longrightarrow> dart_decode_string F (sse_encode_string F s @ r) = Some (s, r)"
  by (simp add: dart_decode_string_def sse_encode_string_def fits_string_def dart_reads_bytes from_utf8_utf8)

lemma dart_reads_uuid [dart_reads]: "dart_decode_uuid F (sse_encode_uuid F u @ r) = Some (u, r)"
  by (simp add: dart_decode_uuid_def sse_encode_uuid_def dart_reads_bytes)

lemma dart_reads_device_type [dart_reads]:
  "dart_decode_device_type F (sse_encode_device_type F t @ r) = Some (t, r)"
  by (cases t) (simp_all add: dart_decode_device_type_def sse_encode_device_type_def device_types_def
      dart_reads_same sse_ints)

lemma dart_reads_object [dart_reads]:
  "dart_decode_object F (sse_encode_opaque F object @ r) = Some (object, r)"
  by (simp add: dart_decode_object_def sse_encode_opaque_def dart_reads_same sse_ints)

lemma dart_reads_err [dart_reads]: "fits_err e \<Longrightarrow> dart_decode_err F (sse_encode_err F e @ r) = Some (e, r)"
  by (cases e) (simp_all add: dart_decode_err_def sse_encode_err_def dart_reads)

text \<open>The interface of a codec once more, with the library's encoder and the application's decoder.\<close>

interpretation dart_string: sse_codec "sse_encode_string F" "dart_decode_string F" fits_string for F
  by unfold_locales (rule dart_reads_string)

interpretation dart_device_type: sse_codec "sse_encode_device_type F" "dart_decode_device_type F" "\<lambda>_. True" for F
  by unfold_locales (rule dart_reads_device_type)

lemma dart_reads_device_type_option [dart_reads]:
  "sse_decode_option (dart_decode_device_type F) (sse_encode_option (sse_encode_device_type F) t @ r) = Some (t, r)"
  by (rule dart_device_type.option_read_back) (simp add: option.pred_set)

lemmas [dart_reads] = dart_string.option_read_back dart_string.vec_read_back

lemma dart_reads_file_metadata [dart_reads]:
  "fits_file_metadata m \<Longrightarrow> dart_decode_file_metadata F (sse_encode_file_metadata F m @ r) = Some (m, r)"
  by (simp add: dart_decode_file_metadata_def sse_encode_file_metadata_def fits_file_metadata_def dart_reads sse_ints)

interpretation dart_file_metadata: sse_codec "sse_encode_file_metadata F" "dart_decode_file_metadata F" fits_file_metadata for F
  by unfold_locales (rule dart_reads_file_metadata)

lemmas [dart_reads] = dart_file_metadata.option_read_back dart_file_metadata.vec_read_back

lemma dart_reads_file_dto [dart_reads]:
  "fits_file_dto m \<Longrightarrow> dart_decode_file_dto F (sse_encode_file_dto F m @ r) = Some (m, r)"
  by (simp add: dart_decode_file_dto_def sse_encode_file_dto_def fits_file_dto_def dart_reads sse_ints)

interpretation dart_file_dto: sse_codec "sse_encode_file_dto F" "dart_decode_file_dto F" fits_file_dto for F
  by unfold_locales (rule dart_reads_file_dto)

lemmas [dart_reads] = dart_file_dto.option_read_back dart_file_dto.vec_read_back

lemma dart_reads_client_info [dart_reads]:
  "fits_client_info m \<Longrightarrow> dart_decode_client_info F (sse_encode_client_info F m @ r) = Some (m, r)"
  by (simp add: dart_decode_client_info_def sse_encode_client_info_def fits_client_info_def dart_reads sse_ints)

interpretation dart_client_info: sse_codec "sse_encode_client_info F" "dart_decode_client_info F" fits_client_info for F
  by unfold_locales (rule dart_reads_client_info)

lemmas [dart_reads] = dart_client_info.option_read_back dart_client_info.vec_read_back

lemma dart_reads_key_pair [dart_reads]:
  "fits_key_pair m \<Longrightarrow> dart_decode_key_pair F (sse_encode_key_pair F m @ r) = Some (m, r)"
  by (simp add: dart_decode_key_pair_def sse_encode_key_pair_def fits_key_pair_def dart_reads sse_ints)

interpretation dart_key_pair: sse_codec "sse_encode_key_pair F" "dart_decode_key_pair F" fits_key_pair for F
  by unfold_locales (rule dart_reads_key_pair)

lemmas [dart_reads] = dart_key_pair.option_read_back dart_key_pair.vec_read_back

lemma dart_reads_rtc_file_error [dart_reads]:
  "fits_rtc_file_error m \<Longrightarrow> dart_decode_rtc_file_error F (sse_encode_rtc_file_error F m @ r) = Some (m, r)"
  by (simp add: dart_decode_rtc_file_error_def sse_encode_rtc_file_error_def fits_rtc_file_error_def dart_reads sse_ints)

interpretation dart_rtc_file_error: sse_codec "sse_encode_rtc_file_error F" "dart_decode_rtc_file_error F" fits_rtc_file_error for F
  by unfold_locales (rule dart_reads_rtc_file_error)

lemmas [dart_reads] = dart_rtc_file_error.option_read_back dart_rtc_file_error.vec_read_back

lemma dart_reads_ws_server_sdp_message [dart_reads]:
  "fits_ws_server_sdp_message m \<Longrightarrow> dart_decode_ws_server_sdp_message F (sse_encode_ws_server_sdp_message F m @ r) = Some (m, r)"
  by (simp add: dart_decode_ws_server_sdp_message_def sse_encode_ws_server_sdp_message_def fits_ws_server_sdp_message_def dart_reads sse_ints)

interpretation dart_ws_server_sdp_message: sse_codec "sse_encode_ws_server_sdp_message F" "dart_decode_ws_server_sdp_message F" fits_ws_server_sdp_message for F
  by unfold_locales (rule dart_reads_ws_server_sdp_message)

lemmas [dart_reads] = dart_ws_server_sdp_message.option_read_back dart_ws_server_sdp_message.vec_read_back

lemma dart_reads_rtc_status [dart_reads]:
  "fits_rtc_status st \<Longrightarrow> dart_decode_rtc_status F (sse_encode_rtc_status F st @ r) = Some (st, r)"
  by (cases st) (simp_all add: dart_decode_rtc_status_def dart_reads sse_ints)

lemma dart_reads_ws_server_message [dart_reads]:
  "fits_ws_server_message m \<Longrightarrow>
   dart_decode_ws_server_message F (sse_encode_ws_server_message F m @ r) = Some (m, r)"
  by (cases m) (simp_all add: dart_decode_ws_server_message_def dart_reads sse_ints fits_vec_def)

lemma dart_reads_hash_set [dart_reads]:
  "fits_vec fits_string xs \<Longrightarrow> distinct xs \<Longrightarrow>
   dart_decode_set F (sse_encode_hash_set F xs @ r) = Some (xs, r)"
  by (simp add: dart_decode_set_def sse_encode_hash_set_def dart_reads fits_vec_def distinct_remdups_id)

lemma dart_reads_anyhow [dart_reads]:
  "fits_string (ft_debug F e) \<Longrightarrow>
   dart_decode_anyhow F (sse_encode_anyhow F e @ r) = Some (Msg (ft_debug F e), r)"
  by (simp add: dart_decode_anyhow_def sse_encode_anyhow_def dart_reads)

end
