(* ===== verification/Ffi_Wire.thy ===== *)
theory Ffi_Wire
  imports Dart_Codec
begin

text \<open>
  Calls from the application into the library (app/rust/src/frb\_generated.rs, wire functions and
  dispatcher; app/lib/rust/frb\_generated.dart, the calls): the application writes the arguments and
  names a function by its number; the dispatcher picks the wire function, which reads the arguments,
  locks the object, calls the function of the API and writes its result.
\<close>

section \<open>Calls\<close>

text \<open>The functions of the API with their arguments, in the order of their numbers.\<close>

datatype ffi_call =
    CallAcceptOffer handle "string list" ws_server_sdp_message string "expecting_public_key option"
      "pin_config option"
  | CallSendOffer handle "string list" uuid string "expecting_public_key option" "pin_config option"
      "file_dto list"
  | CallUpdateInfo handle client_info_without_id
  | CallGetFileId handle
  | CallReceive handle sink
  | CallFileSenderSend handle bytes
  | CallDecline handle
  | CallListenError handle sink
  | CallListenFiles handle
  | CallListenReceiving handle sink
  | CallListenStatus handle sink
  | CallSendFileStatus handle rtc_send_file_response
  | CallSendPin handle string
  | CallSendSelection handle "string list"
  | CallSenderListenError handle sink
  | CallListenSelectedFiles handle
  | CallSenderListenStatus handle sink
  | CallSendFile handle string
  | CallSenderSendPin handle string
  | CallConnect sink string proposing_client_info string handle
  | CallEnableDebugLogging
  | CallGenerateKeyPair
  | CallVerifyCert string string

text \<open>What a wire function makes of a message: whether it runs asynchronously, the objects it locks
  before the call and which of them for itself alone (\<open>&mut self\<close>), whether the function can fail,
  and the call.\<close>

record wire_task =
  wt_async :: bool
  wt_locks :: "(handle \<times> bool) list"
  wt_fallible :: bool
  wt_call :: ffi_call

text \<open>\<open>deserializer.end()\<close> asserts that nothing is left.\<close>

definition end_of_message :: "bytes \<Rightarrow> unit option" where
  "end_of_message r = (if r = [] then Some () else None)"

section \<open>Wire functions\<close>

definition wire_accept_offer :: "ffi_target \<Rightarrow> bytes \<Rightarrow> wire_task option" where
  "wire_accept_offer F r = do {
     (that, r) \<leftarrow> sse_decode_opaque F r;
     (stun_servers, r) \<leftarrow> sse_decode_vec F (sse_decode_string F) r;
     (offer, r) \<leftarrow> sse_decode_ws_server_sdp_message F r;
     (private_key, r) \<leftarrow> sse_decode_string F r;
     (expecting_public_key, r) \<leftarrow> sse_decode_option (sse_decode_expecting_public_key F) r;
     (pin, r) \<leftarrow> sse_decode_option (sse_decode_pin_config F) r;
     end_of_message r;
     Some \<lparr>wt_async = True, wt_locks = [(that, False)], wt_fallible = True,
       wt_call = CallAcceptOffer that stun_servers offer private_key expecting_public_key pin\<rparr> }"

definition wire_send_offer :: "ffi_target \<Rightarrow> bytes \<Rightarrow> wire_task option" where
  "wire_send_offer F r = do {
     (that, r) \<leftarrow> sse_decode_opaque F r;
     (stun_servers, r) \<leftarrow> sse_decode_vec F (sse_decode_string F) r;
     (target, r) \<leftarrow> sse_decode_uuid F r;
     (private_key, r) \<leftarrow> sse_decode_string F r;
     (expecting_public_key, r) \<leftarrow> sse_decode_option (sse_decode_expecting_public_key F) r;
     (pin, r) \<leftarrow> sse_decode_option (sse_decode_pin_config F) r;
     (files, r) \<leftarrow> sse_decode_vec F (sse_decode_file_dto F) r;
     end_of_message r;
     Some \<lparr>wt_async = True, wt_locks = [(that, False)], wt_fallible = True,
       wt_call = CallSendOffer that stun_servers target private_key expecting_public_key pin files\<rparr> }"

definition wire_update_info :: "ffi_target \<Rightarrow> bytes \<Rightarrow> wire_task option" where
  "wire_update_info F r = do {
     (that, r) \<leftarrow> sse_decode_opaque F r;
     (info, r) \<leftarrow> sse_decode_client_info_without_id F r;
     end_of_message r;
     Some \<lparr>wt_async = True, wt_locks = [(that, False)], wt_fallible = True,
       wt_call = CallUpdateInfo that info\<rparr> }"

definition wire_get_file_id :: "ffi_target \<Rightarrow> bytes \<Rightarrow> wire_task option" where
  "wire_get_file_id F r = do {
     (that, r) \<leftarrow> sse_decode_opaque F r;
     end_of_message r;
     Some \<lparr>wt_async = False, wt_locks = [(that, False)], wt_fallible = False,
       wt_call = CallGetFileId that\<rparr> }"

definition wire_receive :: "ffi_target \<Rightarrow> bytes \<Rightarrow> wire_task option" where
  "wire_receive F r = do {
     (that, r) \<leftarrow> sse_decode_opaque F r;
     (sink, r) \<leftarrow> sse_decode_sink F r;
     end_of_message r;
     Some \<lparr>wt_async = True, wt_locks = [(that, False)], wt_fallible = True,
       wt_call = CallReceive that sink\<rparr> }"

definition wire_file_sender_send :: "ffi_target \<Rightarrow> bytes \<Rightarrow> wire_task option" where
  "wire_file_sender_send F r = do {
     (that, r) \<leftarrow> sse_decode_opaque F r;
     (data, r) \<leftarrow> sse_decode_vec F sse_decode_u8 r;
     end_of_message r;
     Some \<lparr>wt_async = True, wt_locks = [(that, False)], wt_fallible = True,
       wt_call = CallFileSenderSend that data\<rparr> }"

definition wire_decline :: "ffi_target \<Rightarrow> bytes \<Rightarrow> wire_task option" where
  "wire_decline F r = do {
     (that, r) \<leftarrow> sse_decode_opaque F r;
     end_of_message r;
     Some \<lparr>wt_async = True, wt_locks = [(that, False)], wt_fallible = True,
       wt_call = CallDecline that\<rparr> }"

definition wire_listen_error :: "ffi_target \<Rightarrow> bytes \<Rightarrow> wire_task option" where
  "wire_listen_error F r = do {
     (that, r) \<leftarrow> sse_decode_opaque F r;
     (sink, r) \<leftarrow> sse_decode_sink F r;
     end_of_message r;
     Some \<lparr>wt_async = True, wt_locks = [(that, False)], wt_fallible = False,
       wt_call = CallListenError that sink\<rparr> }"

definition wire_listen_files :: "ffi_target \<Rightarrow> bytes \<Rightarrow> wire_task option" where
  "wire_listen_files F r = do {
     (that, r) \<leftarrow> sse_decode_opaque F r;
     end_of_message r;
     Some \<lparr>wt_async = True, wt_locks = [(that, False)], wt_fallible = True,
       wt_call = CallListenFiles that\<rparr> }"

definition wire_listen_receiving :: "ffi_target \<Rightarrow> bytes \<Rightarrow> wire_task option" where
  "wire_listen_receiving F r = do {
     (that, r) \<leftarrow> sse_decode_opaque F r;
     (sink, r) \<leftarrow> sse_decode_sink F r;
     end_of_message r;
     Some \<lparr>wt_async = True, wt_locks = [(that, False)], wt_fallible = False,
       wt_call = CallListenReceiving that sink\<rparr> }"

definition wire_listen_status :: "ffi_target \<Rightarrow> bytes \<Rightarrow> wire_task option" where
  "wire_listen_status F r = do {
     (that, r) \<leftarrow> sse_decode_opaque F r;
     (sink, r) \<leftarrow> sse_decode_sink F r;
     end_of_message r;
     Some \<lparr>wt_async = True, wt_locks = [(that, False)], wt_fallible = False,
       wt_call = CallListenStatus that sink\<rparr> }"

definition wire_send_file_status :: "ffi_target \<Rightarrow> bytes \<Rightarrow> wire_task option" where
  "wire_send_file_status F r = do {
     (that, r) \<leftarrow> sse_decode_opaque F r;
     (status, r) \<leftarrow> sse_decode_rtc_send_file_response F r;
     end_of_message r;
     Some \<lparr>wt_async = True, wt_locks = [(that, False)], wt_fallible = True,
       wt_call = CallSendFileStatus that status\<rparr> }"

definition wire_send_pin :: "ffi_target \<Rightarrow> bytes \<Rightarrow> wire_task option" where
  "wire_send_pin F r = do {
     (that, r) \<leftarrow> sse_decode_opaque F r;
     (pin, r) \<leftarrow> sse_decode_string F r;
     end_of_message r;
     Some \<lparr>wt_async = True, wt_locks = [(that, False)], wt_fallible = True,
       wt_call = CallSendPin that pin\<rparr> }"

definition wire_send_selection :: "ffi_target \<Rightarrow> bytes \<Rightarrow> wire_task option" where
  "wire_send_selection F r = do {
     (that, r) \<leftarrow> sse_decode_opaque F r;
     (selection, r) \<leftarrow> sse_decode_hash_set F r;
     end_of_message r;
     Some \<lparr>wt_async = True, wt_locks = [(that, False)], wt_fallible = True,
       wt_call = CallSendSelection that selection\<rparr> }"

definition wire_sender_listen_error :: "ffi_target \<Rightarrow> bytes \<Rightarrow> wire_task option" where
  "wire_sender_listen_error F r = do {
     (that, r) \<leftarrow> sse_decode_opaque F r;
     (sink, r) \<leftarrow> sse_decode_sink F r;
     end_of_message r;
     Some \<lparr>wt_async = True, wt_locks = [(that, True)], wt_fallible = False,
       wt_call = CallSenderListenError that sink\<rparr> }"

definition wire_listen_selected_files :: "ffi_target \<Rightarrow> bytes \<Rightarrow> wire_task option" where
  "wire_listen_selected_files F r = do {
     (that, r) \<leftarrow> sse_decode_opaque F r;
     end_of_message r;
     Some \<lparr>wt_async = True, wt_locks = [(that, False)], wt_fallible = True,
       wt_call = CallListenSelectedFiles that\<rparr> }"

definition wire_sender_listen_status :: "ffi_target \<Rightarrow> bytes \<Rightarrow> wire_task option" where
  "wire_sender_listen_status F r = do {
     (that, r) \<leftarrow> sse_decode_opaque F r;
     (sink, r) \<leftarrow> sse_decode_sink F r;
     end_of_message r;
     Some \<lparr>wt_async = True, wt_locks = [(that, True)], wt_fallible = False,
       wt_call = CallSenderListenStatus that sink\<rparr> }"

definition wire_send_file :: "ffi_target \<Rightarrow> bytes \<Rightarrow> wire_task option" where
  "wire_send_file F r = do {
     (that, r) \<leftarrow> sse_decode_opaque F r;
     (file_id, r) \<leftarrow> sse_decode_string F r;
     end_of_message r;
     Some \<lparr>wt_async = True, wt_locks = [(that, False)], wt_fallible = True,
       wt_call = CallSendFile that file_id\<rparr> }"

definition wire_sender_send_pin :: "ffi_target \<Rightarrow> bytes \<Rightarrow> wire_task option" where
  "wire_sender_send_pin F r = do {
     (that, r) \<leftarrow> sse_decode_opaque F r;
     (pin, r) \<leftarrow> sse_decode_string F r;
     end_of_message r;
     Some \<lparr>wt_async = True, wt_locks = [(that, False)], wt_fallible = True,
       wt_call = CallSenderSendPin that pin\<rparr> }"

definition wire_connect :: "ffi_target \<Rightarrow> bytes \<Rightarrow> wire_task option" where
  "wire_connect F r = do {
     (sink, r) \<leftarrow> sse_decode_sink F r;
     (uri, r) \<leftarrow> sse_decode_string F r;
     (info, r) \<leftarrow> sse_decode_proposing_client_info F r;
     (private_key, r) \<leftarrow> sse_decode_string F r;
     (callback, r) \<leftarrow> sse_decode_dart_opaque F r;
     end_of_message r;
     Some \<lparr>wt_async = True, wt_locks = [], wt_fallible = False,
       wt_call = CallConnect sink uri info private_key callback\<rparr> }"

definition wire_enable_debug_logging :: "ffi_target \<Rightarrow> bytes \<Rightarrow> wire_task option" where
  "wire_enable_debug_logging F r = do {
     end_of_message r;
     Some \<lparr>wt_async = False, wt_locks = [], wt_fallible = True,
       wt_call = CallEnableDebugLogging\<rparr> }"

definition wire_generate_key_pair :: "ffi_target \<Rightarrow> bytes \<Rightarrow> wire_task option" where
  "wire_generate_key_pair F r = do {
     end_of_message r;
     Some \<lparr>wt_async = False, wt_locks = [], wt_fallible = True,
       wt_call = CallGenerateKeyPair\<rparr> }"

definition wire_verify_cert :: "ffi_target \<Rightarrow> bytes \<Rightarrow> wire_task option" where
  "wire_verify_cert F r = do {
     (cert, r) \<leftarrow> sse_decode_string F r;
     (public_key, r) \<leftarrow> sse_decode_string F r;
     end_of_message r;
     Some \<lparr>wt_async = False, wt_locks = [], wt_fallible = True,
       wt_call = CallVerifyCert cert public_key\<rparr> }"


section \<open>Dispatchers\<close>

definition wire_functions :: "ffi_target \<Rightarrow> (int \<times> (bytes \<Rightarrow> wire_task option)) list" where
  "wire_functions F =
     [(1, wire_accept_offer F),
       (2, wire_send_offer F),
       (3, wire_update_info F),
       (4, wire_get_file_id F),
       (5, wire_receive F),
       (6, wire_file_sender_send F),
       (7, wire_decline F),
       (8, wire_listen_error F),
       (9, wire_listen_files F),
       (10, wire_listen_receiving F),
       (11, wire_listen_status F),
       (12, wire_send_file_status F),
       (13, wire_send_pin F),
       (14, wire_send_selection F),
       (15, wire_sender_listen_error F),
       (16, wire_listen_selected_files F),
       (17, wire_sender_listen_status F),
       (18, wire_send_file F),
       (19, wire_sender_send_pin F),
       (20, wire_connect F),
       (21, wire_enable_debug_logging F),
       (22, wire_generate_key_pair F),
       (23, wire_verify_cert F)]"

definition pde_ffi_dispatcher_primary :: "ffi_target \<Rightarrow> int \<Rightarrow> bytes \<Rightarrow> wire_task option" where
  "pde_ffi_dispatcher_primary F func_id message = do {
     wire \<leftarrow> map_of (wire_functions F) func_id;
     wire message }"

text \<open>No function of the API is synchronous for the application.\<close>

definition pde_ffi_dispatcher_sync :: "int \<Rightarrow> bytes \<Rightarrow> wire_task option" where
  "pde_ffi_dispatcher_sync func_id message = None"

section \<open>Results\<close>

text \<open>What the functions return, and what the streams carry.\<close>

datatype ffi_value =
    ValUnit
  | ValText string
  | ValObject "handle \<times> u32"
  | ValFiles "file_dto list"
  | ValSet "string list"
  | ValKeyPair key_pair
  | ValBytes bytes
  | ValError rtc_file_error
  | ValStatus rtc_status
  | ValMessage ws_server_message

fun encode_value :: "ffi_target \<Rightarrow> ffi_value \<Rightarrow> bytes" where
  "encode_value F ValUnit = sse_encode_unit ()"
| "encode_value F (ValText s) = sse_encode_string F s"
| "encode_value F (ValObject x) = sse_encode_opaque F x"
| "encode_value F (ValFiles fs) = sse_encode_vec F (sse_encode_file_dto F) fs"
| "encode_value F (ValSet xs) = sse_encode_hash_set F xs"
| "encode_value F (ValKeyPair p) = sse_encode_key_pair F p"
| "encode_value F (ValBytes bs) = sse_encode_vec F sse_encode_u8 bs"
| "encode_value F (ValError e) = sse_encode_rtc_file_error F e"
| "encode_value F (ValStatus st) = sse_encode_rtc_status F st"
| "encode_value F (ValMessage m) = sse_encode_ws_server_message F m"

text \<open>\<open>transform_result_sse\<close>: the bridge marks whether the bytes are an error or a result.\<close>

definition transform_result :: "ffi_target \<Rightarrow> bool \<Rightarrow> err + ffi_value \<Rightarrow> bytes + bytes" where
  "transform_result F fallible result = (case result of
      Inl e \<Rightarrow> Inl (if fallible then sse_encode_anyhow F e else sse_encode_unit ())
    | Inr v \<Rightarrow> Inr (encode_value F v))"

text \<open>The application's callback (\<open>on_connection\<close>): it answers with a byte that tells whether it threw;
  the library does not expect that.\<close>

definition dart_fn_answer :: "ffi_target \<Rightarrow> string option \<Rightarrow> bytes" where
  "dart_fn_answer F thrown = (case thrown of
      None \<Rightarrow> dart_encode_u8 0
    | Some e \<Rightarrow> dart_encode_u8 1 @ dart_encode_string F e)"

definition dart_fn_body :: "ffi_target \<Rightarrow> bytes \<Rightarrow> unit outcome" where
  "dart_fn_body F message =
     (case sse_decode_u8 message of
        None \<Rightarrow> Panic ''called `Option::unwrap()` on a `None` value''
      | Some (action, r) \<Rightarrow>
          if action = 0 then
            (case end_of_message r of Some _ \<Rightarrow> Done () | None \<Rightarrow> Panic ''assertion failed'')
          else if action = 1 then
            (case sse_decode_anyhow F r of
               Some (_, r) \<Rightarrow> (case end_of_message r of
                   Some _ \<Rightarrow> Panic ''Dart throws exception but Rust side assume it is not failable''
                 | None \<Rightarrow> Panic ''assertion failed'')
             | None \<Rightarrow> Panic ''called `Result::unwrap()` on an `Err` value'')
          else Panic ''internal error: entered unreachable code'')"

section \<open>The calls of the application\<close>

fun dart_request :: "ffi_target \<Rightarrow> ffi_call \<Rightarrow> int \<times> bytes" where
  "dart_request F (CallAcceptOffer that stun_servers offer private_key expecting_public_key pin) = (1, 
       dart_encode_object F that @
       dart_encode_list F (dart_encode_string F) stun_servers @
       dart_encode_ws_server_sdp_message F offer @
       dart_encode_string F private_key @
       dart_encode_option (dart_encode_expecting_public_key F) expecting_public_key @
       dart_encode_option (dart_encode_pin_config F) pin)"
| "dart_request F (CallSendOffer that stun_servers target private_key expecting_public_key pin files) = (2, 
       dart_encode_object F that @
       dart_encode_list F (dart_encode_string F) stun_servers @
       dart_encode_uuid F target @
       dart_encode_string F private_key @
       dart_encode_option (dart_encode_expecting_public_key F) expecting_public_key @
       dart_encode_option (dart_encode_pin_config F) pin @
       dart_encode_list F (dart_encode_file_dto F) files)"
| "dart_request F (CallUpdateInfo that info) = (3, dart_encode_object F that @ dart_encode_client_info_without_id F info)"
| "dart_request F (CallGetFileId that) = (4, dart_encode_object F that)"
| "dart_request F (CallReceive that sink) = (5, dart_encode_object F that @ dart_encode_sink F sink)"
| "dart_request F (CallFileSenderSend that data) = (6, dart_encode_object F that @ dart_encode_u8_list F data)"
| "dart_request F (CallDecline that) = (7, dart_encode_object F that)"
| "dart_request F (CallListenError that sink) = (8, dart_encode_object F that @ dart_encode_sink F sink)"
| "dart_request F (CallListenFiles that) = (9, dart_encode_object F that)"
| "dart_request F (CallListenReceiving that sink) = (10, dart_encode_object F that @ dart_encode_sink F sink)"
| "dart_request F (CallListenStatus that sink) = (11, dart_encode_object F that @ dart_encode_sink F sink)"
| "dart_request F (CallSendFileStatus that status) = (12, dart_encode_object F that @ dart_encode_rtc_send_file_response F status)"
| "dart_request F (CallSendPin that pin) = (13, dart_encode_object F that @ dart_encode_string F pin)"
| "dart_request F (CallSendSelection that selection) = (14, dart_encode_object F that @ dart_encode_set F selection)"
| "dart_request F (CallSenderListenError that sink) = (15, dart_encode_object F that @ dart_encode_sink F sink)"
| "dart_request F (CallListenSelectedFiles that) = (16, dart_encode_object F that)"
| "dart_request F (CallSenderListenStatus that sink) = (17, dart_encode_object F that @ dart_encode_sink F sink)"
| "dart_request F (CallSendFile that file_id) = (18, dart_encode_object F that @ dart_encode_string F file_id)"
| "dart_request F (CallSenderSendPin that pin) = (19, dart_encode_object F that @ dart_encode_string F pin)"
| "dart_request F (CallConnect sink uri info private_key callback) = (20, 
       dart_encode_sink F sink @
       dart_encode_string F uri @
       dart_encode_proposing_client_info F info @
       dart_encode_string F private_key @
       dart_encode_dart_opaque F callback)"
| "dart_request F CallEnableDebugLogging = (21, [])"
| "dart_request F CallGenerateKeyPair = (22, [])"
| "dart_request F (CallVerifyCert cert public_key) = (23, dart_encode_string F cert @ dart_encode_string F public_key)"

text \<open>How the application reads the result of a call, an error of it, and the items of its stream.\<close>

fun dart_decode_success :: "ffi_target \<Rightarrow> ffi_call \<Rightarrow> ffi_value sse_decoder" where
  "dart_decode_success F (CallAcceptOffer _ _ _ _ _ _) r = do { (x, r) \<leftarrow> dart_decode_object F r; Some (ValObject x, r) }"
| "dart_decode_success F (CallSendOffer _ _ _ _ _ _ _) r = do { (x, r) \<leftarrow> dart_decode_object F r; Some (ValObject x, r) }"
| "dart_decode_success F (CallGetFileId _) r = do { (s, r) \<leftarrow> dart_decode_string F r; Some (ValText s, r) }"
| "dart_decode_success F (CallListenFiles _) r =
     do { (fs, r) \<leftarrow> dart_decode_list F (dart_decode_file_dto F) r; Some (ValFiles fs, r) }"
| "dart_decode_success F (CallListenSelectedFiles _) r = do { (xs, r) \<leftarrow> dart_decode_set F r; Some (ValSet xs, r) }"
| "dart_decode_success F (CallSendFile _ _) r = do { (x, r) \<leftarrow> dart_decode_object F r; Some (ValObject x, r) }"
| "dart_decode_success F CallGenerateKeyPair r = do { (p, r) \<leftarrow> dart_decode_key_pair F r; Some (ValKeyPair p, r) }"
| "dart_decode_success F _ r = Some (ValUnit, r)"

fun dart_decode_item :: "ffi_target \<Rightarrow> ffi_call \<Rightarrow> bytes \<Rightarrow> (ffi_value \<times> bytes) option" where
  "dart_decode_item F (CallReceive _ _) r = do { (bs, r) \<leftarrow> dart_decode_u8_list F r; Some (ValBytes bs, r) }"
| "dart_decode_item F (CallListenError _ _) r = do { (e, r) \<leftarrow> dart_decode_rtc_file_error F r; Some (ValError e, r) }"
| "dart_decode_item F (CallListenReceiving _ _) r = do { (x, r) \<leftarrow> dart_decode_object F r; Some (ValObject x, r) }"
| "dart_decode_item F (CallListenStatus _ _) r = do { (st, r) \<leftarrow> dart_decode_rtc_status F r; Some (ValStatus st, r) }"
| "dart_decode_item F (CallSenderListenError _ _) r =
     do { (e, r) \<leftarrow> dart_decode_rtc_file_error F r; Some (ValError e, r) }"
| "dart_decode_item F (CallSenderListenStatus _ _) r =
     do { (st, r) \<leftarrow> dart_decode_rtc_status F r; Some (ValStatus st, r) }"
| "dart_decode_item F (CallConnect _ _ _ _ _) r =
     do { (m, r) \<leftarrow> dart_decode_ws_server_message F r; Some (ValMessage m, r) }"
| "dart_decode_item F _ r = None"

text \<open>\<open>decodeErrorData: null\<close>: the application has no decoder for an error, and throws.\<close>

fun dart_expects_error :: "ffi_call \<Rightarrow> bool" where
  "dart_expects_error (CallGetFileId _) \<longleftrightarrow> False"
| "dart_expects_error (CallListenError _ _) \<longleftrightarrow> False"
| "dart_expects_error (CallListenReceiving _ _) \<longleftrightarrow> False"
| "dart_expects_error (CallListenStatus _ _) \<longleftrightarrow> False"
| "dart_expects_error (CallSenderListenError _ _) \<longleftrightarrow> False"
| "dart_expects_error (CallSenderListenStatus _ _) \<longleftrightarrow> False"
| "dart_expects_error (CallConnect _ _ _ _ _) \<longleftrightarrow> False"
| "dart_expects_error _ \<longleftrightarrow> True"

definition dart_decode_reply :: "ffi_target \<Rightarrow> ffi_call \<Rightarrow> bytes + bytes \<Rightarrow> (err + ffi_value) option" where
  "dart_decode_reply F call reply = (case reply of
      Inl r \<Rightarrow> if dart_expects_error call
              then do { (e, r) \<leftarrow> dart_decode_anyhow F r; Some (Inl e) } else None
    | Inr r \<Rightarrow> do { (v, r) \<leftarrow> dart_decode_success F call r; Some (Inr v) })"

end
