(* ===== verification/Ffi_Wire_Props.thy ===== *)
theory Ffi_Wire_Props
  imports Ffi_Wire
begin

text \<open>
  Calls, results and stream items cross the border between the application and the library
  unchanged.
\<close>

section \<open>What a message can carry\<close>

fun fits_call :: "ffi_call \<Rightarrow> bool" where
  "fits_call (CallAcceptOffer that stun_servers offer private_key key pin) \<longleftrightarrow>
     fits_vec fits_string stun_servers \<and> fits_ws_server_sdp_message offer \<and> fits_string private_key \<and>
     pred_option fits_expecting_public_key key \<and> pred_option fits_pin_config pin"
| "fits_call (CallSendOffer that stun_servers target private_key key pin files) \<longleftrightarrow>
     fits_vec fits_string stun_servers \<and> fits_string private_key \<and>
     pred_option fits_expecting_public_key key \<and> pred_option fits_pin_config pin \<and> fits_vec fits_file_dto files"
| "fits_call (CallUpdateInfo that info) \<longleftrightarrow> fits_client_info_without_id info"
| "fits_call (CallReceive that sink) \<longleftrightarrow> fits_string sink"
| "fits_call (CallFileSenderSend that data) \<longleftrightarrow> length data < 2 ^ 31"
| "fits_call (CallListenError that sink) \<longleftrightarrow> fits_string sink"
| "fits_call (CallListenReceiving that sink) \<longleftrightarrow> fits_string sink"
| "fits_call (CallListenStatus that sink) \<longleftrightarrow> fits_string sink"
| "fits_call (CallSendFileStatus that status) \<longleftrightarrow> fits_rtc_send_file_response status"
| "fits_call (CallSendPin that pin) \<longleftrightarrow> fits_string pin"
| "fits_call (CallSendSelection that selection) \<longleftrightarrow> fits_vec fits_string selection \<and> distinct selection"
| "fits_call (CallSenderListenError that sink) \<longleftrightarrow> fits_string sink"
| "fits_call (CallSenderListenStatus that sink) \<longleftrightarrow> fits_string sink"
| "fits_call (CallSendFile that file_id) \<longleftrightarrow> fits_string file_id"
| "fits_call (CallSenderSendPin that pin) \<longleftrightarrow> fits_string pin"
| "fits_call (CallConnect sink uri info private_key callback) \<longleftrightarrow>
     fits_string sink \<and> fits_string uri \<and> fits_proposing_client_info info \<and> fits_string private_key"
| "fits_call (CallVerifyCert cert public_key) \<longleftrightarrow> fits_string cert \<and> fits_string public_key"
| "fits_call _ \<longleftrightarrow> True"

text \<open>The object of a call, and whether the call needs it for itself alone.\<close>

fun call_object :: "ffi_call \<Rightarrow> handle option" where
  "call_object (CallAcceptOffer that _ _ _ _ _) = Some that"
| "call_object (CallSendOffer that _ _ _ _ _ _) = Some that"
| "call_object (CallUpdateInfo that _) = Some that"
| "call_object (CallGetFileId that) = Some that"
| "call_object (CallReceive that _) = Some that"
| "call_object (CallFileSenderSend that _) = Some that"
| "call_object (CallDecline that) = Some that"
| "call_object (CallListenError that _) = Some that"
| "call_object (CallListenFiles that) = Some that"
| "call_object (CallListenReceiving that _) = Some that"
| "call_object (CallListenStatus that _) = Some that"
| "call_object (CallSendFileStatus that _) = Some that"
| "call_object (CallSendPin that _) = Some that"
| "call_object (CallSendSelection that _) = Some that"
| "call_object (CallSenderListenError that _) = Some that"
| "call_object (CallListenSelectedFiles that) = Some that"
| "call_object (CallSenderListenStatus that _) = Some that"
| "call_object (CallSendFile that _) = Some that"
| "call_object (CallSenderSendPin that _) = Some that"
| "call_object _ = None"

fun alone :: "ffi_call \<Rightarrow> bool" where
  "alone (CallSenderListenError _ _) \<longleftrightarrow> True"
| "alone (CallSenderListenStatus _ _) \<longleftrightarrow> True"
| "alone _ \<longleftrightarrow> False"

definition call_locks :: "ffi_call \<Rightarrow> (handle \<times> bool) list" where
  "call_locks call = (case call_object call of None \<Rightarrow> [] | Some that \<Rightarrow> [(that, alone call)])"

text \<open>The values a call returns, and those its stream carries.\<close>

fun returns :: "ffi_call \<Rightarrow> ffi_value \<Rightarrow> bool" where
  "returns (CallAcceptOffer _ _ _ _ _ _) v \<longleftrightarrow> (\<exists>x. v = ValObject x)"
| "returns (CallSendOffer _ _ _ _ _ _ _) v \<longleftrightarrow> (\<exists>x. v = ValObject x)"
| "returns (CallGetFileId _) v \<longleftrightarrow> (\<exists>s. v = ValText s)"
| "returns (CallListenFiles _) v \<longleftrightarrow> (\<exists>fs. v = ValFiles fs)"
| "returns (CallListenSelectedFiles _) v \<longleftrightarrow> (\<exists>xs. v = ValSet xs)"
| "returns (CallSendFile _ _) v \<longleftrightarrow> (\<exists>x. v = ValObject x)"
| "returns CallGenerateKeyPair v \<longleftrightarrow> (\<exists>p. v = ValKeyPair p)"
| "returns _ v \<longleftrightarrow> v = ValUnit"

fun carries :: "ffi_call \<Rightarrow> ffi_value \<Rightarrow> bool" where
  "carries (CallReceive _ _) v \<longleftrightarrow> (\<exists>bs. v = ValBytes bs)"
| "carries (CallListenError _ _) v \<longleftrightarrow> (\<exists>e. v = ValError e)"
| "carries (CallListenReceiving _ _) v \<longleftrightarrow> (\<exists>x. v = ValObject x)"
| "carries (CallListenStatus _ _) v \<longleftrightarrow> (\<exists>st. v = ValStatus st)"
| "carries (CallSenderListenError _ _) v \<longleftrightarrow> (\<exists>e. v = ValError e)"
| "carries (CallSenderListenStatus _ _) v \<longleftrightarrow> (\<exists>st. v = ValStatus st)"
| "carries (CallConnect _ _ _ _ _) v \<longleftrightarrow> (\<exists>m. v = ValMessage m)"
| "carries _ v \<longleftrightarrow> False"

fun fits_value :: "ffi_value \<Rightarrow> bool" where
  "fits_value (ValText s) \<longleftrightarrow> fits_string s"
| "fits_value (ValFiles fs) \<longleftrightarrow> fits_vec fits_file_dto fs"
| "fits_value (ValSet xs) \<longleftrightarrow> fits_vec fits_string xs \<and> distinct xs"
| "fits_value (ValKeyPair p) \<longleftrightarrow> fits_key_pair p"
| "fits_value (ValBytes bs) \<longleftrightarrow> length bs < 2 ^ 31"
| "fits_value (ValError e) \<longleftrightarrow> fits_rtc_file_error e"
| "fits_value (ValStatus st) \<longleftrightarrow> fits_rtc_status st"
| "fits_value (ValMessage m) \<longleftrightarrow> fits_ws_server_message m"
| "fits_value _ \<longleftrightarrow> True"

section \<open>Calls\<close>

lemma bind_end_of_message [simp]:
  "Option.bind (end_of_message r) f = (if r = [] then f () else None)"
  by (simp add: end_of_message_def)

lemmas wire_defs = wire_accept_offer_def wire_send_offer_def wire_update_info_def wire_get_file_id_def
  wire_receive_def wire_file_sender_send_def wire_decline_def wire_listen_error_def wire_listen_files_def
  wire_listen_receiving_def wire_listen_status_def wire_send_file_status_def wire_send_pin_def
  wire_send_selection_def wire_sender_listen_error_def wire_listen_selected_files_def
  wire_sender_listen_status_def wire_send_file_def wire_sender_send_pin_def wire_connect_def
  wire_enable_debug_logging_def wire_generate_key_pair_def wire_verify_cert_def

text \<open>What the library has to do for a call.\<close>

definition task_of :: "ffi_call \<Rightarrow> wire_task" where
  "task_of call =
     \<lparr>wt_async = (case call of CallGetFileId _ \<Rightarrow> False | CallEnableDebugLogging \<Rightarrow> False
         | CallGenerateKeyPair \<Rightarrow> False | CallVerifyCert _ _ \<Rightarrow> False | _ \<Rightarrow> True),
      wt_locks = call_locks call, wt_fallible = dart_expects_error call, wt_call = call\<rparr>"

text \<open>
  C12: a call of the application reaches the function of the library that it names, with the arguments
  the application passed and a lock on the object it is a method of, for itself alone exactly when
  the method takes \<open>&mut self\<close>; a message that is longer than the call makes it is refused.
\<close>

theorem call_arrives:
  assumes "fits_call call"
  shows "pde_ffi_dispatcher_primary F (fst (dart_request F call)) (snd (dart_request F call) @ extra) =
    (if extra = [] then Some (task_of call) else None)"
  using assms
  by (cases call)
    (simp_all add: pde_ffi_dispatcher_primary_def wire_functions_def wire_defs dart_writes sse_simps
      task_of_def call_locks_def)

section \<open>Results and streams\<close>

lemma value_arrives:
  assumes "fits_value v"
  shows "returns call v \<Longrightarrow> dart_decode_success F call (encode_value F v @ r) = Some (v, r)"
    and "carries call v \<Longrightarrow> dart_decode_item F call (encode_value F v @ r) = Some (v, r)"
proof -
  show "dart_decode_success F call (encode_value F v @ r) = Some (v, r)" if "returns call v"
    using that assms
    by (cases call) (auto simp: dart_reads fits_vec_def sse_encode_unit_def)
  show "dart_decode_item F call (encode_value F v @ r) = Some (v, r)" if "carries call v"
    using that assms by (cases call) (auto simp: dart_reads)
qed

text \<open>
  C18: what the library answers is what the application reads: the result of a call, the text of its
  error, and each item of its stream. A call whose function can fail is one for which the application
  can read an error.
\<close>

theorem answer_arrives:
  assumes "fits_call call"
    and "pde_ffi_dispatcher_primary F (fst (dart_request F call)) (snd (dart_request F call)) = Some task"
  shows "(\<forall>v. returns call v \<and> fits_value v \<longrightarrow>
      dart_decode_reply F call (transform_result F (wt_fallible task) (Inr v)) = Some (Inr v)) \<and>
    (\<forall>e. wt_fallible task \<and> fits_string (ft_debug F e) \<longrightarrow>
      dart_decode_reply F call (transform_result F (wt_fallible task) (Inl e)) = Some (Inl (Msg (ft_debug F e)))) \<and>
    (\<forall>v. carries call v \<and> fits_value v \<longrightarrow> dart_decode_item F call (encode_value F v) = Some (v, []))"
proof -
  have "task = task_of call"
    using assms(2) call_arrives [OF assms(1), of F "[]"] by simp
  moreover have "dart_decode_anyhow F (sse_encode_anyhow F e) = Some (Msg (ft_debug F e), [])"
    if "fits_string (ft_debug F e)" for e
    using dart_reads_anyhow [OF that, of "[]"] by simp
  ultimately show ?thesis
    using value_arrives [of _ call F "[]"]
    by (auto simp: dart_decode_reply_def transform_result_def task_of_def)
qed

text \<open>
  A callback of the application that throws makes the library's task panic, and one that does
  not lets it go on.
\<close>

theorem callback_answer:
  assumes "pred_option fits_string thrown"
  shows "dart_fn_body F (dart_fn_answer F thrown) = (case thrown of None \<Rightarrow> Done ()
    | Some _ \<Rightarrow> Panic ''Dart throws exception but Rust side assume it is not failable'')"
  using assms string_read_back [of _ F "[]"] sse_ints(1) [of 0 "[]"] sse_ints(1) [of 1]
  by (cases thrown)
    (auto simp: dart_fn_body_def dart_fn_answer_def dart_writes sse_decode_anyhow_def end_of_message_def)

section \<open>Examples\<close>

definition demo_target :: ffi_target where
  "demo_target = \<lparr>ft_big_endian = False, ft_display = (\<lambda>_. ''library error''), ft_debug = err_text
     \<lparr>ft_big_endian = False, ft_display = (\<lambda>_. ''library error''), ft_debug = (\<lambda>_. [])\<rparr>\<rparr>"

lemma demo_request:
  "(fst (dart_request demo_target (CallSendPin 7 ''42'')), snd (dart_request demo_target (CallSendPin 7 ''42''))) = (13, [7, 0, 0, 0, 0, 0, 0, 0, 2, 0, 0, 0, 0x34, 0x32])"
  by code_simp

lemma fits_demo: "fits_string ''42''" "fits_string ''id''"
  by (simp_all add: fits_string_def utf8_def)

lemma call_arrives_witness:
  "pde_ffi_dispatcher_primary demo_target 13 [7, 0, 0, 0, 0, 0, 0, 0, 2, 0, 0, 0, 0x34, 0x32] =
     Some \<lparr>wt_async = True, wt_locks = [(7, False)], wt_fallible = True, wt_call = CallSendPin 7 ''42''\<rparr>"
  using call_arrives [of "CallSendPin 7 ''42''" demo_target "[]"] demo_request
  by (simp add: fits_demo task_of_def call_locks_def del: dart_request.simps)

lemma answer_arrives_witness:
  "dart_decode_reply demo_target (CallGetFileId 7) (transform_result demo_target False (Inr (ValText ''id''))) =
   Some (Inr (ValText ''id''))"
proof -
  have "pde_ffi_dispatcher_primary demo_target (fst (dart_request demo_target (CallGetFileId 7)))
      (snd (dart_request demo_target (CallGetFileId 7))) = Some (task_of (CallGetFileId 7))"
    by code_simp
  from answer_arrives [OF _ this] fits_demo show ?thesis by (auto simp: task_of_def)
qed

lemma callback_answer_witness:
  "dart_fn_body demo_target (dart_fn_answer demo_target (Some ''42'')) =
   Panic ''Dart throws exception but Rust side assume it is not failable''"
  using callback_answer [of "Some ''42''" demo_target] by (simp add: fits_demo)

end
