(* ===== verification/Ffi_Locks.thy ===== *)
theory Ffi_Locks
  imports Ffi_Wire_Props
begin

text \<open>
  Calls of the application that are under way in the library at the same time: each locks its object
  (app/rust/src/frb\_generated.rs), runs, and unlocks it when it returns. Which calls of a sending
  session return when, and what ends the session, is modelled as far as the locks matter
  (app/rust/src/api/webrtc.rs, core/src/webrtc/webrtc.rs).
\<close>

section \<open>State\<close>

text \<open>\<open>tk_held\<close>: how many of its locks the call has taken, in their order; \<open>tk_returned\<close>: it has
  returned and given them back.\<close>

record call_task =
  tk_task :: wire_task
  tk_held :: nat
  tk_returned :: bool

text \<open>The task that sends the files (\<open>send_task\<close> of the core): at work, waiting for the application to
  hand over a file, or over. \<open>sn_reports\<close> and \<open>sn_read\<close>: the statuses that the session has put into its
  channel, and those that were taken out of it; \<open>sn_files\<close>: files handed over and not yet taken;
  \<open>sn_taken\<close>: files the task has taken; \<open>sn_released\<close>: the application has dropped the controller.\<close>

datatype sending_phase = SenderBusy | SenderAwaitsFile | SenderOver

record sending_session =
  sn_phase :: sending_phase
  sn_reports :: nat
  sn_read :: nat
  sn_files :: nat
  sn_taken :: nat
  sn_released :: bool

record library =
  lb_calls :: "call_task list"
  lb_sessions :: "handle \<Rightarrow> sending_session"

definition session_new :: sending_session where
  "session_new = \<lparr>sn_phase = SenderBusy, sn_reports = 0, sn_read = 0, sn_files = 0, sn_taken = 0,
     sn_released = False\<rparr>"

definition library_new :: library where
  "library_new = \<lparr>lb_calls = [], lb_sessions = (\<lambda>_. session_new)\<rparr>"

text \<open>\<open>mpsc::channel::<RTCStatus>(1)\<close> and \<open>mpsc::channel::<RTCFile>(1)\<close>.\<close>

definition STATUS_CAPACITY :: nat where
  "STATUS_CAPACITY = 1"

definition FILE_CAPACITY :: nat where
  "FILE_CAPACITY = 1"

definition held_locks :: "call_task \<Rightarrow> (handle \<times> bool) list" where
  "held_locks t = (if tk_returned t then [] else take (tk_held t) (wt_locks (tk_task t)))"

definition running :: "call_task \<Rightarrow> bool" where
  "running t \<longleftrightarrow> \<not> tk_returned t \<and> tk_held t = length (wt_locks (tk_task t))"

text \<open>The lock of an object is a read-write lock.\<close>

definition can_lock :: "handle \<Rightarrow> bool \<Rightarrow> library \<Rightarrow> bool" where
  "can_lock h mutable s \<longleftrightarrow>
     list_all (\<lambda>t. list_all (\<lambda>(h', m). h' \<noteq> h \<or> \<not> m \<and> \<not> mutable) (held_locks t)) (lb_calls s)"

text \<open>A call holds a reference to its object from the moment its arguments are read.\<close>

definition referenced :: "library \<Rightarrow> handle \<Rightarrow> bool" where
  "referenced s h \<longleftrightarrow> \<not> sn_released (lb_sessions s h) \<or>
     list_ex (\<lambda>t. \<not> tk_returned t \<and> h \<in> fst ` set (wt_locks (tk_task t))) (lb_calls s)"

section \<open>Steps\<close>

definition upd_session :: "handle \<Rightarrow> (sending_session \<Rightarrow> sending_session) \<Rightarrow> library \<Rightarrow> library" where
  "upd_session h f s = s\<lparr>lb_sessions := (lb_sessions s)(h := f (lb_sessions s h))\<rparr>"

text \<open>The application cannot call a method of an object it has dropped.\<close>

definition lib_dispatch :: "ffi_target \<Rightarrow> int \<Rightarrow> bytes \<Rightarrow> library \<Rightarrow> library option" where
  "lib_dispatch F func_id message s = do {
     task \<leftarrow> pde_ffi_dispatcher_primary F func_id message;
     if list_ex (\<lambda>(h, _). sn_released (lb_sessions s h)) (wt_locks task) then None
     else Some (s\<lparr>lb_calls := lb_calls s @ [\<lparr>tk_task = task, tk_held = 0, tk_returned = False\<rparr>]\<rparr>) }"

text \<open>The loop over the locks: the next one, when it is free.\<close>

definition lib_lock :: "nat \<Rightarrow> library \<Rightarrow> library option" where
  "lib_lock i s =
     (if i < length (lb_calls s) then
        (let t = lb_calls s ! i; n = tk_held t
         in if \<not> tk_returned t \<and> n < length (wt_locks (tk_task t)) \<and>
               can_lock (fst (wt_locks (tk_task t) ! n)) (snd (wt_locks (tk_task t) ! n)) s
            then Some (s\<lparr>lb_calls := (lb_calls s)[i := t\<lparr>tk_held := Suc n\<rparr>]\<rparr>) else None)
      else None)"

text \<open>\<open>listen_status\<close> and \<open>listen_error\<close> of a sending session loop until the sending task, which has the
  other ends of their channels, is over. \<open>send_file\<close> waits for room in the channel of files, and fails
  when the task is over. The other calls may return at any time.\<close>

fun may_return :: "library \<Rightarrow> ffi_call \<Rightarrow> bool" where
  "may_return s (CallSenderListenStatus h _) \<longleftrightarrow> sn_phase (lb_sessions s h) = SenderOver"
| "may_return s (CallSenderListenError h _) \<longleftrightarrow> sn_phase (lb_sessions s h) = SenderOver"
| "may_return s (CallSendFile h _) \<longleftrightarrow>
     sn_phase (lb_sessions s h) = SenderOver \<or> sn_files (lb_sessions s h) < FILE_CAPACITY"
| "may_return s _ \<longleftrightarrow> True"

fun return_effect :: "ffi_call \<Rightarrow> library \<Rightarrow> library" where
  "return_effect (CallSendFile h _) s =
     (if sn_phase (lb_sessions s h) = SenderOver then s else upd_session h (sn_files_update Suc) s)"
| "return_effect _ s = s"

definition lib_return :: "nat \<Rightarrow> library \<Rightarrow> library option" where
  "lib_return i s =
     (if i < length (lb_calls s) \<and> running (lb_calls s ! i) \<and> may_return s (wt_call (tk_task (lb_calls s ! i)))
      then Some (return_effect (wt_call (tk_task (lb_calls s ! i)))
        (s\<lparr>lb_calls := (lb_calls s)[i := (lb_calls s ! i)\<lparr>tk_returned := True\<rparr>]\<rparr>))
      else None)"

text \<open>The session reports a status when there is room, whatever the sending task is doing
  (\<open>SdpExchanged\<close> first, then what the task has to say, \<open>Finished\<close> or an error when the connection is
  lost); a running call of \<open>listen_status\<close> takes it.\<close>

definition report_status :: "handle \<Rightarrow> library \<Rightarrow> library option" where
  "report_status h s =
     (if sn_reports (lb_sessions s h) - sn_read (lb_sessions s h) < STATUS_CAPACITY
      then Some (upd_session h (sn_reports_update Suc) s) else None)"

fun listens_to :: "handle \<Rightarrow> ffi_call \<Rightarrow> bool" where
  "listens_to h (CallSenderListenStatus h' _) \<longleftrightarrow> h' = h"
| "listens_to h _ \<longleftrightarrow> False"

definition listened_to :: "library \<Rightarrow> handle \<Rightarrow> bool" where
  "listened_to s h \<longleftrightarrow> list_ex (\<lambda>t. running t \<and> listens_to h (wt_call (tk_task t))) (lb_calls s)"

definition status_read :: "handle \<Rightarrow> library \<Rightarrow> library option" where
  "status_read h s =
     (if listened_to s h \<and> sn_read (lb_sessions s h) < sn_reports (lb_sessions s h)
      then Some (upd_session h (sn_read_update Suc) s) else None)"

text \<open>\<open>sending_rx.recv().await\<close>: the sending task arrives there, after \<open>SdpExchanged\<close> and \<open>Connected\<close> were
  sent; it gets a file, or \<open>None\<close> when the controller, with the sender of the channel, is gone.\<close>

definition sender_waits :: "handle \<Rightarrow> library \<Rightarrow> library option" where
  "sender_waits h s =
     (if sn_phase (lb_sessions s h) = SenderBusy \<and> 2 \<le> sn_reports (lb_sessions s h)
      then Some (upd_session h (sn_phase_update (\<lambda>_. SenderAwaitsFile)) s) else None)"

definition sender_takes :: "handle \<Rightarrow> library \<Rightarrow> library option" where
  "sender_takes h s =
     (if sn_phase (lb_sessions s h) = SenderAwaitsFile \<and> 0 < sn_files (lb_sessions s h)
      then Some (upd_session h
        (\<lambda>x. x\<lparr>sn_phase := SenderBusy, sn_files := sn_files x - 1, sn_taken := Suc (sn_taken x)\<rparr>) s)
      else None)"

definition sender_closed :: "handle \<Rightarrow> library \<Rightarrow> library option" where
  "sender_closed h s =
     (if sn_phase (lb_sessions s h) = SenderAwaitsFile \<and> sn_files (lb_sessions s h) = 0 \<and> \<not> referenced s h
      then Some (upd_session h (sn_phase_update (\<lambda>_. SenderBusy)) s) else None)"

text \<open>The task may end at any other point, with an error or after its last message.\<close>

definition sender_ends :: "handle \<Rightarrow> library \<Rightarrow> library option" where
  "sender_ends h s =
     (if sn_phase (lb_sessions s h) = SenderBusy
      then Some (upd_session h (sn_phase_update (\<lambda>_. SenderOver)) s) else None)"

definition app_releases :: "handle \<Rightarrow> library \<Rightarrow> library option" where
  "app_releases h s = Some (upd_session h (sn_released_update (\<lambda>_. True)) s)"

datatype lib_action =
    Dispatch int bytes | Lock nat | Return nat | Reports handle | StatusRead handle
  | SenderWaits handle | SenderTakes handle | SenderClosed handle | SenderEnds handle | Releases handle

fun lib_next :: "ffi_target \<Rightarrow> lib_action \<Rightarrow> library \<Rightarrow> library option" where
  "lib_next F (Dispatch func_id message) s = lib_dispatch F func_id message s"
| "lib_next F (Lock i) s = lib_lock i s"
| "lib_next F (Return i) s = lib_return i s"
| "lib_next F (Reports h) s = report_status h s"
| "lib_next F (StatusRead h) s = status_read h s"
| "lib_next F (SenderWaits h) s = sender_waits h s"
| "lib_next F (SenderTakes h) s = sender_takes h s"
| "lib_next F (SenderClosed h) s = sender_closed h s"
| "lib_next F (SenderEnds h) s = sender_ends h s"
| "lib_next F (Releases h) s = app_releases h s"

inductive lib_step :: "ffi_target \<Rightarrow> library \<Rightarrow> library \<Rightarrow> bool" for F :: ffi_target where
  lib_stepI: "lib_next F a s = Some s' \<Longrightarrow> lib_step F s s'"

inductive_cases lib_stepE: "lib_step F s s'"

definition lib_reachable :: "ffi_target \<Rightarrow> library \<Rightarrow> bool" where
  "lib_reachable F = reach (\<lambda>s. s = library_new) (lib_step F)"

fun lib_run :: "ffi_target \<Rightarrow> lib_action list \<Rightarrow> library \<Rightarrow> library option" where
  "lib_run F [] s = Some s"
| "lib_run F (a # as) s = (case lib_next F a s of Some s' \<Rightarrow> lib_run F as s' | None \<Rightarrow> None)"

lemma lib_run_reachable: "lib_run F as s = Some s' \<Longrightarrow> lib_reachable F s \<Longrightarrow> lib_reachable F s'"
proof (induction as arbitrary: s)
  case (Cons a as)
  then obtain t where "lib_next F a s = Some t" and t: "lib_run F as t = Some s'"
    by (auto split: option.splits)
  then have "lib_reachable F t"
    using Cons.prems(2) unfolding lib_reachable_def by (blast intro: reach_step lib_stepI)
  with Cons.IH t show ?case by blast
qed simp

lemma lib_reachable_new: "lib_reachable F library_new"
  unfolding lib_reachable_def by (rule reach_init) simp

section \<open>The locks exclude each other\<close>

definition excludes :: "call_task \<Rightarrow> call_task \<Rightarrow> bool" where
  "excludes t u \<longleftrightarrow> (\<forall>(h, m) \<in> set (held_locks t). \<forall>(h', m') \<in> set (held_locks u). h = h' \<longrightarrow> \<not> m \<and> \<not> m')"

definition lock_inv :: "library \<Rightarrow> bool" where
  "lock_inv s \<longleftrightarrow> (\<forall>i < length (lb_calls s). \<forall>j < length (lb_calls s). i \<noteq> j \<longrightarrow>
     excludes (lb_calls s ! i) (lb_calls s ! j))"

lemma excludes_sym: "excludes t u \<longleftrightarrow> excludes u t"
  unfolding excludes_def by fast

lemma excludes_none [simp]: "held_locks t = [] \<Longrightarrow> excludes t u" "held_locks t = [] \<Longrightarrow> excludes u t"
  by (simp_all add: excludes_def)

lemma lb_calls_upd_session [simp]: "lb_calls (upd_session h f s) = lb_calls s"
  by (simp add: upd_session_def)

lemma lb_calls_return_effect [simp]: "lb_calls (return_effect call s) = lb_calls s"
  by (cases call) simp_all

lemma lock_inv_same: "lb_calls s' = lb_calls s \<Longrightarrow> lock_inv s \<Longrightarrow> lock_inv s'"
  by (simp add: lock_inv_def)

lemma lock_inv_upd:
  assumes "lock_inv s" and new: "\<And>j. j < length (lb_calls s) \<Longrightarrow> j \<noteq> i \<Longrightarrow> excludes t (lb_calls s ! j)"
    and s': "lb_calls s' = (lb_calls s)[i := t]"
  shows "lock_inv s'"
  unfolding lock_inv_def s'
proof (intro allI impI)
  fix k j assume "k < length ((lb_calls s)[i := t])" "j < length ((lb_calls s)[i := t])" "k \<noteq> j"
  then show "excludes ((lb_calls s)[i := t] ! k) ((lb_calls s)[i := t] ! j)"
    using assms(1) new excludes_sym [of _ t] by (cases "k = i"; cases "j = i") (simp_all add: lock_inv_def)
qed

lemma held_locks_lock:
  "\<not> tk_returned t \<Longrightarrow> tk_held t < length (wt_locks (tk_task t)) \<Longrightarrow>
   held_locks (t\<lparr>tk_held := Suc (tk_held t)\<rparr>) = held_locks t @ [wt_locks (tk_task t) ! tk_held t]"
  by (simp add: held_locks_def take_Suc_conv_app_nth)

lemma lock_inv_lock:
  assumes "lock_inv s" and "lib_lock i s = Some s'"
  shows "lock_inv s'"
proof -
  define t where "t = lb_calls s ! i"
  define l where "l = wt_locks (tk_task t) ! tk_held t"
  from assms(2) have i: "i < length (lb_calls s)" and t: "\<not> tk_returned t" "tk_held t < length (wt_locks (tk_task t))"
    and free: "can_lock (fst l) (snd l) s"
    and s': "s' = s\<lparr>lb_calls := (lb_calls s)[i := t\<lparr>tk_held := Suc (tk_held t)\<rparr>]\<rparr>"
    by (auto simp: lib_lock_def Let_def t_def l_def split: if_splits)
  show ?thesis
  proof (rule lock_inv_upd [OF assms(1)])
    fix j assume j: "j < length (lb_calls s)" "j \<noteq> i"
    have "excludes t (lb_calls s ! j)" using assms(1) i j by (auto simp: lock_inv_def t_def)
    moreover have "list_all (\<lambda>(h', m). h' \<noteq> fst l \<or> \<not> m \<and> \<not> snd l) (held_locks (lb_calls s ! j))"
      using free j(1) by (simp add: can_lock_def list_all_length)
    ultimately show "excludes (t\<lparr>tk_held := Suc (tk_held t)\<rparr>) (lb_calls s ! j)"
      unfolding excludes_def held_locks_lock [OF t] l_def [symmetric] by (fastforce simp: list_all_iff)
  qed (simp add: s')
qed

lemma lock_inv_return:
  assumes "lock_inv s" and "lib_return i s = Some s'"
  shows "lock_inv s'"
  by (rule lock_inv_upd [OF assms(1), of i "(lb_calls s ! i)\<lparr>tk_returned := True\<rparr>"])
    (use assms(2) in \<open>auto simp: lib_return_def held_locks_def split: if_splits\<close>)

lemma lock_inv_dispatch:
  "lock_inv s \<Longrightarrow> lib_dispatch F func_id message s = Some s' \<Longrightarrow> lock_inv s'"
  by (auto simp: lib_dispatch_def lock_inv_def nth_append held_locks_def less_Suc_eq
      split: bind_splits if_splits)

lemma lib_next_calls:
  assumes "lib_next F a s = Some s'"
  obtains (dispatch) func_id message where "lib_dispatch F func_id message s = Some s'"
    | (lock) i where "lib_lock i s = Some s'"
    | (return) i where "lib_return i s = Some s'"
    | (session) "lb_calls s' = lb_calls s"
  using assms
  by (cases a)
    (auto simp: report_status_def status_read_def sender_waits_def sender_takes_def sender_closed_def
      sender_ends_def app_releases_def split: if_splits)

lemma lock_inv_next: "lock_inv s \<Longrightarrow> lib_next F a s = Some s' \<Longrightarrow> lock_inv s'"
  by (erule lib_next_calls [of F a s s'])
    (auto intro: lock_inv_dispatch lock_inv_lock lock_inv_return lock_inv_same)

interpretation locks: inductive_invariant "\<lambda>s. s = library_new" "lib_step F" lock_inv for F
proof
  show "lock_inv s" if "s = library_new" for s using that by (simp add: lock_inv_def library_new_def)
  show "lock_inv t" if "lock_inv s" "lib_step F s t" for s t using that lock_inv_next by (blast elim: lib_stepE)
qed

end
