(* ===== verification/Ffi_Locks_Props.thy ===== *)
theory Ffi_Locks_Props
  imports Ffi_Locks
begin

text \<open>
  What the locks of the bridge mean for the application: a method that needs its object for itself
  runs alone, the methods of a receiving session never wait for each other, and a sending session
  cannot be brought to its end.
\<close>

section \<open>The locks a call takes\<close>

lemma dispatch_locks:
  "pde_ffi_dispatcher_primary F func_id message = Some task \<Longrightarrow> wt_locks task = call_locks (wt_call task)"
  unfolding pde_ffi_dispatcher_primary_def wire_functions_def wire_defs call_locks_def
  by (auto split: bind_splits if_splits)

definition task_wf :: "call_task \<Rightarrow> bool" where
  "task_wf t \<longleftrightarrow> wt_locks (tk_task t) = call_locks (wt_call (tk_task t)) \<and>
     tk_held t \<le> length (call_locks (wt_call (tk_task t)))"

definition tasks_wf :: "library \<Rightarrow> bool" where
  "tasks_wf s \<longleftrightarrow> list_all task_wf (lb_calls s)"

lemma tasks_wf_next: "tasks_wf s \<Longrightarrow> lib_next F a s = Some s' \<Longrightarrow> tasks_wf s'"
  by (erule lib_next_calls [of F a s s'])
    (auto simp: tasks_wf_def task_wf_def lib_dispatch_def lib_lock_def lib_return_def Let_def list_all_length
      nth_list_update nth_append dispatch_locks less_Suc_eq split: bind_splits if_splits)

definition lib_inv :: "library \<Rightarrow> bool" where
  "lib_inv s \<longleftrightarrow> lock_inv s \<and> tasks_wf s"

lemma lib_inv_next: "lib_inv s \<Longrightarrow> lib_step F s s' \<Longrightarrow> lib_inv s'"
  unfolding lib_inv_def using lock_inv_next tasks_wf_next by (blast elim: lib_stepE)

lemma lib_inv_new: "lib_inv library_new"
  by (simp add: lib_inv_def lock_inv_def tasks_wf_def library_new_def)

lemma running_locks:
  assumes "tasks_wf s" and "t \<in> set (lb_calls s)" and "running t"
  shows "held_locks t = call_locks (wt_call (tk_task t))"
  using assms by (auto simp: tasks_wf_def task_wf_def list_all_iff running_def held_locks_def)

text \<open>Two running calls on one object, one of which needs it for itself.\<close>

lemma alone_runs_alone:
  assumes "lib_inv s" and "i < length (lb_calls s)" and "j < length (lb_calls s)"
    and "running (lb_calls s ! i)" and "running (lb_calls s ! j)"
    and "call_object (wt_call (tk_task (lb_calls s ! i))) = Some h"
    and "call_object (wt_call (tk_task (lb_calls s ! j))) = Some h"
    and "alone (wt_call (tk_task (lb_calls s ! i)))"
  shows "i = j"
proof (rule ccontr)
  assume "i \<noteq> j"
  with assms(1-3) have "excludes (lb_calls s ! i) (lb_calls s ! j)"
    by (simp add: lib_inv_def lock_inv_def)
  moreover have "held_locks (lb_calls s ! i) = [(h, True)]"
    "held_locks (lb_calls s ! j) = [(h, alone (wt_call (tk_task (lb_calls s ! j))))]"
    using assms running_locks [of s] by (simp_all add: lib_inv_def call_locks_def)
  ultimately show False by (simp add: excludes_def)
qed

section \<open>A sending session\<close>

definition session_inv :: "library \<Rightarrow> handle \<Rightarrow> bool" where
  "session_inv s h \<longleftrightarrow>
     (let x = lb_sessions s h in
        sn_reports x \<le> sn_read x + STATUS_CAPACITY \<and>
        (0 < sn_read x \<longrightarrow> sn_phase x = SenderOver \<or> listened_to s h) \<and>
        (sn_phase x = SenderAwaitsFile \<or> 0 < sn_taken x \<longrightarrow> 2 \<le> sn_reports x) \<and>
        sn_taken x + sn_files x \<le> FILE_CAPACITY)"

definition sessions_inv :: "library \<Rightarrow> bool" where
  "sessions_inv s \<longleftrightarrow> (\<forall>h. session_inv s h)"

lemma listens_to_simps:
  "listens_to h call \<Longrightarrow> call_object call = Some h \<and> alone call \<and>
     (may_return s call \<longrightarrow> sn_phase (lb_sessions s h) = SenderOver) \<and> return_effect call s = s"
  by (cases call) auto

lemma listened_to_nth:
  "listened_to s h \<longleftrightarrow> (\<exists>i < length (lb_calls s). running (lb_calls s ! i) \<and>
     listens_to h (wt_call (tk_task (lb_calls s ! i))))"
  by (auto simp: listened_to_def list_ex_length)

lemma listener_stays:
  assumes "lib_next F a s = Some s'" and "listened_to s h" and "sn_phase (lb_sessions s h) \<noteq> SenderOver"
  shows "listened_to s' h"
proof -
  obtain i where i: "i < length (lb_calls s)" "running (lb_calls s ! i)"
    "listens_to h (wt_call (tk_task (lb_calls s ! i)))"
    using assms(2) by (auto simp: listened_to_nth)
  from assms(1) show ?thesis
  proof (cases rule: lib_next_calls)
    case (dispatch func_id message)
    with i show ?thesis
      unfolding listened_to_nth
      by (intro exI [of _ i]) (auto simp: lib_dispatch_def nth_append split: bind_splits if_splits)
  next
    case (lock j)
    with i have "lb_calls s' ! i = lb_calls s ! i" "length (lb_calls s') = length (lb_calls s)"
      by (auto simp: lib_lock_def Let_def running_def nth_list_update split: if_splits)
    with i show ?thesis unfolding listened_to_nth by metis
  next
    case (return j)
    have "j \<noteq> i"
      using return i listens_to_simps assms(3) by (auto simp: lib_return_def split: if_splits)
    with return have "lb_calls s' ! i = lb_calls s ! i" "length (lb_calls s') = length (lb_calls s)"
      by (auto simp: lib_return_def split: if_splits)
    with i show ?thesis unfolding listened_to_nth by metis
  next
    case session
    with i show ?thesis unfolding listened_to_nth by metis
  qed
qed

text \<open>No file is handed over while the status is listened to.\<close>

lemma no_send_while_listening:
  assumes "lib_inv s" and "listened_to s h" and "i < length (lb_calls s)" and "running (lb_calls s ! i)"
  shows "wt_call (tk_task (lb_calls s ! i)) \<noteq> CallSendFile h f"
proof
  assume send: "wt_call (tk_task (lb_calls s ! i)) = CallSendFile h f"
  obtain j where j: "j < length (lb_calls s)" "running (lb_calls s ! j)"
    "listens_to h (wt_call (tk_task (lb_calls s ! j)))"
    using assms(2) by (auto simp: listened_to_nth)
  then have "j = i"
    using alone_runs_alone [OF assms(1) j(1) assms(3) j(2) assms(4)] listens_to_simps [OF j(3)] send by simp
  with j send show False by simp
qed

lemma return_effect_session:
  "lb_sessions (return_effect call s) h = lb_sessions s h \<or>
   (\<exists>f. call = CallSendFile h f \<and> sn_phase (lb_sessions s h) \<noteq> SenderOver \<and>
     lb_sessions (return_effect call s) h = sn_files_update Suc (lb_sessions s h))"
  by (cases call) (auto simp: upd_session_def)

lemma session_inv_next:
  assumes "lib_inv s" and inv: "session_inv s h" and step: "lib_next F a s = Some s'"
  shows "session_inv s' h"
proof -
  have listened: "sn_phase (lb_sessions s h) = SenderOver \<or> listened_to s' h" if "0 < sn_read (lb_sessions s h)"
    using inv that listener_stays [OF step] by (auto simp: session_inv_def Let_def)
  have same: ?thesis if "lb_sessions s' h = lb_sessions s h"
    using inv listened that by (auto simp: session_inv_def Let_def)
  show ?thesis
  proof (cases a)
    case (Dispatch func_id message)
    with step show ?thesis by (intro same) (auto simp: lib_dispatch_def split: bind_splits if_splits)
  next
    case (Lock i)
    with step show ?thesis by (intro same) (auto simp: lib_lock_def Let_def split: if_splits)
  next
    case (Return i)
    define call where "call = wt_call (tk_task (lb_calls s ! i))"
    define u where "u = s\<lparr>lb_calls := (lb_calls s)[i := (lb_calls s ! i)\<lparr>tk_returned := True\<rparr>]\<rparr>"
    from Return step have i: "i < length (lb_calls s)" "running (lb_calls s ! i)" "may_return s call"
      and s': "s' = return_effect call u"
      by (auto simp: lib_return_def call_def u_def split: if_splits)
    from return_effect_session [of call u h] show ?thesis
    proof
      assume "lb_sessions (return_effect call u) h = lb_sessions u h"
      then show ?thesis by (intro same) (simp add: s' u_def)
    next
      assume "\<exists>f. call = CallSendFile h f \<and> sn_phase (lb_sessions u h) \<noteq> SenderOver \<and>
        lb_sessions (return_effect call u) h = sn_files_update Suc (lb_sessions u h)"
      then obtain f where f: "call = CallSendFile h f" "sn_phase (lb_sessions s h) \<noteq> SenderOver"
        "lb_sessions s' h = sn_files_update Suc (lb_sessions s h)"
        by (auto simp: s' u_def)
      then have "\<not> listened_to s h"
        using no_send_while_listening [OF assms(1) _ i(1,2), of h f] by (auto simp: call_def)
      then have "sn_read (lb_sessions s h) = 0" using inv f(2) by (auto simp: session_inv_def Let_def)
      then show ?thesis
        using inv f i(3) by (auto simp: session_inv_def Let_def STATUS_CAPACITY_def FILE_CAPACITY_def)
    qed
  qed (use step inv listened in \<open>auto simp: report_status_def status_read_def sender_waits_def sender_takes_def
      sender_closed_def sender_ends_def app_releases_def session_inv_def Let_def upd_session_def
      STATUS_CAPACITY_def listened_to_def split: if_splits\<close>)
qed

lemma sessions_inv_next:
  "lib_inv s \<Longrightarrow> sessions_inv s \<Longrightarrow> lib_step F s s' \<Longrightarrow> sessions_inv s'"
  unfolding sessions_inv_def using session_inv_next by (blast elim: lib_stepE)

interpretation sending: relative_invariant "\<lambda>s. s = library_new" "lib_step F" lib_inv sessions_inv for F
proof
  show "lib_inv s" if "s = library_new" for s using that lib_inv_new by simp
  show "sessions_inv s" if "s = library_new" for s
    using that by (simp add: sessions_inv_def session_inv_def library_new_def session_new_def)
qed (use lib_inv_next sessions_inv_next in blast)+

section \<open>Properties\<close>

lemma held_locks_object:
  assumes "task_wf t" and "(h, m) \<in> set (held_locks t)"
  shows "call_object (wt_call (tk_task t)) = Some h \<and> m = alone (wt_call (tk_task t))"
  using assms
  by (auto simp: held_locks_def task_wf_def call_locks_def split: if_splits option.splits dest!: in_set_takeD)

lemma shared_lock_free:
  assumes "tasks_wf s" and "t \<in> set (lb_calls s)" and "\<not> tk_returned t" and "\<not> running t"
    and h: "call_object (wt_call (tk_task t)) = Some h"
    and shared: "\<forall>t \<in> set (lb_calls s). call_object (wt_call (tk_task t)) = Some h \<longrightarrow> \<not> alone (wt_call (tk_task t))"
  shows "tk_held t = 0 \<and> wt_locks (tk_task t) = [(h, False)] \<and> can_lock h False s"
proof -
  have wf: "task_wf u" if "u \<in> set (lb_calls s)" for u
    using assms(1) that by (simp add: tasks_wf_def list_all_iff)
  have "tk_held t < length (wt_locks (tk_task t))"
    using wf [OF assms(2)] assms(3,4) by (simp add: task_wf_def running_def)
  moreover have "wt_locks (tk_task t) = [(h, False)]"
    using wf [OF assms(2)] h shared assms(2) by (simp add: task_wf_def call_locks_def)
  moreover have "can_lock h False s"
    using held_locks_object wf shared by (fastforce simp: can_lock_def list_all_iff)
  ultimately show ?thesis by simp
qed

text \<open>
  C16: a method that takes \<open>&mut self\<close> runs alone on its object, in every interleaving of the
  application's calls; and as long as only other methods of an object are called, none of them ever
  waits for another: each call that has not returned can take its lock or has it.
\<close>

theorem methods_lock_their_object:
  assumes "lib_reachable F s" and i: "i < length (lb_calls s)" and "\<not> tk_returned (lb_calls s ! i)"
    and "call_object (wt_call (tk_task (lb_calls s ! i))) = Some h"
  shows "(running (lb_calls s ! i) \<and> alone (wt_call (tk_task (lb_calls s ! i))) \<longrightarrow>
      (\<forall>j < length (lb_calls s). running (lb_calls s ! j) \<and>
        call_object (wt_call (tk_task (lb_calls s ! j))) = Some h \<longrightarrow> j = i)) \<and>
    ((\<forall>t \<in> set (lb_calls s). call_object (wt_call (tk_task t)) = Some h \<longrightarrow> \<not> alone (wt_call (tk_task t))) \<longrightarrow>
      running (lb_calls s ! i) \<or> lib_next F (Lock i) s \<noteq> None)"
proof -
  have inv: "lib_inv s" using assms(1) sending.holds by (auto simp: lib_reachable_def)
  then have "tasks_wf s" by (simp add: lib_inv_def)
  moreover have "lb_calls s ! i \<in> set (lb_calls s)" using i by simp
  ultimately have "running (lb_calls s ! i) \<or> lib_next F (Lock i) s \<noteq> None"
    if "\<forall>t \<in> set (lb_calls s). call_object (wt_call (tk_task t)) = Some h \<longrightarrow> \<not> alone (wt_call (tk_task t))"
    using shared_lock_free [OF _ _ assms(3) _ assms(4) that] i assms(3)
    by (cases "running (lb_calls s ! i)") (simp_all add: lib_lock_def Let_def)
  moreover have "i = j" if "running (lb_calls s ! i)" "alone (wt_call (tk_task (lb_calls s ! i)))"
    "j < length (lb_calls s)" "running (lb_calls s ! j)" "call_object (wt_call (tk_task (lb_calls s ! j))) = Some h"
    for j
    by (rule alone_runs_alone [OF inv i that(3) that(1) that(4) assms(4) that(5) that(2)])
  ultimately show ?thesis by blast
qed

text \<open>
  C17: the sending task of a session never gets past its first file and never sees the end of the
  files: it reports two statuses before it waits for a file, the channel has room for one, so
  \<open>listen_status\<close> is running, and it keeps the lock of the controller (so that no further file is
  handed over) and the controller itself (so that the channel of the files is never closed).
\<close>

theorem sending_never_completes:
  assumes "lib_reachable F s"
  shows "sn_taken (lb_sessions s h) \<le> 1 \<and> lib_next F (SenderClosed h) s = None \<and>
    (sn_phase (lb_sessions s h) = SenderAwaitsFile \<longrightarrow>
      (\<forall>i < length (lb_calls s). running (lb_calls s ! i) \<longrightarrow>
        (\<forall>f. wt_call (tk_task (lb_calls s ! i)) \<noteq> CallSendFile h f)))"
proof -
  have "sessions_inv s" using assms sending.holds2 by (auto simp: lib_reachable_def)
  then have inv: "session_inv s h" by (simp add: sessions_inv_def)
  have lib: "lib_inv s" using assms sending.holds by (auto simp: lib_reachable_def)
  have listened: "listened_to s h" if "sn_phase (lb_sessions s h) = SenderAwaitsFile"
    using inv that by (auto simp: session_inv_def Let_def STATUS_CAPACITY_def)
  have "referenced s h" if "listened_to s h"
  proof -
    obtain t where t: "t \<in> set (lb_calls s)" "running t" "listens_to h (wt_call (tk_task t))"
      using \<open>listened_to s h\<close> by (auto simp: listened_to_def list_ex_iff)
    then have "wt_locks (tk_task t) = call_locks (wt_call (tk_task t))"
      using lib by (simp add: lib_inv_def tasks_wf_def task_wf_def list_all_iff)
    with t listens_to_simps [OF t(3)] show ?thesis
      by (auto simp: referenced_def list_ex_iff running_def call_locks_def)
  qed
  then show ?thesis
    using inv listened no_send_while_listening [OF lib]
    by (auto simp: sender_closed_def session_inv_def Let_def FILE_CAPACITY_def)
qed

section \<open>Examples\<close>

text \<open>A file is handed over, the statuses are listened to, the task takes the file and waits for the next.\<close>

definition demo_calls :: "lib_action list" where
  "demo_calls =
     [Dispatch 18 [7, 0, 0, 0, 0, 0, 0, 0, 1, 0, 0, 0, 0x61], Lock 0, Return 0,
      Dispatch 17 [7, 0, 0, 0, 0, 0, 0, 0, 1, 0, 0, 0, 0x73], Lock 1,
      Reports 7, StatusRead 7, Reports 7, SenderWaits 7, SenderTakes 7, SenderWaits 7,
      Dispatch 18 [7, 0, 0, 0, 0, 0, 0, 0, 1, 0, 0, 0, 0x62], Releases 7]"

definition demo_library :: library where
  "demo_library = the (lib_run demo_target demo_calls library_new)"

lemma demo_library_reachable: "lib_reachable demo_target demo_library"
proof -
  have "lib_run demo_target demo_calls library_new = Some demo_library"
    unfolding demo_library_def by code_simp
  then show ?thesis using lib_run_reachable lib_reachable_new by blast
qed

lemma methods_lock_their_object_witness:
  "running (lb_calls demo_library ! 1) \<and> \<not> running (lb_calls demo_library ! 2)"
proof -
  have "1 < length (lb_calls demo_library) \<and> 2 < length (lb_calls demo_library) \<and>
      \<not> tk_returned (lb_calls demo_library ! 1) \<and>
      call_object (wt_call (tk_task (lb_calls demo_library ! 1))) = Some 7 \<and>
      call_object (wt_call (tk_task (lb_calls demo_library ! 2))) = Some 7 \<and>
      running (lb_calls demo_library ! 1) \<and> alone (wt_call (tk_task (lb_calls demo_library ! 1)))"
    by code_simp
  then show ?thesis
    using methods_lock_their_object [OF demo_library_reachable, of 1 7] by auto
qed

lemma sending_never_completes_witness:
  "sn_taken (lb_sessions demo_library 7) = 1 \<and> sn_released (lb_sessions demo_library 7) \<and>
   sn_phase (lb_sessions demo_library 7) = SenderAwaitsFile \<and>
   lib_next demo_target (SenderClosed 7) demo_library = None"
proof -
  have "sn_taken (lb_sessions demo_library 7) = 1 \<and> sn_released (lb_sessions demo_library 7) \<and>
      sn_phase (lb_sessions demo_library 7) = SenderAwaitsFile"
    by code_simp
  then show ?thesis
    using sending_never_completes [OF demo_library_reachable, of 7] by blast
qed

end
