(* ===== verification/Dco_Codec.thy ===== *)
theory Dco_Codec
  imports Sse_Types
begin

text \<open>
  The second codec of the bridge, which hands values over as Dart objects
  (app/rust/src/frb\_generated.rs, IntoDart; app/lib/rust/frb\_generated.dart, \<open>dco_decode\<close>): structs are
  lists of their fields, enums integers or lists that start with one. Every type has it, and the
  argument of the application's callback is passed with it.
\<close>

section \<open>Dart values\<close>

text \<open>Dart's values and the conversion of primitive ones belong to the bridge: \<open>dl_\<close> makes a value,
  \<open>as_\<close> is the cast of the application (\<open>None\<close> when it throws).\<close>

record 'v dart_lib =
  dl_null :: 'v
  dl_bool :: "bool \<Rightarrow> 'v"
  dl_int :: "int \<Rightarrow> 'v"
  dl_u64 :: "u64 \<Rightarrow> 'v"
  dl_string :: "string \<Rightarrow> 'v"
  dl_uuid :: "uuid \<Rightarrow> 'v"
  dl_list :: "'v list \<Rightarrow> 'v"
  dl_object :: "handle \<times> u32 \<Rightarrow> 'v"
  as_bool :: "'v \<Rightarrow> bool option"
  as_int :: "'v \<Rightarrow> int option"
  as_u64 :: "'v \<Rightarrow> u64 option"
  as_string :: "'v \<Rightarrow> string option"
  as_bytes :: "'v \<Rightarrow> bytes option"
  as_list :: "'v \<Rightarrow> 'v list option"
  as_object :: "'v \<Rightarrow> (handle \<times> u32) option"

text \<open>A value can be cast back to what it was made of, a \<open>Uuid\<close> to its bytes; only \<open>None\<close> becomes null.\<close>

definition dart_lib_ok :: "'v dart_lib \<Rightarrow> bool" where
  "dart_lib_ok L \<longleftrightarrow>
     (\<forall>b. as_bool L (dl_bool L b) = Some b) \<and> (\<forall>i. as_int L (dl_int L i) = Some i) \<and>
     (\<forall>w. as_u64 L (dl_u64 L w) = Some w) \<and> (\<forall>s. as_string L (dl_string L s) = Some s) \<and>
     (\<forall>u. as_bytes L (dl_uuid L u) = Some (uuid_bytes u)) \<and> (\<forall>vs. as_list L (dl_list L vs) = Some vs) \<and>
     (\<forall>x. as_object L (dl_object L x) = Some x) \<and>
     (\<forall>s. dl_string L s \<noteq> dl_null L) \<and> (\<forall>i. dl_int L i \<noteq> dl_null L) \<and> (\<forall>vs. dl_list L vs \<noteq> dl_null L)"

section \<open>Basic types\<close>

definition into_dart_option :: "'v dart_lib \<Rightarrow> ('a \<Rightarrow> 'v) \<Rightarrow> 'a option \<Rightarrow> 'v" where
  "into_dart_option L f x = (case x of None \<Rightarrow> dl_null L | Some y \<Rightarrow> f y)"

definition dco_decode_option :: "'v dart_lib \<Rightarrow> ('v \<Rightarrow> 'a option) \<Rightarrow> 'v \<Rightarrow> 'a option option" where
  "dco_decode_option L dec raw = (if raw = dl_null L then Some None else map_option Some (dec raw))"

definition into_dart_vec :: "'v dart_lib \<Rightarrow> ('a \<Rightarrow> 'v) \<Rightarrow> 'a list \<Rightarrow> 'v" where
  "into_dart_vec L f xs = dl_list L (map f xs)"

definition dco_decode_list :: "'v dart_lib \<Rightarrow> ('v \<Rightarrow> 'a option) \<Rightarrow> 'v \<Rightarrow> 'a list option" where
  "dco_decode_list L dec raw = do { vs \<leftarrow> as_list L raw; those (map dec vs) }"

definition dco_decode_u8 :: "'v dart_lib \<Rightarrow> 'v \<Rightarrow> u8 option" where
  "dco_decode_u8 L raw = map_option of_int (as_int L raw)"

definition dco_decode_u16 :: "'v dart_lib \<Rightarrow> 'v \<Rightarrow> u16 option" where
  "dco_decode_u16 L raw = map_option of_int (as_int L raw)"

definition dco_decode_uuid :: "'v dart_lib \<Rightarrow> 'v \<Rightarrow> uuid option" where
  "dco_decode_uuid L raw = do { bs \<leftarrow> as_bytes L raw; uuid_from_slice bs }"

definition dco_decode_err :: "'v dart_lib \<Rightarrow> 'v \<Rightarrow> err option" where
  "dco_decode_err L raw = map_option Msg (as_string L raw)"

text \<open>\<open>rust_auto_opaque_encode(..)\<close> puts the object behind a shared pointer (\<open>alloc\<close>).\<close>

definition into_dart_owned :: "'v dart_lib \<Rightarrow> ('o \<Rightarrow> handle \<times> u32) \<Rightarrow> 'o \<Rightarrow> 'v" where
  "into_dart_owned L alloc x = dl_object L (alloc x)"

definition dco_decode_owned :: "'v dart_lib \<Rightarrow> 'v \<Rightarrow> (handle \<times> u32) option" where
  "dco_decode_owned L raw = as_object L raw"

definition into_dart_device_type :: "'v dart_lib \<Rightarrow> device_type \<Rightarrow> 'v" where
  "into_dart_device_type L t = (case t of
      Mobile \<Rightarrow> dl_int L 0 | Desktop \<Rightarrow> dl_int L 1 | Web \<Rightarrow> dl_int L 2 | Headless \<Rightarrow> dl_int L 3
    | Server \<Rightarrow> dl_int L 4)"

definition dco_decode_device_type :: "'v dart_lib \<Rightarrow> 'v \<Rightarrow> device_type option" where
  "dco_decode_device_type L raw = do {
     i \<leftarrow> as_int L raw;
     if 0 \<le> i \<and> i < 5 then Some ([Mobile, Desktop, Web, Headless, Server] ! nat i) else None }"

section \<open>Structs\<close>

definition into_dart_file_metadata :: "'v dart_lib \<Rightarrow> file_metadata \<Rightarrow> 'v" where
  "into_dart_file_metadata L m = dl_list L [
     into_dart_option L (dl_string L) (modified m),
     into_dart_option L (dl_string L) (accessed m)]"

definition dco_decode_file_metadata :: "'v dart_lib \<Rightarrow> 'v \<Rightarrow> file_metadata option" where
  "dco_decode_file_metadata L raw = do {
     arr \<leftarrow> as_list L raw;
     (case arr of
        [v0, v1] \<Rightarrow> do {
          modified \<leftarrow> dco_decode_option L (as_string L) v0;
          accessed \<leftarrow> dco_decode_option L (as_string L) v1;
          Some \<lparr>modified = modified, accessed = accessed\<rparr> }
      | _ \<Rightarrow> None) }"

definition into_dart_file_dto :: "'v dart_lib \<Rightarrow> file_dto \<Rightarrow> 'v" where
  "into_dart_file_dto L m = dl_list L [
     dl_string L (fd_id m),
     dl_string L (fd_file_name m),
     dl_u64 L (fd_size m),
     dl_string L (fd_file_type m),
     into_dart_option L (dl_string L) (fd_sha256 m),
     into_dart_option L (dl_string L) (fd_preview m),
     into_dart_option L (into_dart_file_metadata L) (fd_metadata m)]"

definition dco_decode_file_dto :: "'v dart_lib \<Rightarrow> 'v \<Rightarrow> file_dto option" where
  "dco_decode_file_dto L raw = do {
     arr \<leftarrow> as_list L raw;
     (case arr of
        [v0, v1, v2, v3, v4, v5, v6] \<Rightarrow> do {
          id \<leftarrow> as_string L v0;
          file_name \<leftarrow> as_string L v1;
          size \<leftarrow> as_u64 L v2;
          file_type \<leftarrow> as_string L v3;
          sha256 \<leftarrow> dco_decode_option L (as_string L) v4;
          preview \<leftarrow> dco_decode_option L (as_string L) v5;
          metadata \<leftarrow> dco_decode_option L (dco_decode_file_metadata L) v6;
          Some \<lparr>fd_id = id, fd_file_name = file_name, fd_size = size, fd_file_type = file_type,
            fd_sha256 = sha256, fd_preview = preview, fd_metadata = metadata\<rparr> }
      | _ \<Rightarrow> None) }"

definition into_dart_client_info :: "'v dart_lib \<Rightarrow> client_info \<Rightarrow> 'v" where
  "into_dart_client_info L m = dl_list L [
     dl_uuid L (ci_id m),
     dl_string L (ci_alias m),
     dl_string L (ci_version m),
     into_dart_option L (dl_string L) (ci_device_model m),
     into_dart_option L (into_dart_device_type L) (ci_device_type m),
     dl_string L (ci_token m)]"

definition dco_decode_client_info :: "'v dart_lib \<Rightarrow> 'v \<Rightarrow> client_info option" where
  "dco_decode_client_info L raw = do {
     arr \<leftarrow> as_list L raw;
     (case arr of
        [v0, v1, v2, v3, v4, v5] \<Rightarrow> do {
          id \<leftarrow> dco_decode_uuid L v0;
          alias \<leftarrow> as_string L v1;
          version \<leftarrow> as_string L v2;
          device_model \<leftarrow> dco_decode_option L (as_string L) v3;
          device_type \<leftarrow> dco_decode_option L (dco_decode_device_type L) v4;
          token \<leftarrow> as_string L v5;
          Some \<lparr>ci_id = id, ci_alias = alias, ci_version = version,
            ci_device_model = device_model, ci_device_type = device_type, ci_token = token\<rparr> }
      | _ \<Rightarrow> None) }"

definition into_dart_client_info_without_id :: "'v dart_lib \<Rightarrow> client_info_without_id \<Rightarrow> 'v" where
  "into_dart_client_info_without_id L m = dl_list L [
     dl_string L (cw_alias m),
     dl_string L (cw_version m),
     into_dart_option L (dl_string L) (cw_device_model m),
     into_dart_option L (into_dart_device_type L) (cw_device_type m),
     dl_string L (cw_token m)]"

definition dco_decode_client_info_without_id :: "'v dart_lib \<Rightarrow> 'v \<Rightarrow> client_info_without_id option" where
  "dco_decode_client_info_without_id L raw = do {
     arr \<leftarrow> as_list L raw;
     (case arr of
        [v0, v1, v2, v3, v4] \<Rightarrow> do {
          alias \<leftarrow> as_string L v0;
          version \<leftarrow> as_string L v1;
          device_model \<leftarrow> dco_decode_option L (as_string L) v2;
          device_type \<leftarrow> dco_decode_option L (dco_decode_device_type L) v3;
          token \<leftarrow> as_string L v4;
          Some \<lparr>cw_alias = alias, cw_version = version, cw_device_model = device_model,
            cw_device_type = device_type, cw_token = token\<rparr> }
      | _ \<Rightarrow> None) }"

definition into_dart_proposing_client_info :: "'v dart_lib \<Rightarrow> proposing_client_info \<Rightarrow> 'v" where
  "into_dart_proposing_client_info L m = dl_list L [
     dl_string L (pi_alias m),
     dl_string L (pi_version m),
     into_dart_option L (dl_string L) (pi_device_model m),
     into_dart_option L (into_dart_device_type L) (pi_device_type m)]"

definition dco_decode_proposing_client_info :: "'v dart_lib \<Rightarrow> 'v \<Rightarrow> proposing_client_info option" where
  "dco_decode_proposing_client_info L raw = do {
     arr \<leftarrow> as_list L raw;
     (case arr of
        [v0, v1, v2, v3] \<Rightarrow> do {
          alias \<leftarrow> as_string L v0;
          version \<leftarrow> as_string L v1;
          device_model \<leftarrow> dco_decode_option L (as_string L) v2;
          device_type \<leftarrow> dco_decode_option L (dco_decode_device_type L) v3;
          Some \<lparr>pi_alias = alias, pi_version = version, pi_device_model = device_model,
            pi_device_type = device_type\<rparr> }
      | _ \<Rightarrow> None) }"

definition into_dart_expecting_public_key :: "'v dart_lib \<Rightarrow> expecting_public_key \<Rightarrow> 'v" where
  "into_dart_expecting_public_key L m = dl_list L [
     dl_string L (ek_public_key m),
     dl_string L (ek_kind m)]"

definition dco_decode_expecting_public_key :: "'v dart_lib \<Rightarrow> 'v \<Rightarrow> expecting_public_key option" where
  "dco_decode_expecting_public_key L raw = do {
     arr \<leftarrow> as_list L raw;
     (case arr of
        [v0, v1] \<Rightarrow> do {
          public_key \<leftarrow> as_string L v0;
          kind \<leftarrow> as_string L v1;
          Some \<lparr>ek_public_key = public_key, ek_kind = kind\<rparr> }
      | _ \<Rightarrow> None) }"

definition into_dart_key_pair :: "'v dart_lib \<Rightarrow> key_pair \<Rightarrow> 'v" where
  "into_dart_key_pair L m = dl_list L [
     dl_string L (kp_private_key m),
     dl_string L (kp_public_key m)]"

definition dco_decode_key_pair :: "'v dart_lib \<Rightarrow> 'v \<Rightarrow> key_pair option" where
  "dco_decode_key_pair L raw = do {
     arr \<leftarrow> as_list L raw;
     (case arr of
        [v0, v1] \<Rightarrow> do {
          private_key \<leftarrow> as_string L v0;
          public_key \<leftarrow> as_string L v1;
          Some \<lparr>kp_private_key = private_key, kp_public_key = public_key\<rparr> }
      | _ \<Rightarrow> None) }"

definition into_dart_pin_config :: "'v dart_lib \<Rightarrow> pin_config \<Rightarrow> 'v" where
  "into_dart_pin_config L m = dl_list L [
     dl_string L (pc_pin m),
     dl_int L (uint (pc_max_tries m))]"

definition dco_decode_pin_config :: "'v dart_lib \<Rightarrow> 'v \<Rightarrow> pin_config option" where
  "dco_decode_pin_config L raw = do {
     arr \<leftarrow> as_list L raw;
     (case arr of
        [v0, v1] \<Rightarrow> do {
          pin \<leftarrow> as_string L v0;
          max_tries \<leftarrow> dco_decode_u8 L v1;
          Some \<lparr>pc_pin = pin, pc_max_tries = max_tries\<rparr> }
      | _ \<Rightarrow> None) }"

definition into_dart_rtc_file_error :: "ffi_target \<Rightarrow> 'v dart_lib \<Rightarrow> rtc_file_error \<Rightarrow> 'v" where
  "into_dart_rtc_file_error F L m = dl_list L [
     dl_string L (fe_file_id m),
     dl_string L (err_text F (fe_error m))]"

definition dco_decode_rtc_file_error :: "'v dart_lib \<Rightarrow> 'v \<Rightarrow> rtc_file_error option" where
  "dco_decode_rtc_file_error L raw = do {
     arr \<leftarrow> as_list L raw;
     (case arr of
        [v0, v1] \<Rightarrow> do {
          file_id \<leftarrow> as_string L v0;
          error \<leftarrow> dco_decode_err L v1;
          Some \<lparr>fe_file_id = file_id, fe_error = error\<rparr> }
      | _ \<Rightarrow> None) }"

definition into_dart_rtc_send_file_response :: "'v dart_lib \<Rightarrow> rtc_send_file_response \<Rightarrow> 'v" where
  "into_dart_rtc_send_file_response L m = dl_list L [
     dl_string L (fr_id m),
     dl_bool L (fr_success m),
     into_dart_option L (dl_string L) (fr_error m)]"

definition dco_decode_rtc_send_file_response :: "'v dart_lib \<Rightarrow> 'v \<Rightarrow> rtc_send_file_response option" where
  "dco_decode_rtc_send_file_response L raw = do {
     arr \<leftarrow> as_list L raw;
     (case arr of
        [v0, v1, v2] \<Rightarrow> do {
          id \<leftarrow> as_string L v0;
          success \<leftarrow> as_bool L v1;
          error \<leftarrow> dco_decode_option L (as_string L) v2;
          Some \<lparr>fr_id = id, fr_success = success, fr_error = error\<rparr> }
      | _ \<Rightarrow> None) }"

definition into_dart_ws_server_sdp_message :: "'v dart_lib \<Rightarrow> ws_server_sdp_message \<Rightarrow> 'v" where
  "into_dart_ws_server_sdp_message L m = dl_list L [
     into_dart_client_info L (sm_peer m),
     dl_string L (sm_session_id m),
     dl_string L (sm_sdp m)]"

definition dco_decode_ws_server_sdp_message :: "'v dart_lib \<Rightarrow> 'v \<Rightarrow> ws_server_sdp_message option" where
  "dco_decode_ws_server_sdp_message L raw = do {
     arr \<leftarrow> as_list L raw;
     (case arr of
        [v0, v1, v2] \<Rightarrow> do {
          peer \<leftarrow> dco_decode_client_info L v0;
          session_id \<leftarrow> as_string L v1;
          sdp \<leftarrow> as_string L v2;
          Some \<lparr>sm_peer = peer, sm_session_id = session_id, sm_sdp = sdp\<rparr> }
      | _ \<Rightarrow> None) }"

section \<open>Enums with values\<close>

fun into_dart_rtc_status :: "ffi_target \<Rightarrow> 'v dart_lib \<Rightarrow> rtc_status \<Rightarrow> 'v" where
  "into_dart_rtc_status F L StSdpExchanged = dl_list L [dl_int L 0]"
| "into_dart_rtc_status F L StConnected = dl_list L [dl_int L 1]"
| "into_dart_rtc_status F L StPinRequired = dl_list L [dl_int L 2]"
| "into_dart_rtc_status F L StTooManyAttempts = dl_list L [dl_int L 3]"
| "into_dart_rtc_status F L StDeclined = dl_list L [dl_int L 4]"
| "into_dart_rtc_status F L StSending = dl_list L [dl_int L 5]"
| "into_dart_rtc_status F L StFinished = dl_list L [dl_int L 6]"
| "into_dart_rtc_status F L (StError e) = dl_list L [dl_int L 7, dl_string L (err_text F e)]"

text \<open>\<open>raw[1]\<close> throws when there is no such element.\<close>

definition dart_index :: "'v list \<Rightarrow> nat \<Rightarrow> 'v option" where
  "dart_index arr i = (if i < length arr then Some (arr ! i) else None)"

definition dco_decode_rtc_status :: "'v dart_lib \<Rightarrow> 'v \<Rightarrow> rtc_status option" where
  "dco_decode_rtc_status L raw = do {
     arr \<leftarrow> as_list L raw;
     tag \<leftarrow> dart_index arr 0;
     i \<leftarrow> as_int L tag;
     if i = 0 then Some StSdpExchanged
     else if i = 1 then Some StConnected
     else if i = 2 then Some StPinRequired
     else if i = 3 then Some StTooManyAttempts
     else if i = 4 then Some StDeclined
     else if i = 5 then Some StSending
     else if i = 6 then Some StFinished
     else if i = 7 then do { v \<leftarrow> dart_index arr 1; e \<leftarrow> dco_decode_err L v; Some (StError e) }
     else None }"

fun into_dart_ws_server_message :: "'v dart_lib \<Rightarrow> ws_server_message \<Rightarrow> 'v" where
  "into_dart_ws_server_message L (Hello client peers) =
     dl_list L [dl_int L 0, into_dart_client_info L client, into_dart_vec L (into_dart_client_info L) peers]"
| "into_dart_ws_server_message L (Join peer) = dl_list L [dl_int L 1, into_dart_client_info L peer]"
| "into_dart_ws_server_message L (Update peer) = dl_list L [dl_int L 2, into_dart_client_info L peer]"
| "into_dart_ws_server_message L (Left peer_id) = dl_list L [dl_int L 3, dl_uuid L peer_id]"
| "into_dart_ws_server_message L (Offer m) = dl_list L [dl_int L 4, into_dart_ws_server_sdp_message L m]"
| "into_dart_ws_server_message L (Answer m) = dl_list L [dl_int L 5, into_dart_ws_server_sdp_message L m]"
| "into_dart_ws_server_message L (ErrorCode code) = dl_list L [dl_int L 6, dl_int L (uint code)]"

definition dco_decode_ws_server_message :: "'v dart_lib \<Rightarrow> 'v \<Rightarrow> ws_server_message option" where
  "dco_decode_ws_server_message L raw = do {
     arr \<leftarrow> as_list L raw;
     tag \<leftarrow> dart_index arr 0;
     i \<leftarrow> as_int L tag;
     if i = 0 then do {
       v \<leftarrow> dart_index arr 1; client \<leftarrow> dco_decode_client_info L v;
       w \<leftarrow> dart_index arr 2; peers \<leftarrow> dco_decode_list L (dco_decode_client_info L) w;
       Some (Hello client peers) }
     else if i = 1 then do { v \<leftarrow> dart_index arr 1; peer \<leftarrow> dco_decode_client_info L v; Some (Join peer) }
     else if i = 2 then do { v \<leftarrow> dart_index arr 1; peer \<leftarrow> dco_decode_client_info L v; Some (Update peer) }
     else if i = 3 then do { v \<leftarrow> dart_index arr 1; peer_id \<leftarrow> dco_decode_uuid L v; Some (Left peer_id) }
     else if i = 4 then do {
       v \<leftarrow> dart_index arr 1; m \<leftarrow> dco_decode_ws_server_sdp_message L v; Some (Offer m) }
     else if i = 5 then do {
       v \<leftarrow> dart_index arr 1; m \<leftarrow> dco_decode_ws_server_sdp_message L v; Some (Answer m) }
     else if i = 6 then do { v \<leftarrow> dart_index arr 1; code \<leftarrow> dco_decode_u16 L v; Some (ErrorCode code) }
     else None }"

section \<open>Reading back\<close>

named_theorems dco_simps \<open>reading back Dart objects\<close>

lemma dart_lib_simps [dco_simps]:
  assumes "dart_lib_ok L"
  shows "as_bool L (dl_bool L b) = Some b" "as_int L (dl_int L i) = Some i" "as_u64 L (dl_u64 L w) = Some w"
    "as_string L (dl_string L s) = Some s" "as_list L (dl_list L vs) = Some vs"
    "as_object L (dl_object L (h, n)) = Some (h, n)" "dco_decode_uuid L (dl_uuid L u) = Some u"
    "dco_decode_u8 L (dl_int L (uint b8)) = Some b8" "dco_decode_u16 L (dl_int L (uint b16)) = Some b16"
    "dl_string L s \<noteq> dl_null L" "dl_int L i \<noteq> dl_null L" "dl_list L vs \<noteq> dl_null L"
  using assms by (simp_all add: dart_lib_ok_def dco_decode_uuid_def dco_decode_u8_def dco_decode_u16_def)

lemma dco_option_back:
  assumes "\<And>y. x = Some y \<Longrightarrow> conv y \<noteq> dl_null L \<and> dec (conv y) = Some y"
  shows "dco_decode_option L dec (into_dart_option L conv x) = Some x"
  using assms by (cases x) (simp_all add: dco_decode_option_def into_dart_option_def)

lemma dco_vec_back:
  assumes "dart_lib_ok L" and "\<And>y. y \<in> set xs \<Longrightarrow> dec (conv y) = Some y"
  shows "dco_decode_list L dec (into_dart_vec L conv xs) = Some xs"
proof -
  have "those (map (dec \<circ> conv) xs) = Some xs" using assms(2) by (induction xs) simp_all
  then show ?thesis using assms(1) by (simp add: dco_decode_list_def into_dart_vec_def dco_simps)
qed

lemma dco_string_option [dco_simps]:
  "dart_lib_ok L \<Longrightarrow> dco_decode_option L (as_string L) (into_dart_option L (dl_string L) x) = Some x"
  by (rule dco_option_back) (simp add: dco_simps)

lemma dco_device_type [dco_simps]:
  assumes "dart_lib_ok L"
  shows "dco_decode_device_type L (into_dart_device_type L t) = Some t"
    and "dco_decode_option L (dco_decode_device_type L) (into_dart_option L (into_dart_device_type L) x) = Some x"
proof -
  have *: "into_dart_device_type L u \<noteq> dl_null L \<and> dco_decode_device_type L (into_dart_device_type L u) = Some u" for u
    using assms by (cases u) (simp_all add: into_dart_device_type_def dco_decode_device_type_def dco_simps)
  show "dco_decode_device_type L (into_dart_device_type L t) = Some t" using * by blast
  show "dco_decode_option L (dco_decode_device_type L) (into_dart_option L (into_dart_device_type L) x) = Some x"
    by (rule dco_option_back) (use * in blast)
qed

lemma dco_file_metadata [dco_simps]:
  "dart_lib_ok L \<Longrightarrow> dco_decode_file_metadata L (into_dart_file_metadata L m) = Some m"
  by (simp add: into_dart_file_metadata_def dco_decode_file_metadata_def dco_simps)

lemma dco_file_metadata_option [dco_simps]:
  "dart_lib_ok L \<Longrightarrow>
   dco_decode_option L (dco_decode_file_metadata L) (into_dart_option L (into_dart_file_metadata L) x) = Some x"
  by (rule dco_option_back) (simp add: dco_simps, simp add: into_dart_file_metadata_def dco_simps)

lemma dco_file_dto [dco_simps]:
  "dart_lib_ok L \<Longrightarrow> dco_decode_file_dto L (into_dart_file_dto L m) = Some m"
  by (simp add: into_dart_file_dto_def dco_decode_file_dto_def dco_simps)

lemma dco_client_info [dco_simps]:
  "dart_lib_ok L \<Longrightarrow> dco_decode_client_info L (into_dart_client_info L m) = Some m"
  by (simp add: into_dart_client_info_def dco_decode_client_info_def dco_simps)

lemma dco_client_info_without_id [dco_simps]:
  "dart_lib_ok L \<Longrightarrow> dco_decode_client_info_without_id L (into_dart_client_info_without_id L m) = Some m"
  by (simp add: into_dart_client_info_without_id_def dco_decode_client_info_without_id_def dco_simps)

lemma dco_proposing_client_info [dco_simps]:
  "dart_lib_ok L \<Longrightarrow> dco_decode_proposing_client_info L (into_dart_proposing_client_info L m) = Some m"
  by (simp add: into_dart_proposing_client_info_def dco_decode_proposing_client_info_def dco_simps)

lemma dco_expecting_public_key [dco_simps]:
  "dart_lib_ok L \<Longrightarrow> dco_decode_expecting_public_key L (into_dart_expecting_public_key L m) = Some m"
  by (simp add: into_dart_expecting_public_key_def dco_decode_expecting_public_key_def dco_simps)

lemma dco_key_pair [dco_simps]:
  "dart_lib_ok L \<Longrightarrow> dco_decode_key_pair L (into_dart_key_pair L m) = Some m"
  by (simp add: into_dart_key_pair_def dco_decode_key_pair_def dco_simps)

lemma dco_pin_config [dco_simps]:
  "dart_lib_ok L \<Longrightarrow> dco_decode_pin_config L (into_dart_pin_config L m) = Some m"
  by (simp add: into_dart_pin_config_def dco_decode_pin_config_def dco_simps)

text \<open>The text of an error is all that is passed.\<close>

lemma dco_err: "dart_lib_ok L \<Longrightarrow> fits_err e \<Longrightarrow> dco_decode_err L (dl_string L (err_text F e)) = Some e"
  by (cases e) (simp_all add: dco_decode_err_def dco_simps)

lemma dco_rtc_file_error [dco_simps]:
  "dart_lib_ok L \<Longrightarrow> fits_rtc_file_error m \<Longrightarrow> dco_decode_rtc_file_error L (into_dart_rtc_file_error F L m) = Some m"
  by (simp add: into_dart_rtc_file_error_def dco_decode_rtc_file_error_def dco_simps dco_err fits_rtc_file_error_def)

lemma dco_rtc_send_file_response [dco_simps]:
  "dart_lib_ok L \<Longrightarrow> dco_decode_rtc_send_file_response L (into_dart_rtc_send_file_response L m) = Some m"
  by (simp add: into_dart_rtc_send_file_response_def dco_decode_rtc_send_file_response_def dco_simps)

lemma dco_ws_server_sdp_message [dco_simps]:
  "dart_lib_ok L \<Longrightarrow> dco_decode_ws_server_sdp_message L (into_dart_ws_server_sdp_message L m) = Some m"
  by (simp add: into_dart_ws_server_sdp_message_def dco_decode_ws_server_sdp_message_def dco_simps)

lemma dco_rtc_status [dco_simps]:
  "dart_lib_ok L \<Longrightarrow> fits_rtc_status st \<Longrightarrow> dco_decode_rtc_status L (into_dart_rtc_status F L st) = Some st"
  by (cases st) (simp_all add: dco_decode_rtc_status_def dart_index_def dco_simps dco_err)

lemma dco_peers [dco_simps]:
  "dart_lib_ok L \<Longrightarrow>
   dco_decode_list L (dco_decode_client_info L) (into_dart_vec L (into_dart_client_info L) peers) = Some peers"
  by (rule dco_vec_back) (simp_all add: dco_simps)

lemma dco_files [dco_simps]:
  "dart_lib_ok L \<Longrightarrow>
   dco_decode_list L (dco_decode_file_dto L) (into_dart_vec L (into_dart_file_dto L) fs) = Some fs"
  by (rule dco_vec_back) (simp_all add: dco_simps)

lemma dco_ws_server_message [dco_simps]:
  "dart_lib_ok L \<Longrightarrow> dco_decode_ws_server_message L (into_dart_ws_server_message L m) = Some m"
  by (cases m) (simp_all add: dco_decode_ws_server_message_def dart_index_def dco_simps)

text \<open>The argument of the application's callback.\<close>

lemma dco_owned [dco_simps]: "dart_lib_ok L \<Longrightarrow> dco_decode_owned L (into_dart_owned L alloc x) = Some (alloc x)"
  by (cases "alloc x") (simp add: dco_decode_owned_def into_dart_owned_def dco_simps)

section \<open>An instance\<close>

datatype dart_value =
    DartNull | DartBool bool | DartInt int | DartBigInt u64 | DartString string | DartBytes bytes
  | DartList "dart_value list" | DartObject "handle \<times> u32"

definition demo_dart :: "dart_value dart_lib" where
  "demo_dart = \<lparr>dl_null = DartNull, dl_bool = DartBool, dl_int = DartInt, dl_u64 = DartBigInt, dl_string = DartString,
     dl_uuid = (\<lambda>u. DartBytes (uuid_bytes u)), dl_list = DartList, dl_object = DartObject,
     as_bool = (\<lambda>v. case v of DartBool b \<Rightarrow> Some b | _ \<Rightarrow> None),
     as_int = (\<lambda>v. case v of DartInt i \<Rightarrow> Some i | _ \<Rightarrow> None),
     as_u64 = (\<lambda>v. case v of DartBigInt w \<Rightarrow> Some w | _ \<Rightarrow> None),
     as_string = (\<lambda>v. case v of DartString s \<Rightarrow> Some s | _ \<Rightarrow> None),
     as_bytes = (\<lambda>v. case v of DartBytes bs \<Rightarrow> Some bs | _ \<Rightarrow> None),
     as_list = (\<lambda>v. case v of DartList vs \<Rightarrow> Some vs | _ \<Rightarrow> None),
     as_object = (\<lambda>v. case v of DartObject x \<Rightarrow> Some x | _ \<Rightarrow> None)\<rparr>"

lemma demo_dart_ok: "dart_lib_ok demo_dart"
  by (simp add: dart_lib_ok_def demo_dart_def)

lemma demo_dart_message:
  "dco_decode_ws_server_message demo_dart (into_dart_ws_server_message demo_dart (Left 7)) = Some (Left 7)"
  by (rule dco_ws_server_message [OF demo_dart_ok])

end
