(* ===== verification/Demo_Program.thy ===== *)
theory Demo_Program
  imports Rtc_Session
begin

text \<open>
  The demo program of the core (core/src/main.rs): the part that drives a transfer, with a file that
  is read in pieces and sent, and written by the peer that receives it.
\<close>

section \<open>Files\<close>

definition BUFFER_LENGTH :: nat where
  "BUFFER_LENGTH = 1024"

text \<open>\<open>reads n\<close>: how many bytes the \<open>n\<close>-th read is willing to give (\<open>None\<close>: it fails). A read gives at
  least one byte unless the file is at its end, and at most as many as the buffer has. \<open>takes n\<close>:
  whether the \<open>n\<close>-th chunk still finds a receiver. The result is \<open>None\<close> for an error, with the chunks
  that were sent.\<close>

definition bytes_read :: "nat \<Rightarrow> bytes \<Rightarrow> nat" where
  "bytes_read k content = min (min (max 1 k) BUFFER_LENGTH) (length content)"

lemma bytes_read_pos: "content \<noteq> [] \<Longrightarrow> 0 < bytes_read k content"
  by (simp add: bytes_read_def BUFFER_LENGTH_def)

function read_loop ::
  "(nat \<Rightarrow> nat option) \<Rightarrow> (nat \<Rightarrow> bool) \<Rightarrow> nat \<Rightarrow> bytes \<Rightarrow> unit option \<times> bytes list" where
  "read_loop reads takes n content =
     (case reads n of
        None \<Rightarrow> (None, [])
      | Some k \<Rightarrow>
          if bytes_read k content = 0 then (Some (), [])
          else if \<not> takes n then (Some (), [])
          else (case read_loop reads takes (Suc n) (drop (bytes_read k content) content) of
              (result, chunks) \<Rightarrow> (result, take (bytes_read k content) content # chunks)))"
  by pat_completeness auto
termination
  by (relation "measure (\<lambda>(reads, takes, n, content). length content)") (auto simp: bytes_read_def)

declare read_loop.simps [simp del]

definition read_file_to_sender ::
  "bytes option \<Rightarrow> (nat \<Rightarrow> nat option) \<Rightarrow> (nat \<Rightarrow> bool) \<Rightarrow> unit option \<times> bytes list" where
  "read_file_to_sender opened reads takes =
     (case opened of None \<Rightarrow> (None, []) | Some content \<Rightarrow> read_loop reads takes 0 content)"

text \<open>\<open>writes n\<close>: \<open>None\<close> when the \<open>n\<close>-th write succeeds, otherwise how much of the chunk it got down before
  it failed. The file starts empty.\<close>

fun write_loop :: "(nat \<Rightarrow> nat option) \<Rightarrow> nat \<Rightarrow> bytes list \<Rightarrow> bytes \<Rightarrow> unit option \<times> bytes" where
  "write_loop writes n [] content = (Some (), content)"
| "write_loop writes n (chunk # chunks) content = (case writes n of
      Some k \<Rightarrow> (None, content @ take k chunk)
    | None \<Rightarrow> write_loop writes (Suc n) chunks (content @ chunk))"

definition write_file_from_receiver ::
  "bool \<Rightarrow> (nat \<Rightarrow> nat option) \<Rightarrow> bytes list \<Rightarrow> unit option \<times> bytes" where
  "write_file_from_receiver created writes chunks =
     (if created then write_loop writes 0 chunks [] else (None, []))"

lemma read_loop_content:
  "(\<And>n. takes n) \<Longrightarrow> read_loop reads takes n content = (Some (), chunks) \<Longrightarrow>
   concat chunks = content \<and> list_all (\<lambda>c. c \<noteq> [] \<and> length c \<le> BUFFER_LENGTH) chunks"
proof (induction reads takes n content arbitrary: chunks rule: read_loop.induct)
  case (1 reads takes n content)
  then obtain k where k: "reads n = Some k"
    by (auto simp: read_loop.simps [of reads] split: option.splits)
  show ?case
  proof (cases "content = []")
    case True
    with 1(3) k show ?thesis by (simp add: read_loop.simps [of reads] bytes_read_def)
  next
    case False
    let ?m = "bytes_read k content"
    have "read_loop reads takes n content = (case read_loop reads takes (Suc n) (drop ?m content) of
        (result, rest) \<Rightarrow> (result, take ?m content # rest))"
      using k bytes_read_pos [OF False, of k] 1(2) by (subst read_loop.simps) simp
    then obtain rest where rest: "read_loop reads takes (Suc n) (drop ?m content) = (Some (), rest)"
      "chunks = take ?m content # rest"
      using 1(3) by (auto split: prod.splits)
    then have "concat rest = drop ?m content \<and> list_all (\<lambda>c. c \<noteq> [] \<and> length c \<le> BUFFER_LENGTH) rest"
      using 1(1) [OF k _ _ 1(2) rest(1)] bytes_read_pos [OF False, of k] 1(2) by simp
    moreover have "?m \<le> BUFFER_LENGTH" by (simp add: bytes_read_def)
    ultimately show ?thesis
      using rest(2) False bytes_read_pos [OF False, of k] by simp
  qed
qed

lemma write_loop_content:
  "(\<And>n. writes n = None) \<Longrightarrow> write_loop writes n chunks content = (Some (), content @ concat chunks)"
  by (induction chunks arbitrary: n content) simp_all

section \<open>The handlers\<close>

definition demo_files :: "file_dto list" where
  "demo_files = [\<lparr>fd_id = ''test-123-id'', fd_file_name = ''test.mp4'', fd_size = 100,
     fd_file_type = ''video/mp4'', fd_sha256 = None, fd_preview = None, fd_metadata = None\<rparr>]"

definition send_handler_pin :: pin_config where
  "send_handler_pin = \<lparr>pc_pin = ''456'', pc_max_tries = 3\<rparr>"

definition receive_handler_pin :: pin_config where
  "receive_handler_pin = \<lparr>pc_pin = ''123'', pc_max_tries = 3\<rparr>"

text \<open>The task that answers requests for a PIN: it has three, and panics on a fourth request, which drops
  the request and the channel of the requests.\<close>

definition pin_tries :: "string list \<Rightarrow> string option list" where
  "pin_tries pins = map Some pins @ [None]"

text \<open>What the tasks of \<open>send_handler\<close> do for a transfer, given the connection and the chunks that
  \<open>read_file_to_sender\<close> hands over for the only file: every status is taken, pairing is declined, the
  file is sent once a selection was published, and the channel of files is closed.\<close>

definition send_handler :: "bytes list \<Rightarrow> sender_io \<Rightarrow> sender_io" where
  "send_handler chunks s = s\<lparr>
     io_status_ok := (\<lambda>_. True),
     io_pins := pin_tries [''1'', ''2'', ''123''],
     io_pins_open := False,
     so_pair_open := True,
     so_pair_answer := Reply False,
     so_selected_open := True,
     so_files := [(fd_id (hd demo_files), chunks)],
     so_files_closed := True\<rparr>"

text \<open>What the tasks of \<open>receive_handler\<close> do, given the file list that the peer sent and how many files it
  sends: every file is selected, taken as a whole and answered with success.\<close>

definition receive_handler :: "file_dto list \<Rightarrow> string list \<Rightarrow> receiver_io \<Rightarrow> receiver_io" where
  "receive_handler files ids r = r\<lparr>
     io_status_ok := (\<lambda>_. True),
     io_pins := pin_tries [''1'', ''2'', ''456''],
     io_pins_open := False,
     ro_files_open := True,
     ro_selection := Reply (Some (remdups (map fd_id files))),
     ro_takes := (\<lambda>_. True),
     ro_results := map (\<lambda>i. \<lparr>fr_id = i, fr_success = True, fr_error = None\<rparr>) ids\<rparr>"

definition DOWNLOADS :: string where
  "DOWNLOADS = ''/Users/user/Downloads/test/''"

text \<open>Where a received file goes: under the name that the list has for it (\<open>None\<close> is a panic).\<close>

definition file_path :: "file_dto list \<Rightarrow> string \<Rightarrow> string option" where
  "file_path files file_id = map_option (\<lambda>f. DOWNLOADS @ fd_file_name f) (find (\<lambda>f. fd_id f = file_id) files)"

definition written_files :: "(string \<times> bytes list) list \<Rightarrow> file_dto list \<Rightarrow> (string option \<times> bytes) list" where
  "written_files received files = map (\<lambda>(i, chunks).
     (file_path files i, snd (write_file_from_receiver True (\<lambda>_. None) chunks))) received"

section \<open>The transfer\<close>

lemma pins_open:
  "opens (Some receive_handler_pin) [''1'', ''2'', ''123'']" "opens (Some send_handler_pin) [''1'', ''2'', ''456'']"
  by (simp_all add: opens_def send_handler_pin_def receive_handler_pin_def)

lemma written_files_contents:
  "written_files received files = map (\<lambda>(i, content). (file_path files i, content)) (contents received)"
  by (simp add: written_files_def contents_def write_file_from_receiver_def write_loop_content split_def)



end
