(* ===== verification/Session_End_To_End.thy ===== *)
theory Session_End_To_End
  imports Ffi_Props
begin

text \<open>
  A whole session: two peers in one room of the signaling server exchange their descriptions, run the
  two transfer tasks and end their connections.
\<close>

lemma offer_job_run:
  assumes "zlib_ok G" and "b64_ok C" and "session_works a" and "ss_close_ok a" and "ss_local_sdp a = Some own"
    and "utf8_valid (utf8 other)" and "ss_answer a = Reply (encode_sdp G C other)"
    and "ss_selected a = TaskEnded (Done ())"
  shows "offer_job G C target a =
    (Done (), a\<lparr>ss_sent := ss_sent a @ [offer_message (ss_uuid a) target (encode_sdp G C own)],
       ss_registered := Some (ss_uuid a), ss_status := ss_status a @ [StSdpExchanged, StFinished],
       ss_remote_sdp := Some other, ss_channel_closed := True, ss_closed := True\<rparr>)"
  using assms(3,4,8) exchange_offer_run [OF assms(1-3,5-7), of target]
  by (simp add: offer_job_def send_offer_def job_simps session_works_def)

lemma accept_job_run:
  assumes "zlib_ok G" and "b64_ok C" and "session_works b" and "ss_close_ok b" and "ss_local_sdp b = Some own"
    and "utf8_valid (utf8 other)" and "sm_sdp offer = encode_sdp G C other"
    and "ss_selected b = TaskEnded (Done ())"
  shows "accept_job G C offer b =
    (Done (), b\<lparr>ss_remote_sdp := Some other,
       ss_sent := ss_sent b @ [answer_message (sm_session_id offer) (ci_id (sm_peer offer)) (encode_sdp G C own)],
       ss_status := ss_status b @ [StSdpExchanged, StFinished], ss_closed := True\<rparr>)"
  using assms(3,4,8) exchange_answer_run [OF assms(1-3,5-7)]
  by (simp add: accept_job_def accept_offer_def job_simps session_works_def)



end
