(* ===== verification/Ws_Origin.thy ===== *)
theory Ws_Origin
  imports Ws_Messages
begin

text \<open>
  Where offers and answers come from: the server makes none of its own. Whatever property \<open>P\<close> every
  message has that the server reads, in terms of the group and the peer it is read from, the offers and
  answers that are on their way to a client come from such messages, addressed to that client.
\<close>

type_synonym said = "string \<Rightarrow> client_info \<Rightarrow> ws_client_message \<Rightarrow> bool"

fun from_said :: "said \<Rightarrow> conn \<Rightarrow> ws_server_message \<Rightarrow> bool" where
  "from_said P k (Offer m) \<longleftrightarrow> P (cn_group k) (sm_peer m)
     (ClientOffer \<lparr>cm_session_id = sm_session_id m, cm_target = ci_id (cn_peer k), cm_sdp = sm_sdp m\<rparr>)"
| "from_said P k (Answer m) \<longleftrightarrow> P (cn_group k) (sm_peer m)
     (ClientAnswer \<lparr>cm_session_id = sm_session_id m, cm_target = ci_id (cn_peer k), cm_sdp = sm_sdp m\<rparr>)"
| "from_said P k _ \<longleftrightarrow> True"

definition recv_from :: "said \<Rightarrow> server \<Rightarrow> conn \<Rightarrow> bool" where
  "recv_from P s k \<longleftrightarrow> (case cn_recv k of
      Admitted msg \<Rightarrow> P (cn_group k) (cn_peer k) msg
    | Sending outs \<Rightarrow> list_all (\<lambda>(t, m). t < length (sv_conns s) \<and> from_said P (sv_conns s ! t) m) outs
    | _ \<Rightarrow> True)"

definition conn_from :: "said \<Rightarrow> server \<Rightarrow> conn \<Rightarrow> bool" where
  "conn_from P s k \<longleftrightarrow> list_all (from_said P k) (cn_queue k @ cn_sent k) \<and> recv_from P s k"

definition said_inv :: "said \<Rightarrow> server \<Rightarrow> bool" where
  "said_inv P s \<longleftrightarrow> (\<forall>c < length (sv_conns s). conn_from P s (sv_conns s ! c))"

section \<open>Changes that keep it\<close>

lemma from_said_cong:
  "cn_group k' = cn_group k \<Longrightarrow> cn_peer k' = cn_peer k \<Longrightarrow> from_said P k' = from_said P k"
  by (rule ext) (rename_tac m, case_tac m, simp_all)

lemma from_said_fields [simp]:
  "from_said P (cn_main_update i k) = from_said P k" "from_said P (cn_recv_update j k) = from_said P k"
  "from_said P (cn_rx_update h k) = from_said P k" "from_said P (cn_queue_update f k) = from_said P k"
  "from_said P (cn_sent_update g k) = from_said P k"
  by (cases k, rule from_said_cong, simp_all)+

lemma from_said_mono: "P \<le> Q \<Longrightarrow> from_said P k m \<Longrightarrow> from_said Q k m"
  by (cases m) (auto simp: le_fun_def)

lemma conn_from_mono:
  assumes "P \<le> Q" and "conn_from P s k"
  shows "conn_from Q s k"
proof -
  note mono = from_said_mono [OF assms(1)]
  have "recv_from Q s k"
    using assms by (auto simp: conn_from_def recv_from_def list_all_iff le_fun_def intro: mono
        split: recv_phase.splits)
  then show ?thesis using assms(2) mono by (auto simp: conn_from_def list_all_iff)
qed

lemma said_inv_mono: "P \<le> Q \<Longrightarrow> said_inv P s \<Longrightarrow> said_inv Q s"
  using conn_from_mono by (auto simp: said_inv_def)

lemma conn_from_grows:
  assumes "grows s s'" and "conn_from P s k"
  shows "conn_from P s' k"
proof -
  have "from_said P (sv_conns s' ! t) = from_said P (sv_conns s ! t)" if "t < length (sv_conns s)" for t
    using assms(1) that by (intro from_said_cong) (simp_all add: grows_def)
  moreover have "length (sv_conns s) \<le> length (sv_conns s')" using assms(1) by (simp add: grows_def)
  ultimately show ?thesis
    using assms(2) by (fastforce simp: conn_from_def recv_from_def list_all_iff split: recv_phase.splits)
qed

lemma said_upd:
  assumes "said_inv P s" and "c < length (sv_conns s)"
    and "same_peer (sv_conns s ! c) (f (sv_conns s ! c))" and "conn_from P s (f (sv_conns s ! c))"
  shows "said_inv P (upd_conn c f s)"
  using assms conn_from_grows [OF grows_upd [where f = f, OF assms(2,3)]] by (auto simp: said_inv_def)

lemma conn_from_maps [simp]: "conn_from P (s\<lparr>sv_maps := m\<rparr>) k = conn_from P s k"
  by (simp add: conn_from_def recv_from_def split: recv_phase.split)

lemma said_maps [simp]: "said_inv P (s\<lparr>sv_maps := m\<rparr>) = said_inv P s"
  by (simp add: said_inv_def)

lemma conn_selects:
  "cn_group (cn_main_update i k) = cn_group k" "cn_peer (cn_main_update i k) = cn_peer k"
  "cn_recv (cn_main_update i k) = cn_recv k" "cn_group (cn_rx_update h k) = cn_group k"
  "cn_peer (cn_rx_update h k) = cn_peer k" "cn_recv (cn_rx_update h k) = cn_recv k"
  "cn_group (cn_queue_update f k) = cn_group k" "cn_peer (cn_queue_update f k) = cn_peer k"
  "cn_recv (cn_queue_update f k) = cn_recv k" "cn_group (cn_sent_update g k) = cn_group k"
  "cn_peer (cn_sent_update g k) = cn_peer k" "cn_recv (cn_sent_update g k) = cn_recv k"
  by (cases k, simp)+

lemma recv_from_fields [simp]:
  "recv_from P s (cn_main_update i k) = recv_from P s k" "recv_from P s (cn_rx_update h k) = recv_from P s k"
  "recv_from P s (cn_queue_update f k) = recv_from P s k" "recv_from P s (cn_sent_update g k) = recv_from P s k"
  by (simp_all only: recv_from_def conn_selects)

lemma conn_from_fields [simp]:
  "conn_from P s (cn_main_update i k) = conn_from P s k"
  "conn_from P s (cn_rx_update h k) = conn_from P s k"
  by (simp_all add: conn_from_def)

lemma conn_from_queue [simp]:
  "conn_from P s (cn_queue_update f k) \<longleftrightarrow> list_all (from_said P k) (f (cn_queue k) @ cn_sent k) \<and> recv_from P s k"
proof -
  have "cn_queue (cn_queue_update f k) = f (cn_queue k)" "cn_sent (cn_queue_update f k) = cn_sent k"
    by (cases k, simp)+
  then show ?thesis by (simp add: conn_from_def)
qed

lemma conn_from_sent [simp]:
  "conn_from P s (cn_queue_update f (cn_sent_update g k)) \<longleftrightarrow>
     list_all (from_said P k) (f (cn_queue k) @ g (cn_sent k)) \<and> recv_from P s k"
proof -
  let ?k = "cn_queue_update f (cn_sent_update g k)"
  have "cn_queue ?k = f (cn_queue k)" "cn_sent ?k = g (cn_sent k)"
    by (cases k, simp)+
  then show ?thesis by (simp add: conn_from_def)
qed

lemma conn_from_recv [simp]:
  "conn_from P s (cn_recv_update j k) \<longleftrightarrow> list_all (from_said P k) (cn_queue k @ cn_sent k) \<and>
     recv_from P s (cn_recv_update j k)"
  by (simp add: conn_from_def)

lemma recv_from_phases [simp]:
  "recv_from P s (k\<lparr>cn_recv := Receiving\<rparr>)" "recv_from P s (k\<lparr>cn_recv := Limiting\<rparr>)"
  "recv_from P s (k\<lparr>cn_recv := Ended\<rparr>)"
  "recv_from P s (k\<lparr>cn_recv := Admitted msg\<rparr>) \<longleftrightarrow> P (cn_group k) (cn_peer k) msg"
  "recv_from P s (k\<lparr>cn_recv := sending outs\<rparr>) \<longleftrightarrow>
     list_all (\<lambda>(t, m). t < length (sv_conns s) \<and> from_said P (sv_conns s ! t) m) outs"
  by (simp_all add: recv_from_def sending_def)

lemma recv_from_sending:
  "recv_from P s k \<Longrightarrow> cn_recv k = Sending outs \<Longrightarrow>
   list_all (\<lambda>(t, m). t < length (sv_conns s) \<and> from_said P (sv_conns s ! t) m) outs"
  by (simp add: recv_from_def)

lemma said_send:
  assumes "said_inv P s" and "channel_send t msg s = Some s'"
    and "t < length (sv_conns s) \<Longrightarrow> from_said P (sv_conns s ! t) msg"
  shows "said_inv P s'"
  using assms(2)
proof (cases rule: channel_send_cases)
  case queued
  with assms(1,3) show ?thesis
    unfolding queued(4) by (intro said_upd) (simp_all add: said_inv_def conn_from_def)
qed (use assms in simp)

lemma said_send_upd:
  assumes inv: "said_inv P s" and c: "c < length (sv_conns s)"
    and step: "map_option (upd_conn c f) (channel_send t msg s) = Some s'"
    and msg: "t < length (sv_conns s) \<Longrightarrow> from_said P (sv_conns s ! t) msg"
    and same: "\<And>k. cn_main k = cn_main (sv_conns s ! c) \<Longrightarrow> same_peer k (f k)"
    and ok: "\<And>u k. conn_from P u k \<Longrightarrow> cn_recv k = cn_recv (sv_conns s ! c) \<Longrightarrow> conn_from P u (f k)"
  shows "said_inv P s'"
proof -
  obtain u where u: "channel_send t msg s = Some u" and s': "s' = upd_conn c f u"
    using step by auto
  have "said_inv P u" using said_send [OF inv u msg] .
  then show ?thesis
    unfolding s' using c same ok by (intro said_upd) (auto simp: send_simps [OF u] said_inv_def)
qed

section \<open>Every step\<close>

lemma said_forward:
  assumes "said_inv P s" and step: "do_forward c s = Some s'"
  shows "said_inv P s'"
proof -
  obtain t msg outs where c: "c < length (sv_conns s)" and m: "cn_recv (sv_conns s ! c) = Sending ((t, msg) # outs)"
    and s': "map_option (upd_conn c (cn_recv_update (\<lambda>_. sending outs))) (channel_send t msg s) = Some s'"
    using step by (auto simp: do_forward_def split: if_splits recv_phase.splits list.splits)
  have "from_said P (sv_conns s ! t) msg"
    using assms(1) c m by (auto simp: said_inv_def conn_from_def recv_from_def)
  then show ?thesis
    using m by (intro said_send_upd [OF assms(1) c s']) (auto simp: conn_from_def dest: recv_from_sending)
qed

text \<open>The messages that the server makes itself are no offers and no answers.\<close>

lemma said_sends:
  assumes "said_inv P s"
  shows "do_send_join c s = Some s' \<Longrightarrow> said_inv P s'" "do_send_hello c s = Some s' \<Longrightarrow> said_inv P s'"
    "do_send_limit c s = Some s' \<Longrightarrow> said_inv P s'" "do_send_left c s = Some s' \<Longrightarrow> said_inv P s'"
proof -
  note said_step = said_send_upd [OF assms, rotated]
  show "said_inv P s'" if "do_send_join c s = Some s'"
    using that
    by (simp_all add: do_send_join_def split: if_splits main_phase.splits list.splits del: map_option_eq_Some)
      (erule said_step, simp_all add: conn_from_def)
  show "said_inv P s'" if "do_send_hello c s = Some s'"
    using that
    by (simp_all add: do_send_hello_def split: if_splits main_phase.splits list.splits del: map_option_eq_Some)
      (erule said_step, simp_all add: conn_from_def)
  show "said_inv P s'" if "do_send_limit c s = Some s'"
    using that
    by (simp_all add: do_send_limit_def split: if_splits del: map_option_eq_Some)
      (erule said_step, simp_all add: conn_from_def)
  show "said_inv P s'" if "do_send_left c s = Some s'"
    using that
    by (simp_all add: do_send_left_def split: if_splits main_phase.splits list.splits del: map_option_eq_Some)
      (erule said_step, simp_all add: conn_from_def)
qed

text \<open>The steps that only change their own connection.\<close>

lemma said_local:
  assumes "said_inv P s" and "srv_next lim a s = Some s'"
    and "case a of Write _ _ \<Rightarrow> True | ReceiveEnd _ \<Rightarrow> True | Select _ \<Rightarrow> True
      | AbortRecv _ \<Rightarrow> True | AbortSend _ \<Rightarrow> True | Disconnect _ _ \<Rightarrow> True | Hourly \<Rightarrow> True | _ \<Rightarrow> False"
  shows "said_inv P s'"
proof -
  have ok: "list_all (from_said P (sv_conns s ! c)) (cn_queue (sv_conns s ! c))"
      "list_all (from_said P (sv_conns s ! c)) (cn_sent (sv_conns s ! c))"
      "recv_from P s (sv_conns s ! c)" "conn_from P s (sv_conns s ! c)" if "c < length (sv_conns s)" for c
    using assms(1) that by (simp_all add: said_inv_def conn_from_def)
  from assms show ?thesis
    by (cases a)
      (auto simp: do_write_def do_receive_end_def do_select_def do_abort_recv_def do_abort_send_def
        do_disconnect_def do_hourly_def case_prod_beta' ok split: if_splits list.splits intro!: said_upd,
       auto dest: ok(1))
qed

lemma said_receive:
  assumes inv: "said_inv P s" and step: "do_receive lim c msg s = Some s'"
    and "P (cn_group (sv_conns s ! c)) (cn_peer (sv_conns s ! c)) msg"
  shows "said_inv P s'"
proof -
  obtain m phase where c: "c < length (sv_conns s)" and phase: "phase \<in> {Limiting, Admitted msg}"
    and s': "s' = upd_conn c (cn_recv_update (\<lambda>_. phase)) (s\<lparr>sv_maps := m\<rparr>)"
    using step by (auto simp: do_receive_def case_prod_beta' split: if_splits sum.splits)
  have "conn_from P s (sv_conns s ! c)" using inv c by (simp add: said_inv_def)
  then show ?thesis
    unfolding s' using inv c phase assms(3) by (intro said_upd) (auto simp: conn_from_def)
qed

lemma said_connect:
  assumes "said_inv P s" and "do_connect lim g p ts ps s = Some s'"
  shows "said_inv P s'"
proof -
  obtain m phase where s': "s' = \<lparr>sv_maps = m, sv_conns = sv_conns s @ [new_conn g p phase]\<rparr>"
    using assms(2) by (cases rule: do_connect_cases) auto
  have "grows s s'" by (simp add: s' grows_def nth_append)
  from conn_from_grows [OF this] assms(1) show ?thesis
    by (simp add: s' said_inv_def nth_append less_Suc_eq) (simp add: new_conn_def conn_from_def recv_from_def)
qed

lemma said_handle:
  assumes reg: "reg_inv s" and inv: "said_inv P s" and step: "do_handle c outs s = Some s'"
  shows "said_inv P s'"
  using step
proof (cases rule: do_handle_cases)
  case (1 msg m outs')
  let ?k = "sv_conns s ! c"
  have k: "conn_from P s ?k" using inv 1(1) by (simp add: said_inv_def)
  then have msg: "P (cn_group ?k) (cn_peer ?k) msg" using 1(2) by (simp add: conn_from_def recv_from_def)
  have wf: "maps_wf (sv_maps s)" using reg by (simp add: reg_inv_def)
  have reach: "cs_tx v < length (sv_conns s) \<and> cn_group (sv_conns s ! cs_tx v) = cn_group ?k \<and>
      ci_id (cn_peer (sv_conns s ! cs_tx v)) = u" if "members (sv_maps s) (cn_group ?k) u = Some v" for u v
    using registered [OF reg that] by (simp add: connected_def)
  have same: "\<lparr>cm_session_id = cm_session_id y, cm_target = cm_target y, cm_sdp = cm_sdp y\<rparr> = y"
    for y :: ws_client_sdp_message by simp
  have "t < length (sv_conns s) \<and> from_said P (sv_conns s ! t) x" if "(t, x) \<in> set outs'" for t x
  proof (cases msg)
    case (ClientUpdate info)
    have "t \<in> set (fst (update_section (sv_maps s) (cn_group ?k) (ci_id (cn_peer ?k)) info))"
      and x: "x = Update (client_info_from info (ci_id (cn_peer ?k)))"
      using that 1(3) ClientUpdate by (auto simp: handle_client_message_def case_prod_beta' Let_def)
    then show ?thesis unfolding update_targets [OF wf] using reach by (auto split: if_splits)
  qed (use that 1(3) msg reach in \<open>auto simp: handle_client_message_def target_section_members
      server_sdp_def same split: option.splits\<close>)
  moreover have "set outs = set outs'" using 1(4) by (metis set_mset_mset)
  ultimately have "recv_from P s (cn_recv_update (\<lambda>_. sending outs) ?k)"
    by (auto simp: list_all_iff)
  with k 1(1) inv show ?thesis
    unfolding 1(5) by (intro said_upd) (simp_all add: conn_from_def)
qed

lemma said_next:
  assumes "reg_inv s" and "said_inv P s" and "srv_next lim a s = Some s'"
    and "\<And>c msg. a = Receive c msg \<Longrightarrow> c < length (sv_conns s) \<Longrightarrow>
      P (cn_group (sv_conns s ! c)) (cn_peer (sv_conns s ! c)) msg"
  shows "said_inv P s'"
proof (cases a)
  case (Receive c msg)
  with assms(3) have "do_receive lim c msg s = Some s'" and "c < length (sv_conns s)"
    by (auto simp: do_receive_def split: if_splits)
  with assms(4) [OF Receive] assms(2) show ?thesis by (blast intro: said_receive)
qed (use assms(1-3) said_local [OF assms(2,3)] in \<open>auto intro: said_sends said_connect said_handle said_forward\<close>)

end
