(* ===== verification/Signaling_Origin.thy ===== *)
theory Signaling_Origin
  imports Ws_Origin Signaling_Net
begin

text \<open>
  End to end: an offer or an answer that an application gets, and the description that a waiting
  transfer is handed, were sent by the application of a peer in the same group, for this session and
  to this client.
\<close>

section \<open>What the clients of a group said\<close>

definition said_in :: "net \<Rightarrow> said" where
  "said_in n g p msg \<longleftrightarrow> (\<exists>d < length (nt_clients n).
     cn_group (sv_conns (nt_server n) ! d) = g \<and> cn_peer (sv_conns (nt_server n) ! d) = p \<and>
     msg \<in> set (sc_sent (nt_clients n ! d)))"

lemma sent_keeps: "sig_next L a s = Some s' \<Longrightarrow> set (sc_sent s) \<subseteq> set (sc_sent s')"
  by (cases a) (auto simp: sig_op_defs call_back_simps split: sig_op_splits prod.splits ws_server_message.splits)

lemma written_was_sent:
  assumes "sig_reachable L s"
  shows "set (texts (sc_written s)) \<subseteq> set (sc_sent s)"
proof -
  have "subseq (outbox s) (sc_sent s)"
    using sig_sends.holds assms unfolding sig_reachable_def sends_inv_def by blast
  then have "set (outbox s) \<subseteq> set (sc_sent s)" by (auto dest: list_emb_set)
  then show ?thesis by (simp add: outbox_def)
qed

text \<open>The network only grows: connections keep their group and peer, clients what they said.\<close>

definition identities :: "server \<Rightarrow> (string \<times> client_info) list" where
  "identities s = map (\<lambda>k. (cn_group k, cn_peer k)) (sv_conns s)"

lemma identities_upd: "(\<And>k. cn_group (f k) = cn_group k \<and> cn_peer (f k) = cn_peer k) \<Longrightarrow> identities (upd_conn c f s) = identities s"
  by (rule nth_equalityI) (auto simp: identities_def)

lemma identities_maps [simp]: "identities (s\<lparr>sv_maps := m\<rparr>) = identities s"
  by (simp add: identities_def)

lemma identities_send: "channel_send t msg s = Some u \<Longrightarrow> identities u = identities s"
  by (erule channel_send_cases) (auto simp: identities_upd)

lemma identities_next: "srv_next lim a s = Some s' \<Longrightarrow> prefix (identities s) (identities s')"
proof (cases "\<exists>g p ts ps. a = Connect g p ts ps")
  case True
  moreover assume "srv_next lim a s = Some s'"
  ultimately obtain g p ts ps where "do_connect lim g p ts ps s = Some s'" by auto
  then show ?thesis by (cases rule: do_connect_cases) (auto simp: identities_def)
next
  case False
  moreover assume "srv_next lim a s = Some s'"
  ultimately have "identities s' = identities s"
    by (cases a)
      (auto simp: step_defs identities_upd dest: identities_send
        split: if_splits option.splits main_phase.splits recv_phase.splits list.splits prod.splits)
  then show ?thesis by simp
qed

lemma identity:
  assumes "prefix (identities s) (identities s')" and "d < length (sv_conns s)"
  shows "d < length (sv_conns s')" "cn_group (sv_conns s' ! d) = cn_group (sv_conns s ! d)"
    "cn_peer (sv_conns s' ! d) = cn_peer (sv_conns s ! d)"
proof -
  obtain rest where rest: "identities s' = identities s @ rest" using assms(1) by (auto simp: prefix_def)
  then have "length (sv_conns s') = length (sv_conns s) + length rest"
    unfolding identities_def by (metis length_append length_map)
  then show d: "d < length (sv_conns s')" using assms(2) by simp
  have "identities s' ! d = identities s ! d" using rest assms(2) by (simp add: nth_append identities_def)
  then show "cn_group (sv_conns s' ! d) = cn_group (sv_conns s ! d)"
    "cn_peer (sv_conns s' ! d) = cn_peer (sv_conns s ! d)"
    using d assms(2) by (simp_all add: identities_def)
qed

definition net_grows :: "net \<Rightarrow> net \<Rightarrow> bool" where
  "net_grows n n' \<longleftrightarrow> prefix (identities (nt_server n)) (identities (nt_server n')) \<and>
     length (nt_clients n) \<le> length (nt_clients n') \<and>
     (\<forall>d < length (nt_clients n). set (sc_sent (nt_clients n ! d)) \<subseteq> set (sc_sent (nt_clients n' ! d)))"

lemma said_in_grows:
  assumes "net_grows n n'" and "length (nt_clients n) = length (sv_conns (nt_server n))"
  shows "said_in n \<le> said_in n'"
proof -
  have "said_in n' g p msg" if "said_in n g p msg" for g p msg
  proof -
    from that obtain d where d: "d < length (nt_clients n)" "cn_group (sv_conns (nt_server n) ! d) = g"
      "cn_peer (sv_conns (nt_server n) ! d) = p" "msg \<in> set (sc_sent (nt_clients n ! d))"
      unfolding said_in_def by blast
    with assms have "d < length (nt_clients n')" "msg \<in> set (sc_sent (nt_clients n' ! d))"
      "cn_group (sv_conns (nt_server n') ! d) = g" "cn_peer (sv_conns (nt_server n') ! d) = p"
      using identity [of "nt_server n" "nt_server n'" d] by (auto simp: net_grows_def)
    then show ?thesis unfolding said_in_def by blast
  qed
  then show ?thesis by (simp add: le_fun_def)
qed

text \<open>Each step of the network is at most one step of the server; what the server reads in it, the
  client of that connection has sent.\<close>

definition heard :: "net \<Rightarrow> srv_action \<Rightarrow> bool" where
  "heard n a \<longleftrightarrow> (\<forall>c msg. a = srv_action.Receive c msg \<longrightarrow>
     c < length (nt_clients n) \<and> msg \<in> set (sc_sent (nt_clients n ! c)))"

lemma client_text:
  "json_ok L \<Longrightarrow> uuid_ok L \<Longrightarrow>
   from_text L (dec_ws_client_message L) (to_text L (enc_ws_client_message L) m) = Some m"
  by (rule ws_client_message_codec.text_enc)

lemma net_cases:
  assumes "json_ok L" and "uuid_ok L" and inv: "net_inv lim L n" and step: "net_next lim L a n = Some n'"
  obtains (server) b where "srv_next lim b (nt_server n) = Some (nt_server n')" "heard n b"
  | (other) "nt_server n' = nt_server n"
proof (cases a)
  case (NetConnect g p ts ps)
  with step server [of "Connect g p ts ps"] show ?thesis
    by (auto simp: net_connect_def heard_def split: if_splits)
next
  case (NetWrite c)
  with step server [of "srv_action.Write c True"] show ?thesis
    by (auto simp: net_write_def heard_def simp del: srv_next.simps sig_next.simps split: if_splits list.splits option.splits)
next
  case (NetReceive c)
  then have rec: "net_receive lim L c n = Some n'" using step by simp
  let ?w = "texts (sc_written (nt_clients n ! c))"
  from rec have c: "c < length (nt_clients n)" and k: "nt_read n ! c < length ?w"
    by (simp_all add: net_receive_def split: if_splits)
  have "sig_reachable L (nt_clients n ! c)" using inv c by (simp add: net_inv_def list_all_length)
  from written_was_sent [OF this] k have "?w ! (nt_read n ! c) \<in> set (sc_sent (nt_clients n ! c))" by auto
  with c have "heard n (srv_action.Receive c (?w ! (nt_read n ! c)))" by (simp add: heard_def)
  with rec c k server [of "srv_action.Receive c (?w ! (nt_read n ! c))"] show ?thesis
    by (auto simp: net_receive_def client_text [OF assms(1,2)] Let_def simp del: srv_next.simps)
next
  case (NetServer b)
  then have "net_internal b" using step by (simp split: if_splits)
  then have "heard n b" by (cases b) (simp_all add: heard_def)
  with NetServer step server [of b] show ?thesis by (auto simp del: srv_next.simps split: if_splits)
next
  case (NetClient c b)
  with step other show ?thesis by (auto simp del: sig_next.simps split: if_splits)
qed

lemma clients_grow:
  "sig_next L b (nt_clients n ! c) = Some cl' \<Longrightarrow> d < length (nt_clients n) \<Longrightarrow>
   m \<in> set (sc_sent (nt_clients n ! d)) \<Longrightarrow> m \<in> set (sc_sent ((nt_clients n)[c := cl'] ! d))"
  by (cases "c = d") (auto dest: sent_keeps [THEN subsetD])

lemma sents_only_grow:
  assumes "net_next lim L a n = Some n'"
  shows "length (nt_clients n) \<le> length (nt_clients n') \<and>
     (\<forall>d < length (nt_clients n). set (sc_sent (nt_clients n ! d)) \<subseteq> set (sc_sent (nt_clients n' ! d)))"
  using assms
  by (cases a) (auto simp: net_connect_def net_write_def net_receive_def Let_def nth_append
      simp del: srv_next.simps sig_next.simps dest: clients_grow split: if_splits list.splits option.splits)

definition origin_inv :: "net \<Rightarrow> bool" where
  "origin_inv n \<longleftrightarrow> said_inv (said_in n) (nt_server n)"

lemma origin_next:
  assumes "json_ok L" and "uuid_ok L" and inv: "net_inv lim L n" and origin: "origin_inv n"
    and step: "net_next lim L a n = Some n'"
  shows "origin_inv n'"
proof -
  have len: "length (nt_clients n) = length (sv_conns (nt_server n))" using inv by (rule net_inv_length)
  have reg: "reg_inv (nt_server n)" using inv registry.holds by (auto simp: net_inv_def srv_reachable_def)
  from assms(1,2) inv step have "said_inv (said_in n) (nt_server n') \<and>
    prefix (identities (nt_server n)) (identities (nt_server n'))"
  proof (cases rule: net_cases)
    case (server b)
    have "said_in n (cn_group (sv_conns (nt_server n) ! c)) (cn_peer (sv_conns (nt_server n) ! c)) msg"
      if "b = srv_action.Receive c msg" for c msg
      using server(2) that unfolding heard_def said_in_def by blast
    with reg origin server(1) show ?thesis
      using identities_next said_next unfolding origin_inv_def by metis
  qed (use origin in \<open>simp add: origin_inv_def\<close>)
  moreover from this have "net_grows n n'" using sents_only_grow [OF step] by (simp add: net_grows_def)
  ultimately show ?thesis
    using said_in_grows [OF _ len] said_inv_mono unfolding origin_inv_def by blast
qed

lemma origin_new: "origin_inv net_new"
  by (simp add: origin_inv_def said_inv_def net_new_def server_new_def)

interpretation origins: relative_invariant "\<lambda>n. n = net_new" "net_step lim L" "net_inv lim L"
  "\<lambda>n. json_ok L \<and> uuid_ok L \<longrightarrow> origin_inv n" for lim L
  by unfold_locales (auto simp: origin_new intro: origin_next elim!: net_stepE)

lemma written_from:
  assumes "json_ok L" and "uuid_ok L" and "net_reachable lim L n" and "c < length (nt_clients n)"
    and "m \<in> set (cn_sent (sv_conns (nt_server n) ! c))"
  shows "from_said (said_in n) (sv_conns (nt_server n) ! c) m"
proof -
  have "net_inv lim L n" using network.holds assms(3) unfolding net_reachable_def by blast
  then have c: "c < length (sv_conns (nt_server n))" using net_inv_length assms(4) by metis
  have "origin_inv n" using origins.holds2 assms(1-3) unfolding net_reachable_def by blast
  with c assms(5) show ?thesis by (auto simp: origin_inv_def said_inv_def conn_from_def list_all_iff)
qed

section \<open>Properties\<close>

text \<open>The identifier the server gave to a client, and what the peers of its group said.\<close>

abbreviation id_of :: "net \<Rightarrow> conn_id \<Rightarrow> uuid" where
  "id_of n c \<equiv> ci_id (cn_peer (sv_conns (nt_server n) ! c))"

definition heard_in :: "net \<Rightarrow> conn_id \<Rightarrow> client_info \<Rightarrow> ws_client_message \<Rightarrow> bool" where
  "heard_in n c = said_in n (cn_group (sv_conns (nt_server n) ! c))"

definition authentic :: "net \<Rightarrow> conn_id \<Rightarrow> bool" where
  "authentic n c \<longleftrightarrow>
     (\<forall>m. Offer m \<in> set (sc_app_got (nt_clients n ! c)) \<longrightarrow>
        heard_in n c (sm_peer m) (offer_message (sm_session_id m) (id_of n c) (sm_sdp m))) \<and>
     (\<forall>m. Answer m \<in> set (sc_app_got (nt_clients n ! c)) \<longrightarrow>
        heard_in n c (sm_peer m) (answer_message (sm_session_id m) (id_of n c) (sm_sdp m))) \<and>
     (\<forall>sl \<in> set (sc_slots (nt_clients n ! c)). \<forall>sdp. sl_answer sl = Some sdp \<longrightarrow>
        (\<exists>p. heard_in n c p (answer_message (sl_session sl) (id_of n c) sdp)))"

text \<open>
  C9: offers and answers are authentic from end to end: an offer or an answer that an application gets
  was sent by the application of the very peer it names, which is in the same group, in this session,
  with this description and addressed to this client; and the description that a waiting transfer is
  handed as its answer was sent as the answer of its session, to this client, by a peer of its group.
\<close>

theorem offers_and_answers_are_authentic:
  assumes "json_ok L" and "uuid_ok L" and "net_reachable lim L n" and "c < length (nt_clients n)"
  shows "authentic n c"
proof -
  let ?cl = "nt_clients n ! c" and ?k = "sv_conns (nt_server n) ! c"
  note net = net_arrived [OF assms] and written = written_from [OF assms]
  have "fifo_inv L ?cl" using sig_fifo.holds net(2) unfolding sig_reachable_def by blast
  then have got: "set (sc_app_got ?cl) \<subseteq> set (cn_sent ?k)"
    using net(1) by (auto simp: fifo_inv_def pipeline_def)
  have "answers_inv L ?cl" using sig_answers.holds2 net(2) unfolding sig_reachable_def by blast
  then have slots: "\<exists>m. Answer m \<in> set (cn_sent ?k) \<and> sm_session_id m = sl_session sl \<and> sm_sdp m = sdp"
    if "sl \<in> set (sc_slots ?cl)" and "sl_answer sl = Some sdp" for sl sdp
    using that unfolding answers_inv_def answered_by_def list_all_iff net(1) by blast
  have offer: "heard_in n c (sm_peer m) (offer_message (sm_session_id m) (id_of n c) (sm_sdp m))"
    if "Offer m \<in> set (cn_sent ?k)" for m
    using written [OF that] by (simp add: heard_in_def offer_message_def)
  have answer: "heard_in n c (sm_peer m) (answer_message (sm_session_id m) (id_of n c) (sm_sdp m))"
    if "Answer m \<in> set (cn_sent ?k)" for m
    using written [OF that] by (simp add: heard_in_def answer_message_def)
  have "\<exists>p. heard_in n c p (answer_message (sl_session sl) (id_of n c) sdp)"
    if "sl \<in> set (sc_slots ?cl)" and "sl_answer sl = Some sdp" for sl sdp
  proof -
    from slots [OF that] obtain m where "Answer m \<in> set (cn_sent ?k)" "sm_session_id m = sl_session sl" "sm_sdp m = sdp"
      by blast
    with answer [of m] show ?thesis by auto
  qed
  with got offer answer show ?thesis by (simp add: authentic_def subset_iff)
qed

text \<open>A handshake: the second client offers, the first one answers, and the callback is called.\<close>

definition client_writes :: "conn_id \<Rightarrow> ws_client_message \<Rightarrow> net_action list" where
  "client_writes c m = map (NetClient c) [Send m, SenderTake, SenderWrite True] @ [NetReceive c]"

definition client_connects :: "conn_id \<Rightarrow> net_action list" where
  "client_connects c = NetWrite c # map (NetClient c) [Read, DeliverClient, ConnectTake, ConnectReturn,
     StartListener, DeliverMessage, Listen, sig_action.Forward, AppTake]"

definition client_reads :: "conn_id \<Rightarrow> net_action list" where
  "client_reads c = NetWrite c # map (NetClient c) [Read, DeliverMessage, Listen, sig_action.Forward, AppTake]"

definition handshake_run :: "net_action list" where
  "handshake_run =
     [NetConnect ''g'' (demo_peer 1) [] [], NetServer (SendHello 0)] @ client_connects 0 @
     [NetConnect ''g'' (demo_peer 2) [0] [demo_peer 1], NetServer (SendJoin 1), NetServer (SendHello 1)] @
     client_connects 1 @ client_reads 0 @ [NetClient 1 (OnAnswer ''s'')] @
     client_writes 1 (offer_message ''s'' 1 ''o'') @
     [NetServer (Handle 1 [(0, Offer \<lparr>sm_peer = demo_peer 2, sm_session_id = ''s'', sm_sdp = ''o''\<rparr>)]),
      NetServer (srv_action.Forward 1)] @ client_reads 0 @
     client_writes 0 (answer_message ''s'' 2 ''a'') @
     [NetServer (Handle 0 [(1, Answer \<lparr>sm_peer = demo_peer 1, sm_session_id = ''s'', sm_sdp = ''a''\<rparr>)]),
      NetServer (srv_action.Forward 0)] @ client_reads 1"

lemmas demo_client_text [simp] = client_text [OF demo_json_ok demo_uuid_ok]

lemma handshake:
  "\<exists>n. net_run demo_limits demo_wire handshake_run net_new = Some n \<and> length (nt_clients n) = 2 \<and>
     Offer \<lparr>sm_peer = demo_peer 2, sm_session_id = ''s'', sm_sdp = ''o''\<rparr> \<in> set (sc_app_got (nt_clients n ! 0)) \<and>
     sc_slots (nt_clients n ! 1) = [\<lparr>sl_session = ''s'', sl_alive = True, sl_answer = Some ''a''\<rparr>] \<and>
     cn_peer (sv_conns (nt_server n) ! 0) = demo_peer 1 \<and> cn_peer (sv_conns (nt_server n) ! 1) = demo_peer 2"
  by (simp add: handshake_run_def client_writes_def client_connects_def client_reads_def net_run_simps
      net_receive_def run_simps offer_message_def answer_message_def texts_def map_filter_simps)


lemma offers_and_answers_are_authentic_witness:
  "\<exists>n. net_run demo_limits demo_wire handshake_run net_new = Some n \<and>
     heard_in n 0 (demo_peer 2) (offer_message ''s'' 1 ''o'') \<and>
     sl_answer (sc_slots (nt_clients n ! 1) ! 0) = Some ''a'' \<and>
     (\<exists>p. heard_in n 1 p (answer_message ''s'' 2 ''a''))"
proof -
  obtain n where n: "net_run demo_limits demo_wire handshake_run net_new = Some n" "length (nt_clients n) = 2"
    "Offer \<lparr>sm_peer = demo_peer 2, sm_session_id = ''s'', sm_sdp = ''o''\<rparr> \<in> set (sc_app_got (nt_clients n ! 0))"
    "sc_slots (nt_clients n ! 1) = [\<lparr>sl_session = ''s'', sl_alive = True, sl_answer = Some ''a''\<rparr>]"
    "id_of n 0 = 1" "id_of n 1 = 2"
    using handshake by (auto simp: demo_peer_def)
  have "net_reachable demo_limits demo_wire n" using net_run_reachable [OF n(1) net_reachable_new] .
  note authentic = offers_and_answers_are_authentic [OF demo_json_ok demo_uuid_ok this]
  have "heard_in n 0 (demo_peer 2) (offer_message ''s'' 1 ''o'')"
    using authentic [of 0] n by (auto simp: authentic_def)
  moreover have "\<exists>p. heard_in n 1 p (answer_message ''s'' 2 ''a'')"
    using authentic [of 1] n by (auto simp: authentic_def)
  ultimately show ?thesis using n by auto
qed

end
