(* ===== verification/Server_Start.thy ===== *)
theory Server_Start
  imports Ws_Server
begin

text \<open>
  The start of the signaling server (server/src/main.rs and server/src/config): the settings from the
  environment, the state and the hourly job, the address it binds, and the only route.
\<close>

section \<open>Settings\<close>

text \<open>\<open>env\<close>: the variables of the environment (\<open>None\<close>: not set, or no Unicode).\<close>

type_synonym env = "string \<Rightarrow> string option"

definition var_or :: "env \<Rightarrow> string \<Rightarrow> string \<Rightarrow> string" where
  "var_or env name fallback = (case env name of Some v \<Rightarrow> v | None \<Rightarrow> fallback)"

text \<open>\<open>FromStr\<close> of an unsigned integer below \<open>bound\<close>: an optional plus sign and decimal digits; \<open>None\<close> for
  anything else and on overflow.\<close>

fun parse_digits :: "nat \<Rightarrow> nat \<Rightarrow> string \<Rightarrow> nat option" where
  "parse_digits bound n [] = Some n"
| "parse_digits bound n (c # cs) =
     (case digit_value 10 c of
        None \<Rightarrow> None
      | Some d \<Rightarrow> if bound \<le> n * 10 + d then None else parse_digits bound (n * 10 + d) cs)"

definition parse_unsigned :: "nat \<Rightarrow> string \<Rightarrow> nat option" where
  "parse_unsigned bound s =
     (case s of
        [] \<Rightarrow> None
      | c # cs \<Rightarrow>
          if c = CHR ''+'' then (if cs = [] then None else parse_digits bound 0 cs)
          else parse_digits bound 0 s)"

text \<open>\<open>MAX_CONNECTIONS\<close> and \<open>MAX_REQUESTS\<close>; \<open>None\<close> is a panic at the first use. A \<open>usize\<close> has 64 bits.\<close>

definition MAX_CONNECTIONS :: "env \<Rightarrow> nat option" where
  "MAX_CONNECTIONS env = parse_unsigned (2 ^ 64) (var_or env ''MAX_CONNECTIONS_PER_IP'' ''10'')"

definition MAX_REQUESTS :: "env \<Rightarrow> u32 option" where
  "MAX_REQUESTS env =
     map_option of_nat (parse_unsigned (2 ^ 32) (var_or env ''MAX_REQUESTS_PER_IP_PER_HOUR'' ''1000''))"

definition limits_of_env :: "env \<Rightarrow> limits option" where
  "limits_of_env env =
     Option.bind (MAX_CONNECTIONS env) (\<lambda>connections.
     map_option (\<lambda>requests. \<lparr>max_connections = connections, max_requests = requests\<rparr>) (MAX_REQUESTS env))"

section \<open>Start\<close>

text \<open>\<open>JobScheduler::new\<close>, \<open>add\<close> and \<open>start\<close>, with the schedule that the job is added under.\<close>

definition SCHEDULE :: string where
  "SCHEDULE = ''0 0 * * * *''"

definition configure_scheduling :: "(string \<Rightarrow> err + unit) \<Rightarrow> err + unit" where
  "configure_scheduling schedule = schedule SCHEDULE"

definition server_init :: "(string \<Rightarrow> err + unit) \<Rightarrow> server outcome" where
  "server_init schedule =
     (case configure_scheduling schedule of
        Inl _ \<Rightarrow> Panic ''Error configuring scheduler''
      | Inr _ \<Rightarrow> Done \<lparr>sv_maps = app_maps_new, sv_conns = []\<rparr>)"

definition bind_address :: "env \<Rightarrow> string" where
  "bind_address env = var_or env ''SERVER_IP'' ''0.0.0.0'' @ '':'' @ var_or env ''SERVER_PORT'' ''3000''"

text \<open>\<open>main\<close>: serving at an address with a state, or a panic; \<open>can_bind\<close>: whether the address can be bound.\<close>

definition server_main ::
  "env \<Rightarrow> (string \<Rightarrow> err + unit) \<Rightarrow> (string \<Rightarrow> bool) \<Rightarrow> (string \<times> server) outcome" where
  "server_main env schedule can_bind =
     (case server_init schedule of
        Done app_state \<Rightarrow>
          if can_bind (bind_address env) then Done (bind_address env, app_state)
          else Panic ''called Result::unwrap() on an Err value''
      | Panic p \<Rightarrow> Panic p
      | Fail e \<Rightarrow> Fail e
      | Await \<Rightarrow> Await)"

section \<open>The route\<close>

text \<open>A request: \<open>wr_rejected\<close> is the status with which the upgrade (\<open>WebSocketUpgrade\<close>) is refused, \<open>wr_d\<close> the
  parameter of the query.\<close>

record ws_request =
  wr_method :: string
  wr_path :: string
  wr_rejected :: "nat option"
  wr_d :: "string option"
  wr_forwarded :: "string option"
  wr_addr :: ip_addr

text \<open>The room and the peer that a socket is handled with, or the status of the response; \<open>get\<close> also
  takes \<open>HEAD\<close>.\<close>

definition configure_routes ::
  "crypto_lib \<Rightarrow> wire_lib \<Rightarrow> uuid \<Rightarrow> ws_request \<Rightarrow> nat + (string \<times> client_info)" where
  "configure_routes C L new_id r =
     (if wr_path r \<noteq> ''/v1/ws'' then Inl 404
      else if wr_method r \<notin> {''GET'', ''HEAD''} then Inl 405
      else case wr_rejected r of
        Some status \<Rightarrow> Inl status
      | None \<Rightarrow>
          (case wr_d r of
             None \<Rightarrow> Inl 400
           | Some d \<Rightarrow>
               (case ws_handler C L d (wr_forwarded r) (wr_addr r) new_id of
                  Inl e \<Rightarrow> Inl (fst (app_error_into_response e))
                | Inr room \<Rightarrow> Inr room)))"

section \<open>Lemmas\<close>

lemma digit_value_digit: "d < 10 \<Longrightarrow> digit_value 10 (digit d) = Some d"
  by (simp add: digit_value_def of_char_digit Let_def)

lemma parse_digits_snoc:
  "parse_digits bound n (cs @ [c]) =
     Option.bind (parse_digits bound n cs) (\<lambda>m. Option.bind (digit_value 10 c) (\<lambda>d.
       if bound \<le> m * 10 + d then None else Some (m * 10 + d)))"
  by (induction bound n cs rule: parse_digits.induct) (auto split: option.split)

text \<open>A number that was written in decimal is read back when it fits, and is an overflow otherwise.\<close>

lemma parse_digits_radix:
  "0 < bound \<Longrightarrow> parse_digits bound 0 (radix 10 n) = (if n < bound then Some n else None)"
proof (induction n rule: less_induct)
  case (less n)
  show ?case
  proof (cases "n < 10")
    case True
    then show ?thesis by (simp add: radix.simps [of 10 n] digit_value_digit)
  next
    case False
    then have "radix 10 n = radix 10 (n div 10) @ [digit (n mod 10)]" by (subst radix.simps) simp
    moreover have "n div 10 < n" using False by simp
    moreover have "n div 10 * 10 + n mod 10 = n" by simp
    ultimately show ?thesis
      using less.IH [of "n div 10"] less.prems by (auto simp: parse_digits_snoc digit_value_digit)
  qed
qed

lemma fmt_dec_first: "hd (fmt_dec n) \<noteq> CHR ''+''"
proof -
  have "hd (fmt_dec n) \<in> set (fmt_dec n)" by simp
  then obtain d where "hd (fmt_dec n) = digit d" "d < 10"
    using radix_chars [of 10 "hd (fmt_dec n)" n] unfolding fmt_dec_def by auto
  then show ?thesis using of_char_digit [of d] by auto
qed

lemma parse_unsigned_dec:
  assumes "0 < bound"
  shows "parse_unsigned bound (fmt_dec n) = (if n < bound then Some n else None)"
proof -
  obtain c cs where c: "fmt_dec n = c # cs" by (cases "fmt_dec n") simp_all
  then have "c \<noteq> CHR ''+''" using fmt_dec_first [of n] by simp
  then have "parse_unsigned bound (fmt_dec n) = parse_digits bound 0 (fmt_dec n)"
    unfolding c by (simp add: parse_unsigned_def)
  then show ?thesis unfolding fmt_dec_def using parse_digits_radix [OF assms] by simp
qed

text \<open>The limits that are set are the limits that are kept; a value that does not fit is a panic.\<close>

lemma limits_that_are_set:
  assumes "env ''MAX_CONNECTIONS_PER_IP'' = Some (fmt_dec m)" and "env ''MAX_REQUESTS_PER_IP_PER_HOUR'' = Some (fmt_dec n)"
  shows "limits_of_env env =
    (if m < 2 ^ 64 \<and> n < 2 ^ 32 then Some \<lparr>max_connections = m, max_requests = of_nat n\<rparr> else None)"
  by (simp add: limits_of_env_def MAX_CONNECTIONS_def MAX_REQUESTS_def var_or_def assms parse_unsigned_dec)

lemma server_starts:
  assumes "\<And>s. schedule s = Inr ()" and "\<And>a. can_bind a"
  shows "server_main env schedule can_bind = Done (bind_address env, server_new)"
  using assms by (simp add: server_main_def server_init_def configure_scheduling_def server_new_def)

lemma default_settings:
  "bind_address (\<lambda>_. None) = ''0.0.0.0:3000''"
  "limits_of_env (\<lambda>_. None) = Some \<lparr>max_connections = 10, max_requests = 1000\<rparr>"
  by (simp_all add: bind_address_def var_or_def limits_of_env_def MAX_CONNECTIONS_def MAX_REQUESTS_def
      parse_unsigned_def digit_value_def Let_def)

end
