(* ===== verification/Ffi_Mirror.thy ===== *)
theory Ffi_Mirror
  imports Dco_Codec
begin

text \<open>
  The mirrored types of the bridge: what the code generator was told about the types of the core
  (app/rust/src/api/model.rs and the end of app/rust/src/api/webrtc.rs), what the compiler checks of it
  (\<open>static_checks\<close> in app/rust/src/frb\_generated.rs), and the general form of a message in both codecs, of
  which every generated encoder is an instance.
\<close>

section \<open>Types and values of the bridge\<close>

text \<open>Fields and variants have names and an order; the only field of a variant like \<open>Offer(..)\<close> is \<open>field0\<close>.\<close>

datatype bridge_type =
    TU8
  | TU16
  | TU64
  | TBool
  | TString
  | TUuid
  | TOption bridge_type
  | TVec bridge_type
  | TMap bridge_type bridge_type
  | TStruct "(string \<times> bridge_type) list"
  | TCases "string list"
  | TEnum "(string \<times> (string \<times> bridge_type) list) list"

text \<open>A variant has its number and its name; \<open>VCase\<close> is one of an enum in which no variant has a field. No
  message has a map (the two mirrors with maps have no codec), so no value has the type of one.\<close>

datatype bridge_value =
    VU8 u8
  | VU16 u16
  | VU64 u64
  | VBool bool
  | VString string
  | VUuid uuid
  | VOption "bridge_value option"
  | VVec "bridge_value list"
  | VStruct "(string \<times> bridge_value) list"
  | VCase nat string
  | VVariant nat string "(string \<times> bridge_value) list"

fun has_type :: "bridge_type \<Rightarrow> bridge_value \<Rightarrow> bool"
  and has_fields :: "(string \<times> bridge_type) list \<Rightarrow> (string \<times> bridge_value) list \<Rightarrow> bool"
  and has_variant :: "(string \<times> (string \<times> bridge_type) list) list \<Rightarrow> nat \<Rightarrow> string \<Rightarrow>
    (string \<times> bridge_value) list \<Rightarrow> bool" where
  "has_type TU8 v \<longleftrightarrow> (case v of VU8 _ \<Rightarrow> True | _ \<Rightarrow> False)"
| "has_type TU16 v \<longleftrightarrow> (case v of VU16 _ \<Rightarrow> True | _ \<Rightarrow> False)"
| "has_type TU64 v \<longleftrightarrow> (case v of VU64 _ \<Rightarrow> True | _ \<Rightarrow> False)"
| "has_type TBool v \<longleftrightarrow> (case v of VBool _ \<Rightarrow> True | _ \<Rightarrow> False)"
| "has_type TString v \<longleftrightarrow> (case v of VString _ \<Rightarrow> True | _ \<Rightarrow> False)"
| "has_type TUuid v \<longleftrightarrow> (case v of VUuid _ \<Rightarrow> True | _ \<Rightarrow> False)"
| "has_type (TOption t) v \<longleftrightarrow> (case v of VOption x \<Rightarrow> pred_option (has_type t) x | _ \<Rightarrow> False)"
| "has_type (TVec t) v \<longleftrightarrow> (case v of VVec xs \<Rightarrow> list_all (has_type t) xs | _ \<Rightarrow> False)"
| "has_type (TMap k t) v \<longleftrightarrow> False"
| "has_type (TStruct fs) v \<longleftrightarrow> (case v of VStruct vs \<Rightarrow> has_fields fs vs | _ \<Rightarrow> False)"
| "has_type (TCases ns) v \<longleftrightarrow> (case v of VCase i name \<Rightarrow> i < length ns \<and> name = ns ! i | _ \<Rightarrow> False)"
| "has_type (TEnum cs) v \<longleftrightarrow> (case v of VVariant i name vs \<Rightarrow> has_variant cs i name vs | _ \<Rightarrow> False)"
| "has_fields [] vs \<longleftrightarrow> vs = []"
| "has_fields ((n, t) # fs) vs \<longleftrightarrow>
     (case vs of [] \<Rightarrow> False | (m, v) # vs' \<Rightarrow> m = n \<and> has_type t v \<and> has_fields fs vs')"
| "has_variant [] i name vs \<longleftrightarrow> False"
| "has_variant ((n, fs) # cs) i name vs \<longleftrightarrow>
     (case i of 0 \<Rightarrow> name = n \<and> has_fields fs vs | Suc j \<Rightarrow> has_variant cs j name vs)"

text \<open>The first codec: fields in their order without their names, the number of a variant as an \<open>i32\<close>.\<close>

fun encode_value :: "ffi_target \<Rightarrow> bridge_value \<Rightarrow> bytes" where
  "encode_value F (VU8 b) = sse_encode_u8 b"
| "encode_value F (VU16 w) = sse_encode_u16 F w"
| "encode_value F (VU64 w) = sse_encode_u64 F w"
| "encode_value F (VBool b) = sse_encode_bool b"
| "encode_value F (VString s) = sse_encode_string F s"
| "encode_value F (VUuid u) = sse_encode_uuid F u"
| "encode_value F (VOption x) =
     sse_encode_bool (x \<noteq> None) @ (case x of None \<Rightarrow> [] | Some v \<Rightarrow> encode_value F v)"
| "encode_value F (VVec vs) = sse_encode_i32 F (of_nat (length vs)) @ concat (map (encode_value F) vs)"
| "encode_value F (VStruct fs) = concat (map (\<lambda>(n, v). encode_value F v) fs)"
| "encode_value F (VCase i n) = sse_encode_i32 F (of_nat i)"
| "encode_value F (VVariant i n fs) = sse_encode_i32 F (of_nat i) @ concat (map (\<lambda>(n, v). encode_value F v) fs)"

text \<open>The second codec: a struct is the list of its fields, a variant the list of its number and its fields,
  or its number alone, and a missing value is null.\<close>

fun dart_value :: "'v dart_lib \<Rightarrow> bridge_value \<Rightarrow> 'v" where
  "dart_value L (VU8 b) = dl_int L (uint b)"
| "dart_value L (VU16 w) = dl_int L (uint w)"
| "dart_value L (VU64 w) = dl_u64 L w"
| "dart_value L (VBool b) = dl_bool L b"
| "dart_value L (VString s) = dl_string L s"
| "dart_value L (VUuid u) = dl_uuid L u"
| "dart_value L (VOption x) = (case x of None \<Rightarrow> dl_null L | Some v \<Rightarrow> dart_value L v)"
| "dart_value L (VVec vs) = dl_list L (map (dart_value L) vs)"
| "dart_value L (VStruct fs) = dl_list L (map (\<lambda>(n, v). dart_value L v) fs)"
| "dart_value L (VCase i n) = dl_int L (int i)"
| "dart_value L (VVariant i n fs) = dl_list L (dl_int L (int i) # map (\<lambda>(n, v). dart_value L v) fs)"

section \<open>Mirrors of the HTTP API and of files (api/model.rs)\<close>

definition mirror_device_type :: bridge_type where
  "mirror_device_type = TCases [''Mobile'', ''Desktop'', ''Web'', ''Headless'', ''Server'']"

definition mirror_protocol_type :: bridge_type where
  "mirror_protocol_type = TCases [''Http'', ''Https'']"

definition mirror_register_dto :: bridge_type where
  "mirror_register_dto = TStruct [(''alias'', TString),
     (''version'', TString),
     (''device_model'', TOption TString),
     (''device_type'', TOption mirror_device_type),
     (''token'', TString),
     (''port'', TU16),
     (''protocol'', mirror_protocol_type),
     (''has_web_interface'', TBool)]"

definition mirror_register_response_dto :: bridge_type where
  "mirror_register_response_dto = TStruct [(''alias'', TString),
     (''version'', TString),
     (''device_model'', TOption TString),
     (''device_type'', TOption mirror_device_type),
     (''token'', TString),
     (''has_web_interface'', TBool)]"

definition mirror_file_metadata :: bridge_type where
  "mirror_file_metadata = TStruct [(''modified'', TOption TString),
     (''accessed'', TOption TString)]"

definition mirror_file_dto :: bridge_type where
  "mirror_file_dto = TStruct [(''id'', TString),
     (''file_name'', TString),
     (''size'', TU64),
     (''file_type'', TString),
     (''sha256'', TOption TString),
     (''preview'', TOption TString),
     (''metadata'', TOption mirror_file_metadata)]"

definition mirror_prepare_upload_request_dto :: bridge_type where
  "mirror_prepare_upload_request_dto = TStruct [(''info'', mirror_register_dto),
     (''files'', TMap TString mirror_file_dto)]"

definition mirror_prepare_upload_response_dto :: bridge_type where
  "mirror_prepare_upload_response_dto = TStruct [(''session_id'', TString),
     (''files'', TMap TString TString)]"

section \<open>Mirrors of a session (api/webrtc.rs)\<close>

definition mirror_pin_config :: bridge_type where
  "mirror_pin_config = TStruct [(''pin'', TString),
     (''max_tries'', TU8)]"

definition mirror_client_info :: bridge_type where
  "mirror_client_info = TStruct [(''id'', TUuid),
     (''alias'', TString),
     (''version'', TString),
     (''device_model'', TOption TString),
     (''device_type'', TOption mirror_device_type),
     (''token'', TString)]"

definition mirror_client_info_without_id :: bridge_type where
  "mirror_client_info_without_id = TStruct [(''alias'', TString),
     (''version'', TString),
     (''device_model'', TOption TString),
     (''device_type'', TOption mirror_device_type),
     (''token'', TString)]"

definition mirror_ws_server_sdp_message :: bridge_type where
  "mirror_ws_server_sdp_message = TStruct [(''peer'', mirror_client_info),
     (''session_id'', TString),
     (''sdp'', TString)]"

definition mirror_ws_server_message :: bridge_type where
  "mirror_ws_server_message = TEnum
     [(''Hello'', [(''client'', mirror_client_info), (''peers'', TVec mirror_client_info)]),
      (''Join'', [(''peer'', mirror_client_info)]),
      (''Update'', [(''peer'', mirror_client_info)]),
      (''Left'', [(''peer_id'', TUuid)]),
      (''Offer'', [(''field0'', mirror_ws_server_sdp_message)]),
      (''Answer'', [(''field0'', mirror_ws_server_sdp_message)]),
      (''Error'', [(''code'', TU16)])]"

definition mirror_rtc_status :: bridge_type where
  "mirror_rtc_status = TEnum
     [(''SdpExchanged'', []), (''Connected'', []), (''PinRequired'', []), (''TooManyAttempts'', []),
      (''Declined'', []), (''Sending'', []), (''Finished'', []), (''Error'', [(''field0'', TString)])]"

definition mirror_rtc_file_error :: bridge_type where
  "mirror_rtc_file_error = TStruct [(''file_id'', TString),
     (''error'', TString)]"

definition mirror_rtc_send_file_response :: bridge_type where
  "mirror_rtc_send_file_response = TStruct [(''id'', TString),
     (''success'', TBool),
     (''error'', TOption TString)]"

section \<open>What the compiler checks\<close>

text \<open>Each check takes a value of the type of the core apart: every field, at the type it has to have. The
  variants of \<open>DeviceType\<close> are those of its encoder.\<close>

abbreviation text_field :: "string option \<Rightarrow> bridge_value" where
  "text_field x \<equiv> VOption (map_option VString x)"

fun read_device_type :: "device_type \<Rightarrow> bridge_value" where
  "read_device_type Mobile = VCase 0 ''Mobile''"
| "read_device_type Desktop = VCase 1 ''Desktop''"
| "read_device_type Web = VCase 2 ''Web''"
| "read_device_type Headless = VCase 3 ''Headless''"
| "read_device_type Server = VCase 4 ''Server''"

definition check_client_info :: "client_info \<Rightarrow> bridge_value" where
  "check_client_info x = VStruct [(''id'', VUuid (ci_id x)),
     (''alias'', VString (ci_alias x)),
     (''version'', VString (ci_version x)),
     (''device_model'', text_field (ci_device_model x)),
     (''device_type'', VOption (map_option read_device_type (ci_device_type x))),
     (''token'', VString (ci_token x))]"

definition check_client_info_without_id :: "client_info_without_id \<Rightarrow> bridge_value" where
  "check_client_info_without_id x = VStruct [(''alias'', VString (cw_alias x)),
     (''version'', VString (cw_version x)),
     (''device_model'', text_field (cw_device_model x)),
     (''device_type'', VOption (map_option read_device_type (cw_device_type x))),
     (''token'', VString (cw_token x))]"

definition check_file_metadata :: "file_metadata \<Rightarrow> bridge_value" where
  "check_file_metadata x = VStruct [(''modified'', text_field (modified x)),
     (''accessed'', text_field (accessed x))]"

definition check_file_dto :: "file_dto \<Rightarrow> bridge_value" where
  "check_file_dto x = VStruct [(''id'', VString (fd_id x)),
     (''file_name'', VString (fd_file_name x)),
     (''size'', VU64 (fd_size x)),
     (''file_type'', VString (fd_file_type x)),
     (''sha256'', text_field (fd_sha256 x)),
     (''preview'', text_field (fd_preview x)),
     (''metadata'', VOption (map_option check_file_metadata (fd_metadata x)))]"

definition check_pin_config :: "pin_config \<Rightarrow> bridge_value" where
  "check_pin_config x = VStruct [(''pin'', VString (pc_pin x)),
     (''max_tries'', VU8 (pc_max_tries x))]"

text \<open>The errors of these fields are texts in the source.\<close>

definition check_rtc_file_error :: "ffi_target \<Rightarrow> rtc_file_error \<Rightarrow> bridge_value" where
  "check_rtc_file_error F x = VStruct [(''file_id'', VString (fe_file_id x)),
     (''error'', VString (err_text F (fe_error x)))]"

definition check_rtc_send_file_response :: "rtc_send_file_response \<Rightarrow> bridge_value" where
  "check_rtc_send_file_response x = VStruct [(''id'', VString (fr_id x)),
     (''success'', VBool (fr_success x)),
     (''error'', text_field (fr_error x))]"

fun check_rtc_status :: "ffi_target \<Rightarrow> rtc_status \<Rightarrow> bridge_value" where
  "check_rtc_status F StSdpExchanged = VVariant 0 ''SdpExchanged'' []"
| "check_rtc_status F StConnected = VVariant 1 ''Connected'' []"
| "check_rtc_status F StPinRequired = VVariant 2 ''PinRequired'' []"
| "check_rtc_status F StTooManyAttempts = VVariant 3 ''TooManyAttempts'' []"
| "check_rtc_status F StDeclined = VVariant 4 ''Declined'' []"
| "check_rtc_status F StSending = VVariant 5 ''Sending'' []"
| "check_rtc_status F StFinished = VVariant 6 ''Finished'' []"
| "check_rtc_status F (StError e) = VVariant 7 ''Error'' [(''field0'', VString (err_text F e))]"

definition check_ws_server_sdp_message :: "ws_server_sdp_message \<Rightarrow> bridge_value" where
  "check_ws_server_sdp_message x = VStruct [(''peer'', check_client_info (sm_peer x)),
     (''session_id'', VString (sm_session_id x)),
     (''sdp'', VString (sm_sdp x))]"

fun check_ws_server_message :: "ws_server_message \<Rightarrow> bridge_value" where
  "check_ws_server_message (Hello client peers) = VVariant 0 ''Hello''
     [(''client'', check_client_info client), (''peers'', VVec (map check_client_info peers))]"
| "check_ws_server_message (Join peer) = VVariant 1 ''Join'' [(''peer'', check_client_info peer)]"
| "check_ws_server_message (Update peer) = VVariant 2 ''Update'' [(''peer'', check_client_info peer)]"
| "check_ws_server_message (Left peer_id) = VVariant 3 ''Left'' [(''peer_id'', VUuid peer_id)]"
| "check_ws_server_message (Offer m) = VVariant 4 ''Offer'' [(''field0'', check_ws_server_sdp_message m)]"
| "check_ws_server_message (Answer m) = VVariant 5 ''Answer'' [(''field0'', check_ws_server_sdp_message m)]"
| "check_ws_server_message (ErrorCode code) = VVariant 6 ''Error'' [(''code'', VU16 code)]"

section \<open>Mirrors agree with the core and with the generated code\<close>

text \<open>A type of the core, its mirror, its check and its encoders belong together when the check succeeds for
  every value and each codec writes it in the form of the mirror.\<close>

definition mirrors :: "ffi_target \<Rightarrow> 'v dart_lib \<Rightarrow> bridge_type \<Rightarrow> ('a \<Rightarrow> bridge_value) \<Rightarrow> ('a \<Rightarrow> bytes) \<Rightarrow> ('a \<Rightarrow> 'v) \<Rightarrow> bool" where
  "mirrors F L t check enc into \<longleftrightarrow>
     (\<forall>x. has_type t (check x) \<and> enc x = encode_value F (check x) \<and> into x = dart_value L (check x))"

lemma mirrorsD:
  assumes "mirrors F L t check enc into"
  shows "has_type t (check x)" "enc x = encode_value F (check x)" "into x = dart_value L (check x)"
  using assms by (simp_all add: mirrors_def)

lemma mirrors_option:
  assumes "mirrors F L t check enc into"
  shows "pred_option (has_type t) (map_option check x)"
    "sse_encode_option enc x = encode_value F (VOption (map_option check x))"
    "into_dart_option L into x = dart_value L (VOption (map_option check x))"
  using assms by (cases x; simp add: mirrors_def sse_encode_option_def into_dart_option_def)+

lemma mirrors_vec:
  assumes "mirrors F L t check enc into"
  shows "list_all (has_type t) (map check xs)"
    "sse_encode_vec F enc xs = encode_value F (VVec (map check xs))"
    "into_dart_vec L into xs = dart_value L (VVec (map check xs))"
proof -
  have "enc = (\<lambda>x. encode_value F (check x))" "into = (\<lambda>x. dart_value L (check x))"
    using assms by (auto simp: mirrors_def)
  then show "sse_encode_vec F enc xs = encode_value F (VVec (map check xs))"
    "into_dart_vec L into xs = dart_value L (VVec (map check xs))"
    by (simp_all add: sse_encode_vec_def into_dart_vec_def comp_def)
  show "list_all (has_type t) (map check xs)"
    using assms by (simp add: mirrors_def list_all_iff)
qed

lemma text_field_type [simp]:
  "pred_option (has_type TString) (map_option VString x)"
  "sse_encode_option (sse_encode_string F) x = encode_value F (text_field x)"
  "into_dart_option L (dl_string L) x = dart_value L (text_field x)"
  by (cases x; simp add: sse_encode_option_def into_dart_option_def)+

lemma mirrors_device_type:
  "mirrors F L mirror_device_type read_device_type (sse_encode_device_type F) (into_dart_device_type L)"
proof -
  have "has_type mirror_device_type (read_device_type x) \<and>
      sse_encode_device_type F x = encode_value F (read_device_type x) \<and>
      into_dart_device_type L x = dart_value L (read_device_type x)" for x
    by (cases x) (simp_all add: mirror_device_type_def sse_encode_device_type_def into_dart_device_type_def)
  then show ?thesis by (simp add: mirrors_def)
qed

lemmas device_type_fields [simp] = mirrors_option [OF mirrors_device_type]

lemma mirrors_file_metadata:
  "mirrors F L mirror_file_metadata check_file_metadata (sse_encode_file_metadata F) (into_dart_file_metadata L)"
  by (simp add: mirrors_def mirror_file_metadata_def check_file_metadata_def sse_encode_file_metadata_def
      into_dart_file_metadata_def)

lemmas file_metadata_fields [simp] = mirrors_option [OF mirrors_file_metadata]

lemma mirrors_files:
  "mirrors F L mirror_file_dto check_file_dto (sse_encode_file_dto F) (into_dart_file_dto L)"
  "mirrors F L mirror_pin_config check_pin_config (sse_encode_pin_config F) (into_dart_pin_config L)"
  "mirrors F L mirror_rtc_file_error (check_rtc_file_error F) (sse_encode_rtc_file_error F) (into_dart_rtc_file_error F L)"
  "mirrors F L mirror_rtc_send_file_response check_rtc_send_file_response (sse_encode_rtc_send_file_response F)
    (into_dart_rtc_send_file_response L)"
  by (simp_all add: mirrors_def mirror_file_dto_def check_file_dto_def sse_encode_file_dto_def into_dart_file_dto_def
      mirror_pin_config_def check_pin_config_def sse_encode_pin_config_def into_dart_pin_config_def
      mirror_rtc_file_error_def check_rtc_file_error_def sse_encode_rtc_file_error_def sse_encode_err_def
      into_dart_rtc_file_error_def mirror_rtc_send_file_response_def check_rtc_send_file_response_def
      sse_encode_rtc_send_file_response_def into_dart_rtc_send_file_response_def)

lemma mirrors_client_info:
  "mirrors F L mirror_client_info check_client_info (sse_encode_client_info F) (into_dart_client_info L)"
  "mirrors F L mirror_client_info_without_id check_client_info_without_id (sse_encode_client_info_without_id F)
    (into_dart_client_info_without_id L)"
  by (simp_all add: mirrors_def mirror_client_info_def check_client_info_def sse_encode_client_info_def
      into_dart_client_info_def mirror_client_info_without_id_def check_client_info_without_id_def
      sse_encode_client_info_without_id_def into_dart_client_info_without_id_def)

lemmas client_info_fields [simp] = mirrorsD [OF mirrors_client_info(1)] mirrors_vec [OF mirrors_client_info(1)]

lemma mirrors_ws_server_sdp_message:
  "mirrors F L mirror_ws_server_sdp_message check_ws_server_sdp_message (sse_encode_ws_server_sdp_message F)
    (into_dart_ws_server_sdp_message L)"
  by (simp add: mirrors_def mirror_ws_server_sdp_message_def check_ws_server_sdp_message_def
      sse_encode_ws_server_sdp_message_def into_dart_ws_server_sdp_message_def)

lemma mirrors_rtc_status:
  "mirrors F L mirror_rtc_status (check_rtc_status F) (sse_encode_rtc_status F) (into_dart_rtc_status F L)"
proof -
  have "has_type mirror_rtc_status (check_rtc_status F x) \<and>
      sse_encode_rtc_status F x = encode_value F (check_rtc_status F x) \<and>
      into_dart_rtc_status F L x = dart_value L (check_rtc_status F x)" for x
    by (cases x) (simp_all add: mirror_rtc_status_def sse_encode_err_def)
  then show ?thesis by (simp add: mirrors_def)
qed

lemma mirrors_ws_server_message:
  "mirrors F L mirror_ws_server_message check_ws_server_message (sse_encode_ws_server_message F)
    (into_dart_ws_server_message L)"
proof -
  note sdp = mirrorsD [OF mirrors_ws_server_sdp_message]
  have "has_type mirror_ws_server_message (check_ws_server_message x) \<and>
      sse_encode_ws_server_message F x = encode_value F (check_ws_server_message x) \<and>
      into_dart_ws_server_message L x = dart_value L (check_ws_server_message x)" for x
    by (cases x) (simp_all add: mirror_ws_server_message_def sdp)
  then show ?thesis by (simp add: mirrors_def)
qed


end
