(* ===== verification/Unit_Tests.thy ===== *)
theory Unit_Tests
  imports Token_Props Signaling_Msg Net Chunking Rtc_Msg Cert
begin

text \<open>
  The unit tests of the sources (the modules \<open>tests\<close> of server/src/util/ip.rs, core/src/crypto/token.rs,
  core/src/crypto/cert.rs, core/src/webrtc/webrtc.rs and core/src/webrtc/signaling.rs), translated into
  predicates on the model: a test is true when all of its assertions hold. Those of signaling.rs do not
  hold, whatever the libraries do; the others do when the libraries keep their contracts.
\<close>

section \<open>Address groups (ip.rs)\<close>

definition test_get_ip_group :: bool where
  "test_get_ip_group \<longleftrightarrow>
     map_option get_ip_group (ip_from_str ''1.2.3.4'') = Some ''1.2.3.4'' \<and>
     map_option get_ip_group (ip_from_str ''1:2:3:4:5:6:7:8'') = Some ''1:2:3:4'' \<and>
     map_option get_ip_group (ip_from_str ''a:b:c:d:e:f:0:1'') = Some ''a:b:c:d''"

definition group_end :: "string \<Rightarrow> bool" where
  "group_end rest \<longleftrightarrow> rest = [] \<or> hd rest = CHR '':''"

lemma group_end_simps [simp]: "group_end []" "group_end (CHR '':'' # cs)"
  by (simp_all add: group_end_def)

lemma colon_no_digit: "digit_value b CHR '':'' = None" if "b \<le> 36"
  using that by (simp add: digit_value_def Let_def)

lemma digit_bound: "digit_value b c = Some d \<Longrightarrow> d < b"
  by (auto simp: digit_value_def Let_def split: if_splits)

lemma read_digits_end: "group_end rest \<Longrightarrow> b \<le> 36 \<Longrightarrow> read_digits b k bound n count rest = Some (n, count, rest)"
  by (cases rest) (auto simp: group_end_def colon_no_digit)

lemma read_group:
  "digit_value 16 c = Some d \<Longrightarrow> group_end rest \<Longrightarrow> read_number 16 4 65536 True (c # rest) = Some (d, rest)"
  using digit_bound [of 16 c d] by (simp add: read_number_def read_digits_end)

lemma read_no_ipv4: "group_end rest \<Longrightarrow> read_ipv4_addr (c # rest) = None"
proof -
  assume e: "group_end rest"
  have "read_octet 0 (c # rest) = None \<or> (\<exists>d. read_octet 0 (c # rest) = Some (d, rest))"
    using e by (auto simp: read_octet_def read_separator_def read_number_def read_digits_end split: option.split)
  moreover have "read_octet 1 rest = None"
    using e by (cases rest) (auto simp: group_end_def read_octet_def read_separator_def read_char_def)
  ultimately show ?thesis by (auto simp: read_ipv4_addr_def)
qed

lemma read_groups_first:
  "digit_value 16 c = Some d \<Longrightarrow> group_end rest \<Longrightarrow> read_groups 0 (Suc n) (c # rest) =
   (let (gs, v4, rest') = read_groups 1 n rest in (of_nat d # gs, v4, rest'))"
  by (simp add: read_separator_def read_no_ipv4 read_group)

lemma read_groups_next:
  "digit_value 16 c = Some d \<Longrightarrow> group_end rest \<Longrightarrow> read_groups (Suc i) (Suc n) (CHR '':'' # c # rest) =
   (let (gs, v4, rest') = read_groups (Suc (Suc i)) n rest in (of_nat d # gs, v4, rest'))"
  by (simp add: read_separator_def read_char_def read_no_ipv4 read_group)

lemma hex_digits:
  "digit_value 16 CHR ''0'' = Some 0" "digit_value 16 CHR ''1'' = Some 1" "digit_value 16 CHR ''2'' = Some 2"
  "digit_value 16 CHR ''3'' = Some 3" "digit_value 16 CHR ''4'' = Some 4" "digit_value 16 CHR ''5'' = Some 5"
  "digit_value 16 CHR ''6'' = Some 6" "digit_value 16 CHR ''7'' = Some 7" "digit_value 16 CHR ''8'' = Some 8"
  "digit_value 16 CHR ''a'' = Some 10" "digit_value 16 CHR ''b'' = Some 11" "digit_value 16 CHR ''c'' = Some 12"
  "digit_value 16 CHR ''d'' = Some 13" "digit_value 16 CHR ''e'' = Some 14" "digit_value 16 CHR ''f'' = Some 15"
  by (simp_all add: digit_value_def)

lemma read_eight: "read_groups 0 8 s = read_groups 0 (Suc (Suc (Suc (Suc (Suc (Suc (Suc (Suc 0)))))))) s"
  by (rule arg_cong [where f = "\<lambda>n. read_groups 0 n s"]) simp

lemma test_addresses:
  "ip_from_str ''1.2.3.4'' = Some (V4 1 2 3 4)"
  "ip_from_str ''1:2:3:4:5:6:7:8'' = Some (V6 1 2 3 4 5 6 7 8)"
  "ip_from_str ''a:b:c:d:e:f:0:1'' = Some (V6 10 11 12 13 14 15 0 1)"
  by (simp_all add: ip_from_str_def read_no_ipv4 read_ipv6_addr_def read_eight read_groups_first read_groups_next
      hex_digits Let_def ipv6_of_segments_def del: read_groups.simps(2))
    (simp add: read_ipv4_addr_def read_octet_def read_separator_def read_number_def read_char_def digit_value_def Let_def)

lemma test_get_ip_group_passes: "test_get_ip_group"
  by (simp add: test_get_ip_group_def test_addresses fmt_ipv4_def fmt_dec_def fmt_hex_def radix.simps digit_def
      char_of_def bit_simps)

section \<open>Keys and tokens (token.rs)\<close>

definition test_generate_key :: "crypto_lib \<Rightarrow> (nat \<Rightarrow> u8) \<Rightarrow> bool" where
  "test_generate_key C csprng \<longleftrightarrow>
     (let key = generate_key C csprng
      in case export_private_key C key of
           Inl _ \<Rightarrow> False
         | Inr pem \<Rightarrow> (case parse_private_key C pem of Inl _ \<Rightarrow> False | Inr parsed \<Rightarrow> sk_inner parsed = sk_inner key))"

definition test_sign_verify :: "crypto_lib \<Rightarrow> (nat \<Rightarrow> u8) \<Rightarrow> bool" where
  "test_sign_verify C csprng \<longleftrightarrow>
     (let key = generate_key C csprng;
          data = utf8 ''hello world'';
          signature = ed_sign C (sk_inner key) data
      in key_verify C (to_verifying_key C key) data signature = Inr ())"

text \<open>The clock is read twice.\<close>

definition test_fingerprint :: "crypto_lib \<Rightarrow> (nat \<Rightarrow> u8) \<Rightarrow> bool \<Rightarrow> u64 \<Rightarrow> u64 \<Rightarrow> bool" where
  "test_fingerprint C csprng checks now now' \<longleftrightarrow>
     (let key = generate_key C csprng
      in case generate_token_timestamp C (Some now) key of
           Inl _ \<Rightarrow> False
         | Inr fingerprint \<Rightarrow>
             verify_token_timestamp C checks (Some now') (to_verifying_key C key) fingerprint = Done True)"

lemma token_tests_pass:
  assumes "ed_to_pkcs8_pem C (ed_generate C csprng) \<noteq> None"
    and "ed_key_der C (ed_verifying_key C (ed_generate C csprng)) \<noteq> None" and "now \<le> now'" and "now' - now \<le> 60 * 60"
  shows "pem_ok C \<Longrightarrow> test_generate_key C csprng" and "sign_ok C \<Longrightarrow> test_sign_verify C csprng"
    and "b64_ok C \<Longrightarrow> sign_ok C \<Longrightarrow> test_fingerprint C csprng checks now now'"
proof -
  show "pem_ok C \<Longrightarrow> test_generate_key C csprng"
    using assms(1) by (auto simp: test_generate_key_def export_private_key_def parse_private_key_def generate_key_def
        pem_ok_def Let_def)
  show "test_sign_verify C csprng" if "sign_ok C"
  proof -
    obtain sg where "ed_signature_from_slice C (ed_sign C (ed_generate C csprng) (utf8 ''hello world'')) = Some sg"
      "ed_verify C (ed_verifying_key C (ed_generate C csprng)) (utf8 ''hello world'') sg"
      using \<open>sign_ok C\<close> unfolding sign_ok_def by blast
    then show ?thesis by (simp add: test_sign_verify_def to_verifying_key_def generate_key_def Let_def)
  qed
  show "test_fingerprint C csprng checks now now'" if "b64_ok C" and "sign_ok C"
  proof -
    obtain token where token: "generate_token_nonce C (generate_key C csprng) (to_le_bytes now) = Inr token"
      using assms(2) by (auto simp: generate_token_nonce_def generate_key_def Let_def)
    note verify_generated [OF that token]
    then show ?thesis
      using assms(3,4) by (simp add: test_fingerprint_def generate_token_timestamp_def token Let_def
          verify_token_timestamp_def verify_salt_timestamp_def from_to_le_bytes not_less)
  qed
qed

section \<open>Certificates (cert.rs)\<close>

definition TEST_CERT_KEY :: string where
  "TEST_CERT_KEY = join_on (CHR 0x0A)
    [''-----BEGIN PUBLIC KEY-----'',
     ''MIIBIjANBgkqhkiG9w0BAQEFAAOCAQ8AMIIBCgKCAQEAi9uDMYRn63SZtEPGRogZ'',
     ''Gdu5XXBAoQeMO60mycoinqLKDWyZdpMo+XWY3wYVhoAyxgzDOcPjIf+Uq1oEy/0K'',
     ''4WwfpbK8SCy851qgYkfMCT9D9mFvXwWoULJCUHFF7f947ArDE1nmuK1nNx2RodN2'',
     ''wJCXyzPjw0jn06bwGeg0EqfUC8wvW4FTZ6t1tErzmRqRdMUWuCJwsk1IMbDbFePh'',
     ''iK5jecOBG0RVVWLuw+TkuX8TUgrpIktH2+qEM1KdLyAMnL71hx2wMvE+lDKFKK9p'',
     ''37zXK8omjl+VgTC8ocjGeYDDsl43ZtW09V0pb7Vz2FM8b7BgM06kvJl48PIe5puY'',
     ''bQIDAQAB'',
     ''-----END PUBLIC KEY-----'']"

definition TEST_CERT :: string where
  "TEST_CERT = join_on (CHR 0x0A)
    [''-----BEGIN CERTIFICATE-----'',
     ''MIIDGTCCAgGgAwIBAgIBATANBgkqhkiG9w0BAQsFADBQMRcwFQYDVQQDEw5Mb2Nh'',
     ''bFNlbmQgVXNlcjEJMAcGA1UEChMAMQkwBwYDVQQLEwAxCTAHBgNVBAcTADEJMAcG'',
     ''A1UECBMAMQkwBwYDVQQGEwAwHhcNMjUwMjA5MDAwMzE0WhcNMzUwMjA3MDAwMzE0'',
     ''WjBQMRcwFQYDVQQDEw5Mb2NhbFNlbmQgVXNlcjEJMAcGA1UEChMAMQkwBwYDVQQL'',
     ''EwAxCTAHBgNVBAcTADEJMAcGA1UECBMAMQkwBwYDVQQGEwAwggEiMA0GCSqGSIb3'',
     ''DQEBAQUAA4IBDwAwggEKAoIBAQCL24MxhGfrdJm0Q8ZGiBkZ27ldcEChB4w7rSbJ'',
     ''yiKeosoNbJl2kyj5dZjfBhWGgDLGDMM5w+Mh/5SrWgTL/QrhbB+lsrxILLznWqBi'',
     ''R8wJP0P2YW9fBahQskJQcUXt/3jsCsMTWea4rWc3HZGh03bAkJfLM+PDSOfTpvAZ'',
     ''6DQSp9QLzC9bgVNnq3W0SvOZGpF0xRa4InCyTUgxsNsV4+GIrmN5w4EbRFVVYu7D'',
     ''5OS5fxNSCukiS0fb6oQzUp0vIAycvvWHHbAy8T6UMoUor2nfvNcryiaOX5WBMLyh'',
     ''yMZ5gMOyXjdm1bT1XSlvtXPYUzxvsGAzTqS8mXjw8h7mm5htAgMBAAEwDQYJKoZI'',
     ''hvcNAQELBQADggEBABZ+I7D6wkeSrsi1NBLP2zoZ5oGh+INNcGTravfOQHs4Fbas'',
     ''/CysaUYjsD3fmaDh4MxgWEqAmWnnBiojfpGX2SGuFqRBKyT9DgitBt0L7Ezg1k3h'',
     ''bfSiFW4hXWp75grVO8xfML7ZcWMlhKrOsOMUGiy1qs3qsyJ3w7B2Tz78HhXGO5dd'',
     ''jyPmZarhixKO92UpEvKGxjO0E/3UUNUzxKTAAgFfhKpuwHUgIijM/EppZtA8OcSh'',
     ''fEztiV0xKfcPVx4d6dqRt/NMElK1Ivw2vUuxTymphZkkFOzht9m73/kyKaeFp8Ij'',
     ''VRus1zGVD8IVpIdPMyz01WJyS7M0fWaHXKWo+Bo='',
     ''-----END CERTIFICATE-----'']"

definition TEST_CERT_INVALID_SIGNATURE :: string where
  "TEST_CERT_INVALID_SIGNATURE = join_on (CHR 0x0A)
    [''-----BEGIN CERTIFICATE-----'',
     ''MIIDGTCCAgGgAwIBAgIBATANBgkqhkiG9w0BAQsFADBQMRcwFQYDVQQDEw5Mb2Nh'',
     ''bFNlbmQgVXNlcjEJMAcGA1UEChMAMQkwBwYDVQQLEwAxCTAHBgNVBAcTADEJMAcG'',
     ''A1UECBMAMQkwBwYDVQQGEwAwHhcNMjUwMjA5MDAwMzE0WhcNMzUwMjA3MDAwMzE0'',
     ''WjBQMRcwFQYDVQQDEw5Mb2NhbFNlbmQgVXNlcjEJMAcGA1UEChMAMQkwBwYDVQQL'',
     ''EwAxCTAHBgNVBAcTADEJMAcGA1UECBMAMQkwBwYDVQQGEwAwggEiMA0GCSqGSIb3'',
     ''DQEBAQUAA4IBDwAwggEKAoIBAQCL24MxhGfrdJm0Q8ZGiBkZ27ldcEChB4w7rSbJ'',
     ''yiKeosoNbJl2kyj5dZjfBhWGgDLGDMM5w+Mh/5SrWgTL/QrhbB+lsrxILLznWqBi'',
     ''R8wJP0P2YW9fBahQskJQcUXt/3jsCsMTWea4rWc3HZGh03bAkJfLM+PDSOfTpvAZ'',
     ''6DQSp9QLzC9bgVNnq3W0SvOZGpF0xRa4InCyTUgxsNsV4+GIrmN5w4EbRFVVYu7D'',
     ''5OS5fxNSCukiS0fb6oQzUp0vIAycvvWHHbAy8T6UMoUor2nfvNcryiaOX5WBMLyh'',
     ''yMZ5gMOyXjdm1bT1XSlvtXPYUzxvsGAzTqS8mXjw8h7mm5htAgMBAAEwDQYJKoZI'',
     ''hvcNAQELBQADggEBABZ+I7D6wkeSrsi1NBLP2zoZ5oGh+INNcGTravfOQHs4Fbas'',
     ''/CysaUYjsD3fmaDh4MxgWEqAmWnnBiojfpGX2SGuFqRBKyT9DgitBt0L7Ezg1k3h'',
     ''bfSiFW4hXWp75grVO8xfML7ZcWMlhKrOsOMUGiy1qs3qsyJ3w7B2Tz78HhXGO5dd'',
     ''jyPmZarhixKO92UpEvKGxjO0E/3UUNUzxKTAAgFfhKpuwHUgIijM/EppZtA8OcSh'',
     ''fEztiV0xKfcPVx4d6dqRt/NMElK1Ivw2vUuxTymphZkkFOzht9m73/kyKaeFp8Ij'',
     ''VRus1zGVD8IVpIdPMyz01WJySwAAAAAAAAAAAAA='',
     ''-----END CERTIFICATE-----'']"

definition TEST_CERT_INVALID_PUBLIC_KEY :: string where
  "TEST_CERT_INVALID_PUBLIC_KEY = join_on (CHR 0x0A)
    [''-----BEGIN CERTIFICATE-----'',
     ''MIIDGTCCAgGgAwIBAgIBATANBgkqhkiG9w0BAQsFADBQMRcwFQYDVQQDEw5Mb2Nh'',
     ''bFNlbmQgVXNlcjEJMAcGA1UEChMAMQkwBwYDVQQLEwAxCTAHBgNVBAcTADEJMAcG'',
     ''A1UECBMAMQkwBwYDVQQGEwAwHhcNMjUwMjA5MDI1ODQxWhcNMzUwMjA3MDI1ODQx'',
     ''WjBQMRcwFQYDVQQDEw5Mb2NhbFNlbmQgVXNlcjEJMAcGA1UEChMAMQkwBwYDVQQL'',
     ''EwAxCTAHBgNVBAcTADEJMAcGA1UECBMAMQkwBwYDVQQGEwAwggEiMA0GCSqGSIb3'',
     ''DQEBAQUAA4IBDwAwggEKAoIBAQCnrVjQQ0mAfBaucJd5rbZX9usLROwHDuXdczFq'',
     ''XJhb8pPjEF18FoDHzobjz5JWq+GDkBmcg0k6+AeETGQEaJisZDBWH7NOjJahGGnQ'',
     ''0okw1iVUoEpQ26ZSFkr3H5NNtGAa6EkS4xb0bsEDb3vs69zRvFyrVd6OEqmdsRy3'',
     ''aU2AvAMoLthgY8bUZ/XyWpbA8euV3VjkRSHsju+DOQH4oj46ZITJ3M2/x5o/3jqJ'',
     ''ILBhoLcu7UJJTHYqeBsPSTkMIGKLkYSUPOd/mSgwQB854wks4nf+hO4VWvKQFx9X'',
     ''4gIjS7vJ6e9rQOn2NFfluPbRiijmWIiwUDUWz3UW2RS0b6gDAgMBAAEwDQYJKoZI'',
     ''hvcNAQELBQADggEBAAO3rG2YcQqH8Z7jDX82q0nn/bglOWvTySv4EP3FNrVPZKfN'',
     ''aR+oLo8WdAWulbxXDIOK7XLk1V9SxEJvVxOTp2EIgcoWqJANoWjp+5nNInE02eNX'',
     ''G8euvPvh+p/1cTbHxhrZqtsSpkAx1AbbbcvT+5hUUDXSU7cMN+vFjUqkEVrBlj7S'',
     ''vFbLDHP82ywisZrkOfNapxV67U4ENaEwJ4P4OERnqOOieJr0elv598cSDu+OSKmt'',
     ''rFNYYHERELX36g4+KcWGN223Pg4Xl0bFYqV0xwRUThh0657t8cioXaOsjjpKnGAm'',
     ''eVVihnrJ3sdk7nnreAYMse/OipyufRyZ9t3WU8A='',
     ''-----END CERTIFICATE-----'']"

definition TEST_CERT_EXPIRED :: string where
  "TEST_CERT_EXPIRED = join_on (CHR 0x0A)
    [''-----BEGIN CERTIFICATE-----'',
     ''MIIDGTCCAgGgAwIBAgIBATANBgkqhkiG9w0BAQsFADBQMRcwFQYDVQQDEw5Mb2Nh'',
     ''bFNlbmQgVXNlcjEJMAcGA1UEChMAMQkwBwYDVQQLEwAxCTAHBgNVBAcTADEJMAcG'',
     ''A1UECBMAMQkwBwYDVQQGEwAwHhcNMjUwMjA5MjEwOTQ0WhcNMjUwMjA5MjEwOTQ0'',
     ''WjBQMRcwFQYDVQQDEw5Mb2NhbFNlbmQgVXNlcjEJMAcGA1UEChMAMQkwBwYDVQQL'',
     ''EwAxCTAHBgNVBAcTADEJMAcGA1UECBMAMQkwBwYDVQQGEwAwggEiMA0GCSqGSIb3'',
     ''DQEBAQUAA4IBDwAwggEKAoIBAQCL24MxhGfrdJm0Q8ZGiBkZ27ldcEChB4w7rSbJ'',
     ''yiKeosoNbJl2kyj5dZjfBhWGgDLGDMM5w+Mh/5SrWgTL/QrhbB+lsrxILLznWqBi'',
     ''R8wJP0P2YW9fBahQskJQcUXt/3jsCsMTWea4rWc3HZGh03bAkJfLM+PDSOfTpvAZ'',
     ''6DQSp9QLzC9bgVNnq3W0SvOZGpF0xRa4InCyTUgxsNsV4+GIrmN5w4EbRFVVYu7D'',
     ''5OS5fxNSCukiS0fb6oQzUp0vIAycvvWHHbAy8T6UMoUor2nfvNcryiaOX5WBMLyh'',
     ''yMZ5gMOyXjdm1bT1XSlvtXPYUzxvsGAzTqS8mXjw8h7mm5htAgMBAAEwDQYJKoZI'',
     ''hvcNAQELBQADggEBAH2/F6iEH8W5gIHcKJ6/EbrG2BY5Uhg5U8X6yPk6z9ctmY6w'',
     ''n7fDT749PMVDJq+qhIcnoBlUgVJdJ2qFa5h3VaSF+tUFu/CImr+S8TYHCdQGYXA5'',
     ''6b/pnHmbrWqZdNdxs6Y80A9Mu+iNeLDcrTo60/zGfJsiD9Cnlj0Q6c8nn+Obzeqq'',
     ''iIwUmPFw0krH+ku/DlSenKnyL8jaktf48neufu0jObUvCuj62I2WlFZwzXd8CnDR'',
     ''X2/mKq6FWHCDR6RTh1yMLfD+NoVNcswxwMFq8ILCfBuTjNVaSFm3eUqKeEOAaDes'',
     ''nidU/qXQvBJ7NPUkXXgbcgqxK735iijOqQHmKts='',
     ''-----END CERTIFICATE-----'']"

definition test_verify_cert :: "('c, 's, 'p) x509_lib \<Rightarrow> bool" where
  "test_verify_cert X \<longleftrightarrow>
     verify_cert_from_pem X TEST_CERT (Some TEST_CERT_KEY) = Inr () \<and>
     verify_cert_from_pem X TEST_CERT_INVALID_SIGNATURE (Some TEST_CERT_KEY) = Inl (Ext X509Error) \<and>
     verify_cert_from_pem X TEST_CERT_INVALID_PUBLIC_KEY (Some TEST_CERT_KEY) = Inl (Msg ''Public key mismatch'') \<and>
     verify_cert_from_pem X TEST_CERT_EXPIRED (Some TEST_CERT_KEY) = Inl (Msg ''Time validity error'')"

text \<open>What the parser has to read out of a certificate: its key, whether it is valid now and whether its
  signature is good.\<close>

definition reads_cert :: "('c, 's, 'p) x509_lib \<Rightarrow> string \<Rightarrow> 'p \<Rightarrow> bool \<Rightarrow> bool \<Rightarrow> bool" where
  "reads_cert X pem key valid sound \<longleftrightarrow>
     (\<exists>der c. pem_read X pem = Some der \<and> cert_from_der X der = Some c \<and>
        spki_parsed X (cert_subject_pki X c) = Some key \<and> cert_is_valid X c = valid \<and> cert_signature_ok X c = sound)"

lemma reads_cert_verify:
  assumes "reads_cert X pem key valid sound" and "expected_key X pinned = Inr key'"
  shows "verify_cert_from_pem X pem (Some pinned) =
    (if \<not> valid then Inl (Msg ''Time validity error'') else if key \<noteq> key' then Inl (Msg ''Public key mismatch'')
     else if sound then Inr () else Inl (Ext X509Error))"
  using assms by (auto simp: reads_cert_def verify_cert_from_pem_def verify_cert_from_cert_def Let_def)

lemma test_verify_cert_passes:
  assumes "expected_key X TEST_CERT_KEY = Inr key" and "reads_cert X TEST_CERT key True True"
    and "reads_cert X TEST_CERT_INVALID_SIGNATURE key True False"
    and "reads_cert X TEST_CERT_INVALID_PUBLIC_KEY other True True" and "other \<noteq> key"
    and "reads_cert X TEST_CERT_EXPIRED key False True"
  shows "test_verify_cert X"
  using assms by (simp add: test_verify_cert_def reads_cert_verify [where key' = key])

section \<open>Chunks and responses (webrtc.rs)\<close>

definition test_process_in_chunks :: bool where
  "test_process_in_chunks \<longleftrightarrow>
     (let test_vec = replicate CHUNK_SIZE 0 @ replicate CHUNK_SIZE 1 @ replicate 5 2;
          (result, chunks) = process_in_chunks (0 :: nat) [test_vec] (\<lambda>_ chunk chunks. (Done 0, chunks @ [chunk])) []
      in result = Done () \<and> length chunks = 3 \<and> length (chunks ! 0) = CHUNK_SIZE \<and>
         length (chunks ! 1) = CHUNK_SIZE \<and> length (chunks ! 2) = 5 \<and>
         list_all (\<lambda>x. x = 0) (chunks ! 0) \<and> list_all (\<lambda>x. x = 1) (chunks ! 1) \<and> list_all (\<lambda>x. x = 2) (chunks ! 2))"

lemma chunks_of_append: "length xs = n \<Longrightarrow> 0 < n \<Longrightarrow> chunks_of n (xs @ ys) = xs # chunks_of n ys"
  by (subst chunks_of.simps) auto

lemma test_process_in_chunks_passes: "test_process_in_chunks"
proof -
  have last: "chunks_of CHUNK_SIZE (replicate 5 2) = [replicate 5 2 :: bytes]"
    using chunks_of.simps [of CHUNK_SIZE "replicate 5 2 :: bytes"] by (simp add: CHUNK_SIZE_def chunks_of.simps)
  have "chunks_of CHUNK_SIZE (replicate CHUNK_SIZE 0 @ replicate CHUNK_SIZE 1 @ replicate 5 2) =
      [replicate CHUNK_SIZE 0, replicate CHUNK_SIZE 1, replicate 5 2 :: bytes]"
    by (simp only: chunks_of_append length_replicate CHUNK_SIZE_pos last)
  then show ?thesis
    by (simp add: test_process_in_chunks_def process_in_chunks_eq Let_def tbind_def
        ret_def list_all_iff)
qed

text \<open>\<open>pretty\<close>: \<open>serde_json::to_string_pretty\<close>. The expected text is the one of the value that it shows.\<close>

definition encodes :: "(json \<Rightarrow> string) \<Rightarrow> wire_lib \<Rightarrow> ('a \<Rightarrow> json) \<Rightarrow> (json \<Rightarrow> 'a option) \<Rightarrow> 'a \<Rightarrow> json \<Rightarrow> bool" where
  "encodes pretty L enc dec message expected \<longleftrightarrow>
     pretty (enc message) = pretty expected \<and> from_text L dec (pretty (enc message)) = Some message"

definition pretty_ok :: "(json \<Rightarrow> string) \<Rightarrow> wire_lib \<Rightarrow> bool" where
  "pretty_ok pretty L \<longleftrightarrow> (\<forall>j. json_parse L (pretty j) = Some j)"

lemma encodes_iff:
  assumes "pretty_ok pretty L"
  shows "encodes pretty L enc dec message expected \<longleftrightarrow> enc message = expected \<and> dec (enc message) = Some message"
proof -
  have "pretty x = pretty y \<longleftrightarrow> x = y" for x y using assms unfolding pretty_ok_def by (metis option.inject)
  with assms show ?thesis by (simp add: encodes_def from_text_def pretty_ok_def)
qed

definition rtc_file_list_response_encoding :: "(json \<Rightarrow> string) \<Rightarrow> wire_lib \<Rightarrow> bool" where
  "rtc_file_list_response_encoding pretty L \<longleftrightarrow>
     encodes pretty L enc_file_list dec_file_list (FileListPair ''123'')
       (JObj [(''status'', JStr ''PAIR''), (''publicKey'', JStr ''123'')])"

lemma rtc_file_list_response_encoding_passes: "pretty_ok pretty L \<Longrightarrow> rtc_file_list_response_encoding pretty L"
  by (simp add: rtc_file_list_response_encoding_def encodes_iff with_tag_def dec_file_list_def codec_defs codec_simps)

section \<open>Signaling messages (signaling.rs)\<close>

definition test_client :: "string option \<Rightarrow> client_info" where
  "test_client device_model = \<lparr>ci_id = 0, ci_alias = ''Cute Apple'', ci_version = ''2.3'',
     ci_device_model = device_model, ci_device_type = Some Desktop, ci_token = ''123''\<rparr>"

definition ws_server_hello_message_encoding :: "(json \<Rightarrow> string) \<Rightarrow> wire_lib \<Rightarrow> bool" where
  "ws_server_hello_message_encoding pretty L \<longleftrightarrow>
     encodes pretty L (enc_ws_server_message L) (dec_ws_server_message L) (Hello (test_client (Some ''Dell'')) [])
       (JObj [(''type'', JStr ''HELLO''),
          (''client'', JObj [(''id'', JStr ''00000000-0000-0000-0000-000000000000''), (''alias'', JStr ''Cute Apple''),
             (''version'', JStr ''2.3''), (''deviceModel'', JStr ''Dell''), (''deviceType'', JStr ''desktop''),
             (''token'', JStr ''123'')]),
          (''peers'', JArr [])])"

definition ws_server_offer_message_encoding :: "(json \<Rightarrow> string) \<Rightarrow> wire_lib \<Rightarrow> bool" where
  "ws_server_offer_message_encoding pretty L \<longleftrightarrow>
     encodes pretty L (enc_ws_server_message L) (dec_ws_server_message L)
       (Offer \<lparr>sm_peer = test_client None, sm_session_id = ''456'', sm_sdp = ''my-sdp''\<rparr>)
       (JObj [(''type'', JStr ''OFFER''),
          (''peer'', JObj [(''id'', JStr ''00000000-0000-0000-0000-000000000000''), (''alias'', JStr ''Cute Apple''),
             (''version'', JStr ''2.3''), (''deviceType'', JStr ''desktop''), (''token'', JStr ''123'')]),
          (''sessionId'', JStr ''456''), (''sdp'', JStr ''my-sdp'')])"

definition ws_client_update_message_encoding :: "(json \<Rightarrow> string) \<Rightarrow> wire_lib \<Rightarrow> bool" where
  "ws_client_update_message_encoding pretty L \<longleftrightarrow>
     encodes pretty L (enc_ws_client_message L) (dec_ws_client_message L)
       (ClientUpdate (without_id_from (test_client (Some ''Dell''))))
       (JObj [(''type'', JStr ''UPDATE''),
          (''info'', JObj [(''alias'', JStr ''Cute Apple''), (''version'', JStr ''2.3''), (''deviceModel'', JStr ''Dell''),
             (''deviceType'', JStr ''desktop''), (''token'', JStr ''123'')])])"

text \<open>The device type of the encoded message is in capitals.\<close>

lemma signaling_tests_fail:
  assumes "pretty_ok pretty L"
  shows "\<not> ws_server_hello_message_encoding pretty L" "\<not> ws_server_offer_message_encoding pretty L"
    "\<not> ws_client_update_message_encoding pretty L"
  by (simp_all add: ws_server_hello_message_encoding_def ws_server_offer_message_encoding_def
      ws_client_update_message_encoding_def encodes_iff [OF assms] with_tag_def enc_client_info_def
      enc_client_info_without_id_def client_fields_def test_client_def without_id_from_def server_sdp_fields_def
      skip_none_def)

end
