(* ===== verification/Spec2Isabelle.thy ===== *)
theory Spec2Isabelle
  imports Rtc_Session Rtc_Returns Ws_Props Http_Exchange Http_Start Signaling_Client_Props Signaling_Net
    Rtc_Offer_Props Ffi_Props Ffi_Pin Ffi_Locks_Props Dco_Codec Demo_Program Session_End_To_End
    Signaling_Origin Demo_Tests Server_Start Ffi_Mirror Unit_Tests
begin

text \<open>
  The Rust core of LocalSend: a formal model of core/, server/ and app/rust/ with the theorems
  that make it correct.

  The program. Two devices exchange files. They find each other through a signaling server
  (server/), to which each keeps a websocket (core/src/webrtc/signaling.rs), or over HTTP in the
  local network (core/src/http). Through the server they exchange session descriptions, then they
  open a data channel and run the transfer protocol on it (core/src/webrtc/webrtc.rs): nonces,
  signed tokens (core/src/crypto), PIN challenges, the file list, the selection, the files. The
  application drives this through the bindings of app/rust/src/api.

  How code is modelled. A function of the code is a HOL function of the same name, a struct a
  record, an enum a datatype; \<open>u8\<close>, \<open>u16\<close>, \<open>u32\<close> and \<open>u64\<close> are machine words; a \<open>Result\<close> is a sum
  with the error on the left. An asynchronous function is a task (theory Task): it takes the state
  of all it can touch, with what its environment is going to deliver, and returns an outcome
  (\<open>Done\<close>, \<open>Fail\<close>, \<open>Panic\<close>, or \<open>Await\<close> when it is suspended for good) and the new state. Where
  tasks interleave, the component is a step system: one function per atomic step between two
  awaits, an action for each, a step relation, and reachability (theory Transition). Libraries that
  are not part of the repository are parameters: \<open>crypto_lib\<close> (hashes, signatures, PEM, base64),
  \<open>wire_lib\<close> (JSON text), \<open>x509_lib\<close>, \<open>tls_lib\<close>, \<open>lru_lib\<close>, \<open>reqwest_lib\<close>, \<open>zlib_lib\<close>, \<open>http_lib\<close>, the transport of
  the HTTP client, and the WebRTC library as the environment of a session. What the code relies on
  is a named predicate on the parameter (\<open>b64_ok\<close>, \<open>sign_ok\<close>, \<open>json_ok\<close>, \<open>lru_ok\<close>, \<open>zlib_ok\<close>), and
  each is shown to hold for a concrete instance (Instances, Json_Text, Cert, Http_Props), on which the
  witnesses of the properties run.

  Basics. Prelude: the collections of simplification rules. Task: outcomes, the combinators of
  asynchronous code and two calculi for claims about every step of a task. Text: UTF-8, decimal
  and hexadecimal numbers, splitting. Transition: reachable states and the interface of an
  inductive invariant, which every step system below instantiates.

  Data. Json and Dto: JSON values, serde's encoders and decoders of the HTTP types
  (core/src/http/dto.rs, core/src/model); Signaling_Msg and Rtc_Msg: those of the signaling server and
  of the data channel. Each codec is an instance of one interface, whose law is that decoding gives
  back what was encoded.

  Crypto and Token_Props: core/src/crypto/token.rs and nonce.rs. A token is accepted exactly when
  its five parts fit together; it is bound to its nonce; the window of time tokens at the width of
  \<open>u64\<close>. Cert: core/src/crypto/cert.rs and the client certificate verifier; checking a certificate
  against an expected key is equivalent to comparing with the key the certificate gives.

  Signaling server. Net (util/ip.rs, the client address), Room (config/, the critical sections of
  ws_controller.rs), Ws_Server (handle\_socket with its tasks, for any number of connections, channels
  of capacity 4), Ws_Invariants, Ws_Messages and Ws_Props. The registry holds exactly the connected
  peers and refines an abstract directory; limits hold; messages stay in their group and arrive in
  order; a newcomer learns of the room; a deadlock and two races that the code has. Server_Start: the settings
  that the server reads from the environment, the scheduler, the route and the binding of the address.

  Signaling client. Signaling_Client (connect with its sending and receiving task, channels of
  capacity 1, the listener with its channel of 16, the answer callbacks), Signaling_Client_Inv and
  Signaling_Client_Props: order of messages in both directions, answers go to their sessions, when
  connecting gets stuck, and the server accepts the address the client connects with.

  Signaling_Net: the server and its clients as one system, in which each side takes the steps of its
  own model and the frames in between carry the encoded messages. Every application sees only peers
  of its own group, in the order the server wrote; peers that join early lock a newcomer out.
  Ws_Origin and Signaling_Origin follow a description from its sender to its reader, as an invariant of the
  whole network: an offer or an answer that an application gets was sent by the application of the very
  peer it names, for this session and to this client.

  Transfer. Chunking (process\_in\_chunks, buffer\_receiver), Rtc_Channel (data channel, strings in
  chunks, both sides of a PIN challenge), Rtc_Send and Rtc_Receive (the two tasks, phase by phase);
  Rtc_Channel_Props, Rtc_Transfer, Rtc_Props, Rtc_Auth, Rtc_Pin_Dialogue (both sides of a challenge
  talking to each other), Rtc_Session, Rtc_Returns. Strings arrive; a PIN is accepted exactly among the
  allowed guesses; nothing but the handshake is sent or published before the peer is authenticated;
  two honest peers complete a session, with or without PINs and expected keys, but not with an empty
  PIN; both tasks return once nothing they wait for is withheld; binary messages have 1 to \<open>CHUNK_SIZE\<close> bytes. All loops of the
  tasks terminate by structure or by a measure (the messages left, the tries left at \<open>u8\<close>), so no fuel
  is needed; a loop that waits ends in \<open>Await\<close>.

  Demo_Program: the two handlers of core/src/main.rs, which read a file in chunks and write what
  arrives; a run of both leaves the bytes of the file on the other side. Demo_Tests: its constants, \<open>main\<close>
  and the four tests (tokens, HTTP server, HTTP client, signaling), with what they print; the client that
  \<open>main\<close> starts always ends with the status 404.

  Sessions. Rtc_Offer and Rtc_Offer_Props: send\_offer and accept\_offer around the tasks; composed with
  the server's handler, each peer ends up with the other's description. Session\_End\_To\_End: from the
  offer to the closed connections, with the transfer in between.

  HTTP. Http_Server (routes, handlers, errors), Http_Client, Http_Url, Http_Props, Http_Exchange: what is
  served, what a request changes, and the exchange of nonces, registrations and errors between a
  client and a server. Http_Tls (the verifier of client certificates, the handshake) and Http_Start (the
  two listeners, connections and the end of the service): with TLS, a client that is served signed
  its handshake with the key of a verified certificate, and nonces are filed under such keys.

  Bindings. Ffi_Controller (connect, the two controllers with one-shot slots and streams, the key
  functions), Ffi_Pin (the relay of PIN requests) and Ffi_Props, which puts both around a transfer: with
  keys the applications generated and PINs their users entered, the bytes handed over by the sending
  application are the bytes the receiving one gets; the first decision on a file list counts; the
  statuses tell the result; a PIN reaches exactly one challenge.

  Border. Sse_Codec and Sse_Types (app/rust/src/frb\_generated.rs, SseEncode and SseDecode of every
  type), Dart_Codec (the encoders and decoders that app/lib/rust/frb\_generated.dart has for the same
  types), Ffi_Wire (the wire functions, the dispatcher, results, streams and the callback) and
  Ffi_Wire_Props: each codec is an instance of one interface (what was written is read back, whatever
  follows), the two languages write the same bytes, and a call reaches its function with its
  arguments. Dco_Codec: the second codec, IntoDart and \<open>dco_decode\<close>, over Dart's values as a parameter
  (\<open>dart_lib\<close> with \<open>dart_lib_ok\<close>). The byte order of the machine is a parameter (\<open>ft_big_endian\<close>), \<open>usize\<close> has 64 bits, and a
  value fits when its strings are text and its lengths are below 2 to the 31; integers of the
  application are in the range of their type. Ffi_Locks and Ffi_Locks_Props: any number of calls in
  flight, which lock their objects before they run and keep the lock until they return, as a step
  system with the part of a sending session that decides when its calls return: methods run alone or
  side by side as their receivers say, and a sending session never gets past its first file. Which
  call gets a free lock is left open. The read-write lock, the reference counts and the objects
  behind the addresses belong to the bridge.

  Ffi_Mirror: the mirrored types that the bridge is generated from (app/rust/src/api/model.rs and the end of
  app/rust/src/api/webrtc.rs) and the static checks of frb\_generated.rs. The general form of a message in both
  codecs is one function on values with named fields; every generated encoder of a mirrored type is an
  instance of it, in the order of the mirror.

  Unit_Tests: the unit tests of the repository as predicates on the model, with the conditions on the
  libraries under which they pass; the three tests of signaling.rs fail (the name of a device type is
  written in capitals).

  Limits of the model. Time is not modelled: a timeout may fire at any step (the sending task of the
  signaling client) or is left out where it only bounds a wait. The capacities of the channels
  between a transfer task and the application are not modelled; the environment says whether a send
  succeeds. The sets and maps of the transfer are lists in an arbitrary fixed order.

  Not modelled. Of frb\_generated.rs the reference counting functions (each is one call of the bridge
  library), the encoders of stream sinks (\<open>unimplemented\<close>) and the boilerplate macros. The one-line calls of
  libraries in core/src/util, server/src/util/base64.rs and core/src/crypto/hash.rs are parameters
  (\<open>b64_encode\<close>, \<open>b64_decode\<close>, \<open>sha256\<close>, the clock). \<open>SignalingConnection\<close> repeats the three send functions of the
  managed connection, which are modelled. Log messages are left out. The Dart application and the platform
  code are another language.
\<close>

end
